(* ===== verification/Sessions_Prelude.thy ===== *)
theory Sessions_Prelude
  imports Main "HOL-Library.Word"
begin

text \<open>
  Shared vocabulary of the development: the JavaScript errors as values, the result type
  every fallible function returns, byte strings, public keys, and the pieces of the
  JavaScript standard library the sources use (string splitting, joining and padding,
  decimal printing, \<^verbatim>\<open>BigInt(string)\<close>, little-endian \<^verbatim>\<open>DataView\<close> writes, UTF-8
  encoding). JavaScript strings are modelled as \<open>string\<close>, that is, sequences of code
  units below 256; every literal of the sources is in that range.
\<close>

named_theorems js_str \<open>facts about the JavaScript string operations\<close>
named_theorems js_eval \<open>defining equations used to evaluate closed terms\<close>

section \<open>Errors, results, bytes and keys\<close>

type_synonym byte = "8 word"
type_synonym bytes = "byte list"

text \<open>The exceptions the sources raise: their own classes with the arguments of the
  constructor, \<open>Error\<close> with its message, \<open>SyntaxError\<close> of \<^verbatim>\<open>BigInt\<close>, and an error raised
  by code outside the repository.\<close>

datatype js_error =
    Error string
  | SyntaxError
  | RangeError
  | PaymasterResponseError nat string
  | NoChainIdAddressError
  | DomainRequiredError
  | InvariantFailedError string
  | AbortError
  | ExternalError string

type_synonym 'a result = "js_error + 'a"

text \<open>The public key of \<^verbatim>\<open>@solana/web3.js\<close>, by its bytes; \<open>toBytes\<close> reads them and
  \<open>equals\<close> is equality of the bytes.\<close>

datatype pubkey = PublicKey (toBytes: bytes)

datatype Network = Testnet | Mainnet

definition bind_result :: "'a result \<Rightarrow> ('a \<Rightarrow> 'b result) \<Rightarrow> 'b result" where
  "bind_result r f = (case r of Inl e \<Rightarrow> Inl e | Inr x \<Rightarrow> f x)"

lemma bind_result_Inr [simp]: "bind_result (Inr x) f = f x"
  by (simp add: bind_result_def)

lemma bind_result_Inl [simp]: "bind_result (Inl e) f = Inl e"
  by (simp add: bind_result_def)

lemma bind_result_eq_Inr:
  "bind_result r f = Inr y \<longleftrightarrow> (\<exists>x. r = Inr x \<and> f x = Inr y)"
  by (cases r) simp_all

lemma bind_result_eq_Inl:
  "bind_result r f = Inl e \<longleftrightarrow> r = Inl e \<or> (\<exists>x. r = Inr x \<and> f x = Inl e)"
  by (cases r) simp_all

definition of_option :: "js_error \<Rightarrow> 'a option \<Rightarrow> 'a result" where
  "of_option e x = (case x of None \<Rightarrow> Inl e | Some y \<Rightarrow> Inr y)"

lemma of_option_simps [simp]:
  "of_option e None = Inl e" "of_option e (Some y) = Inr y"
  by (simp_all add: of_option_def)

text \<open>\<open>traverse f xs\<close> is \<^verbatim>\<open>Promise.all(xs.map(f))\<close> for a function without side effects: the
  results in order, or an error when one of the calls fails.\<close>

fun traverse :: "('a \<Rightarrow> 'b result) \<Rightarrow> 'a list \<Rightarrow> 'b list result" where
  "traverse f [] = Inr []"
| "traverse f (x # xs) = bind_result (f x) (\<lambda>y. bind_result (traverse f xs) (\<lambda>ys. Inr (y # ys)))"

lemma traverse_Inr_iff:
  "traverse f xs = Inr ys \<longleftrightarrow> list_all2 (\<lambda>x y. f x = Inr y) xs ys"
  by (induction xs arbitrary: ys) (auto simp: bind_result_eq_Inr list_all2_Cons1)

lemma traverse_total: "(\<And>x. x \<in> set xs \<Longrightarrow> f x = Inr (g x)) \<Longrightarrow> traverse f xs = Inr (map g xs)"
  by (induction xs) auto

section \<open>Strings\<close>

abbreviation newline :: char where "newline \<equiv> CHR 0x0A"

text \<open>\<^verbatim>\<open>s.split(c)\<close> for a one-character separator.\<close>

fun split_on :: "char \<Rightarrow> string \<Rightarrow> string list" where
  "split_on c [] = [[]]"
| "split_on c (x # xs) =
     (if x = c then [] # split_on c xs
      else (case split_on c xs of [] \<Rightarrow> [[x]] | w # ws \<Rightarrow> (x # w) # ws))"

lemma split_on_neq_Nil [simp]: "split_on c s \<noteq> []"
  by (induction s) (auto split: list.splits)

lemma split_on_no_sep [js_str]: "c \<notin> set s \<Longrightarrow> split_on c s = [s]"
  by (induction s) auto

lemma split_on_append [js_str]:
  "c \<notin> set s \<Longrightarrow> split_on c (s @ c # t) = s # split_on c t"
  by (induction s) auto

lemma split_on_pieces: "w \<in> set (split_on c s) \<Longrightarrow> c \<notin> set w"
  by (induction s arbitrary: w) (auto split: list.splits if_splits)

lemma split_on_subset: "w \<in> set (split_on c s) \<Longrightarrow> set w \<subseteq> set s"
proof (induction s arbitrary: w)
  case (Cons x s)
  show ?case
  proof (cases "x = c")
    case False
    obtain v vs where vs: "split_on c s = v # vs" by (cases "split_on c s") auto
    from Cons.prems False vs have "w = x # v \<or> w \<in> set vs" by auto
    with Cons.IH[of v] Cons.IH[of w] vs show ?thesis by auto
  qed (use Cons in auto)
qed simp

text \<open>\<^verbatim>\<open>xs.join(sep)\<close>.\<close>

fun join :: "string \<Rightarrow> string list \<Rightarrow> string" where
  "join sep [] = []"
| "join sep [x] = x"
| "join sep (x # y # ys) = x @ sep @ join sep (y # ys)"

lemma join_Cons: "join sep (x # xs) = (if xs = [] then x else x @ sep @ join sep xs)"
  by (cases xs) auto

lemma split_on_join [js_str]:
  "xs \<noteq> [] \<Longrightarrow> (\<And>x. x \<in> set xs \<Longrightarrow> c \<notin> set x) \<Longrightarrow> split_on c (join [c] xs) = xs"
  by (induction xs rule: induct_list012) (auto simp: split_on_no_sep split_on_append)

lemma join_split_on: "join [c] (split_on c s) = s"
proof (induction s)
  case (Cons x s)
  obtain w ws where "split_on c s = w # ws" by (cases "split_on c s") auto
  with Cons show ?case by (cases ws) auto
qed simp

lemma set_join: "set (join sep xs) \<subseteq> set sep \<union> \<Union> (set ` set xs)"
  by (induction xs rule: induct_list012) auto

lemma split_on_cover: "x \<in> set s \<Longrightarrow> x = c \<or> (\<exists>w \<in> set (split_on c s). x \<in> set w)"
  using set_join[of "[c]" "split_on c s"] by (auto simp: join_split_on)

definition padStart :: "nat \<Rightarrow> char \<Rightarrow> string \<Rightarrow> string" where
  "padStart n c s = replicate (n - length s) c @ s"

definition padEnd :: "nat \<Rightarrow> char \<Rightarrow> string \<Rightarrow> string" where
  "padEnd n c s = s @ replicate (n - length s) c"

text \<open>\<^verbatim>\<open>s.replace(/0+$/, "")\<close>: the longest run of zeros at the end is removed.\<close>

definition strip_zeros :: "string \<Rightarrow> string" where
  "strip_zeros s = rev (dropWhile (\<lambda>c. c = CHR ''0'') (rev s))"

lemma strip_zeros_decomp: "s = strip_zeros s @ replicate (length s - length (strip_zeros s)) (CHR ''0'')"
proof -
  let ?P = "\<lambda>c. c = CHR ''0''"
  have "rev s = takeWhile ?P (rev s) @ dropWhile ?P (rev s)" by simp
  then have s: "s = strip_zeros s @ rev (takeWhile ?P (rev s))"
    by (metis rev_append rev_rev_ident strip_zeros_def)
  have "\<forall>c \<in> set (rev (takeWhile ?P (rev s))). c = CHR ''0''"
    by (auto dest: set_takeWhileD)
  then have "rev (takeWhile ?P (rev s)) = replicate (length (takeWhile ?P (rev s))) (CHR ''0'')"
    by (metis length_rev replicate_length_same)
  moreover have "length (takeWhile ?P (rev s)) = length s - length (strip_zeros s)"
    using arg_cong[OF s, of length] by simp
  ultimately show ?thesis using s by simp
qed

lemma strip_zeros_set: "set (strip_zeros s) \<subseteq> set s"
  by (auto simp: strip_zeros_def dest: set_dropWhileD)

lemma strip_zeros_last: "strip_zeros s = [] \<or> last (strip_zeros s) \<noteq> CHR ''0''"
proof (cases "strip_zeros s = []")
  case False
  then have "dropWhile (\<lambda>c. c = CHR ''0'') (rev s) \<noteq> []" by (simp add: strip_zeros_def)
  with hd_dropWhile[OF this] show ?thesis by (simp add: strip_zeros_def last_rev)
qed simp

lemma length_strip_zeros: "length (strip_zeros s) \<le> length s"
  by (simp add: strip_zeros_def length_dropWhile_le[of _ "rev s", simplified])

section \<open>Printing and reading integers\<close>

text \<open>\<^verbatim>\<open>n.toString()\<close> of a non-negative and of an arbitrary bigint.\<close>

definition digit_char :: "nat \<Rightarrow> char" where
  "digit_char d = ''0123456789'' ! d"

fun nat_to_string :: "nat \<Rightarrow> string" where
  "nat_to_string n =
     (if n < 10 then [digit_char n] else nat_to_string (n div 10) @ [digit_char (n mod 10)])"

declare nat_to_string.simps [simp del]

definition int_to_string :: "int \<Rightarrow> string" where
  "int_to_string i = (if i < 0 then CHR ''-'' # nat_to_string (nat (- i)) else nat_to_string (nat i))"

text \<open>The value of a digit character in bases up to 16.\<close>

definition digit_val :: "char \<Rightarrow> nat option" where
  "digit_val c =
     (let n = of_char c in
      if 48 \<le> n \<and> n \<le> 57 then Some (n - 48)
      else if 97 \<le> n \<and> n \<le> 102 then Some (n - 87)
      else if 65 \<le> n \<and> n \<le> 70 then Some (n - 55)
      else None)"

definition digit_in :: "nat \<Rightarrow> char \<Rightarrow> nat option" where
  "digit_in b c = (case digit_val c of None \<Rightarrow> None | Some d \<Rightarrow> if d < b then Some d else None)"

definition is_dec :: "char \<Rightarrow> bool" where
  "is_dec c = (48 \<le> (of_char c :: nat) \<and> (of_char c :: nat) \<le> 57)"

text \<open>A non-empty run of digits of the given base, most significant first.\<close>

fun digits_acc :: "nat \<Rightarrow> nat \<Rightarrow> string \<Rightarrow> nat option" where
  "digits_acc b acc [] = Some acc"
| "digits_acc b acc (c # cs) =
     (case digit_in b c of None \<Rightarrow> None | Some d \<Rightarrow> digits_acc b (acc * b + d) cs)"

definition digits_value :: "nat \<Rightarrow> string \<Rightarrow> nat option" where
  "digits_value b s = (if s = [] then None else digits_acc b 0 s)"

text \<open>White space of the \<^verbatim>\<open>StringToBigInt\<close> grammar among the code units below 256.\<close>

definition is_ws :: "char \<Rightarrow> bool" where
  "is_ws c = (of_char c \<in> {9, 10, 11, 12, 13, 32, 160 :: nat})"

definition js_trim :: "string \<Rightarrow> string" where
  "js_trim s = rev (dropWhile is_ws (rev (dropWhile is_ws s)))"

definition signed :: "int \<Rightarrow> nat option \<Rightarrow> int result" where
  "signed sg v = (case v of None \<Rightarrow> Inl SyntaxError | Some n \<Rightarrow> Inr (sg * int n))"

text \<open>\<^verbatim>\<open>BigInt(s)\<close>: surrounding white space is dropped, the empty string is zero, a decimal
  literal may carry a sign, and the prefixed literals (\<^verbatim>\<open>0x\<close>, \<^verbatim>\<open>0o\<close>, \<^verbatim>\<open>0b\<close>) may not.\<close>

definition bigint_literal :: "string \<Rightarrow> int result" where
  "bigint_literal t =
     (case t of
        [] \<Rightarrow> Inr 0
      | c # u \<Rightarrow>
          if c = CHR ''-'' then signed (- 1) (digits_value 10 u)
          else if c = CHR ''+'' then signed 1 (digits_value 10 u)
          else if c = CHR ''0'' \<and> u \<noteq> [] \<and> hd u \<in> {CHR ''x'', CHR ''X''} then signed 1 (digits_value 16 (tl u))
          else if c = CHR ''0'' \<and> u \<noteq> [] \<and> hd u \<in> {CHR ''o'', CHR ''O''} then signed 1 (digits_value 8 (tl u))
          else if c = CHR ''0'' \<and> u \<noteq> [] \<and> hd u \<in> {CHR ''b'', CHR ''B''} then signed 1 (digits_value 2 (tl u))
          else signed 1 (digits_value 10 t))"

definition BigInt :: "string \<Rightarrow> int result" where
  "BigInt s = bigint_literal (js_trim s)"


lemma digit_in_digit_char [simp]: "d < 10 \<Longrightarrow> digit_in 10 (digit_char d) = Some d"
proof -
  assume "d < 10"
  then have "d \<in> set [0..<10]" by simp
  then show ?thesis
    by (auto simp: upt_rec digit_char_def digit_in_def digit_val_def Let_def)
qed

lemma digit_in_dec: "is_dec c \<Longrightarrow> digit_in 10 c = Some (of_char c - 48)"
  by (auto simp: is_dec_def digit_in_def digit_val_def Let_def)

lemma digit_in_Some_dec: "digit_in 10 c = Some d \<Longrightarrow> is_dec c"
  by (auto simp: is_dec_def digit_in_def digit_val_def Let_def split: option.splits if_splits)

lemma is_dec_digit_char [simp]: "d < 10 \<Longrightarrow> is_dec (digit_char d)"
  by (rule digit_in_Some_dec) (rule digit_in_digit_char)

lemma not_is_dec [simp]:
  "\<not> is_dec (CHR '','')" "\<not> is_dec (CHR ''.'')" "\<not> is_dec (CHR ''-'')" "\<not> is_dec (CHR ''+'')"
  "\<not> is_dec (CHR ''x'')" "\<not> is_dec (CHR ''X'')" "\<not> is_dec (CHR ''o'')" "\<not> is_dec (CHR ''O'')"
  "\<not> is_dec (CHR ''b'')" "\<not> is_dec (CHR ''B'')" "\<not> is_dec newline" "\<not> is_dec (CHR '':'')"
  by (simp_all add: is_dec_def)

lemma is_dec_zero [simp]: "is_dec (CHR ''0'')"
  by (simp add: is_dec_def)

lemma is_dec_not_ws: "is_dec c \<Longrightarrow> \<not> is_ws c"
  by (auto simp: is_dec_def is_ws_def)

lemma dec_no_char: "list_all is_dec s \<Longrightarrow> \<not> is_dec c \<Longrightarrow> c \<notin> set s"
  by (auto simp: list_all_iff)

text \<open>\<open>dec_value\<close> is the number a run of decimal digits denotes.\<close>

definition dec_value :: "string \<Rightarrow> nat" where
  "dec_value s = foldl (\<lambda>a c. a * 10 + (case digit_in 10 c of None \<Rightarrow> 0 | Some d \<Rightarrow> d)) 0 s"

lemma dec_value_Nil [simp]: "dec_value [] = 0"
  by (simp add: dec_value_def)

lemma dec_value_snoc [simp]:
  "dec_value (s @ [c]) = dec_value s * 10 + (case digit_in 10 c of None \<Rightarrow> 0 | Some d \<Rightarrow> d)"
  by (simp add: dec_value_def)

lemma dec_value_append: "dec_value (s @ t) = dec_value s * 10 ^ length t + dec_value t"
proof (induction t rule: rev_induct)
  case (snoc c t)
  then show ?case
    using dec_value_snoc[of "s @ t" c] by (simp add: algebra_simps)
qed simp

lemma dec_value_zeros [simp]: "dec_value (replicate n (CHR ''0'')) = 0"
proof (induction n)
  case (Suc n)
  have "replicate (Suc n) (CHR ''0'') = replicate n (CHR ''0'') @ [CHR ''0'']"
    by (simp add: replicate_append_same)
  with Suc show ?case by (simp add: digit_in_def digit_val_def Let_def)
qed simp

lemma digits_acc_dec:
  "list_all is_dec s \<Longrightarrow> digits_acc 10 acc s = Some (acc * 10 ^ length s + dec_value s)"
proof (induction s arbitrary: acc)
  case (Cons c s)
  then obtain d where d: "digit_in 10 c = Some d" by (auto simp: digit_in_dec)
  have "dec_value (c # s) = d * 10 ^ length s + dec_value s"
    using dec_value_append[of "[c]" s] dec_value_snoc[of "[]" c] d by simp
  with Cons d show ?case by (simp add: algebra_simps)
qed simp

lemma digits_acc_Some_dec: "digits_acc 10 acc s = Some v \<Longrightarrow> list_all is_dec s"
  by (induction s arbitrary: acc) (auto split: option.splits dest: digit_in_Some_dec)

lemma digits_value_dec:
  "list_all is_dec s \<Longrightarrow> s \<noteq> [] \<Longrightarrow> digits_value 10 s = Some (dec_value s)"
  by (simp add: digits_value_def digits_acc_dec)

lemma dropWhile_hd: "(s \<noteq> [] \<Longrightarrow> \<not> P (hd s)) \<Longrightarrow> dropWhile P s = s"
  by (cases s) auto

lemma js_trim_id:
  assumes "s \<noteq> [] \<Longrightarrow> \<not> is_ws (hd s)" and "s \<noteq> [] \<Longrightarrow> \<not> is_ws (last s)"
  shows "js_trim s = s"
proof -
  have "dropWhile is_ws s = s" using assms(1) by (rule dropWhile_hd)
  moreover have "dropWhile is_ws (rev s) = rev s"
    using assms(2) by (intro dropWhile_hd) (simp add: hd_rev)
  ultimately show ?thesis by (simp add: js_trim_def)
qed

lemma js_trim_dec: "list_all is_dec s \<Longrightarrow> js_trim s = s"
  by (rule js_trim_id) (auto simp: list_all_iff is_dec_not_ws)

lemma BigInt_dec:
  assumes "list_all is_dec s"
  shows "BigInt s = Inr (int (dec_value s))"
proof (cases s)
  case Nil
  then show ?thesis by (simp add: BigInt_def js_trim_def bigint_literal_def)
next
  case (Cons c t)
  then have c: "is_dec c" and hd_t: "t \<noteq> [] \<Longrightarrow> is_dec (hd t)"
    using assms by (simp, cases t) auto
  from c have "c \<noteq> CHR ''-''" "c \<noteq> CHR ''+''" by auto
  moreover from hd_t
  have "\<not> (t \<noteq> [] \<and> hd t \<in> {CHR ''x'', CHR ''X''})" "\<not> (t \<noteq> [] \<and> hd t \<in> {CHR ''o'', CHR ''O''})"
    "\<not> (t \<noteq> [] \<and> hd t \<in> {CHR ''b'', CHR ''B''})"
    by (metis insert_iff singletonD not_is_dec)+
  ultimately have "bigint_literal s = signed 1 (digits_value 10 s)"
    unfolding bigint_literal_def Cons by (simp only: list.case if_False simp_thms)
  then show ?thesis
    using assms Cons by (simp add: BigInt_def js_trim_dec digits_value_dec signed_def)
qed

lemma nat_to_string_neq_Nil [simp]: "nat_to_string n \<noteq> []"
  by (subst nat_to_string.simps) simp

lemma nat_to_string_dec: "list_all is_dec (nat_to_string n)"
proof (induction n rule: nat_to_string.induct)
  case (1 n)
  then show ?case by (subst nat_to_string.simps) simp
qed

lemma dec_value_nat_to_string [simp]: "dec_value (nat_to_string n) = n"
proof (induction n rule: nat_to_string.induct)
  case (1 n)
  show ?case
  proof (cases "n < 10")
    case True
    then show ?thesis
      using dec_value_snoc[of "[]" "digit_char n"] by (subst nat_to_string.simps) simp
  next
    case False
    with 1 show ?thesis by (subst nat_to_string.simps) simp
  qed
qed

lemma nat_to_string_inj: "nat_to_string a = nat_to_string b \<Longrightarrow> a = b"
  by (metis dec_value_nat_to_string)

text \<open>The last \<open>d\<close> decimal digits of a number, padded with zeros.\<close>

fun fixed_digits :: "nat \<Rightarrow> nat \<Rightarrow> string" where
  "fixed_digits 0 n = []"
| "fixed_digits (Suc d) n = fixed_digits d (n div 10) @ [digit_char (n mod 10)]"

lemma length_fixed_digits [simp]: "length (fixed_digits d n) = d"
  by (induction d arbitrary: n) auto

lemma fixed_digits_dec: "list_all is_dec (fixed_digits d n)"
  by (induction d arbitrary: n) auto

lemma dec_value_fixed_digits [simp]: "dec_value (fixed_digits d n) = n mod 10 ^ d"
proof (induction d arbitrary: n)
  case (Suc d)
  have "n mod 10 ^ Suc d = (n div 10 mod 10 ^ d) * 10 + n mod 10"
    by (metis add.commute mod_mult2_eq mult.commute power_Suc)
  with Suc show ?case by simp
qed simp

lemma nat_to_string_split:
  "10 ^ d \<le> n \<Longrightarrow> nat_to_string n = nat_to_string (n div 10 ^ d) @ fixed_digits d n"
proof (induction d arbitrary: n)
  case (Suc d)
  then have n: "\<not> n < 10" by (metis not_le one_le_numeral one_le_power order.trans
    mult_le_mono2 nat_mult_1_right power_Suc)
  from Suc.prems have "10 ^ d \<le> n div 10" by (simp add: div_le_mono less_eq_div_iff_mult_less_eq mult.commute)
  from Suc.IH[OF this] n show ?case
    by (subst nat_to_string.simps) (simp add: div_mult2_eq)
qed simp

lemma padStart_nat_to_string:
  "n < 10 ^ d \<Longrightarrow> 0 < d \<Longrightarrow> padStart d (CHR ''0'') (nat_to_string n) = fixed_digits d n"
proof (induction d arbitrary: n)
  case (Suc d)
  show ?case
  proof (cases "n < 10")
    case True
    have "fixed_digits k 0 = replicate k (CHR ''0'')" for k
      by (induction k) (simp_all add: digit_char_def replicate_append_same)
    with True show ?thesis
      by (subst nat_to_string.simps) (simp add: padStart_def)
  next
    case False
    have "n div 10 < 10 ^ d" using Suc.prems by (simp add: less_mult_imp_div_less mult.commute)
    moreover have "0 < d" using Suc.prems False by (cases d) auto
    ultimately show ?thesis
      using Suc.IH[of "n div 10"] False by (subst nat_to_string.simps) (simp add: padStart_def)
  qed
qed simp

lemma length_nat_to_string_le: "n < 10 ^ d \<Longrightarrow> 0 < d \<Longrightarrow> length (nat_to_string n) \<le> d"
  by (metis length_append length_fixed_digits le_add2 padStart_def padStart_nat_to_string)

lemma length_nat_to_string_gt: "10 ^ d \<le> n \<Longrightarrow> d < length (nat_to_string n)"
  by (subst nat_to_string_split, assumption) simp


section \<open>Bytes\<close>

text \<open>The low \<open>k\<close> bytes of a number in little-endian order: what a \<^verbatim>\<open>DataView\<close> setter with
  \<^verbatim>\<open>littleEndian = true\<close> stores, the conversion modulo \<open>256 ^ k\<close> included.\<close>

fun le_bytes :: "nat \<Rightarrow> int \<Rightarrow> bytes" where
  "le_bytes 0 i = []"
| "le_bytes (Suc k) i = word_of_int i # le_bytes k (i div 256)"

fun le_value :: "bytes \<Rightarrow> int" where
  "le_value [] = 0"
| "le_value (b # bs) = uint b + 256 * le_value bs"

lemma length_le_bytes [simp]: "length (le_bytes k i) = k"
  by (induction k arbitrary: i) auto

lemma le_value_le_bytes [simp]: "le_value (le_bytes k i) = i mod 256 ^ k"
proof (induction k arbitrary: i)
  case (Suc k)
  have "i mod (256 * 256 ^ k) = 256 * (i div 256 mod 256 ^ k) + i mod 256"
    by (rule zmod_zmult2_eq) simp
  with Suc show ?case by (simp add: unsigned_of_int take_bit_eq_mod)
qed simp

lemma le_value_bounds: "0 \<le> le_value bs \<and> le_value bs < 256 ^ length bs"
proof (induction bs)
  case (Cons b bs)
  have "0 \<le> uint b" "uint b < 256" using uint_lt2p[of b] by simp_all
  with Cons show ?case by auto
qed simp

text \<open>A write of \<open>bs\<close> at offset \<open>off\<close> of a buffer: \<^verbatim>\<open>DataView.set\<close> and \<^verbatim>\<open>Uint8Array.set\<close> raise
  \<open>RangeError\<close> when it does not fit. \<open>set_all\<close> performs several writes in order.\<close>

definition set_bytes :: "nat \<times> bytes \<Rightarrow> bytes \<Rightarrow> bytes result" where
  "set_bytes w buf =
     (let (off, bs) = w in
      if off + length bs \<le> length buf then Inr (take off buf @ bs @ drop (off + length bs) buf)
      else Inl RangeError)"

fun set_all :: "(nat \<times> bytes) list \<Rightarrow> bytes \<Rightarrow> bytes result" where
  "set_all [] buf = Inr buf"
| "set_all (w # ws) buf = bind_result (set_bytes w buf) (set_all ws)"

text \<open>Writes that tile the buffer from the front leave exactly their concatenation.\<close>

fun tiles :: "nat \<Rightarrow> (nat \<times> bytes) list \<Rightarrow> bool" where
  "tiles p [] = True"
| "tiles p ((off, bs) # ws) = (off = p \<and> tiles (p + length bs) ws)"

lemma set_all_tiles_aux:
  "tiles (length pre) ws \<Longrightarrow> length buf = length (concat (map snd ws)) \<Longrightarrow>
   set_all ws (pre @ buf) = Inr (pre @ concat (map snd ws))"
proof (induction ws arbitrary: pre buf)
  case (Cons w ws)
  obtain off bs where w: "w = (off, bs)" by (cases w)
  with Cons.prems have off: "off = length pre" and t: "tiles (length (pre @ bs)) ws" by simp_all
  have "set_bytes w (pre @ buf) = Inr ((pre @ bs) @ drop (length bs) buf)"
    using Cons.prems(2) by (simp add: set_bytes_def w off)
  moreover have "length (drop (length bs) buf) = length (concat (map snd ws))"
    using Cons.prems(2) by (simp add: w)
  ultimately show ?case
    using Cons.IH[OF t, of "drop (length bs) buf"] by (simp add: w)
qed simp

lemma set_all_tiles:
  "tiles 0 ws \<Longrightarrow> length buf = length (concat (map snd ws)) \<Longrightarrow> set_all ws buf = Inr (concat (map snd ws))"
  using set_all_tiles_aux[of "[]"] by simp

text \<open>\<^verbatim>\<open>data.subarray(i, j)\<close>: clipped to the array.\<close>

definition subarray :: "nat \<Rightarrow> nat \<Rightarrow> bytes \<Rightarrow> bytes" where
  "subarray i j bs = take (j - i) (drop i bs)"

text \<open>\<^verbatim>\<open>new TextEncoder().encode(s)\<close>: UTF-8 of code units below 256.\<close>

definition utf8_char :: "char \<Rightarrow> bytes" where
  "utf8_char c =
     (let n = of_char c :: nat in
      if n < 128 then [word_of_nat n] else [word_of_nat (192 + n div 64), word_of_nat (128 + n mod 64)])"

definition utf8 :: "string \<Rightarrow> bytes" where
  "utf8 s = concat (map utf8_char s)"

lemma utf8_append [simp]: "utf8 (s @ t) = utf8 s @ utf8 t"
  by (simp add: utf8_def)

end
