(* ===== verification/Amounts.thy ===== *)
theory Amounts
  imports Sessions_Prelude
begin

text \<open>
  Token amounts as text. \<open>amountToString\<close> and \<open>stringToAmount\<close> are the two functions of
  \<^verbatim>\<open>packages/sessions-sdk-react/src/amount-to-string.ts\<close>; \<open>sdk_amountToString\<close> is the private
  copy in \<^verbatim>\<open>packages/sessions-sdk-ts/src/index.ts\<close> that writes the amounts of a signed intent;
  \<open>validate_amount\<close> is the validator of \<^verbatim>\<open>token-amount-input.tsx\<close>. Amounts are unbounded
  bigints (\<open>int\<close>), decimals a non-negative number.
\<close>

section \<open>The printers\<close>

definition amount_whole :: "string \<Rightarrow> nat \<Rightarrow> string" where
  "amount_whole asStr decimals =
     (if decimals < length asStr then take (length asStr - decimals) asStr else ''0'')"

definition amount_decimal :: "string \<Rightarrow> nat \<Rightarrow> string" where
  "amount_decimal asStr decimals =
     (if decimals < length asStr then drop (length asStr - decimals) asStr else asStr)"

definition decimal_suffix :: "string \<Rightarrow> string" where
  "decimal_suffix decimalTruncated = (if decimalTruncated = [] then [] else CHR ''.'' # decimalTruncated)"

definition sdk_amountToString :: "int \<Rightarrow> nat \<Rightarrow> string" where
  "sdk_amountToString amount decimals =
     (let asStr = int_to_string amount;
          whole = amount_whole asStr decimals;
          decimal = amount_decimal asStr decimals;
          decimalPadded = padStart decimals (CHR ''0'') decimal;
          decimalTruncated = strip_zeros decimalPadded
      in whole @ decimal_suffix decimalTruncated)"

text \<open>\<^verbatim>\<open>BigInt(whole).toLocaleString("en-US")\<close>: commas between groups of three digits.\<close>

fun group_rev :: "string \<Rightarrow> string" where
  "group_rev (a # b # c # d # s) = a # b # c # CHR '','' # group_rev (d # s)"
| "group_rev s = s"

definition toLocaleString :: "int \<Rightarrow> string" where
  "toLocaleString i =
     (if i < 0 then CHR ''-'' # rev (group_rev (rev (nat_to_string (nat (- i)))))
      else rev (group_rev (rev (nat_to_string (nat i)))))"

definition amountToString :: "int \<Rightarrow> nat \<Rightarrow> bool \<Rightarrow> string result" where
  "amountToString amount decimals grouping =
     (let asStr = int_to_string amount;
          whole = amount_whole asStr decimals;
          decimal = amount_decimal asStr decimals;
          decimalPadded = padStart decimals (CHR ''0'') decimal;
          decimalTruncated = strip_zeros decimalPadded
      in bind_result (if grouping then bind_result (BigInt whole) (\<lambda>i. Inr (toLocaleString i)) else Inr whole)
           (\<lambda>w. Inr (w @ decimal_suffix decimalTruncated)))"

section \<open>The parser\<close>

definition stringToAmount :: "string \<Rightarrow> nat \<Rightarrow> int result" where
  "stringToAmount str decimals =
     (let parts = split_on (CHR ''.'') str in
      if 2 < length parts then Inl (Error ''Invalid amount string'')
      else bind_result (BigInt (parts ! 0)) (\<lambda>i.
        let integerPart = i * 10 ^ decimals in
        if integerPart < 0 then Inl (Error ''Amount cannot be negative'')
        else if length parts = 1 then Inr integerPart
        else let fractionalStr = parts ! 1 in
          if decimals < length fractionalStr
          then Inl (Error ''This value is more precise than the token supports'')
          else bind_result (BigInt (padEnd decimals (CHR ''0'') fractionalStr))
                 (\<lambda>fractionalPart. Inr (integerPart + fractionalPart))))"

section \<open>The validator of the amount field\<close>

text \<open>\<open>errorToString\<close> of an error raised by \<open>stringToAmount\<close> is its message; the message of
  the engine's \<open>SyntaxError\<close> is a parameter.\<close>

definition error_message :: "string \<Rightarrow> js_error \<Rightarrow> string" where
  "error_message syntaxMessage e = (case e of Error m \<Rightarrow> m | _ \<Rightarrow> syntaxMessage)"

record amount_bounds =
  gt_bound :: "int option"
  lt_bound :: "int option"
  max_bound :: "int option"
  min_bound :: "int option"


definition exceeds :: "(int \<Rightarrow> bool) \<Rightarrow> int option \<Rightarrow> bool" where
  "exceeds bad bound = (case bound of None \<Rightarrow> False | Some v \<Rightarrow> bad v)"

definition check_bounds :: "nat \<Rightarrow> string \<Rightarrow> amount_bounds \<Rightarrow> int \<Rightarrow> string option result" where
  "check_bounds decimals symbol b amount =
     (let msg = (\<lambda>prefix bound. bind_result (amountToString (the bound) decimals True)
                   (\<lambda>s. Inr (Some (prefix @ s @ '' '' @ symbol))))
      in if exceeds (\<lambda>v. amount \<le> v) (gt_bound b) then msg ''Must be greater than '' (gt_bound b)
         else if exceeds (\<lambda>v. v \<le> amount) (lt_bound b) then msg ''Must be less than '' (lt_bound b)
         else if exceeds (\<lambda>v. v < amount) (max_bound b) then msg ''Cannot be more than '' (max_bound b)
         else if exceeds (\<lambda>v. amount < v) (min_bound b) then msg ''Cannot be less than '' (min_bound b)
         else Inr None)"

text \<open>The result is the validation error shown to the user, \<open>None\<close> when the value is accepted;
  whatever the body of the \<^verbatim>\<open>try\<close> raises becomes such an error.\<close>

definition validate_amount :: "string \<Rightarrow> nat \<Rightarrow> string \<Rightarrow> amount_bounds \<Rightarrow> string \<Rightarrow> string option" where
  "validate_amount syntaxMessage decimals symbol b value =
     (if value = [] then None
      else case bind_result (stringToAmount value decimals) (check_bounds decimals symbol b) of
             Inr r \<Rightarrow> r
           | Inl e \<Rightarrow> Some (error_message syntaxMessage e))"

section \<open>Printing: the reference form by division\<close>

definition amount_reference :: "nat \<Rightarrow> nat \<Rightarrow> string" where
  "amount_reference n decimals =
     nat_to_string (n div 10 ^ decimals) @ decimal_suffix (strip_zeros (fixed_digits decimals n))"

lemma nat_to_string_0 [simp]: "nat_to_string 0 = ''0''"
  by (subst nat_to_string.simps) (simp add: digit_char_def)

lemma amount_parts_large:
  assumes "10 ^ d \<le> n"
  shows "amount_whole (nat_to_string n) d = nat_to_string (n div 10 ^ d)"
    and "amount_decimal (nat_to_string n) d = fixed_digits d n"
proof -
  note gt = length_nat_to_string_gt[OF assms]
  have "length (nat_to_string n) - d = length (nat_to_string (n div 10 ^ d))"
    using arg_cong[OF nat_to_string_split[OF assms], of length] by simp
  then show "amount_whole (nat_to_string n) d = nat_to_string (n div 10 ^ d)"
    "amount_decimal (nat_to_string n) d = fixed_digits d n"
    using gt by (simp_all only: amount_whole_def amount_decimal_def if_True nat_to_string_split[OF assms]
        append_eq_conv_conj[THEN iffD1, OF refl, THEN conjunct1] take_append drop_append
        take_all drop_all order_refl append_Nil append_Nil2 diff_self_eq_0 take0 drop0)
qed

lemma amount_parts_small:
  assumes "n < 10 ^ d" and "0 < d"
  shows "amount_whole (nat_to_string n) d = ''0''" and "amount_decimal (nat_to_string n) d = nat_to_string n"
  using length_nat_to_string_le[OF assms] by (simp_all add: amount_whole_def amount_decimal_def)

lemma amount_parts:
  "amount_whole (nat_to_string n) d = nat_to_string (n div 10 ^ d)"
  "padStart d (CHR ''0'') (amount_decimal (nat_to_string n) d) = fixed_digits d n"
proof -
  consider "10 ^ d \<le> n" | "n < 10 ^ d" "0 < d" | "n = 0" "d = 0"
    by (cases "10 ^ d \<le> n"; cases "d = 0") auto
  then have "amount_whole (nat_to_string n) d = nat_to_string (n div 10 ^ d) \<and>
    padStart d (CHR ''0'') (amount_decimal (nat_to_string n) d) = fixed_digits d n"
  proof cases
    case 1
    then show ?thesis by (simp add: amount_parts_large padStart_def)
  next
    case 2
    then show ?thesis by (simp add: amount_parts_small padStart_nat_to_string)
  next
    case 3
    then show ?thesis by (simp add: amount_whole_def amount_decimal_def padStart_def)
  qed
  then show "amount_whole (nat_to_string n) d = nat_to_string (n div 10 ^ d)"
    "padStart d (CHR ''0'') (amount_decimal (nat_to_string n) d) = fixed_digits d n" by auto
qed

lemma int_to_string_of_nat [simp]: "int_to_string (int n) = nat_to_string n"
  by (simp add: int_to_string_def)

lemma sdk_amountToString_reference: "sdk_amountToString (int n) d = amount_reference n d"
  by (simp add: sdk_amountToString_def amount_parts amount_reference_def Let_def)

lemma amountToString_plain: "amountToString a d False = Inr (sdk_amountToString a d)"
  by (simp add: amountToString_def sdk_amountToString_def Let_def)

lemma amountToString_grouped:
  "amountToString (int n) d True =
     Inr (toLocaleString (int (n div 10 ^ d)) @ decimal_suffix (strip_zeros (fixed_digits d n)))"
  by (simp add: amountToString_def amount_parts Let_def BigInt_dec nat_to_string_dec)

lemma group_rev_filter: "CHR '','' \<notin> set s \<Longrightarrow> filter (\<lambda>c. c \<noteq> CHR '','') (group_rev s) = s"
  by (induction s rule: group_rev.induct) (auto simp: filter_id_conv)

lemma toLocaleString_digits:
  "filter (\<lambda>c. c \<noteq> CHR '','') (toLocaleString (int n)) = nat_to_string n"
proof -
  have "CHR '','' \<notin> set (rev (nat_to_string n))"
    using dec_no_char[OF nat_to_string_dec[of n], of "CHR '',''"] by simp
  from group_rev_filter[OF this] show ?thesis
    by (simp add: toLocaleString_def rev_filter[symmetric])
qed

section \<open>Reading back\<close>

text \<open>What the parser does to a plain decimal literal, without the fraction and with it.\<close>

lemma stringToAmount_whole:
  assumes "list_all is_dec w"
  shows "stringToAmount w d = Inr (int (dec_value w * 10 ^ d))"
proof -
  have "CHR ''.'' \<notin> set w" using dec_no_char[OF assms] by simp
  then show ?thesis
    by (simp add: stringToAmount_def split_on_no_sep BigInt_dec assms Let_def not_less)
qed

lemma stringToAmount_decimal:
  assumes w: "list_all is_dec w" and f: "list_all is_dec f"
  shows "stringToAmount (w @ CHR ''.'' # f) d =
    (if d < length f then Inl (Error ''This value is more precise than the token supports'')
     else Inr (int (dec_value w * 10 ^ d + dec_value f * 10 ^ (d - length f))))"
proof -
  have nodot: "CHR ''.'' \<notin> set w" "CHR ''.'' \<notin> set f"
    using dec_no_char[OF w] dec_no_char[OF f] by simp_all
  then have parts: "split_on (CHR ''.'') (w @ CHR ''.'' # f) = [w, f]"
    by (simp add: split_on_append split_on_no_sep)
  have zero: "list_all is_dec (replicate n (CHR ''0''))" for n
    by (simp add: list_all_iff)
  have pad: "list_all is_dec (padEnd d (CHR ''0'') f)"
    using f zero by (simp add: padEnd_def)
  have "dec_value (padEnd d (CHR ''0'') f) = dec_value f * 10 ^ (d - length f)"
    by (simp add: padEnd_def dec_value_append)
  with w pad parts show ?thesis
    by (simp add: stringToAmount_def BigInt_dec Let_def not_less)
qed

lemma stringToAmount_reference: "stringToAmount (amount_reference n d) d = Inr (int n)"
proof (cases "strip_zeros (fixed_digits d n) = []")
  case True
  have "fixed_digits d n = replicate d (CHR ''0'')"
    using strip_zeros_decomp[of "fixed_digits d n"] True by simp
  then have "n mod 10 ^ d = 0" by (metis dec_value_fixed_digits dec_value_zeros)
  then have "n div 10 ^ d * 10 ^ d = n" by (metis add.right_neutral div_mult_mod_eq)
  with True show ?thesis
    by (simp only: amount_reference_def decimal_suffix_def stringToAmount_whole nat_to_string_dec
        dec_value_nat_to_string refl if_True append_Nil2)
next
  case False
  let ?f = "strip_zeros (fixed_digits d n)"
  have f: "list_all is_dec ?f"
    using fixed_digits_dec[of d n] strip_zeros_set[of "fixed_digits d n"]
    by (auto simp: list_all_iff)
  have len: "length ?f \<le> d" using length_strip_zeros[of "fixed_digits d n"] by simp
  have "n mod 10 ^ d = dec_value (?f @ replicate (d - length ?f) (CHR ''0''))"
    using strip_zeros_decomp[of "fixed_digits d n"] dec_value_fixed_digits[of d n] by simp
  then have "n mod 10 ^ d = dec_value ?f * 10 ^ (d - length ?f)"
    by (simp add: dec_value_append)
  then have "n div 10 ^ d * 10 ^ d + dec_value ?f * 10 ^ (d - length ?f) = n"
    by (metis div_mult_mod_eq)
  then have "int (n div 10 ^ d * 10 ^ d + dec_value ?f * 10 ^ (d - length ?f)) = int n" by simp
  with False f len show ?thesis
    by (simp only: amount_reference_def decimal_suffix_def if_False
        stringToAmount_decimal[OF nat_to_string_dec f] dec_value_nat_to_string not_less[symmetric] simp_thms)
qed


section \<open>The interface of an amount codec\<close>

text \<open>What the users of the amount functions rely on: a printed amount reads back as itself.
  The lemmas hold for every such pair; the interpretation below discharges the law for the
  printer of the SDK and the parser of the React package.\<close>

locale amount_codec =
  fixes print :: "nat \<Rightarrow> nat \<Rightarrow> string" and parse :: "string \<Rightarrow> nat \<Rightarrow> int result"
  assumes parse_print: "parse (print n d) d = Inr (int n)"
begin

lemma print_eq_iff: "print m d = print n d \<longleftrightarrow> m = n"
proof
  assume "print m d = print n d"
  then have "Inr (int m) = (Inr (int n) :: int result)" by (metis parse_print)
  then show "m = n" by simp
qed simp

lemma parse_print_nonneg: "parse (print n d) d = Inr a \<Longrightarrow> 0 \<le> a"
  by (simp add: parse_print)

end

interpretation sdk_codec: amount_codec "\<lambda>n d. sdk_amountToString (int n) d" stringToAmount
  by unfold_locales (simp add: sdk_amountToString_reference stringToAmount_reference)

section \<open>Signs\<close>

lemma digits_value_10_dec: "digits_value 10 s = Some v \<Longrightarrow> list_all is_dec s \<and> s \<noteq> [] \<and> v = dec_value s"
  using digits_acc_Some_dec[of 0 s v] by (auto simp: digits_value_def digits_acc_dec split: if_splits)

lemma bigint_literal_nonneg: "CHR ''-'' \<notin> set t \<Longrightarrow> bigint_literal t = Inr i \<Longrightarrow> 0 \<le> i"
  by (auto simp: bigint_literal_def signed_def split: list.splits if_splits option.splits)

lemma set_js_trim: "set (js_trim s) \<subseteq> set s"
  by (auto simp: js_trim_def dest!: set_dropWhileD)

lemma BigInt_nonneg: "CHR ''-'' \<notin> set s \<Longrightarrow> BigInt s = Inr i \<Longrightarrow> 0 \<le> i"
  using set_js_trim[of s] by (auto simp: BigInt_def dest!: bigint_literal_nonneg[rotated])

lemma BigInt_negative:
  assumes "list_all is_dec f" "f \<noteq> []"
  shows "BigInt (CHR ''-'' # f) = Inr (- int (dec_value f))"
proof -
  have "js_trim (CHR ''-'' # f) = CHR ''-'' # f"
  proof (rule js_trim_id)
    show "\<not> is_ws (last (CHR ''-'' # f))"
      using assms by (simp add: list_all_iff is_dec_not_ws)
  qed (simp add: is_ws_def)
  then show ?thesis
    using assms by (simp add: BigInt_def bigint_literal_def signed_def digits_value_dec)
qed

section \<open>Properties\<close>

text \<open>C24: an amount printed without grouping reads back as the same amount, for every number
  of decimals.\<close>

theorem amount_roundtrip:
  "bind_result (amountToString (int n) d False) (\<lambda>s. stringToAmount s d) = Inr (int n)"
  by (simp add: amountToString_plain sdk_codec.parse_print)

text \<open>The string surgery of the printers (slice, pad, truncate) computes quotient and
  remainder by the power of ten, in the SDK's copy and in the React package's ungrouped form.\<close>

theorem amount_printers_reference:
  "sdk_amountToString (int n) d = amount_reference n d \<and>
   amountToString (int n) d False = Inr (amount_reference n d)"
  by (simp add: amountToString_plain sdk_amountToString_reference)

text \<open>Two amounts print the same text in a signed intent only if they are equal.\<close>

theorem sdk_amountToString_inj:
  "sdk_amountToString (int m) d = sdk_amountToString (int n) d \<longleftrightarrow> m = n"
  by (rule sdk_codec.print_eq_iff)

text \<open>The grouped form never fails on a non-negative amount, and it is the ungrouped form
  with commas inserted.\<close>

theorem amountToString_grouped_digits:
  "\<exists>s. amountToString (int n) d True = Inr s \<and>
       filter (\<lambda>c. c \<noteq> CHR '','') s = amount_reference n d"
proof -
  have "CHR '','' \<notin> set (strip_zeros (fixed_digits d n))"
    using dec_no_char[OF fixed_digits_dec, of "CHR '',''" d n] strip_zeros_set by auto
  then have "filter (\<lambda>c. c \<noteq> CHR '','') (strip_zeros (fixed_digits d n)) = strip_zeros (fixed_digits d n)"
    by (auto simp: filter_id_conv)
  then show ?thesis
    by (simp add: amountToString_grouped amount_reference_def toLocaleString_digits decimal_suffix_def)
qed

text \<open>On a decimal literal the parser returns exactly the scaled value, and it rejects a
  fraction longer than the token's decimals.\<close>

theorem stringToAmount_literal:
  assumes "list_all is_dec w" and "list_all is_dec f"
  shows "stringToAmount (w @ CHR ''.'' # f) d =
    (if d < length f then Inl (Error ''This value is more precise than the token supports'')
     else Inr (int (dec_value w * 10 ^ d + dec_value f * 10 ^ (d - length f))))"
  using assms by (rule stringToAmount_decimal)

theorem stringToAmount_literal_witness:
  "stringToAmount ''12.05'' 3 = Inr 12050"
  using stringToAmount_literal[of "''12''" "''05''" 3]
  by (simp add: is_dec_def dec_value_def digit_in_def digit_val_def)

text \<open>An amount text without a minus sign never yields a negative amount.\<close>

theorem stringToAmount_nonneg:
  assumes "CHR ''-'' \<notin> set s" and "stringToAmount s d = Inr a"
  shows "0 \<le> a"
proof -
  let ?p = "split_on (CHR ''.'') s"
  have sub: "w \<in> set ?p \<Longrightarrow> CHR ''-'' \<notin> set w" for w
    using split_on_subset[of w "CHR ''.''" s] assms(1) by auto
  have p0: "CHR ''-'' \<notin> set (?p ! 0)" by (rule sub) simp
  show ?thesis
  proof (cases "length ?p = 1")
    case True
    with assms(2) show ?thesis
      by (auto simp: stringToAmount_def Let_def bind_result_eq_Inr split: if_splits)
  next
    case False
    then have "1 < length ?p" by (cases ?p) auto
    then have "CHR ''-'' \<notin> set (padEnd d (CHR ''0'') (?p ! 1))"
      using sub[of "?p ! 1"] by (auto simp: padEnd_def)
    note frac = BigInt_nonneg[OF this, unfolded One_nat_def]
    from False assms(2) show ?thesis
      by (auto simp: stringToAmount_def Let_def bind_result_eq_Inr not_less dest!: frac split: if_splits)
  qed
qed

theorem stringToAmount_nonneg_witness: "stringToAmount ''7'' 0 = Inr 7 \<and> (0::int) \<le> 7"
proof -
  have "stringToAmount ''7'' 0 = Inr 7"
    using stringToAmount_whole[of "''7''" 0] by (simp add: is_dec_def dec_value_def digit_in_def digit_val_def)
  then show ?thesis using stringToAmount_nonneg[of "''7''" 0 7] by simp
qed

text \<open>The guard against negative amounts only sees the integer part. A minus sign in front
  of the fraction is read by \<^verbatim>\<open>BigInt\<close> as a sign, so the result is below the integer part (and
  negative for a zero integer part), and a minus sign in front of a zero integer part is
  dropped.\<close>

theorem stringToAmount_sign_escapes:
  assumes "list_all is_dec f" and "f \<noteq> []" and "length f < d"
  shows "stringToAmount (''0.-'' @ f) d = Inr (- int (dec_value f * 10 ^ (d - 1 - length f))) \<and>
    stringToAmount (''-0.'' @ f) d = Inr (int (dec_value f * 10 ^ (d - length f)))"
proof (rule conjI)
  have nodot: "CHR ''.'' \<notin> set f" using dec_no_char[OF assms(1)] by simp
  let ?g = "f @ replicate (d - 1 - length f) (CHR ''0'')"
  have g: "list_all is_dec ?g" using assms(1) by (auto simp: list_all_iff)
  have "split_on (CHR ''.'') (''0.-'' @ f) = [''0'', CHR ''-'' # f]"
    using nodot split_on_append[of "CHR ''.''" "''0''" "CHR ''-'' # f"] by (simp add: split_on_no_sep)
  moreover have "BigInt (CHR ''-'' # ?g) = Inr (- int (dec_value ?g))"
    using g assms(2) by (intro BigInt_negative) auto
  moreover have "dec_value ?g = dec_value f * 10 ^ (d - 1 - length f)"
    by (simp add: dec_value_append)
  ultimately show "stringToAmount (''0.-'' @ f) d = Inr (- int (dec_value f * 10 ^ (d - 1 - length f)))"
    using assms(3) BigInt_dec[of "''0''"]
    by (simp add: stringToAmount_def Let_def padEnd_def is_dec_def dec_value_def digit_in_def digit_val_def)
next
  have nodot: "CHR ''.'' \<notin> set f" using dec_no_char[OF assms(1)] by simp
  have "split_on (CHR ''.'') (''-0.'' @ f) = [''-0'', f]"
    using nodot split_on_append[of "CHR ''.''" "''-0''" f] by (simp add: split_on_no_sep)
  moreover have "BigInt ''-0'' = Inr 0"
    using BigInt_negative[of "''0''"] by (simp add: dec_value_def digit_in_def digit_val_def)
  moreover have "list_all is_dec (padEnd d (CHR ''0'') f)" "dec_value (padEnd d (CHR ''0'') f) = dec_value f * 10 ^ (d - length f)"
    using assms(1) by (auto simp: padEnd_def list_all_iff dec_value_append)
  ultimately show "stringToAmount (''-0.'' @ f) d = Inr (int (dec_value f * 10 ^ (d - length f)))"
    using assms(3) by (simp add: stringToAmount_def Let_def BigInt_dec)
qed

theorem stringToAmount_sign_escapes_witness:
  "stringToAmount ''0.-5'' 6 = Inr (- 50000) \<and> stringToAmount ''-0.5'' 6 = Inr 500000"
  using stringToAmount_sign_escapes[of "''5''" 6]
  by (simp add: is_dec_def dec_value_def digit_in_def digit_val_def)

text \<open>A non-empty value the amount field accepts parses, and the parsed amount lies within
  every bound the field was given.\<close>

theorem validate_amount_accepts:
  assumes "validate_amount m d symb b v = None" and "v \<noteq> []"
  shows "\<exists>a. stringToAmount v d = Inr a \<and>
    (\<forall>g. gt_bound b = Some g \<longrightarrow> g < a) \<and> (\<forall>l. lt_bound b = Some l \<longrightarrow> a < l) \<and>
    (\<forall>x. max_bound b = Some x \<longrightarrow> a \<le> x) \<and> (\<forall>y. min_bound b = Some y \<longrightarrow> y \<le> a)"
proof (cases "stringToAmount v d")
  case (Inr a)
  with assms have "check_bounds d symb b a = Inr None"
    by (auto simp: validate_amount_def split: sum.splits)
  with Inr show ?thesis
    by (auto simp: check_bounds_def exceeds_def Let_def bind_result_eq_Inr split: if_splits option.splits)
qed (use assms in \<open>simp add: validate_amount_def\<close>)

theorem validate_amount_accepts_witness:
  "\<exists>a. stringToAmount ''2'' 1 = Inr a \<and> 0 < a \<and> a \<le> 30"
proof -
  let ?b = "\<lparr>gt_bound = Some 0, lt_bound = None, max_bound = Some 30, min_bound = None\<rparr>"
  have p: "stringToAmount ''2'' 1 = Inr 20"
    using stringToAmount_whole[of "''2''" 1] by (simp add: is_dec_def dec_value_def digit_in_def digit_val_def)
  have "validate_amount [] 1 ''T'' ?b ''2'' = None"
    using p by (simp add: validate_amount_def check_bounds_def exceeds_def)
  from validate_amount_accepts[OF this] show ?thesis by simp
qed

end
