(* ===== verification/Solana_Lib.thy ===== *)
theory Solana_Lib
  imports Sessions_Prelude
begin

text \<open>
  The packages outside the repository that the SDK calls: \<^verbatim>\<open>@solana/web3.js\<close>,
  \<^verbatim>\<open>@solana/spl-token\<close>, \<^verbatim>\<open>@noble/hashes\<close>, \<^verbatim>\<open>bs58\<close>, the Anchor client and the metaplex
  client. Their code is a parameter of every definition that uses it, the record
  \<open>solana_lib\<close> below; no component assumes anything about it that its statements do not name.
  The data they exchange (instructions, account lists) is modelled as the sources build it.
\<close>

record account_meta =
  isSigner :: bool
  isWritable :: bool
  meta_pubkey :: pubkey

record instruction =
  programId :: pubkey
  ix_keys :: "account_meta list"
  ix_data :: bytes

text \<open>Arguments of an Anchor method call.\<close>

datatype anchor_arg = ArgInt int | ArgBool bool | ArgBytes bytes

text \<open>A method call on an Anchor program: program, method, arguments, the named accounts
  (\<open>None\<close> for \<^verbatim>\<open>null\<close>) and the remaining accounts.\<close>

record anchor_call =
  call_program :: string
  call_method :: string
  call_args :: "anchor_arg list"
  call_accounts :: "(string \<times> pubkey option) list"
  call_remaining :: "account_meta list"

record solana_lib =
  toBase58 :: "pubkey \<Rightarrow> string"
  parsePublicKey :: "string \<Rightarrow> pubkey result"
  publicKeyOfBytes :: "bytes \<Rightarrow> pubkey result"
  sha256 :: "bytes \<Rightarrow> bytes"
  findProgramAddressSync :: "bytes list \<Rightarrow> pubkey \<Rightarrow> pubkey"
  getAssociatedTokenAddressSync :: "pubkey \<Rightarrow> pubkey \<Rightarrow> bool \<Rightarrow> pubkey result"
  findMetadataPda :: "pubkey \<Rightarrow> pubkey"
  NATIVE_MINT :: pubkey
  SystemProgram_programId :: pubkey
  Ed25519Program_programId :: pubkey
  program_address :: "string \<Rightarrow> pubkey"
  createAssociatedTokenAccountIdempotentInstruction :: "pubkey \<Rightarrow> pubkey \<Rightarrow> pubkey \<Rightarrow> pubkey \<Rightarrow> instruction"
  createSyncNativeInstruction :: "pubkey \<Rightarrow> instruction"
  createCloseAccountInstruction :: "pubkey \<Rightarrow> pubkey \<Rightarrow> pubkey \<Rightarrow> instruction"
  createEd25519InstructionWithPublicKey :: "bytes \<Rightarrow> bytes \<Rightarrow> bytes \<Rightarrow> instruction"
  setComputeUnitLimit :: "nat \<Rightarrow> instruction"
  anchor_instruction :: "anchor_call \<Rightarrow> instruction result"

text \<open>\<^verbatim>\<open>getAssociatedTokenAddressSync(mint, owner)\<close> with its default third argument.\<close>

abbreviation ata :: "solana_lib \<Rightarrow> pubkey \<Rightarrow> pubkey \<Rightarrow> pubkey result" where
  "ata L mint owner \<equiv> getAssociatedTokenAddressSync L mint owner False"

text \<open>A concrete instance, used by the witnesses: every function is total and computable, and
  distinct arguments give distinct results where a hypothesis asks for it. Base58 is replaced
  by an encoding over two letters.\<close>

definition letters :: "byte \<Rightarrow> string" where
  "letters b = map (\<lambda>i. if bit b i then CHR ''B'' else CHR ''A'') [0..<8]"

definition demo_ix :: "pubkey \<Rightarrow> pubkey list \<Rightarrow> bytes \<Rightarrow> instruction" where
  "demo_ix p ks d = \<lparr>programId = p, ix_keys = map (\<lambda>k. \<lparr>isSigner = False, isWritable = False, meta_pubkey = k\<rparr>) ks, ix_data = d\<rparr>"

definition demo_lib :: solana_lib where
  "demo_lib =
    \<lparr>toBase58 = (\<lambda>k. concat (map letters (toBytes k))),
     parsePublicKey = (\<lambda>s. Inr (PublicKey (utf8 s))),
     publicKeyOfBytes = (\<lambda>b. Inr (PublicKey b)),
     sha256 = (\<lambda>b. b),
     findProgramAddressSync = (\<lambda>seeds p. PublicKey (concat seeds @ toBytes p)),
     getAssociatedTokenAddressSync = (\<lambda>m w off. Inr (PublicKey (1 # toBytes m @ toBytes w))),
     findMetadataPda = (\<lambda>m. PublicKey (2 # toBytes m)),
     NATIVE_MINT = PublicKey [9],
     SystemProgram_programId = PublicKey [0],
     Ed25519Program_programId = PublicKey [3],
     program_address = (\<lambda>n. PublicKey (utf8 n)),
     createAssociatedTokenAccountIdempotentInstruction = (\<lambda>p a w m. demo_ix (PublicKey [4]) [p, a, w, m] []),
     createSyncNativeInstruction = (\<lambda>a. demo_ix (PublicKey [5]) [a] [17]),
     createCloseAccountInstruction = (\<lambda>a d w. demo_ix (PublicKey [5]) [a, d, w] [9]),
     createEd25519InstructionWithPublicKey = (\<lambda>m k s. demo_ix (PublicKey [3]) [] (k @ s @ m)),
     setComputeUnitLimit = (\<lambda>n. demo_ix (PublicKey [6]) [] (le_bytes 4 (int n))),
     anchor_instruction = (\<lambda>c. Inr \<lparr>programId = PublicKey (utf8 (call_program c)),
        ix_keys = call_remaining c, ix_data = utf8 (call_method c)\<rparr>)\<rparr>"

end
