(* ===== verification/Instructions.thy ===== *)
theory Instructions
  imports Solana_Lib
begin

text \<open>
  \<^verbatim>\<open>packages/sessions-sdk-ts/src/instructions.ts\<close>: the instructions with which a session key
  wraps and unwraps native tokens of its user, and the instruction that pays the paymaster
  fee. The \<^verbatim>\<open>SessionWrap\<close> payload is a byte layout written here, so it is modelled byte by byte.
\<close>

definition SESSION_WRAP_DISCRIMINATOR :: int where
  "SESSION_WRAP_DISCRIMINATOR = 4000000"

definition getNativeMintAssociatedTokenAddressSync :: "solana_lib \<Rightarrow> pubkey \<Rightarrow> pubkey result" where
  "getNativeMintAssociatedTokenAddressSync L walletPublicKey = ata L (NATIVE_MINT L) walletPublicKey"

definition session_wrap_data :: "int \<Rightarrow> bytes result" where
  "session_wrap_data amount =
     set_all [(0, le_bytes 4 SESSION_WRAP_DISCRIMINATOR), (4, le_bytes 8 amount)] (replicate 12 0)"

definition createSystemProgramSessionWrapInstruction :: "solana_lib \<Rightarrow> pubkey \<Rightarrow> pubkey \<Rightarrow> int \<Rightarrow> instruction result" where
  "createSystemProgramSessionWrapInstruction L sessionKey walletPublicKey amount =
     bind_result (session_wrap_data amount) (\<lambda>d.
     bind_result (getNativeMintAssociatedTokenAddressSync L walletPublicKey) (\<lambda>native.
     Inr \<lparr>programId = SystemProgram_programId L,
          ix_keys = [\<lparr>isSigner = False, isWritable = True, meta_pubkey = walletPublicKey\<rparr>,
                     \<lparr>isSigner = False, isWritable = True, meta_pubkey = native\<rparr>,
                     \<lparr>isSigner = True, isWritable = False, meta_pubkey = sessionKey\<rparr>],
          ix_data = d\<rparr>))"

definition createSessionWrapInstructions :: "solana_lib \<Rightarrow> pubkey \<Rightarrow> pubkey \<Rightarrow> int \<Rightarrow> instruction list result" where
  "createSessionWrapInstructions L sessionKey walletPublicKey amount =
     bind_result (ata L (NATIVE_MINT L) walletPublicKey) (\<lambda>userTokenAccount.
     bind_result (createSystemProgramSessionWrapInstruction L sessionKey walletPublicKey amount) (\<lambda>wrap.
     Inr [wrap,
          createAssociatedTokenAccountIdempotentInstruction L sessionKey userTokenAccount walletPublicKey (NATIVE_MINT L),
          createSyncNativeInstruction L userTokenAccount]))"

definition createSessionUnwrapInstruction :: "solana_lib \<Rightarrow> pubkey \<Rightarrow> pubkey \<Rightarrow> instruction result" where
  "createSessionUnwrapInstruction L sessionKey walletPublicKey =
     bind_result (getNativeMintAssociatedTokenAddressSync L walletPublicKey) (\<lambda>native.
     Inr (createCloseAccountInstruction L native walletPublicKey sessionKey))"

definition getDomainTollRecipientAddress :: "solana_lib \<Rightarrow> string \<Rightarrow> pubkey" where
  "getDomainTollRecipientAddress L domain =
     findProgramAddressSync L [utf8 ''toll_recipient'', [0], sha256 L (utf8 domain)] (program_address L ''tollbooth'')"

definition createPaymasterFeeInstruction ::
  "solana_lib \<Rightarrow> pubkey \<Rightarrow> pubkey \<Rightarrow> string \<Rightarrow> pubkey \<Rightarrow> int \<Rightarrow> instruction result" where
  "createPaymasterFeeInstruction L sessionKey walletPublicKey domain feeMint feeAmount =
     (let recipient = getDomainTollRecipientAddress L domain in
      bind_result (getAssociatedTokenAddressSync L feeMint recipient True) (\<lambda>destination.
      bind_result (ata L feeMint walletPublicKey) (\<lambda>source.
      anchor_instruction L
        \<lparr>call_program = ''tollbooth'', call_method = ''payToll'', call_args = [ArgInt feeAmount, ArgInt 0],
         call_accounts = [(''destination'', Some destination), (''mint'', Some feeMint),
                          (''session'', Some sessionKey), (''source'', Some source)],
         call_remaining = []\<rparr>)))"

lemma session_wrap_data_bytes:
  "session_wrap_data amount = Inr (le_bytes 4 SESSION_WRAP_DISCRIMINATOR @ le_bytes 8 amount)"
  unfolding session_wrap_data_def by (subst set_all_tiles) simp_all

section \<open>Properties\<close>

text \<open>The \<^verbatim>\<open>SessionWrap\<close> payload is twelve bytes, the discriminator in the first four and the
  amount modulo two to the 64 in the last eight, little-endian; an amount of the 64-bit range
  is carried exactly.\<close>

theorem session_wrap_layout:
  "\<exists>d. session_wrap_data amount = Inr d \<and> length d = 12 \<and>
       le_value (take 4 d) = SESSION_WRAP_DISCRIMINATOR \<and>
       le_value (drop 4 d) = amount mod 2 ^ 64"
  by (simp add: session_wrap_data_bytes SESSION_WRAP_DISCRIMINATOR_def)

text \<open>When the user's native token account can be derived, wrapping is three instructions in
  the order that makes them work together: the transfer signed by the session key alone, the
  creation of that very token account paid by the session key, and the sync of that account.\<close>

theorem session_wrap_instructions:
  assumes "ata L (NATIVE_MINT L) wallet = Inr account"
  shows "\<exists>wrap d. createSessionWrapInstructions L session wallet amount =
      Inr [wrap,
           createAssociatedTokenAccountIdempotentInstruction L session account wallet (NATIVE_MINT L),
           createSyncNativeInstruction L account] \<and>
    session_wrap_data amount = Inr d \<and> ix_data wrap = d \<and>
    programId wrap = SystemProgram_programId L \<and>
    map meta_pubkey (ix_keys wrap) = [wallet, account, session] \<and>
    map meta_pubkey (filter isSigner (ix_keys wrap)) = [session] \<and>
    map meta_pubkey (filter isWritable (ix_keys wrap)) = [wallet, account]"
  using assms
  by (simp add: createSessionWrapInstructions_def createSystemProgramSessionWrapInstruction_def
      getNativeMintAssociatedTokenAddressSync_def session_wrap_data_bytes)

theorem session_wrap_instructions_witness:
  "\<exists>wrap. createSessionWrapInstructions demo_lib (PublicKey [7]) (PublicKey [8]) 5 =
     Inr [wrap, demo_ix (PublicKey [4]) [PublicKey [7], PublicKey [1, 9, 8], PublicKey [8], PublicKey [9]] [],
          demo_ix (PublicKey [5]) [PublicKey [1, 9, 8]] [17]]"
  using session_wrap_instructions[of demo_lib "PublicKey [8]" "PublicKey [1, 9, 8]" "PublicKey [7]" 5]
  by (auto simp: demo_lib_def)

end
