(* ===== verification/Intent_Message.thy ===== *)
theory Intent_Message
  imports Amounts Solana_Lib
begin

text \<open>
  The text a wallet signs and the instruction that carries the signature, from
  \<^verbatim>\<open>packages/sessions-sdk-ts/src/index.ts\<close>: \<open>serializeKV\<close>, \<open>serializeExtra\<close>,
  \<open>serializeTokenList\<close>, \<open>buildIntentInstruction\<close>, \<open>buildEd25519InstructionWithOffsets\<close> and
  \<open>getOffchainMessagePublicKeyOffset\<close>. A \<^verbatim>\<open>Record<string, string>\<close> is the list of its entries in
  insertion order. \<open>parse_kv\<close> is the abstract reading of such a text (one entry per line, lines
  that start with a dash continue the entry above); the refinement theorem says that writing
  a well-formed record and reading it back gives the record.
\<close>

section \<open>Key-value text\<close>

definition serialize_entry :: "string \<times> string \<Rightarrow> string" where
  "serialize_entry e =
     (let (key, value) = e in
      key @ '':'' @ (if value \<noteq> [] \<and> hd value = newline then [] else '' '') @ value)"

definition serializeKV :: "(string \<times> string) list \<Rightarrow> string" where
  "serializeKV data = join [newline] (map serialize_entry data)"

text \<open>\<^verbatim>\<open>/^[a-z]+(_[a-z0-9]+)*$/\<close>: underscores separate non-empty words, the first of letters only.\<close>

definition is_lower :: "char \<Rightarrow> bool" where
  "is_lower c = (97 \<le> (of_char c :: nat) \<and> (of_char c :: nat) \<le> 122)"

definition snake_case :: "string \<Rightarrow> bool" where
  "snake_case key =
     (let ws = split_on (CHR ''_'') key in
      hd ws \<noteq> [] \<and> list_all is_lower (hd ws) \<and>
      list_all (\<lambda>w. w \<noteq> [] \<and> list_all (\<lambda>c. is_lower c \<or> is_dec c) w) (tl ws))"

fun check_extra :: "(string \<times> string) list \<Rightarrow> unit result" where
  "check_extra [] = Inr ()"
| "check_extra ((key, value) # es) =
     (if \<not> snake_case key then Inl (Error (''Extra key must be a snake_case string: '' @ key))
      else if newline \<in> set value then Inl (Error (''Extra value must not contain a line break: '' @ value))
      else check_extra es)"

definition serializeExtra :: "(string \<times> string) list \<Rightarrow> string result" where
  "serializeExtra extra = bind_result (check_extra extra) (\<lambda>_. Inr (serializeKV extra))"

section \<open>Token permissions\<close>

datatype SymbolOrMint = Symbol string | Mint pubkey

record TokenInfo =
  ti_amount :: int
  ti_decimals :: nat
  ti_metadataAddress :: pubkey
  ti_mint :: pubkey
  ti_symbolOrMint :: SymbolOrMint

definition UNLIMITED_TOKEN_PERMISSIONS_VALUE :: string where
  "UNLIMITED_TOKEN_PERMISSIONS_VALUE = ''this app may spend any amount of any token''"

definition TOKENLESS_PERMISSIONS_VALUE :: string where
  "TOKENLESS_PERMISSIONS_VALUE = ''this app may not spend any tokens''"

definition token_label :: "solana_lib \<Rightarrow> TokenInfo \<Rightarrow> string" where
  "token_label L t = (case ti_symbolOrMint t of Symbol s \<Rightarrow> s | Mint m \<Rightarrow> toBase58 L m)"

definition token_line :: "solana_lib \<Rightarrow> TokenInfo \<Rightarrow> string" where
  "token_line L t = newline # CHR ''-'' # token_label L t @ '': '' @ sdk_amountToString (ti_amount t) (ti_decimals t)"

definition serializeTokenList :: "solana_lib \<Rightarrow> TokenInfo list option \<Rightarrow> string" where
  "serializeTokenList L tokens =
     (case tokens of
        None \<Rightarrow> UNLIMITED_TOKEN_PERMISSIONS_VALUE
      | Some ts \<Rightarrow> if ts = [] then TOKENLESS_PERMISSIONS_VALUE else concat (map (token_line L) ts))"

section \<open>The Ed25519 instruction\<close>

definition ED25519_HEADER_LEN :: nat where "ED25519_HEADER_LEN = 16"
definition ED25519_PUBLIC_KEY_LEN :: nat where "ED25519_PUBLIC_KEY_LEN = 32"
definition ED25519_SIGNATURE_LEN :: nat where "ED25519_SIGNATURE_LEN = 64"
definition ED25519_CURRENT_INSTRUCTION_INDEX :: int where "ED25519_CURRENT_INSTRUCTION_INDEX = 0xffff"

lemmas ed25519_consts = ED25519_HEADER_LEN_def ED25519_PUBLIC_KEY_LEN_def ED25519_SIGNATURE_LEN_def
  ED25519_CURRENT_INSTRUCTION_INDEX_def

definition ed25519_writes :: "bytes \<Rightarrow> bytes \<Rightarrow> int \<Rightarrow> (nat \<times> bytes) list" where
  "ed25519_writes signature message publicKeyOffsetInMessage =
     (let signatureOffset = int ED25519_HEADER_LEN;
          messageDataOffset = signatureOffset + int (length signature);
          publicKeyOffsetInInstruction = messageDataOffset + publicKeyOffsetInMessage
      in [(0, le_bytes 1 1), (1, le_bytes 1 0), (2, le_bytes 2 signatureOffset),
          (4, le_bytes 2 ED25519_CURRENT_INSTRUCTION_INDEX), (6, le_bytes 2 publicKeyOffsetInInstruction),
          (8, le_bytes 2 ED25519_CURRENT_INSTRUCTION_INDEX), (10, le_bytes 2 messageDataOffset),
          (12, le_bytes 2 (int (length message))), (14, le_bytes 2 ED25519_CURRENT_INSTRUCTION_INDEX),
          (nat signatureOffset, signature), (nat messageDataOffset, message)])"

definition buildEd25519InstructionWithOffsets :: "solana_lib \<Rightarrow> bytes \<Rightarrow> bytes \<Rightarrow> int \<Rightarrow> instruction result" where
  "buildEd25519InstructionWithOffsets L signature message publicKeyOffsetInMessage =
     (if length signature \<noteq> ED25519_SIGNATURE_LEN
      then Inl (Error (''Signature must be '' @ nat_to_string ED25519_SIGNATURE_LEN @ '' bytes but received ''
                       @ nat_to_string (length signature) @ '' bytes''))
      else if publicKeyOffsetInMessage < 0 \<or>
              int (length message) < publicKeyOffsetInMessage + int ED25519_PUBLIC_KEY_LEN
      then Inl (Error ''Public key offset is out of bounds of signed message'')
      else bind_result
        (set_all (ed25519_writes signature message publicKeyOffsetInMessage)
           (replicate (ED25519_HEADER_LEN + ED25519_SIGNATURE_LEN + length message) 0))
        (\<lambda>d. Inr \<lparr>programId = Ed25519Program_programId L, ix_keys = [], ix_data = d\<rparr>))"

definition OFFCHAIN_SIGNING_DOMAIN_LEN :: nat where "OFFCHAIN_SIGNING_DOMAIN_LEN = 16"
definition OFFCHAIN_V0_SIGNER_LIST_OFFSET :: nat where
  "OFFCHAIN_V0_SIGNER_LIST_OFFSET = OFFCHAIN_SIGNING_DOMAIN_LEN + 1 + 32 + 1 + 1"
definition OFFCHAIN_V1_SIGNER_LIST_OFFSET :: nat where
  "OFFCHAIN_V1_SIGNER_LIST_OFFSET = OFFCHAIN_SIGNING_DOMAIN_LEN + 1 + 1"

text \<open>\<^verbatim>\<open>findIndex\<close>: \<open>None\<close> for \<^verbatim>\<open>-1\<close>.\<close>

fun find_index :: "('a \<Rightarrow> bool) \<Rightarrow> 'a list \<Rightarrow> nat option" where
  "find_index P [] = None"
| "find_index P (x # xs) = (if P x then Some 0 else map_option Suc (find_index P xs))"

text \<open>The decoder of \<^verbatim>\<open>@solana/kit\<close> gives the version and the addresses of the required
  signatories, or fails.\<close>

record offchain_message =
  om_version :: nat
  om_signatories :: "string list"

definition getOffchainMessagePublicKeyOffset ::
  "solana_lib \<Rightarrow> (bytes \<Rightarrow> offchain_message option) \<Rightarrow> bytes \<Rightarrow> pubkey \<Rightarrow> nat option" where
  "getOffchainMessagePublicKeyOffset L decode signedMessage publicKey =
     (let address = toBase58 L publicKey in
      case decode signedMessage of
        None \<Rightarrow> None
      | Some message \<Rightarrow>
          (case find_index (\<lambda>signer. signer = address) (om_signatories message) of
             None \<Rightarrow> None
           | Some index \<Rightarrow>
               Some ((if om_version message = 1 then OFFCHAIN_V1_SIGNER_LIST_OFFSET
                      else OFFCHAIN_V0_SIGNER_LIST_OFFSET) + index * ED25519_PUBLIC_KEY_LEN)))"

section \<open>Building the intent\<close>

definition intent_text :: "string \<Rightarrow> (string \<times> string) list \<Rightarrow> (string \<times> string) list option \<Rightarrow> string result" where
  "intent_text header body extra =
     bind_result (case extra of None \<Rightarrow> Inr [] | Some e \<Rightarrow> serializeExtra e)
       (\<lambda>x. Inr (join [newline] [header, serializeKV body, x]))"

text \<open>What a wallet returns for a message to sign.\<close>

record signed_message =
  sm_signature :: bytes
  sm_message :: bytes

record wallet_env =
  signMessage :: "bytes \<Rightarrow> signed_message result"
  decodeOffchainMessage :: "bytes \<Rightarrow> offchain_message option"

definition buildIntentInstruction ::
  "solana_lib \<Rightarrow> wallet_env \<Rightarrow> pubkey \<Rightarrow> string \<Rightarrow> (string \<times> string) list \<Rightarrow> (string \<times> string) list option \<Rightarrow> instruction result" where
  "buildIntentInstruction L W walletPublicKey header body extra =
     bind_result (intent_text header body extra) (\<lambda>text.
     bind_result (signMessage W (utf8 text)) (\<lambda>s.
       case getOffchainMessagePublicKeyOffset L (decodeOffchainMessage W) (sm_message s) walletPublicKey of
         Some off \<Rightarrow> buildEd25519InstructionWithOffsets L (sm_signature s) (sm_message s) (int off)
       | None \<Rightarrow> Inr (createEd25519InstructionWithPublicKey L (sm_message s) (toBytes walletPublicKey) (sm_signature s))))"


section \<open>Reading a key-value text\<close>

definition dashed :: "string \<Rightarrow> bool" where
  "dashed l = (l \<noteq> [] \<and> hd l = CHR ''-'')"

fun break_at :: "char \<Rightarrow> string \<Rightarrow> string \<times> string" where
  "break_at c [] = ([], [])"
| "break_at c (x # xs) = (if x = c then ([], xs) else (let (a, b) = break_at c xs in (x # a, b)))"

definition parse_entry :: "string \<Rightarrow> string \<times> string" where
  "parse_entry t =
     (let (key, rest) = break_at (CHR '':'') t
      in (key, if rest \<noteq> [] \<and> hd rest = CHR '' '' then tl rest else rest))"

function group_lines :: "string list \<Rightarrow> string list list" where
  "group_lines [] = []"
| "group_lines (l # ls) = (l # takeWhile dashed ls) # group_lines (dropWhile dashed ls)"
  by pat_completeness auto
termination
  by (relation "measure length") (auto simp: less_Suc_eq_le length_dropWhile_le)

definition parse_kv :: "string \<Rightarrow> (string \<times> string) list" where
  "parse_kv t = map (\<lambda>g. parse_entry (join [newline] g)) (group_lines (split_on newline t))"

text \<open>Well-formed entries: the key is a name without colon, line break or leading dash, and
  every further line of the value starts with a dash.\<close>

definition wf_key :: "string \<Rightarrow> bool" where
  "wf_key k = (CHR '':'' \<notin> set k \<and> newline \<notin> set k \<and> \<not> dashed k)"

definition wf_value :: "string \<Rightarrow> bool" where
  "wf_value v = list_all dashed (tl (split_on newline v))"

definition wf_record :: "(string \<times> string) list \<Rightarrow> bool" where
  "wf_record d = list_all (\<lambda>(k, v). wf_key k \<and> wf_value v) d"

lemma break_at_append [simp]: "c \<notin> set k \<Longrightarrow> break_at c (k @ c # r) = (k, r)"
  by (induction k) auto

lemma parse_serialize_entry: "CHR '':'' \<notin> set k \<Longrightarrow> parse_entry (serialize_entry (k, v)) = (k, v)"
  by (auto simp: serialize_entry_def parse_entry_def)

lemma split_on_prefix:
  assumes "c \<notin> set u" and "split_on c v = w # ws"
  shows "split_on c (u @ v) = (u @ w) # ws"
  using assms by (induction u) auto

lemma split_on_append_sep: "split_on c (s @ c # t) = split_on c s @ split_on c t"
proof (induction s)
  case (Cons x s)
  obtain w ws where "split_on c s = w # ws" by (cases "split_on c s") auto
  with Cons show ?case by simp
qed simp

lemma split_on_join_map:
  "ds \<noteq> [] \<Longrightarrow> split_on c (join [c] (map f ds)) = concat (map (\<lambda>d. split_on c (f d)) ds)"
  by (induction ds rule: induct_list012) (simp_all add: split_on_append_sep)

lemma split_serialize_entry:
  assumes "wf_key k" and "wf_value v"
  shows "\<exists>h ts. split_on newline (serialize_entry (k, v)) = h # ts \<and> \<not> dashed h \<and> list_all dashed ts"
proof -
  obtain w ws where v: "split_on newline v = w # ws" by (cases "split_on newline v") auto
  let ?u = "k @ '':'' @ (if v \<noteq> [] \<and> hd v = newline then [] else '' '')"
  have u: "newline \<notin> set ?u" using assms(1) by (auto simp: wf_key_def)
  have "serialize_entry (k, v) = ?u @ v" by (simp add: serialize_entry_def)
  then have "split_on newline (serialize_entry (k, v)) = (?u @ w) # ws"
    using split_on_prefix[OF u v] by simp
  moreover have "\<not> dashed (?u @ w)" using assms(1) by (cases k) (auto simp: wf_key_def dashed_def)
  moreover have "list_all dashed ws" using assms(2) v by (simp add: wf_value_def)
  ultimately show ?thesis by blast
qed

lemma group_lines_blocks:
  assumes "list_all (\<lambda>b. b \<noteq> [] \<and> \<not> dashed (hd b) \<and> list_all dashed (tl b)) bs"
  shows "group_lines (concat bs) = bs"
  using assms
proof (induction bs)
  case (Cons b bs)
  then obtain h ts where b: "b = h # ts" by (cases b) auto
  have stop: "takeWhile dashed (concat bs) = []" "dropWhile dashed (concat bs) = concat bs"
    using Cons.prems by (cases bs; cases "hd bs"; auto)+
  have ts: "list_all dashed ts" using Cons.prems b by simp
  then have "takeWhile dashed (ts @ concat bs) = ts" "dropWhile dashed (ts @ concat bs) = concat bs"
    using stop by (simp_all add: list_all_iff takeWhile_append2 dropWhile_append2)
  with Cons b show ?case by simp
qed simp

lemma parse_serializeKV:
  assumes "wf_record d" and "d \<noteq> []"
  shows "parse_kv (serializeKV d) = d"
proof -
  let ?b = "\<lambda>e. split_on newline (serialize_entry e)"
  have wf: "wf_key (fst e) \<and> wf_value (snd e)" if "e \<in> set d" for e
    using assms(1) that by (cases e) (auto simp: wf_record_def list_all_iff)
  have "?b e \<noteq> [] \<and> \<not> dashed (hd (?b e)) \<and> list_all dashed (tl (?b e))" if "e \<in> set d" for e
    using split_serialize_entry[of "fst e" "snd e"] wf[OF that] by auto
  then have "group_lines (concat (map ?b d)) = map ?b d"
    by (intro group_lines_blocks) (simp add: list_all_iff)
  moreover have "parse_entry (join [newline] (?b e)) = e" if "e \<in> set d" for e
    using parse_serialize_entry[of "fst e" "snd e"] wf[OF that] by (simp add: join_split_on wf_key_def)
  ultimately show ?thesis
    using assms(2) by (simp add: parse_kv_def serializeKV_def split_on_join_map map_idI)
qed

text \<open>The interface the intents rely on: a text format that a reader inverts. Whatever reads
  the text back cannot confuse two well-formed records.\<close>

locale record_text =
  fixes wf :: "'r \<Rightarrow> bool" and render :: "'r \<Rightarrow> string" and parse :: "string \<Rightarrow> 'r"
  assumes parse_render: "wf r \<Longrightarrow> parse (render r) = r"
begin

lemma render_inj: "wf r \<Longrightarrow> wf r' \<Longrightarrow> render r = render r' \<Longrightarrow> r = r'"
  by (metis parse_render)

lemma render_framed_inj:
  assumes "wf r" "wf r'" "h @ render r @ t = h @ render r' @ t"
  shows "r = r'"
  using assms render_inj by simp

end

interpretation kv: record_text "\<lambda>d. wf_record d \<and> d \<noteq> []" serializeKV parse_kv
  by unfold_locales (simp add: parse_serializeKV)

lemma intent_text_plain: "intent_text header body None = Inr (header @ [newline] @ serializeKV body @ [newline])"
  by (simp add: intent_text_def)

section \<open>Token lines\<close>

definition token_entry :: "solana_lib \<Rightarrow> TokenInfo \<Rightarrow> string \<times> string" where
  "token_entry L t = (token_label L t, sdk_amountToString (ti_amount t) (ti_decimals t))"

lemma amount_chars: "set (amount_reference n d) \<subseteq> {c. is_dec c \<or> c = CHR ''.''}"
proof -
  have "set (nat_to_string m) \<subseteq> {c. is_dec c}" for m
    using nat_to_string_dec[of m] by (auto simp: list_all_iff)
  moreover have "set (strip_zeros (fixed_digits d n)) \<subseteq> {c. is_dec c}"
    using fixed_digits_dec[of d n] strip_zeros_set[of "fixed_digits d n"] by (auto simp: list_all_iff)
  ultimately show ?thesis by (auto simp: amount_reference_def decimal_suffix_def split: if_splits)
qed

lemma last_colon_split:
  assumes "x @ '': '' @ a = y @ '': '' @ b" and "CHR '':'' \<notin> set a" and "CHR '':'' \<notin> set b"
  shows "x = y \<and> a = b"
proof -
  from assms(1) have "rev a @ '' :'' @ rev x = rev b @ '' :'' @ rev y"
    by (metis (no_types, lifting) append.assoc rev_append rev_rev_ident append_Nil rev.simps append_Cons)
  then have "break_at (CHR '':'') ((rev a @ '' '') @ CHR '':'' # rev x) =
    break_at (CHR '':'') ((rev b @ '' '') @ CHR '':'' # rev y)" by simp
  then show ?thesis
    using assms(2,3) by (subst (asm) (1 2) break_at_append) auto
qed

definition token_shown :: "solana_lib \<Rightarrow> TokenInfo \<Rightarrow> bool" where
  "token_shown L t = (newline \<notin> set (token_label L t) \<and> 0 \<le> ti_amount t)"

lemma token_amount_clean:
  assumes "token_shown L t"
  shows "CHR '':'' \<notin> set (snd (token_entry L t)) \<and> newline \<notin> set (snd (token_entry L t))"
proof -
  obtain n where "ti_amount t = int n" using assms by (metis nonneg_int_cases token_shown_def)
  then show ?thesis using amount_chars[of n "ti_decimals t"]
    by (auto simp: token_entry_def sdk_amountToString_reference)
qed

lemma token_line_inj:
  assumes "token_shown L s" "token_shown L t"
    and "tl (token_line L s) = tl (token_line L t)"
  shows "token_entry L s = token_entry L t"
  using last_colon_split[of "token_label L s" "snd (token_entry L s)" "token_label L t" "snd (token_entry L t)"]
    assms(3) token_amount_clean[OF assms(1)] token_amount_clean[OF assms(2)]
  by (simp add: token_line_def token_entry_def)

lemma token_line_clean: "token_shown L t \<Longrightarrow> newline \<notin> set (tl (token_line L t))"
  using token_amount_clean[of L t] by (simp add: token_line_def token_entry_def token_shown_def)

lemma split_token_lines:
  "list_all (token_shown L) ts \<Longrightarrow>
   split_on newline (concat (map (token_line L) ts)) = [] # map (\<lambda>t. tl (token_line L t)) ts"
proof (induction ts rule: rev_induct)
  case (snoc t ts)
  let ?pre = "concat (map (token_line L) ts)" and ?r = "tl (token_line L t)"
  have "concat (map (token_line L) (ts @ [t])) = ?pre @ newline # ?r"
    by (simp add: token_line_def)
  then have "split_on newline (concat (map (token_line L) (ts @ [t]))) =
      split_on newline ?pre @ split_on newline ?r"
    by (simp only: split_on_append_sep)
  also have "split_on newline ?r = [?r]"
    using snoc.prems by (intro split_on_no_sep token_line_clean) simp
  finally show ?case using snoc by simp
qed simp

lemma token_lines_inj:
  assumes "list_all (token_shown L) ss" "list_all (token_shown L) ts"
    and "concat (map (token_line L) ss) = concat (map (token_line L) ts)"
  shows "map (token_entry L) ss = map (token_entry L) ts"
proof -
  have "map (\<lambda>t. tl (token_line L t)) ss = map (\<lambda>t. tl (token_line L t)) ts"
    using assms split_token_lines by (metis list.sel(3))
  then show ?thesis using assms(1,2)
  proof (induction ss arbitrary: ts)
    case (Cons s ss)
    from Cons.prems(1) obtain t ts' where ts: "ts = t # ts'" by (cases ts) simp_all
    have "token_entry L s = token_entry L t"
      by (rule token_line_inj) (use Cons.prems ts in simp_all)
    moreover have "map (token_entry L) ss = map (token_entry L) ts'"
      by (rule Cons.IH) (use Cons.prems ts in simp_all)
    ultimately show ?case using ts by simp
  qed simp
qed


section \<open>Snake-case keys are well-formed\<close>

lemma snake_case_chars:
  assumes "snake_case k" and "c \<in> set k"
  shows "c = CHR ''_'' \<or> is_lower c \<or> is_dec c"
proof (cases "c = CHR ''_''")
  case False
  then obtain w where w: "w \<in> set (split_on (CHR ''_'') k)" "c \<in> set w"
    using split_on_cover[OF assms(2)] by blast
  then have "w = hd (split_on (CHR ''_'') k) \<or> w \<in> set (tl (split_on (CHR ''_'') k))"
    by (cases "split_on (CHR ''_'') k") auto
  with assms(1) w(2) show ?thesis
    by (auto simp: snake_case_def Let_def list_all_iff)
qed simp

lemma snake_case_wf_key: "snake_case k \<Longrightarrow> wf_key k"
proof -
  assume k: "snake_case k"
  have "CHR '':'' \<notin> set k" "newline \<notin> set k" "CHR ''-'' \<notin> set k"
    using snake_case_chars[OF k] by (fastforce simp: is_lower_def is_dec_def)+
  then show ?thesis by (cases k) (auto simp: wf_key_def dashed_def)
qed

section \<open>Reading an Ed25519 instruction\<close>

text \<open>The layout the Ed25519 program documents for its instruction data: a count, a padding
  byte, and per signature the offsets of signature, public key and message with the index of
  the instruction that holds them.\<close>

record ed25519_view =
  ev_count :: int
  ev_signature :: bytes
  ev_publicKey :: bytes
  ev_message :: bytes
  ev_indices :: "int list"

definition u16_at :: "nat \<Rightarrow> bytes \<Rightarrow> int" where
  "u16_at i d = le_value (subarray i (i + 2) d)"

definition ed25519_read :: "bytes \<Rightarrow> ed25519_view" where
  "ed25519_read d =
    (let so = nat (u16_at 2 d); po = nat (u16_at 6 d); mo = nat (u16_at 10 d); ms = nat (u16_at 12 d)
     in \<lparr>ev_count = le_value (subarray 0 1 d), ev_signature = subarray so (so + 64) d,
         ev_publicKey = subarray po (po + 32) d, ev_message = subarray mo (mo + ms) d,
         ev_indices = [u16_at 4 d, u16_at 8 d, u16_at 14 d]\<rparr>)"

definition ed25519_header :: "int \<Rightarrow> int \<Rightarrow> bytes" where
  "ed25519_header po ms =
     le_bytes 1 1 @ le_bytes 1 0 @ le_bytes 2 16 @ le_bytes 2 0xffff @ le_bytes 2 po @
     le_bytes 2 0xffff @ le_bytes 2 80 @ le_bytes 2 ms @ le_bytes 2 0xffff"

lemma length_ed25519_header [simp]: "length (ed25519_header po ms) = 16"
  by (simp add: ed25519_header_def)

lemma ed25519_data:
  assumes "length sig = 64" and "0 \<le> off" and "off + 32 \<le> int (length msg)"
  shows "buildEd25519InstructionWithOffsets L sig msg off =
    Inr \<lparr>programId = Ed25519Program_programId L, ix_keys = [],
         ix_data = ed25519_header (80 + off) (int (length msg)) @ sig @ msg\<rparr>"
proof -
  let ?ws = "ed25519_writes sig msg off"
  have "tiles 0 ?ws" using assms(1) by (simp add: ed25519_writes_def ed25519_consts Let_def)
  moreover have c: "concat (map snd ?ws) = ed25519_header (80 + off) (int (length msg)) @ sig @ msg"
    using assms(1) by (simp add: ed25519_writes_def ed25519_consts Let_def ed25519_header_def)
  ultimately have "set_all ?ws (replicate (16 + 64 + length msg) 0) =
      Inr (ed25519_header (80 + off) (int (length msg)) @ sig @ msg)"
    using assms(1) set_all_tiles[of ?ws "replicate (16 + 64 + length msg) 0"] by (simp add: c)
  with assms show ?thesis
    by (simp add: buildEd25519InstructionWithOffsets_def ed25519_consts)
qed

lemma subarray_append_left: "j \<le> length xs \<Longrightarrow> subarray i j (xs @ ys) = subarray i j xs"
  by (cases "i \<le> j") (simp_all add: subarray_def)

lemma u16_at_header:
  "u16_at 2 (ed25519_header po ms @ r) = 16" "u16_at 4 (ed25519_header po ms @ r) = 0xffff"
  "u16_at 6 (ed25519_header po ms @ r) = po mod 65536" "u16_at 8 (ed25519_header po ms @ r) = 0xffff"
  "u16_at 10 (ed25519_header po ms @ r) = 80" "u16_at 12 (ed25519_header po ms @ r) = ms mod 65536"
  "u16_at 14 (ed25519_header po ms @ r) = 0xffff"
  by (simp_all add: u16_at_def subarray_append_left ed25519_header_def subarray_def)

lemma count_header: "le_value (subarray 0 (Suc 0) (ed25519_header po ms @ r)) = 1"
  by (simp add: subarray_append_left ed25519_header_def subarray_def)

section \<open>Properties\<close>



text \<open>The checks of \<open>serializeExtra\<close> are enough: whenever it returns, the text reads back as
  the extra record it was given.\<close>

theorem serializeExtra_reads_back:
  assumes "serializeExtra extra = Inr t" and "extra \<noteq> []"
  shows "parse_kv t = extra"
proof -
  have ok: "check_extra extra = Inr ()" and t: "t = serializeKV extra"
    using assms(1) by (auto simp: serializeExtra_def bind_result_eq_Inr)
  from ok have "wf_record extra"
    by (induction extra rule: check_extra.induct)
      (auto simp: wf_record_def wf_value_def split_on_no_sep snake_case_wf_key split: if_splits)
  with assms(2) t show ?thesis by (simp add: kv.parse_render)
qed

theorem serializeExtra_reads_back_witness:
  "\<exists>t. serializeExtra [(''ref_1'', ''a: b'')] = Inr t \<and> parse_kv t = [(''ref_1'', ''a: b'')]"
proof -
  let ?t = "serializeKV [(''ref_1'', ''a: b'')]"
  have "serializeExtra [(''ref_1'', ''a: b'')] = Inr ?t"
    by (simp add: serializeExtra_def snake_case_def is_lower_def is_dec_def)
  from serializeExtra_reads_back[OF this] \<open>serializeExtra _ = _\<close> show ?thesis by simp
qed

text \<open>The permission text determines what the user agrees to. Provided no token label holds
  a line break, two permission texts agree only if both grant everything, both grant nothing,
  or they list the same labels with the same printed amounts in the same order.\<close>

theorem serializeTokenList_faithful:
  assumes "\<forall>ts. s = Some ts \<longrightarrow> list_all (token_shown L) ts"
    and "\<forall>ts. t = Some ts \<longrightarrow> list_all (token_shown L) ts"
    and "serializeTokenList L s = serializeTokenList L t"
  shows "map_option (map (token_entry L)) s = map_option (map (token_entry L)) t"
proof -
  have start: "hd (concat (map (token_line L) ts)) = newline \<and> concat (map (token_line L) ts) \<noteq> []" if "ts \<noteq> []" for ts
    using that by (cases ts) (simp_all add: token_line_def)
  have texts: "hd UNLIMITED_TOKEN_PERMISSIONS_VALUE \<noteq> newline" "hd TOKENLESS_PERMISSIONS_VALUE \<noteq> newline"
    "UNLIMITED_TOKEN_PERMISSIONS_VALUE \<noteq> TOKENLESS_PERMISSIONS_VALUE"
    by (simp_all add: UNLIMITED_TOKEN_PERMISSIONS_VALUE_def TOKENLESS_PERMISSIONS_VALUE_def)
  have neq: "concat (map (token_line L) ts) \<noteq> UNLIMITED_TOKEN_PERMISSIONS_VALUE"
    "concat (map (token_line L) ts) \<noteq> TOKENLESS_PERMISSIONS_VALUE" if "ts \<noteq> []" for ts
    using start[OF that] texts by metis+
  show ?thesis
  proof (cases "\<exists>a b. s = Some a \<and> t = Some b \<and> a \<noteq> [] \<and> b \<noteq> []")
    case True
    then obtain a b where ab: "s = Some a" "t = Some b" "a \<noteq> []" "b \<noteq> []" by blast
    then have "concat (map (token_line L) a) = concat (map (token_line L) b)"
      using assms(3) by (simp add: serializeTokenList_def)
    with ab assms(1,2) token_lines_inj[of L a b] show ?thesis by simp
  next
    case False
    then show ?thesis
      using assms(3) texts(3) neq neq[symmetric]
      by (cases s; cases t) (auto simp: serializeTokenList_def split: if_splits)
  qed
qed

theorem serializeTokenList_faithful_witness:
  "map_option (map (token_entry demo_lib)) None =
   map_option (map (token_entry demo_lib)) (None :: TokenInfo list option) \<and>
   serializeTokenList demo_lib (Some [\<lparr>ti_amount = 15, ti_decimals = 1, ti_metadataAddress = PublicKey [],
     ti_mint = PublicKey [], ti_symbolOrMint = Symbol ''A''\<rparr>]) \<noteq> serializeTokenList demo_lib None"
proof -
  let ?t = "\<lparr>ti_amount = 15, ti_decimals = 1, ti_metadataAddress = PublicKey [],
     ti_mint = PublicKey [], ti_symbolOrMint = Symbol ''A''\<rparr>"
  have "token_shown demo_lib ?t" by (simp add: token_shown_def token_label_def)
  then show ?thesis
    using serializeTokenList_faithful[of "Some [?t]" demo_lib None]
      serializeTokenList_faithful[of None demo_lib None] by fastforce
qed

text \<open>C14: the instruction built for a signer inside the signed message can be read by the Ed25519
  program: it declares one signature, and its offsets select the signature, the 32 bytes of the
  message at the given offset as public key, and the whole message, all in this instruction.\<close>

theorem buildEd25519_reads_back:
  assumes "length sig = 64" and "0 \<le> off" and "off + 32 \<le> int (length msg)" and "80 + length msg < 65536"
  shows "\<exists>ix. buildEd25519InstructionWithOffsets L sig msg off = Inr ix \<and>
    ed25519_read (ix_data ix) =
      \<lparr>ev_count = 1, ev_signature = sig, ev_publicKey = subarray (nat off) (nat off + 32) msg,
       ev_message = msg, ev_indices = [0xffff, 0xffff, 0xffff]\<rparr>"
proof -
  let ?h = "ed25519_header (80 + off) (int (length msg))"
  obtain o' where o': "off = int o'" using assms(2) by (rule nonneg_int_cases)
  have m: "(int o' + 80) mod 65536 = int o' + 80" "int (length msg) mod 65536 = int (length msg)"
    using assms o' by simp_all
  have n: "nat (int o' + 80) = 80 + o'" by simp
  have "subarray 16 80 (?h @ sig @ msg) = sig" "subarray (80 + o') (112 + o') (?h @ sig @ msg) = subarray o' (o' + 32) msg"
    "subarray 80 (80 + length msg) (?h @ sig @ msg) = msg"
    using assms(1) by (simp_all add: subarray_def)
  then show ?thesis
    using ed25519_data[OF assms(1-3), of L] o'
    by (simp add: ed25519_read_def u16_at_header count_header m n Let_def add.commute)
qed

theorem buildEd25519_reads_back_witness:
  "\<exists>ix. buildEd25519InstructionWithOffsets demo_lib (replicate 64 7) (replicate 40 1) 3 = Inr ix \<and>
     ev_publicKey (ed25519_read (ix_data ix)) = replicate 32 1"
  using buildEd25519_reads_back[of "replicate 64 7" 3 "replicate 40 1" demo_lib]
  by (auto simp: subarray_def)

text \<open>The sixteen-bit size field wraps. For a message of 65536 bytes or more the builder still
  succeeds, and the instruction declares a message shorter than the one that was signed.\<close>

theorem buildEd25519_size_wraps:
  assumes "length sig = 64" and "0 \<le> off" and "off + 32 \<le> int (length msg)" and "65536 \<le> length msg"
  shows "\<exists>ix. buildEd25519InstructionWithOffsets L sig msg off = Inr ix \<and>
    u16_at 12 (ix_data ix) = int (length msg) mod 65536 \<and> u16_at 12 (ix_data ix) < int (length msg)"
proof -
  have "int (length msg) mod 65536 < int (length msg)"
    using assms(4) pos_mod_bound[of 65536 "int (length msg)"] by linarith
  then show ?thesis using ed25519_data[OF assms(1-3), of L] by (simp add: u16_at_header)
qed

theorem buildEd25519_size_wraps_witness:
  "\<exists>ix. buildEd25519InstructionWithOffsets demo_lib (replicate 64 7) (replicate 65536 1) 0 = Inr ix \<and>
     u16_at 12 (ix_data ix) = 0"
  using buildEd25519_size_wraps[of "replicate 64 7" 0 "replicate 65536 1" demo_lib] by auto

text \<open>The builder raises exactly for a signature that is not 64 bytes long and for a key that
  would not lie inside the message.\<close>

theorem buildEd25519_errors:
  "isl (buildEd25519InstructionWithOffsets L sig msg off) \<longleftrightarrow>
     \<not> (length sig = 64 \<and> 0 \<le> off \<and> off + 32 \<le> int (length msg))"
proof (cases "length sig = 64 \<and> 0 \<le> off \<and> off + 32 \<le> int (length msg)")
  case True
  then show ?thesis using ed25519_data[of sig off msg L] by simp
next
  case False
  then show ?thesis by (auto simp: buildEd25519InstructionWithOffsets_def ed25519_consts)
qed

end
