(* ===== verification/Wallet_Signing.thy ===== *)
theory Wallet_Signing
  imports Intent_Message
begin

text \<open>
  \<^verbatim>\<open>packages/sessions-sdk-react/src/solana-wallet.ts\<close>: asking a wallet to sign an intent and
  working out which bytes it really signed. The wallet and the signature check of the
  platform are parameters.
\<close>

text \<open>A wallet-standard account and the result of its message-signing feature.\<close>

record sign_output =
  so_signature :: bytes
  so_signedMessage :: bytes

record standard_wallet =
  std_accounts :: "string list"
  std_signMessage :: "string \<Rightarrow> bytes \<Rightarrow> sign_output list result"

text \<open>A Solana wallet adapter. \<open>w_standard\<close> is present when the adapter wraps a compatible
  wallet-standard wallet that offers message signing.\<close>

record solana_wallet =
  w_publicKey :: "pubkey option"
  w_standard :: "standard_wallet option"
  w_signMessage :: "bytes \<Rightarrow> bytes result"

text \<open>The platform: \<^verbatim>\<open>importKey\<close> with \<^verbatim>\<open>verifySignature\<close>, and the length check of \<^verbatim>\<open>signatureBytes\<close>.\<close>

record wallet_crypto =
  verifySignature :: "pubkey \<Rightarrow> bytes \<Rightarrow> bytes \<Rightarrow> bool result"
  signatureBytes :: "bytes \<Rightarrow> bytes result"

definition serializeU16LE :: "nat \<Rightarrow> bytes" where
  "serializeU16LE value = le_bytes 2 (int value)"

definition legacy_offchain_message :: "bytes \<Rightarrow> bytes" where
  "legacy_offchain_message message =
     [0xff] @ utf8 ''solana offchain'' @ [0, 1] @ serializeU16LE (length message) @ message"

definition addLegacyOffchainMessagePrefixToMessageIfNeeded ::
  "wallet_crypto \<Rightarrow> pubkey \<Rightarrow> bytes \<Rightarrow> bytes \<Rightarrow> bytes result" where
  "addLegacyOffchainMessagePrefixToMessageIfNeeded C walletPublicKey signature message =
     bind_result (verifySignature C walletPublicKey signature message) (\<lambda>ok.
       if ok then Inr message
       else bind_result (verifySignature C walletPublicKey signature (legacy_offchain_message message)) (\<lambda>ok'.
         if ok' then Inr (legacy_offchain_message message)
         else Inl (Error ''The signature provided by the browser wallet is not valid'')))"

definition signed_bytes :: "wallet_crypto \<Rightarrow> solana_wallet \<Rightarrow> bytes \<Rightarrow> sign_output \<Rightarrow> bytes result" where
  "signed_bytes C wallet requestedMessage out =
     (if length (so_signedMessage out) = 1 then Inr requestedMessage
      else case w_publicKey wallet of
             Some pk \<Rightarrow> bind_result (signatureBytes C (so_signature out)) (\<lambda>sig.
               addLegacyOffchainMessagePrefixToMessageIfNeeded C pk sig (so_signedMessage out))
           | None \<Rightarrow> Inr (so_signedMessage out))"

definition signWithWallet :: "solana_lib \<Rightarrow> wallet_crypto \<Rightarrow> solana_wallet \<Rightarrow> bytes \<Rightarrow> signed_message result" where
  "signWithWallet L C wallet message =
     (let requestedMessage = message in
      case w_standard wallet of
        Some std \<Rightarrow>
          (case List.find (\<lambda>address. Some address = map_option (toBase58 L) (w_publicKey wallet)) (std_accounts std) of
             None \<Rightarrow> Inl (Error ''Account not found in wallet standard wallet'')
           | Some account \<Rightarrow>
               bind_result (std_signMessage std account message) (\<lambda>outs.
                 case outs of
                   [] \<Rightarrow> Inl (Error ''No signature result returned by wallet'')
                 | out # _ \<Rightarrow>
                     bind_result (signed_bytes C wallet requestedMessage out) (\<lambda>m.
                       Inr \<lparr>sm_signature = so_signature out, sm_message = m\<rparr>)))
      | None \<Rightarrow>
          bind_result (w_signMessage wallet message) (\<lambda>sig.
            Inr \<lparr>sm_signature = sig, sm_message = requestedMessage\<rparr>))"

lemma addLegacy_verified:
  "addLegacyOffchainMessagePrefixToMessageIfNeeded C pk sig m = Inr r \<Longrightarrow>
   verifySignature C pk sig r = Inr True \<and> r \<in> {m, legacy_offchain_message m}"
  by (auto simp: addLegacyOffchainMessagePrefixToMessageIfNeeded_def bind_result_eq_Inr split: if_splits)

section \<open>Properties\<close>


definition demo_wallet :: solana_wallet where
  "demo_wallet = \<lparr>w_publicKey = Some (PublicKey [1]),
     w_standard = Some \<lparr>std_accounts = [toBase58 demo_lib (PublicKey [1])],
       std_signMessage = (\<lambda>a m. Inr [\<lparr>so_signature = [42], so_signedMessage = m\<rparr>])\<rparr>,
     w_signMessage = (\<lambda>m. Inr [])\<rparr>"

definition demo_crypto :: wallet_crypto where
  "demo_crypto = \<lparr>verifySignature = (\<lambda>pk sig m. Inr (length m = 24)), signatureBytes = Inr\<rparr>"


text \<open>The legacy wrapping is the version-zero off-chain format: sixteen bytes of signing domain,
  the version and format bytes, the length of the text in two little-endian bytes (exact below
  65536 bytes), then the text.\<close>

theorem legacy_offchain_layout:
  "length (take OFFCHAIN_SIGNING_DOMAIN_LEN (legacy_offchain_message m)) = 16 \<and>
   take 16 (legacy_offchain_message m) = 0xff # utf8 ''solana offchain'' \<and>
   subarray 16 18 (legacy_offchain_message m) = [0, 1] \<and>
   u16_at 18 (legacy_offchain_message m) = int (length m) mod 65536 \<and>
   drop 20 (legacy_offchain_message m) = m"
  by (simp add: legacy_offchain_message_def serializeU16LE_def utf8_def utf8_char_def subarray_def
      u16_at_def OFFCHAIN_SIGNING_DOMAIN_LEN_def)

end
