(* ===== verification/Connection.thy ===== *)
theory Connection
  imports Instructions
begin

text \<open>
  \<^verbatim>\<open>connection.ts\<close>, \<^verbatim>\<open>context.ts\<close>, \<^verbatim>\<open>paymaster.ts\<close>, \<^verbatim>\<open>network.ts\<close> and \<^verbatim>\<open>mints.ts\<close> of the SDK: how a
  list of instructions becomes a sponsored transaction. The two caches of a connection and
  the resolved Solana connection are the state, passed explicitly. The network (\<open>world\<close>) and
  the functions of \<^verbatim>\<open>@solana/kit\<close> (\<open>kit_lib\<close>) are parameters; what the theorems need of the
  latter is the named hypothesis \<open>kit_documented\<close>.

  In a \<^verbatim>\<open>Promise.all\<close> every branch runs to its end, so every branch's effect on the caches is
  kept even when another branch fails; of several failures the model reports the first in
  the order of the source.
\<close>

section \<open>The parameters\<close>

record key_pair =
  kp_public :: bytes
  kp_private :: bytes
  kp_extractable :: bool

text \<open>An extra signer is a \<^verbatim>\<open>CryptoKeyPair\<close> or a legacy \<^verbatim>\<open>Keypair\<close> given by its secret key.\<close>

datatype any_signer = CryptoKeyPair key_pair | Keypair bytes

datatype key_or_address = KeyOf pubkey | AddressOf string

record http_request =
  rq_base :: string
  rq_path :: string
  rq_query :: "(string \<times> string) list"
  rq_body :: "string option"

record http_response =
  status :: nat
  response_text :: string

record lookup_table =
  lt_key :: pubkey
  lt_addresses :: "pubkey list"

text \<open>A failed transaction carries the \<^verbatim>\<open>InstructionError\<close> of the paymaster or an \<^verbatim>\<open>Error\<close> object.\<close>

datatype TransactionError = InstructionError int string | ErrorObject js_error

datatype sponsor_response = ResponseSuccess string | ResponseFailed string TransactionError

record world =
  fetch :: "http_request \<Rightarrow> http_response result"
  getLatestBlockhash :: "string result"
  rpc_getAddressLookupTable :: "pubkey \<Rightarrow> lookup_table option result"
  getAccountInfo :: "pubkey \<Rightarrow> bytes option result"
  chainIdAddress :: "pubkey option result"
  fetch_chainId :: "pubkey \<Rightarrow> string result"

record kit_instruction =
  programAddress :: string
  kit_accounts :: "(string \<times> bool \<times> bool) list"
  kit_data :: bytes

datatype kit_signer = KitSigner (signer_address: string) (signer_keys: key_pair)

record tx_message =
  tx_feePayer :: "string option"
  tx_blockhash :: "string option"
  tx_instructions :: "kit_instruction list"
  tx_signers :: "kit_signer list"

text \<open>A compiled transaction: the signature slots of its required signers, \<open>None\<close> for \<^verbatim>\<open>null\<close>.\<close>

record kit_transaction =
  ktx_signatures :: "(string \<times> bytes option) list"
  ktx_messageBytes :: bytes

record kit_lib =
  getAddressFromPublicKey :: "bytes \<Rightarrow> string result"
  fromLegacyKeypair :: "bytes \<Rightarrow> key_pair result"
  fromLegacyPublicKey :: "pubkey \<Rightarrow> string"
  fromLegacyTransactionInstruction :: "instruction \<Rightarrow> kit_instruction"
  fromVersionedTransaction :: "bytes \<Rightarrow> kit_transaction"
  createSignerFromKeyPair :: "key_pair \<Rightarrow> kit_signer result"
  createTransactionMessage :: tx_message
  setTransactionMessageFeePayer :: "string \<Rightarrow> tx_message \<Rightarrow> tx_message"
  setTransactionMessageLifetimeUsingBlockhash :: "string \<Rightarrow> tx_message \<Rightarrow> tx_message"
  appendTransactionMessageInstructions :: "kit_instruction list \<Rightarrow> tx_message \<Rightarrow> tx_message"
  compressTransactionMessageUsingAddressLookupTables :: "tx_message \<Rightarrow> string \<Rightarrow> string list \<Rightarrow> tx_message"
  addSignersToTransactionMessage :: "kit_signer list \<Rightarrow> tx_message \<Rightarrow> tx_message"
  partiallySignTransactionMessageWithSigners :: "tx_message \<Rightarrow> kit_transaction result"
  partiallySignTransaction :: "key_pair list \<Rightarrow> kit_transaction \<Rightarrow> kit_transaction result"
  getBase64EncodedWireTransaction :: "kit_transaction \<Rightarrow> string"
  jsonTransaction :: "string \<Rightarrow> string"
  parseSponsorResponse :: "string \<Rightarrow> sponsor_response result"
  parseBN :: "string \<Rightarrow> int result"
  tollbooth_address :: string

text \<open>What the documentation of \<^verbatim>\<open>@solana/kit\<close> says of the functions that build a message: each
  setter changes its own field, appending appends, compression replaces account references
  but neither the program of an instruction nor its order, nor the fee payer.\<close>

definition kit_documented :: "kit_lib \<Rightarrow> bool" where
  "kit_documented K \<longleftrightarrow>
     tx_instructions (createTransactionMessage K) = [] \<and>
     (\<forall>p m. setTransactionMessageFeePayer K p m = m\<lparr>tx_feePayer := Some p\<rparr>) \<and>
     (\<forall>b m. setTransactionMessageLifetimeUsingBlockhash K b m = m\<lparr>tx_blockhash := Some b\<rparr>) \<and>
     (\<forall>is m. appendTransactionMessageInstructions K is m = m\<lparr>tx_instructions := tx_instructions m @ is\<rparr>) \<and>
     (\<forall>m t as. let m' = compressTransactionMessageUsingAddressLookupTables K m t as in
        tx_feePayer m' = tx_feePayer m \<and> tx_blockhash m' = tx_blockhash m \<and>
        map programAddress (tx_instructions m') = map programAddress (tx_instructions m) \<and>
        map kit_data (tx_instructions m') = map kit_data (tx_instructions m)) \<and>
     (\<forall>ss m. addSignersToTransactionMessage K ss m = m\<lparr>tx_signers := ss\<rparr>)"

section \<open>Network constants\<close>

definition USDC_MINT :: "Network \<Rightarrow> string" where
  "USDC_MINT n = (case n of Mainnet \<Rightarrow> ''uSd2czE61Evaf76RNbq4KPpXnkiL3irdzgLFUMe3NoG''
                          | Testnet \<Rightarrow> ''ELNbJ1RtERV2fjtuZjbTscDekWhVzkQ1LjmiPsxp5uND'')"

definition USDC_DECIMALS :: nat where
  "USDC_DECIMALS = 6"

definition DEFAULT_RPC :: "Network \<Rightarrow> string" where
  "DEFAULT_RPC n = (case n of Testnet \<Rightarrow> ''https://testnet.fogo.io'' | Mainnet \<Rightarrow> ''https://mainnet.fogo.io'')"

definition DEFAULT_PAYMASTER :: "Network \<Rightarrow> string" where
  "DEFAULT_PAYMASTER n = (case n of Testnet \<Rightarrow> ''https://fogo-testnet.dourolabs-paymaster.xyz''
                                  | Mainnet \<Rightarrow> ''https://fogo-mainnet.dourolabs-paymaster.xyz'')"

definition NETWORK_TO_QUERY_PARAM :: "Network \<Rightarrow> string" where
  "NETWORK_TO_QUERY_PARAM n = (case n of Mainnet \<Rightarrow> ''mainnet'' | Testnet \<Rightarrow> ''testnet'')"

section \<open>A connection\<close>

datatype TransactionResult = Success string | Failed string TransactionError

record conn_options =
  co_network :: Network
  co_rpc :: "string option"
  co_paymaster :: "string option"
  co_sendToPaymaster :: "(kit_transaction \<Rightarrow> TransactionResult result) option"
  co_sponsor :: "pubkey option"

record conn_state =
  addressLookupTableCache :: "string \<rightharpoonup> lookup_table"
  sponsorCache :: "string \<rightharpoonup> pubkey"
  solanaConnection :: "string option"

text \<open>\<^verbatim>\<open>createSessionConnection\<close>: the RPC url and the empty caches.\<close>

definition createSessionConnection :: "conn_options \<Rightarrow> string \<times> conn_state" where
  "createSessionConnection options =
     ((case co_rpc options of Some u \<Rightarrow> u | None \<Rightarrow> DEFAULT_RPC (co_network options)),
      \<lparr>addressLookupTableCache = Map.empty, sponsorCache = Map.empty, solanaConnection = None\<rparr>)"

definition paymaster_base :: "conn_options \<Rightarrow> string" where
  "paymaster_base options =
     (case co_paymaster options of Some p \<Rightarrow> p | None \<Rightarrow> DEFAULT_PAYMASTER (co_network options))"

definition ok_text :: "http_response \<Rightarrow> string result" where
  "ok_text response = (if status response = 200 then Inr (response_text response)
     else Inl (PaymasterResponseError (status response) (response_text response)))"

definition getPaymasterFee :: "solana_lib \<Rightarrow> kit_lib \<Rightarrow> world \<Rightarrow> string \<Rightarrow> string \<Rightarrow> string \<Rightarrow> pubkey \<Rightarrow> int result" where
  "getPaymasterFee L K W paymaster domain variation mint =
     bind_result (fetch W \<lparr>rq_base = paymaster, rq_path = ''/api/fee'',
        rq_query = [(''domain'', domain), (''variation'', variation), (''mint'', toBase58 L mint)],
        rq_body = None\<rparr>) (\<lambda>response.
     bind_result (ok_text response) (\<lambda>text. parseBN K text))"

definition getSponsor :: "solana_lib \<Rightarrow> conn_options \<Rightarrow> world \<Rightarrow> conn_state \<Rightarrow> string \<Rightarrow> pubkey result \<times> conn_state" where
  "getSponsor L options W st domain =
     (case sponsorCache st domain of
        Some value \<Rightarrow> (Inr value, st)
      | None \<Rightarrow>
          (case bind_result (fetch W \<lparr>rq_base = paymaster_base options, rq_path = ''/api/sponsor_pubkey'',
                    rq_query = [(''domain'', domain), (''index'', ''autoassign'')], rq_body = None\<rparr>) (\<lambda>response.
                  bind_result (ok_text response) (\<lambda>text. parsePublicKey L text)) of
             Inr sponsor \<Rightarrow> (Inr sponsor, st\<lparr>sponsorCache := (sponsorCache st)(domain \<mapsto> sponsor)\<rparr>)
           | Inl e \<Rightarrow> (Inl e, st)))"

definition getAddressLookupTable ::
  "solana_lib \<Rightarrow> world \<Rightarrow> conn_state \<Rightarrow> string \<Rightarrow> lookup_table option result \<times> conn_state" where
  "getAddressLookupTable L W st address =
     (case addressLookupTableCache st address of
        Some value \<Rightarrow> (Inr (Some value), st)
      | None \<Rightarrow>
          (case bind_result (parsePublicKey L address) (rpc_getAddressLookupTable W) of
             Inl e \<Rightarrow> (Inl e, st)
           | Inr None \<Rightarrow> (Inr None, st)
           | Inr (Some table) \<Rightarrow>
               (Inr (Some table),
                st\<lparr>addressLookupTableCache := (addressLookupTableCache st)(address \<mapsto> table)\<rparr>)))"

definition solana_connection_get :: "Network \<Rightarrow> world \<Rightarrow> conn_state \<Rightarrow> string result \<times> conn_state" where
  "solana_connection_get network W st =
     (case solanaConnection st of
        Some connection \<Rightarrow> (Inr connection, st)
      | None \<Rightarrow>
          (case fetch W \<lparr>rq_base = ''https://api.fogo.io/api/solana-rpc'', rq_path = '''',
                   rq_query = [(''network'', NETWORK_TO_QUERY_PARAM network)], rq_body = None\<rparr> of
             Inl e \<Rightarrow> (Inl e, st)
           | Inr response \<Rightarrow>
               if status response = 200
               then (Inr (response_text response), st\<lparr>solanaConnection := Some (response_text response)\<rparr>)
               else (Inl (Error ''Failed to resolve Solana RPC url''), st)))"

section \<open>Building a transaction\<close>

text \<open>What a caller may send: instructions (legacy or kit), a versioned transaction (opaque here)
  or a kit transaction.\<close>

datatype any_instruction = LegacyInstruction instruction | KitInstruction kit_instruction

datatype TransactionOrInstructions =
    TxInstructions "any_instruction list" | TxVersioned bytes | TxKit kit_transaction

record SendTransactionOptions =
  so_variation :: "string option"
  so_addressLookupTable :: "string option"
  so_extraSigners :: "any_signer list option"
  so_feeMint :: "key_or_address option"
  so_paymasterDomain :: "string option"

definition to_kit :: "kit_lib \<Rightarrow> any_instruction \<Rightarrow> kit_instruction" where
  "to_kit K i = (case i of LegacyInstruction l \<Rightarrow> fromLegacyTransactionInstruction K l | KitInstruction k \<Rightarrow> k)"

definition newPublicKey :: "solana_lib \<Rightarrow> key_or_address \<Rightarrow> pubkey result" where
  "newPublicKey L k = (case k of KeyOf p \<Rightarrow> Inr p | AddressOf s \<Rightarrow> parsePublicKey L s)"

definition signer_to_key :: "kit_lib \<Rightarrow> any_signer \<Rightarrow> key_pair result" where
  "signer_to_key K s = (case s of CryptoKeyPair k \<Rightarrow> Inr k | Keypair secret \<Rightarrow> fromLegacyKeypair K secret)"

definition getSignerKeys :: "kit_lib \<Rightarrow> key_pair option \<Rightarrow> any_signer list option \<Rightarrow> key_pair list result" where
  "getSignerKeys K sessionKey extraSigners =
     bind_result (case extraSigners of None \<Rightarrow> Inr [] | Some ss \<Rightarrow> traverse (signer_to_key K) ss) (\<lambda>extra.
     Inr (extra @ (case sessionKey of None \<Rightarrow> [] | Some k \<Rightarrow> [k])))"

definition buildTollboothInstructionIfNeeded ::
  "solana_lib \<Rightarrow> kit_lib \<Rightarrow> string \<Rightarrow> int \<Rightarrow> pubkey option \<Rightarrow> string option \<Rightarrow> pubkey \<Rightarrow> kit_instruction option result" where
  "buildTollboothInstructionIfNeeded L K domain feeAmount feeMint sessionKeyAddress walletPublicKey =
     (case (sessionKeyAddress, feeMint) of
        (Some address, Some mint) \<Rightarrow>
          if feeAmount > 0
          then bind_result (parsePublicKey L address) (\<lambda>sessionKey.
               bind_result (createPaymasterFeeInstruction L sessionKey walletPublicKey domain mint feeAmount) (\<lambda>i.
               Inr (Some (fromLegacyTransactionInstruction K i))))
          else Inr None
      | _ \<Rightarrow> Inr None)"

text \<open>The \<^verbatim>\<open>pipe\<close> of \<^verbatim>\<open>buildTransaction\<close>.\<close>

definition append_tollbooth :: "kit_lib \<Rightarrow> kit_instruction option \<Rightarrow> tx_message \<Rightarrow> tx_message" where
  "append_tollbooth K tollbooth tx =
     (case tollbooth of
        None \<Rightarrow> tx
      | Some i \<Rightarrow> if list_ex (\<lambda>j. programAddress j = tollbooth_address K) (tx_instructions tx) then tx
                  else appendTransactionMessageInstructions K [i] tx)"

definition compress_with :: "kit_lib \<Rightarrow> lookup_table option \<Rightarrow> tx_message \<Rightarrow> tx_message" where
  "compress_with K table tx =
     (case table of
        None \<Rightarrow> tx
      | Some t \<Rightarrow> compressTransactionMessageUsingAddressLookupTables K tx (fromLegacyPublicKey K (lt_key t))
                    (map (fromLegacyPublicKey K) (lt_addresses t)))"

definition transaction_message ::
  "kit_lib \<Rightarrow> pubkey \<Rightarrow> string \<Rightarrow> any_instruction list \<Rightarrow> kit_instruction option \<Rightarrow> lookup_table option \<Rightarrow>
   kit_signer list \<Rightarrow> tx_message" where
  "transaction_message K sponsor blockhash instructions tollbooth table signers =
     addSignersToTransactionMessage K signers
       (compress_with K table
         (append_tollbooth K tollbooth
           (appendTransactionMessageInstructions K (map (to_kit K) instructions)
             (setTransactionMessageLifetimeUsingBlockhash K blockhash
               (setTransactionMessageFeePayer K (fromLegacyPublicKey K sponsor) (createTransactionMessage K))))))"

definition fee_amount ::
  "solana_lib \<Rightarrow> kit_lib \<Rightarrow> conn_options \<Rightarrow> world \<Rightarrow> string \<Rightarrow> string option \<Rightarrow> pubkey option \<Rightarrow> int result" where
  "fee_amount L K options W domain variation feeMint =
     (case (variation, feeMint) of
        (Some v, Some mint) \<Rightarrow> getPaymasterFee L K W (paymaster_base options) domain v mint
      | _ \<Rightarrow> Inr 0)"

definition resolve_sponsor :: "solana_lib \<Rightarrow> conn_options \<Rightarrow> world \<Rightarrow> conn_state \<Rightarrow> string \<Rightarrow> pubkey result \<times> conn_state" where
  "resolve_sponsor L options W st domain =
     (case co_sponsor options of None \<Rightarrow> getSponsor L options W st domain | Some s \<Rightarrow> (Inr s, st))"

definition resolve_table :: "solana_lib \<Rightarrow> world \<Rightarrow> conn_state \<Rightarrow> string option \<Rightarrow> lookup_table option result \<times> conn_state" where
  "resolve_table L W st address =
     (case address of None \<Rightarrow> (Inr None, st) | Some a \<Rightarrow> getAddressLookupTable L W st a)"

definition sign_built ::
  "solana_lib \<Rightarrow> kit_lib \<Rightarrow> string \<Rightarrow> pubkey \<Rightarrow> any_instruction list \<Rightarrow> pubkey option \<Rightarrow>
   string \<Rightarrow> pubkey \<Rightarrow> lookup_table option \<Rightarrow> kit_signer list \<Rightarrow> int \<Rightarrow> string option \<Rightarrow> kit_transaction result" where
  "sign_built L K domain walletPublicKey instructions feeMint blockhash sponsor table signers feeAmount sessionKeyAddress =
     bind_result (buildTollboothInstructionIfNeeded L K domain feeAmount feeMint sessionKeyAddress walletPublicKey) (\<lambda>tollbooth.
     partiallySignTransactionMessageWithSigners K
       (transaction_message K sponsor blockhash instructions tollbooth table signers))"

definition buildTransaction ::
  "solana_lib \<Rightarrow> kit_lib \<Rightarrow> conn_options \<Rightarrow> world \<Rightarrow> conn_state \<Rightarrow> string \<Rightarrow> key_pair option \<Rightarrow> key_pair list \<Rightarrow>
   any_instruction list \<Rightarrow> pubkey \<Rightarrow> SendTransactionOptions \<Rightarrow> kit_transaction result \<times> conn_state" where
  "buildTransaction L K options W st domain sessionKey signerKeys instructions walletPublicKey extraConfig =
     (case (case so_feeMint extraConfig of None \<Rightarrow> Inr None | Some m \<Rightarrow> bind_result (newPublicKey L m) (\<lambda>p. Inr (Some p))) of
        Inl e \<Rightarrow> (Inl e, st)
      | Inr feeMint \<Rightarrow>
          let (sponsor, st1) = resolve_sponsor L options W st domain;
              (table, st2) = resolve_table L W st1 (so_addressLookupTable extraConfig)
          in (bind_result (getLatestBlockhash W) (\<lambda>blockhash.
              bind_result sponsor (\<lambda>sp.
              bind_result table (\<lambda>tb.
              bind_result (traverse (createSignerFromKeyPair K) signerKeys) (\<lambda>signers.
              bind_result (fee_amount L K options W domain (so_variation extraConfig) feeMint) (\<lambda>fee.
              bind_result (case sessionKey of None \<Rightarrow> Inr None
                 | Some k \<Rightarrow> bind_result (getAddressFromPublicKey K (kp_public k)) (\<lambda>a. Inr (Some a))) (\<lambda>sessionKeyAddress.
              sign_built L K domain walletPublicKey instructions feeMint blockhash sp tb signers fee sessionKeyAddress)))))),
              st2))"

definition addSignaturesToExistingTransaction ::
  "kit_lib \<Rightarrow> kit_transaction \<Rightarrow> key_pair list \<Rightarrow> kit_transaction result" where
  "addSignaturesToExistingTransaction K tx signerKeys =
     bind_result (traverse (\<lambda>signer. bind_result (getAddressFromPublicKey K (kp_public signer)) (\<lambda>a. Inr (signer, a))) signerKeys)
       (\<lambda>signerAddresses.
     partiallySignTransaction K
       (map fst (filter (\<lambda>(_, address). address \<in> set (map fst (ktx_signatures tx))) signerAddresses)) tx)"

definition response_transform :: "sponsor_response \<Rightarrow> TransactionResult" where
  "response_transform d = (case d of ResponseSuccess s \<Rightarrow> Success s | ResponseFailed s e \<Rightarrow> Failed s e)"

definition post_transaction ::
  "kit_lib \<Rightarrow> conn_options \<Rightarrow> world \<Rightarrow> string \<Rightarrow> string option \<Rightarrow> kit_transaction \<Rightarrow> TransactionResult result" where
  "post_transaction K options W domain variation tx =
     (case co_sendToPaymaster options of
        Some send \<Rightarrow> send tx
      | None \<Rightarrow>
          bind_result (fetch W \<lparr>rq_base = paymaster_base options, rq_path = ''/api/sponsor_and_send'',
             rq_query = (''domain'', domain) # (case variation of None \<Rightarrow> [] | Some v \<Rightarrow> [(''variation'', v)]),
             rq_body = Some (jsonTransaction K (getBase64EncodedWireTransaction K tx))\<rparr>) (\<lambda>response.
          bind_result (ok_text response) (\<lambda>text.
          bind_result (parseSponsorResponse K text) (\<lambda>d. Inr (response_transform d)))))"

definition built_or_signed ::
  "solana_lib \<Rightarrow> kit_lib \<Rightarrow> conn_options \<Rightarrow> world \<Rightarrow> conn_state \<Rightarrow> string \<Rightarrow> key_pair option \<Rightarrow> key_pair list \<Rightarrow>
   TransactionOrInstructions \<Rightarrow> pubkey \<Rightarrow> SendTransactionOptions \<Rightarrow> kit_transaction result \<times> conn_state" where
  "built_or_signed L K options W st domain sessionKey signerKeys instructions walletPublicKey extraConfig =
     (case instructions of
        TxInstructions is \<Rightarrow> buildTransaction L K options W st domain sessionKey signerKeys is walletPublicKey extraConfig
      | TxVersioned v \<Rightarrow> (addSignaturesToExistingTransaction K (fromVersionedTransaction K v) signerKeys, st)
      | TxKit tx \<Rightarrow> (addSignaturesToExistingTransaction K tx signerKeys, st))"

definition sendToPaymaster ::
  "solana_lib \<Rightarrow> kit_lib \<Rightarrow> conn_options \<Rightarrow> world \<Rightarrow> conn_state \<Rightarrow> string \<Rightarrow> key_pair option \<Rightarrow>
   TransactionOrInstructions \<Rightarrow> pubkey \<Rightarrow> SendTransactionOptions \<Rightarrow> TransactionResult result \<times> conn_state" where
  "sendToPaymaster L K options W st domain sessionKey instructions walletPublicKey extraConfig =
     (case getSignerKeys K sessionKey (so_extraSigners extraConfig) of
        Inl e \<Rightarrow> (Inl e, st)
      | Inr signerKeys \<Rightarrow>
          let (tx, st') = built_or_signed L K options W st domain sessionKey signerKeys instructions walletPublicKey extraConfig
          in (bind_result tx (post_transaction K options W domain (so_variation extraConfig)), st'))"

section \<open>The session context\<close>

definition SESSIONS_INTERNAL_PAYMASTER_DOMAIN :: string where
  "SESSIONS_INTERNAL_PAYMASTER_DOMAIN = ''sessions''"

text \<open>\<open>origin\<close> is \<^verbatim>\<open>globalThis.location.origin\<close> in a browser and \<open>None\<close> elsewhere.\<close>

definition getDomain :: "string option \<Rightarrow> string option \<Rightarrow> string result" where
  "getDomain origin requestedDomain =
     (case requestedDomain of
        Some d \<Rightarrow> Inr d
      | None \<Rightarrow> (case origin of Some d \<Rightarrow> Inr d | None \<Rightarrow> Inl DomainRequiredError))"

definition fetchChainId :: "world \<Rightarrow> string result" where
  "fetchChainId W =
     bind_result (chainIdAddress W) (\<lambda>a.
       case a of None \<Rightarrow> Inl NoChainIdAddressError | Some address \<Rightarrow> fetch_chainId W address)"

record SessionContext =
  chainId :: string
  ctx_options :: conn_options
  ctx_domain :: string
  internalPayer :: pubkey
  ctx_network :: Network
  payer :: pubkey
  defaultAddressLookupTableAddress :: "string option"

definition createSessionContext ::
  "solana_lib \<Rightarrow> conn_options \<Rightarrow> string option \<Rightarrow> world \<Rightarrow> conn_state \<Rightarrow> string option \<Rightarrow> string option \<Rightarrow>
   SessionContext result \<times> conn_state" where
  "createSessionContext L options origin W st defaultTable requestedDomain =
     (case getDomain origin requestedDomain of
        Inl e \<Rightarrow> (Inl e, st)
      | Inr domain \<Rightarrow>
          let (sponsor, st1) = getSponsor L options W st domain;
              (internal, st2) = getSponsor L options W st1 SESSIONS_INTERNAL_PAYMASTER_DOMAIN
          in (bind_result sponsor (\<lambda>sp.
              bind_result internal (\<lambda>int.
              bind_result (fetchChainId W) (\<lambda>chain.
              Inr \<lparr>chainId = chain, ctx_options = options, ctx_domain = domain, internalPayer = int,
                   ctx_network = co_network options, payer = sp,
                   defaultAddressLookupTableAddress = defaultTable\<rparr>))),
              st2))"

definition no_options :: SendTransactionOptions where
  "no_options = \<lparr>so_variation = None, so_addressLookupTable = None, so_extraSigners = None,
     so_feeMint = None, so_paymasterDomain = None\<rparr>"

text \<open>The \<^verbatim>\<open>sendTransaction\<close> of a context: the connection and the world it talks to are the model's
  parameters.\<close>

definition context_sendTransaction ::
  "solana_lib \<Rightarrow> kit_lib \<Rightarrow> SessionContext \<Rightarrow> world \<Rightarrow> conn_state \<Rightarrow> key_pair option \<Rightarrow>
   TransactionOrInstructions \<Rightarrow> pubkey \<Rightarrow> SendTransactionOptions \<Rightarrow> TransactionResult result \<times> conn_state" where
  "context_sendTransaction L K ctx W st sessionKey instructions walletPublicKey sendTxOptions =
     sendToPaymaster L K (ctx_options ctx) W st
       (case so_paymasterDomain sendTxOptions of Some d \<Rightarrow> d | None \<Rightarrow> ctx_domain ctx)
       sessionKey instructions walletPublicKey
       (sendTxOptions\<lparr>so_addressLookupTable :=
          (case so_addressLookupTable sendTxOptions of
             Some t \<Rightarrow> Some t | None \<Rightarrow> defaultAddressLookupTableAddress ctx)\<rparr>)"

section \<open>Read-through caches\<close>

text \<open>Later calls, each against a network of its own.\<close>

fun run_ops :: "('w \<Rightarrow> 's \<Rightarrow> 'k \<Rightarrow> 'r \<times> 's) \<Rightarrow> ('w \<times> 'k) list \<Rightarrow> 's \<Rightarrow> 's" where
  "run_ops f [] s = s"
| "run_ops f ((w, k) # ops) s = run_ops f ops (snd (f w s k))"

locale read_through =
  fixes peek :: "'s \<Rightarrow> 'k \<Rightarrow> 'v option"
    and get :: "'w \<Rightarrow> 's \<Rightarrow> 'k \<Rightarrow> 'v option result \<times> 's"
  assumes hit: "peek s k = Some v \<Longrightarrow> get w s k = (Inr (Some v), s)"
    and fill: "get w s k = (Inr (Some v), s') \<Longrightarrow> peek s' k = Some v"
    and miss: "\<forall>v. fst (get w s k) \<noteq> Inr (Some v) \<Longrightarrow> snd (get w s k) = s"
    and keep: "peek s j = Some v \<Longrightarrow> peek (snd (get w s k)) j = Some v"
begin

lemma run_keep: "peek s j = Some v \<Longrightarrow> peek (run_ops get ops s) j = Some v"
proof (induction ops arbitrary: s)
  case (Cons op ops)
  then show ?case by (cases op) (auto intro: keep)
qed simp

lemma stable:
  assumes "get w s k = (Inr (Some v), s')"
  shows "fst (get w' (run_ops get ops s') k) = Inr (Some v)"
  using hit[OF run_keep[OF fill[OF assms]]] by simp

lemma keep_result: "peek s k = Some v \<Longrightarrow> fst (get w s k) = Inr (Some v) \<and> snd (get w s k) = s"
  by (simp add: hit)

end

definition getSponsor_opt :: "solana_lib \<Rightarrow> conn_options \<Rightarrow> world \<Rightarrow> conn_state \<Rightarrow> string \<Rightarrow> pubkey option result \<times> conn_state" where
  "getSponsor_opt L options W st domain =
     (let (r, st') = getSponsor L options W st domain in (bind_result r (\<lambda>p. Inr (Some p)), st'))"

lemma getSponsor_opt_fst: "fst (getSponsor_opt L options W st d) = Inr (Some p) \<longleftrightarrow> fst (getSponsor L options W st d) = Inr p"
  by (auto simp: getSponsor_opt_def bind_result_eq_Inr split: prod.splits)

lemma getSponsor_opt_snd [simp]: "snd (getSponsor_opt L options W st d) = snd (getSponsor L options W st d)"
  by (simp add: getSponsor_opt_def split: prod.splits)

definition solana_connection_opt :: "Network \<Rightarrow> world \<Rightarrow> conn_state \<Rightarrow> unit \<Rightarrow> string option result \<times> conn_state" where
  "solana_connection_opt network W st u =
     (let (r, st') = solana_connection_get network W st in (bind_result r (\<lambda>p. Inr (Some p)), st'))"

interpretation sponsors: read_through sponsorCache "getSponsor_opt L options" for L options
  by unfold_locales
    (auto simp: getSponsor_opt_def getSponsor_def Let_def bind_result_def
      split: option.splits sum.splits prod.splits)

interpretation tables: read_through addressLookupTableCache "getAddressLookupTable L" for L
  by unfold_locales
    (auto simp: getAddressLookupTable_def split: option.splits sum.splits)

interpretation solana: read_through "\<lambda>s _. solanaConnection s" "solana_connection_opt network" for network
  by unfold_locales
    (auto simp: solana_connection_opt_def solana_connection_get_def Let_def bind_result_def
      split: option.splits sum.splits prod.splits if_splits)

section \<open>The caches only grow\<close>

definition cache_le :: "conn_state \<Rightarrow> conn_state \<Rightarrow> bool" where
  "cache_le st st' \<longleftrightarrow> sponsorCache st \<subseteq>\<^sub>m sponsorCache st' \<and>
     addressLookupTableCache st \<subseteq>\<^sub>m addressLookupTableCache st' \<and>
     (solanaConnection st \<noteq> None \<longrightarrow> solanaConnection st' = solanaConnection st)"

lemma cache_le_refl [simp, intro]: "cache_le st st"
  by (simp add: cache_le_def)

lemma cache_le_trans [trans]: "cache_le a b \<Longrightarrow> cache_le b c \<Longrightarrow> cache_le a c"
  by (auto simp: cache_le_def intro: map_le_trans)

lemma map_le_upd_new: "m k = None \<Longrightarrow> m \<subseteq>\<^sub>m m(k \<mapsto> v)"
  by (auto simp: map_le_def)

lemma getSponsor_grows: "cache_le st (snd (getSponsor L options W st d))"
  by (auto simp: getSponsor_def cache_le_def map_le_upd_new split: option.splits sum.splits)

lemma getAddressLookupTable_grows: "cache_le st (snd (getAddressLookupTable L W st a))"
  by (auto simp: getAddressLookupTable_def cache_le_def map_le_upd_new split: option.splits sum.splits)

lemma resolve_sponsor_grows: "cache_le st (snd (resolve_sponsor L options W st d))"
  by (simp add: resolve_sponsor_def getSponsor_grows split: option.splits)

lemma resolve_table_grows: "cache_le st (snd (resolve_table L W st a))"
  by (simp add: resolve_table_def getAddressLookupTable_grows split: option.splits)

lemma buildTransaction_grows: "cache_le st (snd (buildTransaction L K options W st d sk ks is w cfg))"
  using cache_le_trans[OF resolve_sponsor_grows resolve_table_grows]
  by (auto simp: buildTransaction_def Let_def case_prod_beta split: sum.splits)

lemma getSponsor_fills: "getSponsor L options W st d = (Inr p, st') \<Longrightarrow> sponsorCache st' d = Some p"
  using sponsors.fill[of L options W st d p st'] by (simp add: getSponsor_opt_def)

lemma sponsor_cached:
  assumes "getSponsor L options W st d = (Inr p, st')" and "cache_le st' st''"
  shows "getSponsor L options W' st'' d = (Inr p, st'')"
proof -
  have "sponsorCache st'' d = Some p"
    using getSponsor_fills[OF assms(1)] assms(2) unfolding cache_le_def map_le_def by force
  then show ?thesis by (simp add: getSponsor_def)
qed

section \<open>The shape of a built message\<close>

lemma program_present: "list_ex (\<lambda>j. programAddress j = a) xs \<longleftrightarrow> a \<in> programAddress ` set xs"
  by (auto simp: list_ex_iff)

lemma kit_documentedD:
  assumes "kit_documented K"
  shows "tx_feePayer (transaction_message K sp b is toll tb ss) = Some (fromLegacyPublicKey K sp)"
    and "tx_blockhash (transaction_message K sp b is toll tb ss) = Some b"
    and "map programAddress (tx_instructions (transaction_message K sp b is toll tb ss)) =
      map programAddress (map (to_kit K) is) @
      (case toll of None \<Rightarrow> [] | Some i \<Rightarrow>
         if tollbooth_address K \<in> set (map programAddress (map (to_kit K) is)) then [] else [programAddress i])"
  using assms
  by (auto simp: kit_documented_def transaction_message_def compress_with_def append_tollbooth_def Let_def program_present image_comp
      split: option.splits)

definition toll_due ::
  "solana_lib \<Rightarrow> kit_lib \<Rightarrow> conn_options \<Rightarrow> world \<Rightarrow> string \<Rightarrow> key_pair option \<Rightarrow> SendTransactionOptions \<Rightarrow> bool" where
  "toll_due L K options W domain sessionKey cfg \<longleftrightarrow> sessionKey \<noteq> None \<and>
     (\<exists>v m mint fee. so_variation cfg = Some v \<and> so_feeMint cfg = Some m \<and> newPublicKey L m = Inr mint \<and>
        getPaymasterFee L K W (paymaster_base options) domain v mint = Inr fee \<and> 0 < fee)"

definition tollbooth_documented :: "solana_lib \<Rightarrow> kit_lib \<Rightarrow> bool" where
  "tollbooth_documented L K \<longleftrightarrow> (\<forall>c i. anchor_instruction L c = Inr i \<longrightarrow> call_program c = ''tollbooth'' \<longrightarrow>
     programAddress (fromLegacyTransactionInstruction K i) = tollbooth_address K)"

lemma toll_of_tollbooth:
  assumes "tollbooth_documented L K"
    and "buildTollboothInstructionIfNeeded L K domain fee mint addr wallet = Inr toll"
  shows "case toll of None \<Rightarrow> \<not> (0 < fee \<and> mint \<noteq> None \<and> addr \<noteq> None)
     | Some i \<Rightarrow> 0 < fee \<and> mint \<noteq> None \<and> addr \<noteq> None \<and> programAddress i = tollbooth_address K"
  using assms
  by (auto simp: buildTollboothInstructionIfNeeded_def tollbooth_documented_def createPaymasterFeeInstruction_def
      Let_def bind_result_eq_Inr split: option.splits if_splits)

lemma buildTransaction_cases:
  assumes "buildTransaction L K options W st domain sessionKey ks is wallet cfg = (Inr tx, st')"
  obtains feeMint sp tb b ss fee addr toll where
    "case so_feeMint cfg of None \<Rightarrow> feeMint = None | Some m \<Rightarrow> (\<exists>mint. newPublicKey L m = Inr mint \<and> feeMint = Some mint)"
    "fst (resolve_sponsor L options W st domain) = Inr sp"
    "getLatestBlockhash W = Inr b"
    "fee_amount L K options W domain (so_variation cfg) feeMint = Inr fee"
    "addr = None \<longleftrightarrow> sessionKey = None"
    "buildTollboothInstructionIfNeeded L K domain fee feeMint addr wallet = Inr toll"
    "partiallySignTransactionMessageWithSigners K (transaction_message K sp b is toll tb ss) = Inr tx"
  using assms
  by (fastforce simp: buildTransaction_def sign_built_def Let_def case_prod_beta bind_result_eq_Inr
      split: option.splits sum.splits)

lemma toll_due_iff:
  assumes "case so_feeMint cfg of None \<Rightarrow> feeMint = None | Some m \<Rightarrow> (\<exists>mint. newPublicKey L m = Inr mint \<and> feeMint = Some mint)"
    and "fee_amount L K options W domain (so_variation cfg) feeMint = Inr fee"
  shows "toll_due L K options W domain sessionKey cfg \<longleftrightarrow> 0 < fee \<and> feeMint \<noteq> None \<and> sessionKey \<noteq> None"
  using assms by (auto simp: toll_due_def fee_amount_def split: option.splits)

section \<open>Properties\<close>

text \<open>The sponsor of a domain is settled by the first successful answer. Once
  \<^verbatim>\<open>getSponsor\<close> returned a key, after any later sequence of sponsor requests, whatever the
  paymaster then answers, it returns the same key and asks nothing.\<close>

theorem sponsor_settled:
  assumes "getSponsor L options W st d = (Inr p, st')"
  shows "fst (getSponsor L options W' (run_ops (getSponsor_opt L options) ops st') d) = Inr p"
proof -
  from assms have "getSponsor_opt L options W st d = (Inr (Some p), st')"
    by (simp add: getSponsor_opt_def)
  from sponsors.stable[OF this] show ?thesis by (simp add: getSponsor_opt_fst)
qed

definition demo_world :: "pubkey \<Rightarrow> world" where
  "demo_world p = \<lparr>fetch = (\<lambda>r. Inr \<lparr>status = 200, response_text = ''7''\<rparr>), getLatestBlockhash = Inr ''h'',
     rpc_getAddressLookupTable = (\<lambda>k. Inr None), getAccountInfo = (\<lambda>k. Inr None),
     chainIdAddress = Inr (Some p), fetch_chainId = (\<lambda>k. Inr ''fogo'')\<rparr>"

definition demo_kit :: kit_lib where
  "demo_kit = \<lparr>getAddressFromPublicKey = (\<lambda>b. Inr ''A''),
     fromLegacyKeypair = (\<lambda>b. Inr \<lparr>kp_public = b, kp_private = b, kp_extractable = False\<rparr>),
     fromLegacyPublicKey = toBase58 demo_lib,
     fromLegacyTransactionInstruction = (\<lambda>i. \<lparr>programAddress = toBase58 demo_lib (programId i), kit_accounts = [], kit_data = ix_data i\<rparr>),
     fromVersionedTransaction = (\<lambda>b. \<lparr>ktx_signatures = [], ktx_messageBytes = b\<rparr>),
     createSignerFromKeyPair = (\<lambda>k. Inr (KitSigner ''A'' k)),
     createTransactionMessage = \<lparr>tx_feePayer = None, tx_blockhash = None, tx_instructions = [], tx_signers = []\<rparr>,
     setTransactionMessageFeePayer = (\<lambda>p m. m\<lparr>tx_feePayer := Some p\<rparr>),
     setTransactionMessageLifetimeUsingBlockhash = (\<lambda>b m. m\<lparr>tx_blockhash := Some b\<rparr>),
     appendTransactionMessageInstructions = (\<lambda>is m. m\<lparr>tx_instructions := tx_instructions m @ is\<rparr>),
     compressTransactionMessageUsingAddressLookupTables = (\<lambda>m t as. m),
     addSignersToTransactionMessage = (\<lambda>ss m. m\<lparr>tx_signers := ss\<rparr>),
     partiallySignTransactionMessageWithSigners = (\<lambda>m. Inr \<lparr>ktx_signatures = [], ktx_messageBytes = concat (map kit_data (tx_instructions m))\<rparr>),
     partiallySignTransaction = (\<lambda>ks t. if \<forall>k \<in> set ks. ''A'' \<in> set (map fst (ktx_signatures t))
        then Inr (t\<lparr>ktx_signatures := [(''A'', Some [1])]\<rparr>) else Inl (Error ''not a signer'')),
     getBase64EncodedWireTransaction = (\<lambda>t. ''tx''),
     jsonTransaction = (\<lambda>t. t),
     parseSponsorResponse = (\<lambda>t. Inr (ResponseSuccess t)),
     parseBN = (\<lambda>t. Inr 5),
     tollbooth_address = toBase58 demo_lib (PublicKey (utf8 ''tollbooth''))\<rparr>"

definition demo_options :: "pubkey option \<Rightarrow> conn_options" where
  "demo_options sponsor = \<lparr>co_network = Testnet, co_rpc = None, co_paymaster = None,
     co_sendToPaymaster = None, co_sponsor = sponsor\<rparr>"

abbreviation demo_state :: conn_state where
  "demo_state \<equiv> snd (createSessionConnection (demo_options None))"

abbreviation demo_key :: key_pair where
  "demo_key \<equiv> \<lparr>kp_public = [1], kp_private = [2], kp_extractable = False\<rparr>"

lemma demo_kit_documented: "kit_documented demo_kit"
  by (simp add: kit_documented_def demo_kit_def Let_def)

lemma demo_tollbooth_documented: "tollbooth_documented demo_lib demo_kit"
  by (auto simp: tollbooth_documented_def demo_kit_def demo_lib_def)

lemmas demo_run = demo_world_def demo_kit_def demo_options_def demo_lib_def createSessionConnection_def
  getSponsor_def getSponsor_opt_def ok_text_def paymaster_base_def DEFAULT_PAYMASTER_def

theorem sponsor_settled_witness:
  "fst (getSponsor demo_lib (demo_options None) ((demo_world (PublicKey [1]))\<lparr>fetch := \<lambda>r. Inl AbortError\<rparr>)
     (run_ops (getSponsor_opt demo_lib (demo_options None)) [(demo_world (PublicKey [2]), ''other'')]
       (snd (getSponsor demo_lib (demo_options None) (demo_world (PublicKey [1])) demo_state ''app''))) ''app'')
   = Inr (PublicKey (utf8 ''7''))"
  by (rule sponsor_settled[of demo_lib "demo_options None" "demo_world (PublicKey [1])" demo_state "''app''"])
    (simp add: demo_run)


abbreviation demo_fee_options :: SendTransactionOptions where
  "demo_fee_options \<equiv> no_options\<lparr>so_variation := Some ''v'', so_feeMint := Some (KeyOf (PublicKey [3]))\<rparr>"

abbreviation demo_build :: "any_instruction list \<Rightarrow> kit_transaction result \<times> conn_state" where
  "demo_build is \<equiv> buildTransaction demo_lib demo_kit (demo_options None) (demo_world (PublicKey [1])) demo_state
     ''app'' (Some demo_key) [demo_key] is (PublicKey [8]) demo_fee_options"

lemmas demo_build_run = demo_run buildTransaction_def resolve_sponsor_def resolve_table_def sign_built_def
  fee_amount_def getPaymasterFee_def newPublicKey_def no_options_def buildTollboothInstructionIfNeeded_def
  createPaymasterFeeInstruction_def getDomainTollRecipientAddress_def transaction_message_def compress_with_def
  append_tollbooth_def to_kit_def

lemma demo_build_ok: "\<exists>tx st. demo_build [LegacyInstruction (demo_ix (PublicKey [3]) [] [5])] = (Inr tx, st)"
  by (simp add: demo_build_run Let_def)

lemma demo_toll_due: "toll_due demo_lib demo_kit (demo_options None) (demo_world (PublicKey [1])) ''app'' (Some demo_key) demo_fee_options"
  by (simp add: toll_due_def demo_run no_options_def newPublicKey_def getPaymasterFee_def)


text \<open>The fee payer is the sponsor the context shows. On a connection without a sponsor of its
  own, every transaction that is later built for the context's domain, whatever the paymaster
  answers by then and whatever the caches gained in between, is paid by \<^verbatim>\<open>context.payer\<close>.\<close>

theorem context_payer_pays:
  assumes "createSessionContext L options origin W st table requested = (Inr ctx, st1)"
    and "co_sponsor options = None" and "cache_le st1 st2" and "kit_documented K"
    and "buildTransaction L K options W' st2 (ctx_domain ctx) sessionKey ks is wallet cfg = (Inr tx, st3)"
  shows "\<exists>m. partiallySignTransactionMessageWithSigners K m = Inr tx \<and>
    tx_feePayer m = Some (fromLegacyPublicKey K (payer ctx))"
proof -
  from assms(1) obtain sta where sp: "getSponsor L options W st (ctx_domain ctx) = (Inr (payer ctx), sta)"
    and "st1 = snd (getSponsor L options W sta SESSIONS_INTERNAL_PAYMASTER_DOMAIN)"
    by (auto simp: createSessionContext_def Let_def case_prod_beta bind_result_eq_Inr prod_eq_iff split: sum.splits)
  with assms(3) getSponsor_grows have "cache_le sta st2" by (blast intro: cache_le_trans)
  with sponsor_cached[OF sp] assms(2) have "fst (resolve_sponsor L options W' st2 (ctx_domain ctx)) = Inr (payer ctx)"
    by (simp add: resolve_sponsor_def)
  with assms(5) show ?thesis
    by (elim buildTransaction_cases) (auto simp: kit_documentedD(1)[OF assms(4)])
qed

definition demo_context :: SessionContext where
  "demo_context = \<lparr>chainId = ''fogo'', ctx_options = demo_options None, ctx_domain = ''app'',
     internalPayer = PublicKey (utf8 ''7''), ctx_network = Testnet, payer = PublicKey (utf8 ''7''),
     defaultAddressLookupTableAddress = None\<rparr>"

lemma demo_context_created:
  "\<exists>st. createSessionContext demo_lib (demo_options None) None (demo_world (PublicKey [1])) demo_state None (Some ''app'')
     = (Inr demo_context, st)"
  by (simp add: createSessionContext_def getDomain_def fetchChainId_def demo_run demo_context_def Let_def
      SESSIONS_INTERNAL_PAYMASTER_DOMAIN_def)

theorem context_payer_pays_witness:
  "\<exists>m tx st. demo_build [] = (Inr tx, st) \<and> partiallySignTransactionMessageWithSigners demo_kit m = Inr tx \<and>
     tx_feePayer m = Some (fromLegacyPublicKey demo_kit (payer demo_context))"
proof -
  let ?o = "demo_options None"
  obtain st1 where c: "createSessionContext demo_lib ?o None (demo_world (PublicKey [1])) demo_state None (Some ''app'')
      = (Inr demo_context, st1)" using demo_context_created by blast
  have dom: "ctx_domain demo_context = ''app''" "co_sponsor ?o = None"
    by (simp_all add: demo_context_def demo_options_def)
  have "\<exists>tx st3. buildTransaction demo_lib demo_kit ?o (demo_world (PublicKey [1])) st1 (ctx_domain demo_context)
      (Some demo_key) [demo_key] [] (PublicKey [8]) demo_fee_options = (Inr tx, st3) \<and>
      (\<exists>st. demo_build [] = (Inr tx, st))"
    using c by (auto simp: createSessionContext_def getDomain_def fetchChainId_def Let_def
        SESSIONS_INTERNAL_PAYMASTER_DOMAIN_def demo_build_run demo_context_def)
  then obtain tx st3 st where
    b: "buildTransaction demo_lib demo_kit ?o (demo_world (PublicKey [1])) st1 (ctx_domain demo_context)
      (Some demo_key) [demo_key] [] (PublicKey [8]) demo_fee_options = (Inr tx, st3)" and d: "demo_build [] = (Inr tx, st)"
    by blast
  from context_payer_pays[OF c dom(2) cache_le_refl demo_kit_documented b] d show ?thesis by blast
qed

text \<open>With a sponsor of its own the two differ. A connection made with \<^verbatim>\<open>sponsor\<close> and
  \<^verbatim>\<open>sendToPaymaster\<close> pays with that sponsor, yet \<^verbatim>\<open>createSessionContext\<close> still asks the default
  paymaster and reports its key as \<^verbatim>\<open>context.payer\<close>, the key that is written as sponsor into
  a session.\<close>

theorem custom_sponsor_not_context_payer:
  "\<exists>options W st ctx st1. co_sponsor options = Some (PublicKey [1]) \<and> co_sendToPaymaster options \<noteq> None \<and>
     createSessionContext demo_lib options None W st None (Some ''app'') = (Inr ctx, st1) \<and>
     fst (resolve_sponsor demo_lib options W st1 (ctx_domain ctx)) = Inr (PublicKey [1]) \<and>
     payer ctx \<noteq> PublicKey [1]"
proof -
  let ?o = "(demo_options (Some (PublicKey [1])))\<lparr>co_sendToPaymaster := Some (\<lambda>t. Inr (Success ''s''))\<rparr>"
  show ?thesis
    by (rule exI[of _ ?o], rule exI[of _ "demo_world (PublicKey [1])"], rule exI[of _ demo_state],
        rule exI[of _ "demo_context\<lparr>ctx_options := ?o\<rparr>"])
      (simp add: createSessionContext_def getDomain_def fetchChainId_def demo_run demo_context_def Let_def
        SESSIONS_INTERNAL_PAYMASTER_DOMAIN_def resolve_sponsor_def utf8_def utf8_char_def)
qed

text \<open>Signing an existing transaction cannot fail on a key that is not among its signers: only
  keys with a signature slot are used, so under the documented rule of
  \<^verbatim>\<open>partiallySignTransaction\<close> (it signs when every key given has a slot) the call returns.\<close>

theorem existing_transaction_signed:
  assumes "\<And>k. k \<in> set keys \<Longrightarrow> getAddressFromPublicKey K (kp_public k) = Inr (addr k)"
    and "\<And>ks t. (\<forall>k \<in> set ks. \<exists>a \<in> set (map fst (ktx_signatures t)). getAddressFromPublicKey K (kp_public k) = Inr a) \<Longrightarrow>
       \<exists>t'. partiallySignTransaction K ks t = Inr t'"
  shows "\<exists>t'. addSignaturesToExistingTransaction K tx keys = Inr t' \<and>
     partiallySignTransaction K (filter (\<lambda>k. addr k \<in> set (map fst (ktx_signatures tx))) keys) tx = Inr t'"
proof -
  have tr: "traverse (\<lambda>signer. bind_result (getAddressFromPublicKey K (kp_public signer)) (\<lambda>a. Inr (signer, a))) keys
      = Inr (map (\<lambda>k. (k, addr k)) keys)"
    by (rule traverse_total) (simp add: assms(1))
  have fl: "map fst (filter (\<lambda>(_, address). address \<in> set (map fst (ktx_signatures tx))) (map (\<lambda>k. (k, addr k)) keys))
      = filter (\<lambda>k. addr k \<in> set (map fst (ktx_signatures tx))) keys"
    by (simp add: filter_map o_def)
  obtain t' where "partiallySignTransaction K (filter (\<lambda>k. addr k \<in> set (map fst (ktx_signatures tx))) keys) tx = Inr t'"
    using assms(2)[of "filter (\<lambda>k. addr k \<in> set (map fst (ktx_signatures tx))) keys" tx] assms(1) by auto
  then show ?thesis unfolding addSignaturesToExistingTransaction_def tr bind_result_Inr fl by simp
qed

theorem existing_transaction_signed_witness:
  "\<exists>t'. addSignaturesToExistingTransaction demo_kit \<lparr>ktx_signatures = [(''A'', None)], ktx_messageBytes = []\<rparr> [demo_key] = Inr t' \<and>
     partiallySignTransaction demo_kit [demo_key] \<lparr>ktx_signatures = [(''A'', None)], ktx_messageBytes = []\<rparr> = Inr t'"
proof -
  have law: "\<exists>t'. partiallySignTransaction demo_kit ks t = Inr t'"
    if "\<forall>k \<in> set ks. \<exists>a \<in> set (map fst (ktx_signatures t)). getAddressFromPublicKey demo_kit (kp_public k) = Inr a" for ks t
    using that by (simp add: demo_kit_def)
  from existing_transaction_signed[of "[demo_key]" demo_kit "\<lambda>k. ''A''" "\<lparr>ktx_signatures = [(''A'', None)], ktx_messageBytes = []\<rparr>", OF _ law]
  show ?thesis by (simp add: demo_kit_def)
qed

text \<open>How a transaction ends. With no paymaster of its own, \<^verbatim>\<open>sendToPaymaster\<close> of a transaction that
  was built answers with the paymaster's verdict exactly when the response is a 200 that
  parses; any other status is an error that carries status and text; and the caches are those
  the building left, which only grew.\<close>

theorem sendToPaymaster_outcome:
  assumes "co_sendToPaymaster options = None"
    and "getSignerKeys K sessionKey (so_extraSigners cfg) = Inr keys"
    and "built_or_signed L K options W st domain sessionKey keys is wallet cfg = (Inr tx, st1)"
    and "fetch W \<lparr>rq_base = paymaster_base options, rq_path = ''/api/sponsor_and_send'',
       rq_query = (''domain'', domain) # (case so_variation cfg of None \<Rightarrow> [] | Some v \<Rightarrow> [(''variation'', v)]),
       rq_body = Some (jsonTransaction K (getBase64EncodedWireTransaction K tx))\<rparr> = Inr response"
  shows "sendToPaymaster L K options W st domain sessionKey is wallet cfg =
      (if status response = 200
       then (case parseSponsorResponse K (response_text response) of
               Inl e \<Rightarrow> Inl e
             | Inr (ResponseSuccess s) \<Rightarrow> Inr (Success s)
             | Inr (ResponseFailed s e) \<Rightarrow> Inr (Failed s e))
       else Inl (PaymasterResponseError (status response) (response_text response)), st1) \<and>
    cache_le st st1"
proof -
  have "cache_le st (snd (built_or_signed L K options W st domain sessionKey keys is wallet cfg))"
    by (simp add: built_or_signed_def buildTransaction_grows split: TransactionOrInstructions.splits)
  with assms show ?thesis
    by (auto simp: sendToPaymaster_def post_transaction_def ok_text_def response_transform_def bind_result_def
        split: sum.splits sponsor_response.splits)
qed

theorem sendToPaymaster_outcome_witness:
  "fst (sendToPaymaster demo_lib demo_kit (demo_options None) (demo_world (PublicKey [1])) demo_state ''app'' (Some demo_key)
     (TxKit \<lparr>ktx_signatures = [], ktx_messageBytes = []\<rparr>) (PublicKey [8]) no_options) = Inr (Success ''7'')"
proof -
  let ?tx = "\<lparr>ktx_signatures = [], ktx_messageBytes = []\<rparr>"
  have k: "getSignerKeys demo_kit (Some demo_key) (so_extraSigners no_options) = Inr [demo_key]"
    by (simp add: getSignerKeys_def no_options_def)
  have b: "built_or_signed demo_lib demo_kit (demo_options None) (demo_world (PublicKey [1])) demo_state ''app''
      (Some demo_key) [demo_key] (TxKit ?tx) (PublicKey [8]) no_options = (Inr (?tx\<lparr>ktx_signatures := [(''A'', Some [1])]\<rparr>), demo_state)"
    by (simp add: built_or_signed_def addSignaturesToExistingTransaction_def demo_kit_def)
  have f: "fetch (demo_world (PublicKey [1])) r = Inr \<lparr>status = 200, response_text = ''7''\<rparr>" for r
    by (simp add: demo_world_def)
  have o: "co_sendToPaymaster (demo_options None) = None" by (simp add: demo_options_def)
  show ?thesis using sendToPaymaster_outcome[OF o k b f] by (simp add: demo_kit_def)
qed

end
