(* ===== verification/Js_Date.thy ===== *)
theory Js_Date
  imports Sessions_Prelude
begin

text \<open>
  The dates of the language, as far as the SDK uses them: \<^verbatim>\<open>new Date(ms)\<close> and
  \<^verbatim>\<open>toISOString\<close>, which writes the expiry of a session into the message its user signs. The
  calendar follows the language specification: the day on which a year begins, the year as the
  last one that has begun, the months by their lengths.
\<close>

text \<open>\<open>None\<close> is an invalid date: outside one hundred million days of the epoch.\<close>

definition js_Date :: "int \<Rightarrow> int option" where
  "js_Date ms = (if \<bar>ms\<bar> \<le> 8640000000000000 then Some ms else None)"

definition DayFromYear :: "int \<Rightarrow> int" where
  "DayFromYear y = 365 * (y - 1970) + (y - 1969) div 4 - (y - 1901) div 100 + (y - 1601) div 400"

lemma div_between: "0 < k \<Longrightarrow> k * (x div k) \<le> x \<and> x < k * (x div k) + k" for x k :: int
  using pos_mod_bound[of k x] pos_mod_sign[of k x] mult_div_mod_eq[of k x] by linarith

lemma div_succ:
  fixes x k :: int
  assumes "0 < k"
  shows "(x + 1) div k = x div k + (if k dvd x + 1 then 1 else 0)"
proof (cases "k dvd x + 1")
  case True
  then obtain c where c: "x + 1 = k * c" by blast
  then have "x = k * (c - 1) + (k - 1)" by (simp add: algebra_simps)
  then have "x div k = c - 1" using assms by (intro int_div_pos_eq[of _ _ _ "k - 1"]) auto
  with c assms True show ?thesis by simp
next
  case False
  have x: "x = k * (x div k) + x mod k" by simp
  have "x mod k + 1 \<noteq> k"
  proof
    assume "x mod k + 1 = k"
    with x have "x + 1 = k * (x div k + 1)" by (metis add.assoc distrib_left mult.right_neutral)
    with False show False by simp
  qed
  with pos_mod_bound[OF assms, of x] have "x mod k + 1 < k" by simp
  moreover have "x + 1 = k * (x div k) + (x mod k + 1)" using x by simp
  ultimately have "(x + 1) div k = x div k"
    using assms by (intro int_div_pos_eq[of _ _ _ "x mod k + 1"]) (auto simp: add_nonneg_nonneg)
  with False show ?thesis by simp
qed

lemma DayFromYear_step: "365 \<le> DayFromYear (y + 1) - DayFromYear y \<and> DayFromYear (y + 1) - DayFromYear y \<le> 366"
proof -
  have hundred: "100 dvd y - 1900 \<Longrightarrow> 4 dvd y - 1968" by presburger
  have four_hundred: "400 dvd y - 1600 \<Longrightarrow> 100 dvd y - 1900" by presburger
  define a b c where "a = (y - 1969) div 4" and "b = (y - 1901) div 100" and "c = (y - 1601) div 400"
  have "DayFromYear y = 365 * (y - 1970) + a - b + c" by (simp add: DayFromYear_def a_def b_def c_def)
  moreover have "DayFromYear (y + 1) = 365 * (y - 1969) + (y - 1969 + 1) div 4 - (y - 1901 + 1) div 100 + (y - 1601 + 1) div 400"
    by (simp add: DayFromYear_def)
  then have "DayFromYear (y + 1) = 365 * (y - 1969) + (a + (if 4 dvd y - 1968 then 1 else 0)) -
      (b + (if 100 dvd y - 1900 then 1 else 0)) + (c + (if 400 dvd y - 1600 then 1 else 0))"
    unfolding div_succ[of 4, simplified] div_succ[of 100, simplified] div_succ[of 400, simplified] a_def b_def c_def by simp
  ultimately show ?thesis using hundred four_hundred by (auto split: if_splits)
qed

function year_search :: "int \<Rightarrow> int \<Rightarrow> int" where
  "year_search day y = (if DayFromYear (y + 1) \<le> day then year_search day (y + 1) else y)"
  by pat_completeness auto
termination
proof (relation "measure (\<lambda>(day, y). nat (day - DayFromYear y))")
  fix day y :: int
  assume "DayFromYear (y + 1) \<le> day"
  with DayFromYear_step[of y] show "((day, y + 1), day, y) \<in> measure (\<lambda>(day, y). nat (day - DayFromYear y))" by simp
qed simp

declare year_search.simps [simp del]

text \<open>The search starts at a year that has begun, at most two years early.\<close>

definition YearFromDay :: "int \<Rightarrow> int" where
  "YearFromDay day = year_search day (1969 + 400 * day div 146097)"

lemma year_search_bounds:
  "DayFromYear y \<le> day \<Longrightarrow> DayFromYear (year_search day y) \<le> day \<and> day < DayFromYear (year_search day y + 1)"
proof (induction day y rule: year_search.induct)
  case (1 day y)
  then show ?case by (cases "DayFromYear (y + 1) \<le> day") (simp_all add: year_search.simps[of day y])
qed



lemma YearFromDay: "DayFromYear (YearFromDay day) \<le> day \<and> day < DayFromYear (YearFromDay day + 1)"
  unfolding YearFromDay_def
proof (rule year_search_bounds)
  define q where "q = 400 * day div 146097"
  have "146097 * q \<le> 400 * day" using div_between[of 146097 "400 * day"] by (simp add: q_def)
  define a b c where "a = q div 4" and "b = (q + 68) div 100" and "c = (q + 368) div 400"
  have "4 * a \<le> q" "q + 68 < 100 * b + 100" "400 * c \<le> q + 368"
    using div_between[of 4 q] div_between[of 100 "q + 68"] div_between[of 400 "q + 368"]
    by (simp_all add: a_def b_def c_def)
  moreover have "DayFromYear (1969 + q) = 365 * (q - 1) + a - b + c"
    by (simp add: DayFromYear_def add.commute a_def b_def c_def)
  moreover note \<open>146097 * q \<le> 400 * day\<close>
  ultimately have "400 * DayFromYear (1969 + q) \<le> 400 * day" by simp
  then show "DayFromYear (1969 + 400 * day div 146097) \<le> day" unfolding q_def[symmetric] by simp
qed

definition month_lengths :: "int \<Rightarrow> int list" where
  "month_lengths y = [31, if DayFromYear (y + 1) - DayFromYear y = 366 then 29 else 28, 31, 30, 31, 30, 31, 31, 30, 31, 30, 31]"

lemma sum_month_lengths: "sum_list (month_lengths y) = DayFromYear (y + 1) - DayFromYear y"
  using DayFromYear_step[of y] by (auto simp: month_lengths_def)

text \<open>The month, counted from one, and the day of the month.\<close>

fun month_of :: "int \<Rightarrow> int list \<Rightarrow> nat \<times> nat" where
  "month_of doy [] = (1, nat doy + 1)"
| "month_of doy (l # ls) = (if doy < l then (1, nat doy + 1) else map_prod Suc id (month_of (doy - l) ls))"

lemma month_of_sound:
  assumes "0 \<le> doy" and "doy < sum_list ls" and "\<forall>l \<in> set ls. 0 < l \<and> l \<le> 31" and "month_of doy ls = (m, d)"
  shows "1 \<le> m \<and> m \<le> length ls \<and> 1 \<le> d \<and> d \<le> 31 \<and> sum_list (take (m - 1) ls) + int d - 1 = doy"
  using assms
proof (induction doy ls arbitrary: m d rule: month_of.induct)
  case (2 doy l ls)
  show ?case
  proof (cases "doy < l")
    case False
    obtain m' d' where m': "month_of (doy - l) ls = (m', d')" by (cases "month_of (doy - l) ls")
    with False "2.prems"(4) have md: "m = Suc m'" "d = d'" by auto
    from "2.IH"[OF False _ _ _ m'] "2.prems" False have ih: "1 \<le> m' \<and> m' \<le> length ls \<and> 1 \<le> d' \<and> d' \<le> 31 \<and>
      sum_list (take (m' - 1) ls) + int d' - 1 = doy - l" by auto
    then show ?thesis unfolding md by (cases m') auto
  qed (use "2.prems" in auto)
qed simp

definition civil_of_day :: "int \<Rightarrow> int \<times> nat \<times> nat" where
  "civil_of_day day = (let y = YearFromDay day in (y, month_of (day - DayFromYear y) (month_lengths y)))"

definition day_of_civil :: "int \<times> nat \<times> nat \<Rightarrow> int" where
  "day_of_civil c = (case c of (y, m, d) \<Rightarrow> DayFromYear y + sum_list (take (m - 1) (month_lengths y)) + int d - 1)"

lemma civil_of_day_sound:
  assumes "civil_of_day day = (y, m, d)"
  shows "day_of_civil (y, m, d) = day \<and> 1 \<le> m \<and> m \<le> 12 \<and> 1 \<le> d \<and> d \<le> 31"
proof -
  have y: "y = YearFromDay day" and md: "month_of (day - DayFromYear y) (month_lengths y) = (m, d)"
    using assms by (auto simp: civil_of_day_def Let_def)
  have "0 \<le> day - DayFromYear y" "day - DayFromYear y < sum_list (month_lengths y)"
    using YearFromDay[of day] by (simp_all add: y sum_month_lengths)
  moreover have "\<forall>l \<in> set (month_lengths y). 0 < l \<and> l \<le> 31" "length (month_lengths y) = 12"
    by (auto simp: month_lengths_def)
  ultimately show ?thesis using month_of_sound[OF _ _ _ md] by (auto simp: day_of_civil_def)
qed

definition year_string :: "int \<Rightarrow> string" where
  "year_string y = (if 0 \<le> y \<and> y \<le> 9999 then fixed_digits 4 (nat y)
     else (if y < 0 then CHR ''-'' else CHR ''+'') # fixed_digits 6 (nat \<bar>y\<bar>))"

definition iso_string :: "int \<Rightarrow> string" where
  "iso_string ms =
     (let (y, m, d) = civil_of_day (ms div 86400000); t = nat (ms mod 86400000) in
      year_string y @ ''-'' @ fixed_digits 2 m @ ''-'' @ fixed_digits 2 d @ ''T'' @
      fixed_digits 2 (t div 3600000) @ '':'' @ fixed_digits 2 (t div 60000 mod 60) @ '':'' @
      fixed_digits 2 (t div 1000 mod 60) @ ''.'' @ fixed_digits 3 (t mod 1000) @ ''Z'')"

definition toISOString :: "int option \<Rightarrow> string result" where
  "toISOString date = (case date of None \<Rightarrow> Inl RangeError | Some ms \<Rightarrow> Inr (iso_string ms))"

section \<open>The text determines the instant\<close>

lemma fixed_digits_inj: "fixed_digits k a = fixed_digits k b \<Longrightarrow> a < 10 ^ k \<Longrightarrow> b < 10 ^ k \<Longrightarrow> a = b"
  by (metis dec_value_fixed_digits mod_less)

lemma fixed_digits_neq_sign: "0 < k \<Longrightarrow> \<not> is_dec c \<Longrightarrow> fixed_digits k n @ r \<noteq> c # s"
  using fixed_digits_dec[of k n] length_fixed_digits[of k n]
  by (cases "fixed_digits k n") auto

lemma fixed_digits_no_sign [simp]:
  "fixed_digits 4 n @ r \<noteq> CHR ''-'' # s" "fixed_digits 4 n @ r \<noteq> CHR ''+'' # s"
  "CHR ''-'' # s \<noteq> fixed_digits 4 n @ r" "CHR ''+'' # s \<noteq> fixed_digits 4 n @ r"
  using fixed_digits_neq_sign[of 4 "CHR ''-''" n r s] fixed_digits_neq_sign[of 4 "CHR ''+''" n r s]
  by (auto simp: is_dec_def dest: sym)

lemma year_string_inj:
  assumes "year_string y @ r = year_string y' @ r'" and "\<bar>y\<bar> < 1000000" and "\<bar>y'\<bar> < 1000000"
  shows "y = y' \<and> r = r'"
proof (cases "0 \<le> y \<and> y \<le> 9999"; cases "0 \<le> y' \<and> y' \<le> 9999")
  assume "0 \<le> y \<and> y \<le> 9999" "0 \<le> y' \<and> y' \<le> 9999"
  with assms(1) have "fixed_digits 4 (nat y) = fixed_digits 4 (nat y')" "r = r'" by (auto simp: year_string_def)
  moreover have "nat y < 10 ^ 4" "nat y' < 10 ^ 4" using \<open>0 \<le> y \<and> y \<le> 9999\<close> \<open>0 \<le> y' \<and> y' \<le> 9999\<close> by auto
  ultimately have "nat y = nat y'" by (blast intro: fixed_digits_inj)
  with \<open>r = r'\<close> \<open>0 \<le> y \<and> y \<le> 9999\<close> \<open>0 \<le> y' \<and> y' \<le> 9999\<close> show ?thesis using eq_nat_nat_iff by blast
next
  assume "\<not> (0 \<le> y \<and> y \<le> 9999)" "\<not> (0 \<le> y' \<and> y' \<le> 9999)"
  with assms(1) have d: "fixed_digits 6 (nat \<bar>y\<bar>) = fixed_digits 6 (nat \<bar>y'\<bar>)" and r: "r = r'" and s: "y < 0 \<longleftrightarrow> y' < 0"
    by (auto simp: year_string_def split: if_splits)
  have "nat \<bar>y\<bar> < 10 ^ 6" "nat \<bar>y'\<bar> < 10 ^ 6" using assms(2,3) by simp_all
  with d have "nat \<bar>y\<bar> = nat \<bar>y'\<bar>" by (blast intro: fixed_digits_inj)
  with r s show ?thesis by auto
qed (use assms(1) in \<open>auto simp: year_string_def split: if_splits\<close>)

lemma year_bound:
  assumes "\<bar>day\<bar> \<le> 100000000"
  shows "\<bar>YearFromDay day\<bar> < 1000000"
proof -
  define y where "y = YearFromDay day"
  define a b c where "a = (y - 1969) div 4" and "b = (y - 1901) div 100" and "c = (y - 1601) div 400"
  have d: "DayFromYear y = 365 * (y - 1970) + a - b + c" by (simp add: DayFromYear_def a_def b_def c_def)
  have "4 * a \<le> y - 1969" "y - 1969 < 4 * a + 4" "100 * b \<le> y - 1901" "y - 1901 < 100 * b + 100"
    "400 * c \<le> y - 1601" "y - 1601 < 400 * c + 400"
    using div_between[of 4 "y - 1969"] div_between[of 100 "y - 1901"] div_between[of 400 "y - 1601"]
    by (simp_all add: a_def b_def c_def)
  moreover have "DayFromYear y \<le> day" "day < DayFromYear y + 366"
    using YearFromDay[of day] DayFromYear_step[of y] by (simp_all add: y_def)
  ultimately show ?thesis using assms unfolding y_def[symmetric] d by (simp add: abs_if split: if_splits)
qed

lemma time_parts:
  assumes "t div 3600000 = u div 3600000" and "t div 60000 mod 60 = u div 60000 mod 60"
    and "t div 1000 mod 60 = u div 1000 mod 60" and "t mod 1000 = u mod (1000::nat)"
  shows "t = u"
proof -
  have "x div 60000 div 60 = x div 3600000" "x div 1000 div 60 = x div 60000" for x :: nat
    using div_mult2_eq[of x 60000 60] div_mult2_eq[of x 1000 60] by simp_all
  then have "t div 60000 = u div 60000" by (metis assms(1,2) div_mult_mod_eq)
  then have "t div 1000 = u div 1000"
    by (metis \<open>\<And>x. x div 1000 div 60 = x div 60000\<close> assms(3) div_mult_mod_eq)
  then show ?thesis by (metis assms(4) div_mult_mod_eq)
qed

lemma iso_string_inj:
  assumes "iso_string a = iso_string b" and "\<bar>a\<bar> \<le> 8640000000000000" and "\<bar>b\<bar> \<le> 8640000000000000"
  shows "a = b"
proof -
  let ?t = "nat (a mod 86400000)" and ?u = "nat (b mod 86400000)"
  obtain y m d where c: "civil_of_day (a div 86400000) = (y, m, d)" by (cases "civil_of_day (a div 86400000)")
  obtain y' m' d' where c': "civil_of_day (b div 86400000) = (y', m', d')" by (cases "civil_of_day (b div 86400000)")
  note s = civil_of_day_sound[OF c] and s' = civil_of_day_sound[OF c']
  have "\<bar>a div 86400000\<bar> \<le> 100000000" "\<bar>b div 86400000\<bar> \<le> 100000000" using assms(2,3) by (auto simp: abs_le_iff)
  then have y: "\<bar>y\<bar> < 1000000" "\<bar>y'\<bar> < 1000000"
    using year_bound c c' by (auto simp: civil_of_day_def Let_def)
  from year_string_inj[OF assms(1)[unfolded iso_string_def c c' Let_def prod.case] y] have eq: "y = y'" "fixed_digits 2 m = fixed_digits 2 m'" "fixed_digits 2 d = fixed_digits 2 d'"
    "fixed_digits 2 (?t div 3600000) = fixed_digits 2 (?u div 3600000)"
    "fixed_digits 2 (?t div 60000 mod 60) = fixed_digits 2 (?u div 60000 mod 60)"
    "fixed_digits 2 (?t div 1000 mod 60) = fixed_digits 2 (?u div 1000 mod 60)"
    "fixed_digits 3 (?t mod 1000) = fixed_digits 3 (?u mod 1000)"
    by simp_all
  have b: "?t < 86400000" "?u < 86400000" by (simp_all add: nat_less_iff)
  then have h: "?t div 3600000 < 10 ^ 2" "?u div 3600000 < 10 ^ 2"
    by (simp_all add: less_mult_imp_div_less)
  have lt60: "x mod 60 < 10 ^ 2" "x mod 1000 < 10 ^ 3" for x :: nat
    using mod_less_divisor[of 60 x] mod_less_divisor[of 1000 x] by simp_all
  have "?t = ?u"
    by (rule time_parts) (rule fixed_digits_inj, rule eq, (rule h lt60)+)+
  moreover have "m = m'" "d = d'"
    using s s' by (auto intro: fixed_digits_inj[OF eq(2)] fixed_digits_inj[OF eq(3)])
  with s s' eq(1) have "a div 86400000 = b div 86400000" by simp
  moreover have "0 \<le> a mod 86400000" "0 \<le> b mod 86400000" by simp_all
  ultimately show ?thesis by (metis eq_nat_nat_iff div_mult_mod_eq)
qed

end
