(* ===== verification/Session_Account.thy ===== *)
theory Session_Account
  imports Connection Js_Date
begin

text \<open>
  The on-chain session as the SDK reads it (\<^verbatim>\<open>packages/sessions-sdk-ts/src/index.ts\<close>): the
  account of a session key in its four versions, the programs a domain has registered, and
  \<^verbatim>\<open>createSession\<close>, which decides whether a key is a usable session. Borsh decoding and the
  type checks of zod belong to packages; their result is the type \<open>raw_session\<close>, and the one
  check of the schema that is not a type, the length of \<^verbatim>\<open>domain_hash\<close>, is modelled.
\<close>

section \<open>The decoded account\<close>

record raw_program =
  program_id :: pubkey
  signer_pda :: pubkey

datatype raw_programs = ProgramsSpecific "raw_program list" | ProgramsAll

text \<open>\<^verbatim>\<open>Specific\<close> carries a list of mints from the third version on, nothing before.\<close>

datatype 'm raw_tokens = TokensSpecific 'm | TokensAll

record 'm raw_active =
  authorized_programs :: raw_programs
  authorized_tokens :: "'m raw_tokens"
  expiration :: int
  extra :: string
  user :: pubkey

record raw_revoked =
  authorized_tokens_with_mints :: "pubkey list raw_tokens"
  revoked_expiration :: int
  revoked_user :: pubkey

record raw_active_v4 =
  active_session_info :: "pubkey list raw_active"
  domain_hash :: "int list"

datatype ('r, 'a) raw_status = Revoked 'r | Active 'a

datatype raw_session_info =
    V1 "unit raw_active"
  | V2 "(int, unit raw_active) raw_status"
  | V3 "(raw_revoked, pubkey list raw_active) raw_status"
  | V4 "(raw_revoked, raw_active_v4) raw_status"

record raw_session =
  raw_major :: int
  session_info :: raw_session_info
  raw_sponsor :: pubkey

section \<open>The session the SDK shows\<close>

record authorized_program =
  ap_programId :: pubkey
  ap_signerPda :: pubkey

datatype AuthorizedPrograms = AllPrograms | SpecificPrograms "authorized_program list"

datatype AuthorizedTokens = AllTokens | SpecificTokens

record sessionInfo =
  authorizedPrograms :: AuthorizedPrograms
  authorizedTokens :: AuthorizedTokens
  info_expiration :: "int option"
  info_extra :: string
  major :: int
  minor :: nat
  sponsor :: pubkey
  info_user :: pubkey

definition session_of_active :: "'m raw_active \<Rightarrow> int \<Rightarrow> nat \<Rightarrow> pubkey \<Rightarrow> sessionInfo" where
  "session_of_active a mj mn sp =
     \<lparr>authorizedPrograms = (case authorized_programs a of
          ProgramsAll \<Rightarrow> AllPrograms
        | ProgramsSpecific ps \<Rightarrow>
            SpecificPrograms (map (\<lambda>p. \<lparr>ap_programId = program_id p, ap_signerPda = signer_pda p\<rparr>) ps)),
      authorizedTokens = (case authorized_tokens a of TokensAll \<Rightarrow> AllTokens | TokensSpecific _ \<Rightarrow> SpecificTokens),
      info_expiration = js_Date (expiration a * 1000),
      info_extra = extra a,
      major = mj, minor = mn, sponsor = sp, info_user = user a\<rparr>"

definition schema_transform :: "raw_session \<Rightarrow> sessionInfo option" where
  "schema_transform r =
     (case session_info r of
        V1 a \<Rightarrow> Some (session_of_active a (raw_major r) 1 (raw_sponsor r))
      | V2 (Active a) \<Rightarrow> Some (session_of_active a (raw_major r) 2 (raw_sponsor r))
      | V3 (Active a) \<Rightarrow> Some (session_of_active a (raw_major r) 3 (raw_sponsor r))
      | V4 (Active a) \<Rightarrow> Some (session_of_active (active_session_info a) (raw_major r) 4 (raw_sponsor r))
      | _ \<Rightarrow> None)"

definition schema_ok :: "raw_session \<Rightarrow> bool" where
  "schema_ok r = (case session_info r of V4 (Active a) \<Rightarrow> length (domain_hash a) = 32 | _ \<Rightarrow> True)"

definition sessionInfoSchema_parse :: "raw_session \<Rightarrow> sessionInfo option result" where
  "sessionInfoSchema_parse r = (if schema_ok r then Inr (schema_transform r) else Inl (ExternalError ''ZodError''))"

text \<open>\<open>decode\<close> is \<^verbatim>\<open>BorshAccountsCoder(SessionManagerIdl).decode("Session", data)\<close>.\<close>

definition getSessionAccount ::
  "(bytes \<Rightarrow> raw_session result) \<Rightarrow> world \<Rightarrow> pubkey \<Rightarrow> sessionInfo option result" where
  "getSessionAccount decode W sessionPublicKey =
     bind_result (getAccountInfo W sessionPublicKey) (\<lambda>data.
       case data of None \<Rightarrow> Inr None | Some d \<Rightarrow> bind_result (decode d) sessionInfoSchema_parse)"

section \<open>The domain registry\<close>

definition getDomainRecordAddress :: "solana_lib \<Rightarrow> string \<Rightarrow> pubkey" where
  "getDomainRecordAddress L domain =
     findProgramAddressSync L [utf8 ''domain-record'', sha256 L (utf8 domain)] (program_address L ''domain_registry'')"

function registry_loop :: "solana_lib \<Rightarrow> bytes \<Rightarrow> nat \<Rightarrow> authorized_program list result" where
  "registry_loop L data i =
     (if i < length data
      then bind_result (publicKeyOfBytes L (subarray i (i + 32) data)) (\<lambda>p.
           bind_result (publicKeyOfBytes L (subarray (i + 32) (i + 64) data)) (\<lambda>s.
           bind_result (registry_loop L data (i + 64)) (\<lambda>rest.
           Inr (\<lparr>ap_programId = p, ap_signerPda = s\<rparr> # rest))))
      else Inr [])"
  by pat_completeness auto
termination by (relation "measure (\<lambda>(L, data, i). length data - i)") auto

declare registry_loop.simps [simp del]

definition getDomainRegistryAuthorizedPrograms :: "solana_lib \<Rightarrow> world \<Rightarrow> string \<Rightarrow> authorized_program list result" where
  "getDomainRegistryAuthorizedPrograms L W domain =
     bind_result (getAccountInfo W (getDomainRecordAddress L domain)) (\<lambda>data.
       case data of None \<Rightarrow> Inr [] | Some d \<Rightarrow> registry_loop L d 0)"

definition authorizedProgramsMatchDomainRegistry :: "AuthorizedPrograms \<Rightarrow> authorized_program list \<Rightarrow> bool" where
  "authorizedProgramsMatchDomainRegistry sessionAuthorizedPrograms domainAuthorizedPrograms =
     (case sessionAuthorizedPrograms of
        AllPrograms \<Rightarrow> True
      | SpecificPrograms ps \<Rightarrow>
          list_all (\<lambda>r. list_ex (\<lambda>p. ap_programId p = ap_programId r) ps) domainAuthorizedPrograms)"

section \<open>Sessions\<close>

text \<open>The data of a \<^verbatim>\<open>Session\<close>; its functions are the definitions below.\<close>

record Session =
  sessionPublicKey :: pubkey
  sessionKey :: key_pair
  walletPublicKey :: pubkey
  session_payer :: pubkey
  session_sessionInfo :: sessionInfo
  session_context :: SessionContext

definition createSession ::
  "solana_lib \<Rightarrow> kit_lib \<Rightarrow> (bytes \<Rightarrow> raw_session result) \<Rightarrow> world \<Rightarrow> SessionContext \<Rightarrow> pubkey \<Rightarrow> key_pair \<Rightarrow>
   Session option result" where
  "createSession L K decode W context wallet key =
     bind_result (getAddressFromPublicKey K (kp_public key)) (\<lambda>address.
     bind_result (parsePublicKey L address) (\<lambda>pk.
     bind_result (getSessionAccount decode W pk) (\<lambda>info.
     bind_result (getDomainRegistryAuthorizedPrograms L W (ctx_domain context)) (\<lambda>registry.
       case info of
         None \<Rightarrow> Inr None
       | Some si \<Rightarrow>
           if authorizedProgramsMatchDomainRegistry (authorizedPrograms si) registry
           then Inr (Some \<lparr>sessionPublicKey = pk, sessionKey = key, walletPublicKey = wallet,
                           session_payer = payer context, session_sessionInfo = si, session_context = context\<rparr>)
           else Inr None))))"

definition getSessionUnwrapInstructions :: "solana_lib \<Rightarrow> Session \<Rightarrow> instruction list result" where
  "getSessionUnwrapInstructions L s =
     bind_result (createSessionUnwrapInstruction L (sessionPublicKey s) (walletPublicKey s)) (\<lambda>i. Inr [i])"

definition getSessionWrapInstructions :: "solana_lib \<Rightarrow> Session \<Rightarrow> int \<Rightarrow> instruction list result" where
  "getSessionWrapInstructions L s amount = createSessionWrapInstructions L (sessionPublicKey s) (walletPublicKey s) amount"

definition session_sendTransaction ::
  "solana_lib \<Rightarrow> kit_lib \<Rightarrow> Session \<Rightarrow> world \<Rightarrow> conn_state \<Rightarrow> TransactionOrInstructions \<Rightarrow> SendTransactionOptions \<Rightarrow>
   TransactionResult result \<times> conn_state" where
  "session_sendTransaction L K s W st instructions extraConfig =
     context_sendTransaction L K (session_context s) W st (Some (sessionKey s)) instructions (walletPublicKey s) extraConfig"

section \<open>Reading the registry\<close>

text \<open>What a registry account holds: 64 bytes for each program.\<close>

definition registry_bytes :: "authorized_program list \<Rightarrow> bytes" where
  "registry_bytes ps = concat (map (\<lambda>p. toBytes (ap_programId p) @ toBytes (ap_signerPda p)) ps)"

definition wf_program :: "authorized_program \<Rightarrow> bool" where
  "wf_program p \<longleftrightarrow> length (toBytes (ap_programId p)) = 32 \<and> length (toBytes (ap_signerPda p)) = 32"

lemma registry_loop_append:
  assumes "\<And>b. length b = 32 \<Longrightarrow> publicKeyOfBytes L b = Inr (PublicKey b)" and "list_all wf_program ps"
  shows "registry_loop L (pre @ registry_bytes ps) (length pre) = Inr ps"
  using assms(2)
proof (induction ps arbitrary: pre)
  case Nil
  then show ?case by (simp add: registry_bytes_def registry_loop.simps)
next
  case (Cons p ps)
  let ?k = "toBytes (ap_programId p)" and ?s = "toBytes (ap_signerPda p)"
  have len: "length ?k = 32" "length ?s = 32" using Cons.prems by (auto simp: wf_program_def)
  have cat: "registry_bytes (p # ps) = ?k @ ?s @ registry_bytes ps" by (simp add: registry_bytes_def)
  have rest: "registry_loop L (pre @ registry_bytes (p # ps)) (length pre + 64) = Inr ps"
    using Cons.IH[of "pre @ ?k @ ?s"] Cons.prems len by (simp add: cat)
  have "subarray (length pre) (length pre + 32) (pre @ registry_bytes (p # ps)) = ?k"
    "subarray (length pre + 32) (length pre + 64) (pre @ registry_bytes (p # ps)) = ?s"
    by (simp_all add: subarray_def cat len)
  with rest show ?case
    by (subst registry_loop.simps) (simp add: len cat assms(1))
qed

lemma registry_loop_length: "registry_loop L data i = Inr ps \<Longrightarrow> length ps = (length data - i + 63) div 64"
proof (induction L data i arbitrary: ps rule: registry_loop.induct)
  case (1 L data i)
  show ?case
  proof (cases "i < length data")
    case True
    with "1.prems" obtain rest where r: "registry_loop L data (i + 64) = Inr rest" "length ps = Suc (length rest)"
      by (subst (asm) registry_loop.simps) (auto simp: bind_result_eq_Inr)
    have "Suc ((length data - (i + 64) + 63) div 64) = (length data - i + 63) div 64"
    proof (cases "i + 64 \<le> length data")
      case large: True
      then have "length data - i + 63 = (length data - (i + 64) + 63) + 64" by simp
      then show ?thesis by (simp only: div_add_self2)
    next
      case False
      then have "length data - i + 63 = 64 + (length data - i - 1)" "length data - i - 1 < 64" using True by auto
      with False show ?thesis by simp
    qed
    with "1.IH"[OF True r(1)] r(2) show ?thesis by simp
  qed (use "1.prems" in \<open>simp add: registry_loop.simps\<close>)
qed

section \<open>Properties\<close>

text \<open>C38: decoding the registry account inverts its encoding. With the documented behaviour of the
  key constructor (32 bytes give the key of those bytes), the loop over 64-byte records ends
  and returns exactly the programs, in order, that the account holds.\<close>

theorem registry_roundtrip:
  assumes "\<And>b. length b = 32 \<Longrightarrow> publicKeyOfBytes L b = Inr (PublicKey b)" and "list_all wf_program ps"
    and "getAccountInfo W (getDomainRecordAddress L domain) = Inr (Some (registry_bytes ps))"
  shows "getDomainRegistryAuthorizedPrograms L W domain = Inr ps"
  using registry_loop_append[OF assms(1,2), of "[]"] assms(3)
  by (simp add: getDomainRegistryAuthorizedPrograms_def)

theorem registry_roundtrip_witness:
  "getDomainRegistryAuthorizedPrograms demo_lib
     ((demo_world (PublicKey [1]))\<lparr>getAccountInfo := \<lambda>k. Inr (Some (replicate 32 4 @ replicate 32 5))\<rparr>) ''app''
   = Inr [\<lparr>ap_programId = PublicKey (replicate 32 4), ap_signerPda = PublicKey (replicate 32 5)\<rparr>]"
  by (rule registry_roundtrip)
    (simp_all add: demo_lib_def wf_program_def registry_bytes_def)

text \<open>The reading of the registry never loses or invents a record: a successful read of \<open>n\<close>
  bytes gives \<open>n\<close> divided by 64, rounded up, programs.\<close>

theorem registry_count:
  assumes "getAccountInfo W (getDomainRecordAddress L domain) = Inr (Some d)"
    and "getDomainRegistryAuthorizedPrograms L W domain = Inr ps"
  shows "length ps = (length d + 63) div 64"
  using registry_loop_length[of L d 0 ps] assms
  by (simp add: getDomainRegistryAuthorizedPrograms_def)

theorem registry_count_witness:
  "\<forall>ps. getDomainRegistryAuthorizedPrograms demo_lib
     ((demo_world (PublicKey [1]))\<lparr>getAccountInfo := \<lambda>k. Inr (Some (replicate 70 4))\<rparr>) ''app'' = Inr ps \<longrightarrow> length ps = 2"
  using registry_count[of "(demo_world (PublicKey [1]))\<lparr>getAccountInfo := \<lambda>k. Inr (Some (replicate 70 4))\<rparr>" demo_lib "''app''"
      "replicate 70 4"]
  by (simp add: demo_lib_def)

definition is_revoked :: "raw_session_info \<Rightarrow> bool" where
  "is_revoked i = (case i of V2 (Revoked _) \<Rightarrow> True | V3 (Revoked _) \<Rightarrow> True | V4 (Revoked _) \<Rightarrow> True | _ \<Rightarrow> False)"

definition version_of :: "raw_session_info \<Rightarrow> nat" where
  "version_of i = (case i of V1 _ \<Rightarrow> 1 | V2 _ \<Rightarrow> 2 | V3 _ \<Rightarrow> 3 | V4 _ \<Rightarrow> 4)"

definition expiry_seconds :: "raw_session_info \<Rightarrow> int" where
  "expiry_seconds i = (case i of V1 a \<Rightarrow> expiration a | V2 (Active a) \<Rightarrow> expiration a | V3 (Active a) \<Rightarrow> expiration a
     | V4 (Active a) \<Rightarrow> expiration (active_session_info a) | _ \<Rightarrow> 0)"

text \<open>A session account reads as no session exactly when it is revoked, and otherwise the minor
  version it reports is the version of the account. The expiry is the account's seconds in
  milliseconds, an invalid date only beyond the range of dates.\<close>

theorem revoked_reads_as_none:
  "case schema_transform r of
     None \<Rightarrow> is_revoked (session_info r)
   | Some si \<Rightarrow> \<not> is_revoked (session_info r) \<and> minor si = version_of (session_info r) \<and>
       major si = raw_major r \<and> sponsor si = raw_sponsor r \<and>
       info_expiration si = (let e = expiry_seconds (session_info r) in
         if \<bar>e\<bar> \<le> 8640000000000 then Some (e * 1000) else None)"
  by (auto simp: schema_transform_def is_revoked_def version_of_def session_of_active_def js_Date_def
      expiry_seconds_def Let_def abs_mult split: raw_session_info.splits raw_status.splits)

definition may_call :: "AuthorizedPrograms \<Rightarrow> pubkey \<Rightarrow> bool" where
  "may_call ps p = (case ps of AllPrograms \<Rightarrow> True | SpecificPrograms qs \<Rightarrow> p \<in> ap_programId ` set qs)"

lemma match_iff_may_call:
  "authorizedProgramsMatchDomainRegistry ps reg \<longleftrightarrow> (\<forall>q \<in> set reg. may_call ps (ap_programId q))"
  proof -
  have "list_ex (\<lambda>p. ap_programId p = a) qs \<longleftrightarrow> a \<in> ap_programId ` set qs" for a and qs :: "authorized_program list"
    by (auto simp: list_ex_iff)
  then show ?thesis
    by (simp add: authorizedProgramsMatchDomainRegistry_def may_call_def list_all_iff split: AuthorizedPrograms.splits)
qed

text \<open>C2: when a key is a usable session. Once the key's address, its account and the registry could
  be read, \<^verbatim>\<open>createSession\<close> returns a session exactly when the account exists, has the right
  form, is not revoked and authorises every program the domain has registered; the session it
  returns is that of the key, the wallet and the context it was given.\<close>

theorem createSession_usable:
  assumes "getAddressFromPublicKey K (kp_public key) = Inr address" and "parsePublicKey L address = Inr pk"
    and "getAccountInfo W pk = Inr acc"
    and "getDomainRegistryAuthorizedPrograms L W (ctx_domain ctx) = Inr reg"
  shows "createSession L K decode W ctx wallet key = Inr (Some s) \<longleftrightarrow>
    (\<exists>d r si. acc = Some d \<and> decode d = Inr r \<and> schema_ok r \<and> \<not> is_revoked (session_info r) \<and>
       schema_transform r = Some si \<and> (\<forall>q \<in> set reg. may_call (authorizedPrograms si) (ap_programId q)) \<and>
       s = \<lparr>sessionPublicKey = pk, sessionKey = key, walletPublicKey = wallet, session_payer = payer ctx,
            session_sessionInfo = si, session_context = ctx\<rparr>)" (is "?l \<longleftrightarrow> ?r")
proof -
  have info: "getSessionAccount decode W pk = Inr (Some si) \<longleftrightarrow>
      (\<exists>d r. acc = Some d \<and> decode d = Inr r \<and> schema_ok r \<and> schema_transform r = Some si)" for si
    using assms(3) by (auto simp: getSessionAccount_def sessionInfoSchema_parse_def bind_result_eq_Inr split: option.splits)
  have "schema_transform r = Some si \<Longrightarrow> \<not> is_revoked (session_info r)" for r si
    by (auto simp: schema_transform_def is_revoked_def split: raw_session_info.splits raw_status.splits)
  moreover have "?l \<longleftrightarrow> (\<exists>si. getSessionAccount decode W pk = Inr (Some si) \<and>
      authorizedProgramsMatchDomainRegistry (authorizedPrograms si) reg \<and>
      s = \<lparr>sessionPublicKey = pk, sessionKey = key, walletPublicKey = wallet, session_payer = payer ctx,
            session_sessionInfo = si, session_context = ctx\<rparr>)"
    using assms by (auto simp: createSession_def bind_result_eq_Inr split: option.splits if_splits)
  ultimately show ?thesis unfolding info match_iff_may_call by blast
qed

definition demo_raw :: raw_session where
  "demo_raw = \<lparr>raw_major = 0,
     session_info = V3 (Active \<lparr>authorized_programs = ProgramsSpecific [\<lparr>program_id = PublicKey [4], signer_pda = PublicKey [5]\<rparr>],
        authorized_tokens = TokensAll, expiration = 1700000000, extra = '''', user = PublicKey [8]\<rparr>),
     raw_sponsor = PublicKey [6]\<rparr>"

theorem createSession_usable_witness:
  "\<exists>s. createSession demo_lib demo_kit (\<lambda>d. Inr demo_raw)
     ((demo_world (PublicKey [1]))\<lparr>getAccountInfo := \<lambda>k. Inr (if k = PublicKey (utf8 ''A'') then Some [] else None)\<rparr>)
     demo_context (PublicKey [8]) demo_key = Inr (Some s) \<and> minor (session_sessionInfo s) = 3"
proof -
  let ?W = "(demo_world (PublicKey [1]))\<lparr>getAccountInfo := \<lambda>k. Inr (if k = PublicKey (utf8 ''A'') then Some [] else None)\<rparr>"
  let ?si = "the (schema_transform demo_raw)"
  let ?s = "\<lparr>sessionPublicKey = PublicKey (utf8 ''A''), sessionKey = demo_key, walletPublicKey = PublicKey [8],
        session_payer = payer demo_context, session_sessionInfo = ?si, session_context = demo_context\<rparr>"
  have a: "getAddressFromPublicKey demo_kit (kp_public demo_key) = Inr ''A''"
    and p: "parsePublicKey demo_lib ''A'' = Inr (PublicKey (utf8 ''A''))"
    by (simp_all add: demo_kit_def demo_lib_def)
  have acc: "getAccountInfo ?W (PublicKey (utf8 ''A'')) = Inr (Some [])" by simp
  have reg: "getDomainRegistryAuthorizedPrograms demo_lib ?W (ctx_domain demo_context) = Inr []"
    by (simp add: getDomainRegistryAuthorizedPrograms_def getDomainRecordAddress_def demo_lib_def demo_context_def utf8_def utf8_char_def)
  have r: "schema_ok demo_raw" "\<not> is_revoked (session_info demo_raw)" "schema_transform demo_raw = Some ?si" "minor ?si = 3"
    by (simp_all add: demo_raw_def schema_ok_def is_revoked_def schema_transform_def session_of_active_def)
  have "createSession demo_lib demo_kit (\<lambda>d. Inr demo_raw) ?W demo_context (PublicKey [8]) demo_key = Inr (Some ?s)"
    by (rule createSession_usable[OF a p acc reg, THEN iffD2]) (use r in auto)
  with r(4) show ?thesis by (intro exI[of _ ?s]) simp
qed

end
