(* ===== verification/Establish.thy ===== *)
theory Establish
  imports Session_Account Intent_Message
begin

text \<open>
  Establishing, replacing, revoking and re-establishing a session
  (\<^verbatim>\<open>packages/sessions-sdk-ts/src/index.ts\<close>). The user signs a readable intent; the same token
  list that the intent shows becomes the accounts of the \<^verbatim>\<open>startSession\<close> instruction. The
  chain before and after the transaction are two \<open>world\<close> parameters.
\<close>

text \<open>The services the operations below call: the packages, the account decoder, the mint and
  metadata queries (\<open>None\<close> when there is no metadata) and the key generation, whose argument
  says whether the key may be exported.\<close>

record sdk_env =
  env_lib :: solana_lib
  env_kit :: kit_lib
  env_decode :: "bytes \<Rightarrow> raw_session result"
  getMint_decimals :: "pubkey \<Rightarrow> nat result"
  metadata_symbol :: "pubkey \<Rightarrow> string option result"
  generateKey :: "bool \<Rightarrow> key_pair result"

definition MESSAGE_HEADER :: string where
  "MESSAGE_HEADER = ''Fogo Sessions:'' @ [newline] @
     ''Signing this intent will allow this app to interact with your on-chain balances. Please make sure you trust this app and the domain in the message matches the domain of the current web application.'' @ [newline]"

definition CURRENT_MAJOR :: string where "CURRENT_MAJOR = ''0''"
definition CURRENT_MINOR :: string where "CURRENT_MINOR = ''4''"

definition SESSION_ESTABLISHMENT_LOOKUP_TABLE_ADDRESS :: "Network \<Rightarrow> string option" where
  "SESSION_ESTABLISHMENT_LOOKUP_TABLE_ADDRESS n =
     (case n of Testnet \<Rightarrow> Some ''B8cUjJMqaWWTNNSTXBmeptjWswwCH1gTSCRYv4nu7kJW'' | Mainnet \<Rightarrow> None)"

text \<open>\<^verbatim>\<open>unlimited: true\<close>, or optional limits. The keys of the JavaScript map are objects, so two
  entries may name the same mint.\<close>

datatype SessionLimits = Unlimited | Limited "(pubkey \<times> int) list option"

record EstablishSessionOptions =
  eo_context :: SessionContext
  eo_walletPublicKey :: pubkey
  eo_wallet :: wallet_env
  eo_expires :: "int option"
  eo_extra :: "(string \<times> string) list option"
  eo_createUnsafeExtractableSessionKey :: bool
  eo_sessionEstablishmentLookupTable :: "string option"
  eo_limits :: SessionLimits

definition token_info :: "sdk_env \<Rightarrow> pubkey \<times> int \<Rightarrow> TokenInfo result" where
  "token_info E limit =
     (case limit of (mint, amount) \<Rightarrow>
       let metadataAddress = findMetadataPda (env_lib E) mint in
       bind_result (getMint_decimals E mint) (\<lambda>decimals.
       bind_result (metadata_symbol E metadataAddress) (\<lambda>symbol.
       Inr \<lparr>ti_amount = amount, ti_decimals = decimals, ti_metadataAddress = metadataAddress, ti_mint = mint,
            ti_symbolOrMint = (case symbol of None \<Rightarrow> Mint mint | Some s \<Rightarrow> if s = [] then Mint mint else Symbol s)\<rparr>)))"

definition getTokenInfo :: "sdk_env \<Rightarrow> (pubkey \<times> int) list \<Rightarrow> TokenInfo list result" where
  "getTokenInfo E limits = traverse (token_info E) limits"

definition start_session_body ::
  "sdk_env \<Rightarrow> EstablishSessionOptions \<Rightarrow> string \<Rightarrow> string \<Rightarrow> TokenInfo list option \<Rightarrow> (string \<times> string) list" where
  "start_session_body E options expires address tokens =
     [(''version'', CURRENT_MAJOR @ ''.'' @ CURRENT_MINOR),
      (''chain_id'', chainId (eo_context options)),
      (''domain'', ctx_domain (eo_context options)),
      (''expires'', expires),
      (''session_key'', address),
      (''tokens'', serializeTokenList (env_lib E) tokens)]"

definition buildStartSessionIntentInstruction ::
  "sdk_env \<Rightarrow> EstablishSessionOptions \<Rightarrow> key_pair \<Rightarrow> TokenInfo list option \<Rightarrow> instruction result" where
  "buildStartSessionIntentInstruction E options key tokens =
     bind_result (toISOString (eo_expires options)) (\<lambda>expires.
     bind_result (getAddressFromPublicKey (env_kit E) (kp_public key)) (\<lambda>address.
     buildIntentInstruction (env_lib E) (eo_wallet options) (eo_walletPublicKey options) MESSAGE_HEADER
       (start_session_body E options expires address tokens) None))"

definition token_accounts :: "sdk_env \<Rightarrow> pubkey \<Rightarrow> TokenInfo \<Rightarrow> account_meta list result" where
  "token_accounts E wallet t =
     bind_result (ata (env_lib E) (ti_mint t) wallet) (\<lambda>account.
     Inr ([\<lparr>isSigner = False, isWritable = True, meta_pubkey = account\<rparr>,
           \<lparr>isSigner = False, isWritable = False, meta_pubkey = ti_mint t\<rparr>] @
          (case ti_symbolOrMint t of
             Symbol _ \<Rightarrow> [\<lparr>isSigner = False, isWritable = False, meta_pubkey = ti_metadataAddress t\<rparr>]
           | Mint _ \<Rightarrow> [])))"

definition start_session_call ::
  "sdk_env \<Rightarrow> EstablishSessionOptions \<Rightarrow> pubkey \<Rightarrow> account_meta list \<Rightarrow> anchor_call" where
  "start_session_call E options session remaining =
     \<lparr>call_program = ''session_manager'', call_method = ''startSession'', call_args = [],
      call_accounts = [(''domainRegistry'', Some (getDomainRecordAddress (env_lib E) (ctx_domain (eo_context options)))),
                       (''session'', Some session), (''sponsor'', Some (payer (eo_context options)))],
      call_remaining = remaining\<rparr>"

definition buildStartSessionInstruction ::
  "sdk_env \<Rightarrow> EstablishSessionOptions \<Rightarrow> key_pair \<Rightarrow> TokenInfo list option \<Rightarrow> instruction result" where
  "buildStartSessionInstruction E options key tokens =
     bind_result (getAddressFromPublicKey (env_kit E) (kp_public key)) (\<lambda>address.
     bind_result (parsePublicKey (env_lib E) address) (\<lambda>session.
     bind_result (case tokens of None \<Rightarrow> Inr []
                  | Some ts \<Rightarrow> traverse (token_accounts E (eo_walletPublicKey options)) ts) (\<lambda>accounts.
     anchor_instruction (env_lib E) (start_session_call E options session (concat accounts)))))"

datatype EstablishSessionResult = SessionSuccess string Session | SessionFailed string TransactionError

definition not_created :: TransactionError where
  "not_created = ErrorObject (Error ''Transaction succeeded, but the session was not created'')"

definition sendSessionEstablishTransaction ::
  "sdk_env \<Rightarrow> world \<Rightarrow> world \<Rightarrow> conn_state \<Rightarrow> EstablishSessionOptions \<Rightarrow> key_pair \<Rightarrow> instruction list \<Rightarrow>
   EstablishSessionResult result \<times> conn_state" where
  "sendSessionEstablishTransaction E W W' st options key instructions =
     (let (sent, st') = context_sendTransaction (env_lib E) (env_kit E) (eo_context options) W st (Some key)
            (TxInstructions (map LegacyInstruction instructions)) (eo_walletPublicKey options)
            (no_options\<lparr>so_addressLookupTable :=
                (case eo_sessionEstablishmentLookupTable options of Some t \<Rightarrow> Some t
                 | None \<Rightarrow> SESSION_ESTABLISHMENT_LOOKUP_TABLE_ADDRESS (ctx_network (eo_context options))),
              so_variation := Some ''Session Establishment''\<rparr>)
      in (bind_result sent (\<lambda>res.
            case res of
              Success signature \<Rightarrow>
                bind_result (createSession (env_lib E) (env_kit E) (env_decode E) W' (eo_context options)
                    (eo_walletPublicKey options) key) (\<lambda>session.
                  Inr (case session of
                         Some s \<Rightarrow> SessionSuccess signature s
                       | None \<Rightarrow> SessionFailed signature not_created))
            | Failed signature error \<Rightarrow> Inr (SessionFailed signature error)),
          st'))"

text \<open>The tokens of the intent: \<open>None\<close> for an unlimited session, otherwise the positive limits.\<close>

definition session_tokens :: "sdk_env \<Rightarrow> SessionLimits \<Rightarrow> TokenInfo list option result" where
  "session_tokens E limits =
     (case limits of
        Unlimited \<Rightarrow> Inr None
      | Limited l \<Rightarrow>
          (let filteredLimits = filter (\<lambda>(_, amount). amount > 0) (case l of None \<Rightarrow> [] | Some m \<Rightarrow> m) in
           bind_result (if length filteredLimits > 0 then getTokenInfo E filteredLimits else Inr []) (\<lambda>ts. Inr (Some ts))))"

definition establishSession ::
  "sdk_env \<Rightarrow> world \<Rightarrow> world \<Rightarrow> conn_state \<Rightarrow> EstablishSessionOptions \<Rightarrow> EstablishSessionResult result \<times> conn_state" where
  "establishSession E W W' st options =
     (case (bind_result (generateKey E (eo_createUnsafeExtractableSessionKey options)) (\<lambda>key.
            bind_result (session_tokens E (eo_limits options)) (\<lambda>tokens.
            bind_result (buildStartSessionIntentInstruction E options key tokens) (\<lambda>intent.
            bind_result (buildStartSessionInstruction E options key tokens) (\<lambda>start.
            Inr (key, [intent, start])))))) of
        Inl e \<Rightarrow> (Inl e, st)
      | Inr (key, instructions) \<Rightarrow> sendSessionEstablishTransaction E W W' st options key instructions)"

definition replaceSession ::
  "sdk_env \<Rightarrow> world \<Rightarrow> world \<Rightarrow> conn_state \<Rightarrow> EstablishSessionOptions \<Rightarrow> Session \<Rightarrow> EstablishSessionResult result \<times> conn_state" where
  "replaceSession E W W' st options session =
     establishSession E W W' st (options\<lparr>eo_walletPublicKey := walletPublicKey session\<rparr>)"

definition reestablishSession ::
  "sdk_env \<Rightarrow> world \<Rightarrow> SessionContext \<Rightarrow> pubkey \<Rightarrow> key_pair \<Rightarrow> Session option result" where
  "reestablishSession E W context wallet key = createSession (env_lib E) (env_kit E) (env_decode E) W context wallet key"

definition revoke_call :: "Session \<Rightarrow> anchor_call" where
  "revoke_call session =
     \<lparr>call_program = ''session_manager'', call_method = ''revokeSession'', call_args = [],
      call_accounts = [(''session'', Some (sessionPublicKey session)),
                       (''sponsor'', Some (sponsor (session_sessionInfo session)))],
      call_remaining = []\<rparr>"

text \<open>\<open>Inr None\<close> is the early return of a session too old to be revoked.\<close>

definition revokeSession ::
  "sdk_env \<Rightarrow> world \<Rightarrow> conn_state \<Rightarrow> SessionContext \<Rightarrow> Session \<Rightarrow> TransactionResult option result \<times> conn_state" where
  "revokeSession E W st context session =
     (if minor (session_sessionInfo session) \<ge> 2
      then (case anchor_instruction (env_lib E) (revoke_call session) of
              Inl e \<Rightarrow> (Inl e, st)
            | Inr instruction \<Rightarrow>
                (let (sent, st') = context_sendTransaction (env_lib E) (env_kit E) context W st (Some (sessionKey session))
                       (TxInstructions [LegacyInstruction instruction]) (walletPublicKey session)
                       (no_options\<lparr>so_variation := Some ''Session Revocation''\<rparr>)
                 in (bind_result sent (\<lambda>r. Inr (Some r)), st')))
      else (Inr None, st))"

section \<open>What is signed and what is sent\<close>

lemma token_info_limit: "token_info E l = Inr t \<Longrightarrow> (ti_mint t, ti_amount t) = l"
  by (auto simp: token_info_def Let_def bind_result_eq_Inr split: prod.splits)

lemma traverse_token_info: "traverse (token_info E) ls = Inr ts \<Longrightarrow> map (\<lambda>t. (ti_mint t, ti_amount t)) ts = ls"
  by (induction ls arbitrary: ts) (auto simp: bind_result_eq_Inr dest: token_info_limit)

lemma session_tokens_cases:
  assumes "session_tokens E limits = Inr tokens"
  shows "case limits of Unlimited \<Rightarrow> tokens = None
     | Limited l \<Rightarrow> (\<exists>ts. tokens = Some ts \<and>
         map (\<lambda>t. (ti_mint t, ti_amount t)) ts = filter (\<lambda>(_, amount). amount > 0) (case l of None \<Rightarrow> [] | Some m \<Rightarrow> m))"
  using assms
  by (auto simp: session_tokens_def getTokenInfo_def bind_result_eq_Inr Let_def
      split: SessionLimits.splits if_splits dest!: traverse_token_info)

lemma serializeTokenList_unlimited_iff: "serializeTokenList L tokens = UNLIMITED_TOKEN_PERMISSIONS_VALUE \<longleftrightarrow> tokens = None"
proof (cases tokens)
  case (Some ts)
  then show ?thesis
    by (cases ts) (simp_all add: serializeTokenList_def UNLIMITED_TOKEN_PERMISSIONS_VALUE_def TOKENLESS_PERMISSIONS_VALUE_def token_line_def)
qed (simp add: serializeTokenList_def)

lemma traverse_token_accounts:
  "traverse (token_accounts E wallet) ts = Inr accs \<Longrightarrow> map (\<lambda>a. meta_pubkey (a ! Suc 0)) accs = map ti_mint ts"
  by (induction ts arbitrary: accs) (auto simp: bind_result_eq_Inr token_accounts_def)

lemma establish_cases:
  assumes "establishSession E W W' st options = (Inr res, st')"
  obtains key tokens intent start where
    "generateKey E (eo_createUnsafeExtractableSessionKey options) = Inr key"
    "session_tokens E (eo_limits options) = Inr tokens"
    "buildStartSessionIntentInstruction E options key tokens = Inr intent"
    "buildStartSessionInstruction E options key tokens = Inr start"
    "sendSessionEstablishTransaction E W W' st options key [intent, start] = (Inr res, st')"
  using assms by (auto simp: establishSession_def bind_result_eq_Inr split: sum.splits)

section \<open>Properties\<close>

text \<open>C1: what the user signs is what is asked of the chain. When \<^verbatim>\<open>establishSession\<close> returns, it sent
  two instructions made from one token list: the intent, whose text shows that list and the
  expiry, and \<^verbatim>\<open>startSession\<close>, whose remaining accounts name the same mints in the same order.
  For a limited session the list is exactly the limits with a positive amount; the text says
  "any amount of any token" exactly when the caller asked for an unlimited session.\<close>

theorem establish_intent_matches_instruction:
  assumes "establishSession E W W' st options = (Inr res, st')"
  shows "\<exists>key tokens expires address session accounts intent start.
    sendSessionEstablishTransaction E W W' st options key [intent, start] = (Inr res, st') \<and>
    getAddressFromPublicKey (env_kit E) (kp_public key) = Inr address \<and>
    parsePublicKey (env_lib E) address = Inr session \<and>
    toISOString (eo_expires options) = Inr expires \<and>
    buildIntentInstruction (env_lib E) (eo_wallet options) (eo_walletPublicKey options) MESSAGE_HEADER
      (start_session_body E options expires address tokens) None = Inr intent \<and>
    anchor_instruction (env_lib E) (start_session_call E options session (concat accounts)) = Inr start \<and>
    (serializeTokenList (env_lib E) tokens = UNLIMITED_TOKEN_PERMISSIONS_VALUE \<longleftrightarrow> eo_limits options = Unlimited) \<and>
    (case eo_limits options of
       Unlimited \<Rightarrow> accounts = []
     | Limited l \<Rightarrow> (\<exists>ts. tokens = Some ts \<and>
         map (\<lambda>t. (ti_mint t, ti_amount t)) ts = filter (\<lambda>(_, amount). amount > 0) (case l of None \<Rightarrow> [] | Some m \<Rightarrow> m) \<and>
         map (\<lambda>a. meta_pubkey (a ! 1)) accounts = map ti_mint ts))"
proof -
  from assms obtain key tokens intent start where
    tok: "session_tokens E (eo_limits options) = Inr tokens"
    and i: "buildStartSessionIntentInstruction E options key tokens = Inr intent"
    and s: "buildStartSessionInstruction E options key tokens = Inr start"
    and send: "sendSessionEstablishTransaction E W W' st options key [intent, start] = (Inr res, st')"
    by (rule establish_cases)
  from i obtain expires address where ex: "toISOString (eo_expires options) = Inr expires"
    and ad: "getAddressFromPublicKey (env_kit E) (kp_public key) = Inr address"
    and intent: "buildIntentInstruction (env_lib E) (eo_wallet options) (eo_walletPublicKey options) MESSAGE_HEADER
      (start_session_body E options expires address tokens) None = Inr intent"
    by (auto simp: buildStartSessionIntentInstruction_def bind_result_eq_Inr)
  from s ad obtain session accounts where pk: "parsePublicKey (env_lib E) address = Inr session"
    and acc: "(case tokens of None \<Rightarrow> Inr [] | Some ts \<Rightarrow> traverse (token_accounts E (eo_walletPublicKey options)) ts) = Inr accounts"
    and start: "anchor_instruction (env_lib E) (start_session_call E options session (concat accounts)) = Inr start"
    by (auto simp: buildStartSessionInstruction_def bind_result_eq_Inr)
  have "serializeTokenList (env_lib E) tokens = UNLIMITED_TOKEN_PERMISSIONS_VALUE \<longleftrightarrow> eo_limits options = Unlimited"
    using session_tokens_cases[OF tok] by (auto simp: serializeTokenList_unlimited_iff split: SessionLimits.splits)
  moreover have "case eo_limits options of
       Unlimited \<Rightarrow> accounts = []
     | Limited l \<Rightarrow> (\<exists>ts. tokens = Some ts \<and>
         map (\<lambda>t. (ti_mint t, ti_amount t)) ts = filter (\<lambda>(_, amount). amount > 0) (case l of None \<Rightarrow> [] | Some m \<Rightarrow> m) \<and>
         map (\<lambda>a. meta_pubkey (a ! 1)) accounts = map ti_mint ts)"
    using session_tokens_cases[OF tok] acc by (auto split: SessionLimits.splits intro: traverse_token_accounts)
  ultimately show ?thesis using send ad pk ex intent start by blast
qed

definition demo_env :: sdk_env where
  "demo_env = \<lparr>env_lib = demo_lib, env_kit = demo_kit, env_decode = (\<lambda>d. Inr demo_raw),
     getMint_decimals = (\<lambda>m. Inr 6), metadata_symbol = (\<lambda>m. Inr (Some ''USDC'')),
     generateKey = (\<lambda>e. Inr (demo_key\<lparr>kp_extractable := e\<rparr>))\<rparr>"

definition demo_establish :: EstablishSessionOptions where
  "demo_establish = \<lparr>eo_context = demo_context, eo_walletPublicKey = PublicKey [8],
     eo_wallet = \<lparr>signMessage = (\<lambda>m. Inr \<lparr>sm_signature = [1], sm_message = m\<rparr>), decodeOffchainMessage = (\<lambda>m. None)\<rparr>,
     eo_expires = Some 0, eo_extra = None, eo_createUnsafeExtractableSessionKey = False,
     eo_sessionEstablishmentLookupTable = None,
     eo_limits = Limited (Some [(PublicKey [3], 5), (PublicKey [4], 0)])\<rparr>"

abbreviation demo_chain :: world where
  "demo_chain \<equiv> (demo_world (PublicKey [1]))\<lparr>getAccountInfo := \<lambda>k. Inr (if k = PublicKey (utf8 ''A'') then Some [] else None)\<rparr>"

lemmas demo_establish_run = demo_establish_def demo_env_def demo_context_def session_tokens_def getTokenInfo_def token_info_def
  buildStartSessionIntentInstruction_def toISOString_def buildIntentInstruction_def intent_text_plain
  getOffchainMessagePublicKeyOffset_def buildStartSessionInstruction_def token_accounts_def start_session_call_def

lemma demo_sent:
  "fst (context_sendTransaction demo_lib demo_kit demo_context demo_chain demo_state (Some k)
      (TxInstructions ixs) w (no_options\<lparr>so_addressLookupTable := Some t, so_variation := Some v\<rparr>)) = Inr (Success ''7'')"
  by (simp add: context_sendTransaction_def sendToPaymaster_def getSignerKeys_def built_or_signed_def demo_build_run
      post_transaction_def response_transform_def demo_context_def getAddressLookupTable_def Let_def)

lemma demo_found:
  "\<exists>s. reestablishSession demo_env demo_chain demo_context w (demo_key\<lparr>kp_extractable := e\<rparr>) = Inr (Some s) \<and> walletPublicKey s = w"
  by (simp add: reestablishSession_def demo_env_def createSession_def demo_kit_def demo_lib_def getSessionAccount_def
      sessionInfoSchema_parse_def demo_raw_def schema_ok_def schema_transform_def session_of_active_def
      getDomainRegistryAuthorizedPrograms_def getDomainRecordAddress_def demo_context_def utf8_def utf8_char_def
      authorizedProgramsMatchDomainRegistry_def)

lemma demo_established: "\<exists>res st'. establishSession demo_env demo_chain demo_chain demo_state demo_establish = (Inr res, st')"
proof -
  have t: "SESSION_ESTABLISHMENT_LOOKUP_TABLE_ADDRESS (ctx_network (eo_context demo_establish)) = Some ''B8cUjJMqaWWTNNSTXBmeptjWswwCH1gTSCRYv4nu7kJW''"
    by (simp add: SESSION_ESTABLISHMENT_LOOKUP_TABLE_ADDRESS_def demo_establish_def demo_context_def)
  have o: "eo_context demo_establish = demo_context" "eo_walletPublicKey demo_establish = PublicKey [8]"
    "eo_sessionEstablishmentLookupTable demo_establish = None" "env_lib demo_env = demo_lib" "env_kit demo_env = demo_kit"
    "env_decode demo_env = (\<lambda>d. Inr demo_raw)" by (simp_all add: demo_establish_def demo_env_def)

  obtain s where s: "createSession demo_lib demo_kit (\<lambda>d. Inr demo_raw) demo_chain demo_context (PublicKey [8]) demo_key = Inr (Some s)"
    using demo_found[of "PublicKey [8]" False] by (auto simp: reestablishSession_def demo_env_def)
  have "fst (sendSessionEstablishTransaction demo_env demo_chain demo_chain demo_state demo_establish demo_key is)
      = Inr (SessionSuccess ''7'' s)" for "is"
    using s t by (simp add: sendSessionEstablishTransaction_def o case_prod_beta demo_sent)
  moreover have "\<exists>intent start. buildStartSessionIntentInstruction demo_env demo_establish demo_key tokens = Inr intent \<and>
      buildStartSessionInstruction demo_env demo_establish demo_key tokens = Inr start"
    if "session_tokens demo_env (eo_limits demo_establish) = Inr tokens" for tokens
    using that by (auto simp: demo_establish_run demo_lib_def demo_kit_def Let_def)
  moreover have "\<exists>tokens. session_tokens demo_env (eo_limits demo_establish) = Inr tokens"
    by (simp add: demo_establish_run demo_lib_def Let_def)
  ultimately show ?thesis
    by (auto simp: establishSession_def demo_env_def[THEN arg_cong, of generateKey] demo_establish_def[THEN arg_cong, of eo_createUnsafeExtractableSessionKey]
        prod_eq_iff)
qed

theorem establish_intent_matches_instruction_witness:
  "\<exists>tokens ts. tokens = Some ts \<and> session_tokens demo_env (eo_limits demo_establish) = Inr tokens \<and>
     map (\<lambda>t. (ti_mint t, ti_amount t)) ts = [(PublicKey [3], 5)] \<and>
     (\<exists>intent. buildIntentInstruction demo_lib (eo_wallet demo_establish) (PublicKey [8]) MESSAGE_HEADER
        (start_session_body demo_env demo_establish (iso_string 0) ''A'' tokens) None = Inr intent)"
proof -
  obtain res st' where "establishSession demo_env demo_chain demo_chain demo_state demo_establish = (Inr res, st')"
    using demo_established by blast
  from establish_intent_matches_instruction[OF this] obtain tokens intent ts where
    "buildIntentInstruction demo_lib (eo_wallet demo_establish) (PublicKey [8]) MESSAGE_HEADER
       (start_session_body demo_env demo_establish (iso_string 0) ''A'' tokens) None = Inr intent"
    "tokens = Some ts" "map (\<lambda>t. (ti_mint t, ti_amount t)) ts = [(PublicKey [3], 5)]"
    by (auto simp: demo_env_def demo_establish_def demo_kit_def toISOString_def)
  then show ?thesis
    by (auto simp: demo_establish_run demo_lib_def Let_def)
qed

text \<open>How an establishment ends. It succeeds exactly when the transaction succeeded and the chain
  then shows a usable session for the new key; a transaction that succeeded without one, and a
  transaction that failed, both give a failure that carries the signature.\<close>

theorem establish_outcome:
  assumes "context_sendTransaction (env_lib E) (env_kit E) (eo_context options) W st (Some key)
      (TxInstructions (map LegacyInstruction is)) (eo_walletPublicKey options)
      (no_options\<lparr>so_addressLookupTable :=
         (case eo_sessionEstablishmentLookupTable options of Some t \<Rightarrow> Some t
          | None \<Rightarrow> SESSION_ESTABLISHMENT_LOOKUP_TABLE_ADDRESS (ctx_network (eo_context options))),
        so_variation := Some ''Session Establishment''\<rparr>) = (Inr sent, st')"
    and "reestablishSession E W' (eo_context options) (eo_walletPublicKey options) key = Inr found"
  shows "sendSessionEstablishTransaction E W W' st options key is =
    (case (sent, found) of
       (Success sig, Some s) \<Rightarrow> Inr (SessionSuccess sig s)
     | (Success sig, None) \<Rightarrow> Inr (SessionFailed sig not_created)
     | (Failed sig e, _) \<Rightarrow> Inr (SessionFailed sig e), st')"
  using assms
  by (auto simp: sendSessionEstablishTransaction_def reestablishSession_def split: TransactionResult.splits option.splits)

theorem establish_outcome_witness:
  "\<exists>s. fst (sendSessionEstablishTransaction demo_env demo_chain demo_chain demo_state demo_establish demo_key []) =
     Inr (SessionSuccess ''7'' s)"
proof -
  let ?o = "no_options\<lparr>so_addressLookupTable :=
      (case eo_sessionEstablishmentLookupTable demo_establish of Some t \<Rightarrow> Some t
       | None \<Rightarrow> SESSION_ESTABLISHMENT_LOOKUP_TABLE_ADDRESS (ctx_network (eo_context demo_establish))),
     so_variation := Some ''Session Establishment''\<rparr>"
  let ?c = "context_sendTransaction (env_lib demo_env) (env_kit demo_env) (eo_context demo_establish) demo_chain demo_state (Some demo_key)
      (TxInstructions (map LegacyInstruction [])) (eo_walletPublicKey demo_establish) ?o"
  have "fst ?c = Inr (Success ''7'')"
    using demo_sent[where k = demo_key and ixs = "[]" and w = "PublicKey [8]"
        and t = "''B8cUjJMqaWWTNNSTXBmeptjWswwCH1gTSCRYv4nu7kJW''" and v = "''Session Establishment''"]
    by (simp add: demo_env_def demo_establish_def SESSION_ESTABLISHMENT_LOOKUP_TABLE_ADDRESS_def demo_context_def)
  then have c: "?c = (Inr (Success ''7''), snd ?c)" by (simp add: prod_eq_iff)
  obtain s where "reestablishSession demo_env demo_chain (eo_context demo_establish) (eo_walletPublicKey demo_establish) demo_key = Inr (Some s)"
    using demo_found[of "PublicKey [8]" False] by (auto simp: demo_establish_def)
  from establish_outcome[OF c this] show ?thesis by simp
qed

text \<open>The extra entries are dropped. Whatever \<^verbatim>\<open>extra\<close> the caller passes, establishing (and so
  replacing) a session does the same thing: the entries are neither validated nor shown to the
  user nor sent.\<close>

theorem establish_ignores_extra:
  "establishSession E W W' st (options\<lparr>eo_extra := x\<rparr>) = establishSession E W W' st options"
proof -
  let ?o = "options\<lparr>eo_extra := x\<rparr>"
  have "sendSessionEstablishTransaction E W W' st ?o = sendSessionEstablishTransaction E W W' st options"
    by (intro ext) (simp add: sendSessionEstablishTransaction_def cong: TransactionResult.case_cong option.case_cong prod.case_cong)
  moreover have "buildStartSessionIntentInstruction E ?o = buildStartSessionIntentInstruction E options"
    by (intro ext) (simp add: buildStartSessionIntentInstruction_def start_session_body_def)
  moreover have "buildStartSessionInstruction E ?o = buildStartSessionInstruction E options"
    by (intro ext) (simp add: buildStartSessionInstruction_def start_session_call_def cong: option.case_cong)
  ultimately show ?thesis by (simp add: establishSession_def cong: sum.case_cong prod.case_cong)
qed

text \<open>Revoking. A session of the first version is left alone, without a transaction; a newer one
  is revoked with one instruction that names the session and the sponsor recorded on chain,
  signed by the session key.\<close>

theorem revoke_by_version:
  "(minor (session_sessionInfo s) < 2 \<longrightarrow> revokeSession E W st ctx s = (Inr None, st)) \<and>
   (minor (session_sessionInfo s) \<ge> 2 \<longrightarrow> (\<forall>i. anchor_instruction (env_lib E) (revoke_call s) = Inr i \<longrightarrow>
      (let (sent, st') = context_sendTransaction (env_lib E) (env_kit E) ctx W st (Some (sessionKey s))
             (TxInstructions [LegacyInstruction i]) (walletPublicKey s) (no_options\<lparr>so_variation := Some ''Session Revocation''\<rparr>)
       in revokeSession E W st ctx s = (map_sum id Some sent, st'))))"
  by (auto simp: revokeSession_def bind_result_def Let_def split: prod.splits sum.splits)

definition demo_session :: "nat \<Rightarrow> Session" where
  "demo_session v = \<lparr>sessionPublicKey = PublicKey [7], sessionKey = demo_key, walletPublicKey = PublicKey [8],
     session_payer = PublicKey [6],
     session_sessionInfo = \<lparr>authorizedPrograms = AllPrograms, authorizedTokens = AllTokens, info_expiration = Some 0,
       info_extra = '''', major = 0, minor = v, sponsor = PublicKey [6], info_user = PublicKey [8]\<rparr>,
     session_context = demo_context\<rparr>"

theorem revoke_by_version_witness:
  "revokeSession demo_env demo_chain demo_state demo_context (demo_session 1) = (Inr None, demo_state) \<and>
   fst (revokeSession demo_env demo_chain demo_state demo_context (demo_session 4)) = Inr (Some (Success ''7''))"
proof
  show "revokeSession demo_env demo_chain demo_state demo_context (demo_session 1) = (Inr None, demo_state)"
    using revoke_by_version[of "demo_session 1" demo_env demo_chain demo_state demo_context] by (simp add: demo_session_def)
  obtain i where "anchor_instruction (env_lib demo_env) (revoke_call (demo_session 4)) = Inr i"
    by (simp add: demo_env_def demo_lib_def)
  moreover have "fst (context_sendTransaction demo_lib demo_kit demo_context demo_chain demo_state (Some demo_key)
      (TxInstructions is) w (no_options\<lparr>so_variation := Some v\<rparr>)) = Inr (Success ''7'')" for "is" w v
    by (simp add: context_sendTransaction_def sendToPaymaster_def getSignerKeys_def built_or_signed_def demo_build_run
        post_transaction_def response_transform_def demo_context_def Let_def)
  ultimately show "fst (revokeSession demo_env demo_chain demo_state demo_context (demo_session 4)) = Inr (Some (Success ''7''))"
    using revoke_by_version[of "demo_session 4" demo_env demo_chain demo_state demo_context]
    by (auto simp: demo_session_def demo_env_def Let_def case_prod_beta)
qed

end
