(* ===== verification/Transfers.thy ===== *)
theory Transfers
  imports Establish
begin

text \<open>
  Transfers and bridging (\<^verbatim>\<open>packages/sessions-sdk-ts/src/index.ts\<close>): the fee configuration, token
  and native transfers and the two directions of the Wormhole bridge. Each operation signs an
  intent and sends it with the instruction that executes it. The Wormhole packages and the
  accounts of the intent-transfer program are parameters.
\<close>

section \<open>Constants\<close>

definition CURRENT_INTENT_TRANSFER_MAJOR :: string where "CURRENT_INTENT_TRANSFER_MAJOR = ''0''"
definition CURRENT_INTENT_TRANSFER_MINOR :: string where "CURRENT_INTENT_TRANSFER_MINOR = ''2''"
definition CURRENT_BRIDGE_OUT_MAJOR :: string where "CURRENT_BRIDGE_OUT_MAJOR = ''0''"
definition CURRENT_BRIDGE_OUT_MINOR :: string where "CURRENT_BRIDGE_OUT_MINOR = ''2''"
definition FOGO_DECIMALS :: nat where "FOGO_DECIMALS = 9"
definition BRIDGE_OUT_CUS :: nat where "BRIDGE_OUT_CUS = 240000"

definition TRANSFER_MESSAGE_HEADER :: string where
  "TRANSFER_MESSAGE_HEADER = ''Fogo Transfer:'' @ [newline] @
     ''Signing this intent will transfer the tokens as described below.'' @ [newline]"

definition BRIDGE_OUT_MESSAGE_HEADER :: string where
  "BRIDGE_OUT_MESSAGE_HEADER = ''Fogo Bridge Transfer:'' @ [newline] @
     ''Signing this intent will bridge out the tokens as described below.'' @ [newline]"

definition BRIDGING_ADDRESS_LOOKUP_TABLE :: "Network \<Rightarrow> string \<rightharpoonup> string" where
  "BRIDGING_ADDRESS_LOOKUP_TABLE n =
     (case n of
        Testnet \<Rightarrow> [''ELNbJ1RtERV2fjtuZjbTscDekWhVzkQ1LjmiPsxp5uND'' \<mapsto> ''4FCi6LptexBdZtaePsoCMeb1XpCijxnWu96g5LsSb6WP'']
      | Mainnet \<Rightarrow> [''uSd2czE61Evaf76RNbq4KPpXnkiL3irdzgLFUMe3NoG'' \<mapsto> ''7hmMz3nZDnPJfksLuPotKmUBAFDneM2D9wWg3R1VcKSv''])"

definition NETWORK_TO_WORMHOLE_NETWORK :: "Network \<Rightarrow> string" where
  "NETWORK_TO_WORMHOLE_NETWORK n = (case n of Mainnet \<Rightarrow> ''Mainnet'' | Testnet \<Rightarrow> ''Testnet'')"

datatype NonceType = TransferNonce | BridgeNonce

definition NONCE_TYPE_TO_SEED :: "NonceType \<Rightarrow> string" where
  "NONCE_TYPE_TO_SEED t = (case t of TransferNonce \<Rightarrow> ''nonce'' | BridgeNonce \<Rightarrow> ''bridge_ntt_nonce'')"

section \<open>Parameters\<close>

text \<open>The accounts of the intent-transfer program: the two fees of a fee configuration
  (intrachain, bridge) and the nonce, \<open>None\<close> when the account does not exist.\<close>

record transfer_env =
  te_env :: sdk_env
  fetch_feeConfig :: "pubkey \<Rightarrow> (int \<times> int) result"
  getProgramDerivedAddress :: "bytes list \<Rightarrow> pubkey \<Rightarrow> pubkey result"
  fetchNullable_nonce :: "pubkey \<Rightarrow> int option result"

abbreviation te_lib :: "transfer_env \<Rightarrow> solana_lib" where "te_lib T \<equiv> env_lib (te_env T)"

section \<open>Fees and nonces\<close>

record fee_config =
  fc_decimals :: nat
  fc_fee :: int
  fc_metadata :: pubkey
  fc_mint :: pubkey
  fc_symbolOrMint :: string

definition getFee :: "transfer_env \<Rightarrow> SessionContext \<Rightarrow> (int \<times> int \<Rightarrow> int) \<Rightarrow> fee_config result" where
  "getFee T context pick =
     (let L = te_lib T in
      bind_result (parsePublicKey L (USDC_MINT (ctx_network context))) (\<lambda>usdcMint.
      bind_result (fetch_feeConfig T
          (findProgramAddressSync L [utf8 ''fee_config'', toBytes usdcMint] (program_address L ''intent_transfer''))) (\<lambda>fees.
      Inr \<lparr>fc_decimals = USDC_DECIMALS, fc_fee = pick fees, fc_metadata = findMetadataPda L usdcMint,
           fc_mint = usdcMint, fc_symbolOrMint = ''USDC.s''\<rparr>)))"

definition getTransferFee :: "transfer_env \<Rightarrow> SessionContext \<Rightarrow> fee_config result" where
  "getTransferFee T context = getFee T context fst"

definition getBridgeOutFee :: "transfer_env \<Rightarrow> SessionContext \<Rightarrow> fee_config result" where
  "getBridgeOutFee T context = getFee T context snd"

definition getNonce :: "transfer_env \<Rightarrow> pubkey \<Rightarrow> NonceType \<Rightarrow> int option result" where
  "getNonce T wallet nonceType =
     bind_result (getProgramDerivedAddress T [utf8 (NONCE_TYPE_TO_SEED nonceType), toBytes wallet]
        (program_address (te_lib T) ''intent_transfer'')) (fetchNullable_nonce T)"

definition next_nonce :: "int option \<Rightarrow> string" where
  "next_nonce nonce = (case nonce of None \<Rightarrow> ''1'' | Some n \<Rightarrow> int_to_string (n + 1))"

section \<open>Transfers\<close>

record SendTransferOptions =
  to_context :: SessionContext
  to_walletPublicKey :: pubkey
  to_wallet :: wallet_env
  to_mint :: pubkey
  to_amount :: int
  to_recipient :: pubkey
  to_feeConfig :: fee_config

definition transfer_body :: "transfer_env \<Rightarrow> SendTransferOptions \<Rightarrow> string \<Rightarrow> string \<Rightarrow> string \<Rightarrow> (string \<times> string) list" where
  "transfer_body T options token amount nonce =
     [(''version'', CURRENT_INTENT_TRANSFER_MAJOR @ ''.'' @ CURRENT_INTENT_TRANSFER_MINOR),
      (''chain_id'', chainId (to_context options)),
      (''token'', token),
      (''amount'', amount),
      (''recipient'', toBase58 (te_lib T) (to_recipient options)),
      (''fee_token'', fc_symbolOrMint (to_feeConfig options)),
      (''fee_amount'', sdk_amountToString (fc_fee (to_feeConfig options)) (fc_decimals (to_feeConfig options))),
      (''nonce'', nonce)]"

definition buildTransferIntentInstruction :: "transfer_env \<Rightarrow> SendTransferOptions \<Rightarrow> string option \<Rightarrow> instruction result" where
  "buildTransferIntentInstruction T options symbol =
     bind_result (getNonce T (to_walletPublicKey options) TransferNonce) (\<lambda>nonce.
     bind_result (getMint_decimals (te_env T) (to_mint options)) (\<lambda>decimals.
     buildIntentInstruction (te_lib T) (to_wallet options) (to_walletPublicKey options) TRANSFER_MESSAGE_HEADER
       (transfer_body T options (case symbol of Some s \<Rightarrow> s | None \<Rightarrow> toBase58 (te_lib T) (to_mint options))
          (sdk_amountToString (to_amount options) decimals) (next_nonce nonce)) None))"

definition send_tokens_call :: "transfer_env \<Rightarrow> SendTransferOptions \<Rightarrow> string option \<Rightarrow> pubkey \<Rightarrow> pubkey \<Rightarrow> anchor_call" where
  "send_tokens_call T options symbol source feeSource =
     \<lparr>call_program = ''intent_transfer'', call_method = ''sendTokens'', call_args = [],
      call_accounts =
        [(''destinationOwner'', Some (to_recipient options)),
         (''feeMetadata'', Some (fc_metadata (to_feeConfig options))),
         (''feeMint'', Some (fc_mint (to_feeConfig options))),
         (''feeSource'', Some feeSource),
         (''metadata'', map_option (\<lambda>_. findMetadataPda (te_lib T) (to_mint options)) symbol),
         (''mint'', Some (to_mint options)),
         (''source'', Some source),
         (''sponsor'', Some (internalPayer (to_context options)))],
      call_remaining = []\<rparr>"

definition intent_options :: SendTransactionOptions where
  "intent_options = no_options\<lparr>so_paymasterDomain := Some SESSIONS_INTERNAL_PAYMASTER_DOMAIN, so_variation := Some ''Intent Transfer''\<rparr>"

text \<open>The two instructions of a transfer, in the order of the source.\<close>

definition transfer_instructions :: "transfer_env \<Rightarrow> SendTransferOptions \<Rightarrow> instruction list result" where
  "transfer_instructions T options =
     (let L = te_lib T in
      bind_result (ata L (to_mint options) (to_walletPublicKey options)) (\<lambda>sourceAta.
      bind_result (metadata_symbol (te_env T) (findMetadataPda L (to_mint options))) (\<lambda>symbol.
      bind_result (buildTransferIntentInstruction T options symbol) (\<lambda>intent.
      bind_result (ata L (fc_mint (to_feeConfig options)) (to_walletPublicKey options)) (\<lambda>feeSource.
      bind_result (anchor_instruction L (send_tokens_call T options symbol sourceAta feeSource)) (\<lambda>send.
      Inr [intent, send]))))))"

definition send_instructions ::
  "transfer_env \<Rightarrow> world \<Rightarrow> conn_state \<Rightarrow> SendTransferOptions \<Rightarrow> instruction list result \<Rightarrow> TransactionResult result \<times> conn_state" where
  "send_instructions T W st options built =
     (case built of
        Inl e \<Rightarrow> (Inl e, st)
      | Inr is \<Rightarrow> context_sendTransaction (te_lib T) (env_kit (te_env T)) (to_context options) W st None
          (TxInstructions (map LegacyInstruction is)) (to_walletPublicKey options) intent_options)"

definition sendTransfer ::
  "transfer_env \<Rightarrow> world \<Rightarrow> conn_state \<Rightarrow> SendTransferOptions \<Rightarrow> TransactionResult result \<times> conn_state" where
  "sendTransfer T W st options = send_instructions T W st options (transfer_instructions T options)"

text \<open>A native transfer has the same options without a mint; \<open>to_mint\<close> is not read.\<close>

definition buildNativeTransferIntentInstruction :: "transfer_env \<Rightarrow> SendTransferOptions \<Rightarrow> instruction result" where
  "buildNativeTransferIntentInstruction T options =
     bind_result (getNonce T (to_walletPublicKey options) TransferNonce) (\<lambda>nonce.
     buildIntentInstruction (te_lib T) (to_wallet options) (to_walletPublicKey options) TRANSFER_MESSAGE_HEADER
       (transfer_body T options ''FOGO'' (sdk_amountToString (to_amount options) FOGO_DECIMALS) (next_nonce nonce)) None)"

definition send_native_call :: "transfer_env \<Rightarrow> SendTransferOptions \<Rightarrow> pubkey \<Rightarrow> anchor_call" where
  "send_native_call T options feeSource =
     \<lparr>call_program = ''intent_transfer'', call_method = ''sendNative'', call_args = [],
      call_accounts =
        [(''destination'', Some (to_recipient options)),
         (''feeDestination'', Some (program_address (te_lib T) ''intent_transfer'')),
         (''feeMetadata'', Some (fc_metadata (to_feeConfig options))),
         (''feeMint'', Some (fc_mint (to_feeConfig options))),
         (''feeSource'', Some feeSource),
         (''source'', Some (to_walletPublicKey options)),
         (''sponsor'', Some (internalPayer (to_context options)))],
      call_remaining = []\<rparr>"

definition native_transfer_instructions :: "transfer_env \<Rightarrow> SendTransferOptions \<Rightarrow> instruction list result" where
  "native_transfer_instructions T options =
     (let L = te_lib T in
      bind_result (buildNativeTransferIntentInstruction T options) (\<lambda>intent.
      bind_result (ata L (fc_mint (to_feeConfig options)) (to_walletPublicKey options)) (\<lambda>feeSource.
      bind_result (anchor_instruction L (send_native_call T options feeSource)) (\<lambda>send.
      Inr [intent, send]))))"

definition sendNativeTransfer ::
  "transfer_env \<Rightarrow> world \<Rightarrow> conn_state \<Rightarrow> SendTransferOptions \<Rightarrow> TransactionResult result \<times> conn_state" where
  "sendNativeTransfer T W st options = send_instructions T W st options (native_transfer_instructions T options)"

section \<open>The bridge\<close>

record WormholeToken =
  wt_chain :: string
  wt_mint :: pubkey
  wt_manager :: pubkey
  wt_transceiver :: pubkey

text \<open>The token entry of the route configuration and the transfer request, as the source builds them.\<close>

record route_token =
  rt_chain :: string
  rt_manager :: string
  rt_token :: string
  rt_transceiver :: "(string \<times> string) list"

record transfer_request =
  tr_network :: string
  tr_solanaRpc :: string
  tr_tokens :: "route_token list"
  tr_destination :: "string \<times> string"
  tr_recipient :: "string \<times> string"
  tr_source :: "string \<times> string"

record executor_quote =
  payeeAddress :: pubkey
  signedQuote :: bytes

record wormhole_lib =
  wh_validate :: "transfer_request \<Rightarrow> string \<Rightarrow> string result"
  wh_fetchExecutorQuote :: "transfer_request \<Rightarrow> string \<Rightarrow> executor_quote result"
  wh_coreBridge :: "string \<Rightarrow> pubkey option"
  wh_quote :: "transfer_request \<Rightarrow> string \<Rightarrow> string result"
  wh_initiate :: "transfer_request \<Rightarrow> string \<Rightarrow> string \<Rightarrow> (bytes list \<Rightarrow> bytes list result) \<Rightarrow> string result"
  wh_complete :: "string \<Rightarrow> string result"
  solana_getAccountInfo :: "string \<Rightarrow> pubkey \<Rightarrow> bytes option result"
  generate_outbox :: "pubkey \<times> bytes"
  ntt_pda :: "string \<Rightarrow> pubkey \<Rightarrow> pubkey list \<Rightarrow> pubkey result"
  ntt_sessionAuthority :: "pubkey \<Rightarrow> pubkey \<Rightarrow> int \<Rightarrow> string \<Rightarrow> pubkey result"
  sign_and_serialize :: "bytes \<Rightarrow> bytes \<Rightarrow> bytes result"

definition route_entry :: "solana_lib \<Rightarrow> WormholeToken \<Rightarrow> route_token" where
  "route_entry L t = \<lparr>rt_chain = wt_chain t, rt_manager = toBase58 L (wt_manager t), rt_token = toBase58 L (wt_mint t),
     rt_transceiver = [(toBase58 L (wt_transceiver t), ''wormhole'')]\<rparr>"

definition transfer_request_of ::
  "solana_lib \<Rightarrow> SessionContext \<Rightarrow> string \<Rightarrow> pubkey \<Rightarrow> WormholeToken \<Rightarrow> WormholeToken \<Rightarrow> transfer_request" where
  "transfer_request_of L context rpc wallet fromToken toToken =
     \<lparr>tr_network = NETWORK_TO_WORMHOLE_NETWORK (ctx_network context), tr_solanaRpc = rpc,
      tr_tokens = [route_entry L fromToken, route_entry L toToken],
      tr_destination = (wt_chain toToken, toBase58 L (wt_mint toToken)),
      tr_recipient = (wt_chain toToken, toBase58 L wallet),
      tr_source = (wt_chain fromToken, toBase58 L (wt_mint fromToken))\<rparr>"

record wormhole_transfer =
  wx_decimals :: nat
  wx_request :: transfer_request
  wx_params :: string

text \<open>\<open>decimals_of\<close> is \<^verbatim>\<open>getMint\<close> on the connection that the caller passes.\<close>

definition buildWormholeTransfer ::
  "transfer_env \<Rightarrow> wormhole_lib \<Rightarrow> world \<Rightarrow> conn_state \<Rightarrow> SessionContext \<Rightarrow> int \<Rightarrow> WormholeToken \<Rightarrow> WormholeToken \<Rightarrow> pubkey \<Rightarrow>
   (pubkey \<Rightarrow> nat result) \<Rightarrow> wormhole_transfer result \<times> conn_state" where
  "buildWormholeTransfer T X W st context amount fromToken toToken wallet decimals_of =
     (let (solana, st') = solana_connection_get (ctx_network context) W st in
      (bind_result solana (\<lambda>rpc.
       bind_result (decimals_of (wt_mint fromToken)) (\<lambda>decimals.
       let request = transfer_request_of (te_lib T) context rpc wallet fromToken toToken in
       bind_result (wh_validate X request (sdk_amountToString amount decimals)) (\<lambda>params.
       Inr \<lparr>wx_decimals = decimals, wx_request = request, wx_params = params\<rparr>))), st'))"

record SendBridgeOutOptions =
  bo_context :: SessionContext
  bo_sessionKey :: key_pair
  bo_walletPublicKey :: pubkey
  bo_wallet :: wallet_env
  bo_amount :: int
  bo_fromToken :: WormholeToken
  bo_toToken :: WormholeToken
  bo_feeConfig :: fee_config

definition getDestinationAtaExists ::
  "transfer_env \<Rightarrow> wormhole_lib \<Rightarrow> world \<Rightarrow> conn_state \<Rightarrow> SessionContext \<Rightarrow> pubkey \<Rightarrow> pubkey \<Rightarrow> bool result \<times> conn_state" where
  "getDestinationAtaExists T X W st context token wallet =
     (let (solana, st') = solana_connection_get (ctx_network context) W st in
      (bind_result solana (\<lambda>rpc.
       bind_result (ata (te_lib T) token wallet) (\<lambda>account.
       bind_result (solana_getAccountInfo X rpc account) (\<lambda>info. Inr (info \<noteq> None)))), st'))"

text \<open>The addresses of the NTT and Wormhole programs come from their packages by name.\<close>

definition getNttPdas ::
  "transfer_env \<Rightarrow> wormhole_lib \<Rightarrow> SendBridgeOutOptions \<Rightarrow> pubkey \<Rightarrow> pubkey \<Rightarrow> (string \<times> pubkey) list result" where
  "getNttPdas T X options outboxItem payee =
     (let L = te_lib T; manager = wt_manager (bo_fromToken options);
          setter = findProgramAddressSync L [utf8 ''intent_transfer''] (program_address L ''intent_transfer'');
          registered = findProgramAddressSync L [utf8 ''registered_transceiver'', toBytes manager] manager
      in case wh_coreBridge X (NETWORK_TO_WORMHOLE_NETWORK (ctx_network (bo_context options))) of
           None \<Rightarrow> Inl (Error ''Core bridge contract address not returned by wormhole!'')
         | Some core \<Rightarrow>
             bind_result (traverse (\<lambda>(name, args). bind_result (ntt_pda X name manager args) (\<lambda>p. Inr (name, p)))
               [(''emitter'', []), (''nttConfig'', []), (''nttCustody'', [wt_mint (bo_fromToken options)]),
                (''nttInboxRateLimit'', []), (''nttOutboxRateLimit'', []), (''nttPeer'', []), (''nttTokenAuthority'', []),
                (''wormholeBridge'', [core]), (''wormholeFeeCollector'', [core]), (''wormholeMessage'', [outboxItem]),
                (''wormholeSequence'', [core])]) (\<lambda>pdas.
             bind_result (ntt_sessionAuthority X manager setter (bo_amount options) (toBase58 L (bo_walletPublicKey options))) (\<lambda>authority.
             Inr (pdas @ [(''nttManager'', manager), (''nttOutboxItem'', outboxItem), (''nttSessionAuthority'', authority),
                          (''payeeNttWithExecutor'', payee), (''transceiver'', registered), (''wormholeProgram'', core)]))))"

definition bridge_body :: "transfer_env \<Rightarrow> SendBridgeOutOptions \<Rightarrow> nat \<Rightarrow> string option \<Rightarrow> int option \<Rightarrow> (string \<times> string) list" where
  "bridge_body T options decimals symbol nonce =
     [(''version'', CURRENT_BRIDGE_OUT_MAJOR @ ''.'' @ CURRENT_BRIDGE_OUT_MINOR),
      (''from_chain_id'', chainId (bo_context options)),
      (''to_chain_id'', ''solana''),
      (''token'', case symbol of Some s \<Rightarrow> s | None \<Rightarrow> toBase58 (te_lib T) (wt_mint (bo_fromToken options))),
      (''amount'', sdk_amountToString (bo_amount options) decimals),
      (''recipient_address'', toBase58 (te_lib T) (bo_walletPublicKey options)),
      (''fee_token'', fc_symbolOrMint (bo_feeConfig options)),
      (''fee_amount'', sdk_amountToString (fc_fee (bo_feeConfig options)) (fc_decimals (bo_feeConfig options))),
      (''nonce'', next_nonce nonce)]"

definition buildBridgeOutIntent ::
  "transfer_env \<Rightarrow> SendBridgeOutOptions \<Rightarrow> nat \<Rightarrow> string option \<Rightarrow> instruction result" where
  "buildBridgeOutIntent T options decimals symbol =
     bind_result (getNonce T (bo_walletPublicKey options) BridgeNonce) (\<lambda>nonce.
     buildIntentInstruction (te_lib T) (bo_wallet options) (bo_walletPublicKey options) BRIDGE_OUT_MESSAGE_HEADER
       (bridge_body T options decimals symbol nonce) None)"

definition bridge_call ::
  "transfer_env \<Rightarrow> SendBridgeOutOptions \<Rightarrow> string option \<Rightarrow> bool \<Rightarrow> executor_quote \<Rightarrow> (string \<times> pubkey) list \<Rightarrow> pubkey \<Rightarrow> pubkey \<Rightarrow> anchor_call" where
  "bridge_call T options symbol destinationAtaExists quote nttPdas source feeSource =
     \<lparr>call_program = ''intent_transfer'', call_method = ''bridgeNttTokens'',
      call_args = [ArgBool (\<not> destinationAtaExists), ArgBytes (signedQuote quote)],
      call_accounts =
        [(''feeMetadata'', Some (fc_metadata (bo_feeConfig options))),
         (''feeMint'', Some (fc_mint (bo_feeConfig options))),
         (''feeSource'', Some feeSource),
         (''metadata'', map_option (\<lambda>_. findMetadataPda (te_lib T) (wt_mint (bo_fromToken options))) symbol),
         (''mint'', Some (wt_mint (bo_fromToken options)))] @
        map (\<lambda>(k, p). (''ntt.'' @ k, Some p)) nttPdas @
        [(''source'', Some source),
         (''sponsor'', Some (internalPayer (bo_context options)))],
      call_remaining = []\<rparr>"

definition bridge_out_instructions ::
  "transfer_env \<Rightarrow> wormhole_lib \<Rightarrow> SendBridgeOutOptions \<Rightarrow> executor_quote \<Rightarrow> nat \<Rightarrow> bool result \<Rightarrow> pubkey \<Rightarrow> instruction list result" where
  "bridge_out_instructions T X options quote decimals exists outboxItem =
     (let L = te_lib T in
      bind_result (metadata_symbol (te_env T) (findMetadataPda L (wt_mint (bo_fromToken options)))) (\<lambda>symbol.
      bind_result (getNttPdas T X options outboxItem (payeeAddress quote)) (\<lambda>pdas.
      bind_result exists (\<lambda>ataExists.
      bind_result (buildBridgeOutIntent T options decimals symbol) (\<lambda>intent.
      bind_result (ata L (fc_mint (bo_feeConfig options)) (bo_walletPublicKey options)) (\<lambda>feeSource.
      bind_result (ata L (wt_mint (bo_fromToken options)) (bo_walletPublicKey options)) (\<lambda>source.
      bind_result (anchor_instruction L (bridge_call T options symbol ataExists quote pdas source feeSource)) (\<lambda>bridge.
      Inr [setComputeUnitLimit L BRIDGE_OUT_CUS, intent, bridge]))))))))"

definition bridgeOut ::
  "transfer_env \<Rightarrow> wormhole_lib \<Rightarrow> world \<Rightarrow> conn_state \<Rightarrow> SendBridgeOutOptions \<Rightarrow> TransactionResult result \<times> conn_state" where
  "bridgeOut T X W st options =
     (let (built, st1) = buildWormholeTransfer T X W st (bo_context options) (bo_amount options) (bo_fromToken options)
            (bo_toToken options) (bo_walletPublicKey options) (getMint_decimals (te_env T));
          (outboxKey, outboxSecret) = generate_outbox X
      in case bind_result built (\<lambda>w. bind_result (wh_fetchExecutorQuote X (wx_request w) (wx_params w)) (\<lambda>q. Inr (w, q))) of
           Inl e \<Rightarrow> (Inl e, st1)
         | Inr (w, quote) \<Rightarrow>
             (let (exists, st2) = getDestinationAtaExists T X W st1 (bo_context options) (wt_mint (bo_toToken options)) (bo_walletPublicKey options)
              in case bridge_out_instructions T X options quote (wx_decimals w) exists outboxKey of
                   Inl e \<Rightarrow> (Inl e, st2)
                 | Inr is \<Rightarrow>
                     context_sendTransaction (te_lib T) (env_kit (te_env T)) (bo_context options) W st2 (Some (bo_sessionKey options))
                       (TxInstructions (map LegacyInstruction is)) (bo_walletPublicKey options)
                       \<lparr>so_variation = Some ''Intent NTT Bridge'',
                        so_addressLookupTable = BRIDGING_ADDRESS_LOOKUP_TABLE (ctx_network (bo_context options))
                          (toBase58 (te_lib T) (wt_mint (bo_fromToken options))),
                        so_extraSigners = Some [Keypair outboxSecret], so_feeMint = None,
                        so_paymasterDomain = Some SESSIONS_INTERNAL_PAYMASTER_DOMAIN\<rparr>))"

text \<open>Bridging in is driven by the Wormhole route, which calls back to sign its transactions:
  the wallet first, then the transaction's own signers (given with its bytes).\<close>

definition bridge_in_sign ::
  "wormhole_lib \<Rightarrow> (bytes \<Rightarrow> bytes result) \<Rightarrow> (bytes \<Rightarrow> bytes) \<Rightarrow> bytes list \<Rightarrow> bytes list result" where
  "bridge_in_sign X signTransaction signers txs =
     traverse (\<lambda>tx. bind_result (signTransaction tx) (\<lambda>signed. sign_and_serialize X signed (signers tx))) txs"

definition bridgeIn ::
  "transfer_env \<Rightarrow> wormhole_lib \<Rightarrow> world \<Rightarrow> conn_state \<Rightarrow> SessionContext \<Rightarrow> pubkey \<Rightarrow> (bytes \<Rightarrow> bytes result) \<Rightarrow> (bytes \<Rightarrow> bytes) \<Rightarrow>
   int \<Rightarrow> WormholeToken \<Rightarrow> WormholeToken \<Rightarrow> (string \<Rightarrow> pubkey \<Rightarrow> nat result) \<Rightarrow> string result \<times> conn_state" where
  "bridgeIn T X W st context wallet signTransaction signers amount fromToken toToken solana_decimals =
     (let (solana, st1) = solana_connection_get (ctx_network context) W st in
      case solana of
        Inl e \<Rightarrow> (Inl e, st1)
      | Inr rpc \<Rightarrow>
          (let (built, st2) = buildWormholeTransfer T X W st1 context amount fromToken toToken wallet (solana_decimals rpc)
           in (bind_result built (\<lambda>w.
               bind_result (wh_quote X (wx_request w) (wx_params w)) (\<lambda>quote.
               bind_result (wh_initiate X (wx_request w) quote (toBase58 (te_lib T) wallet) (bridge_in_sign X signTransaction signers)) (\<lambda>receipt.
               wh_complete X receipt))), st2)))"

section \<open>Reading an intent back\<close>

lemma wf_value_line: "newline \<notin> set v \<Longrightarrow> wf_value v"
  by (simp add: wf_value_def split_on_no_sep)

lemma nat_to_string_line [simp]: "newline \<notin> set (nat_to_string n)"
  by (rule dec_no_char[OF nat_to_string_dec]) simp

lemma int_to_string_line [simp]: "newline \<notin> set (int_to_string i)"
  by (simp add: int_to_string_def)

lemma nat_to_string_one [simp]: "nat_to_string (Suc 0) = ''1''"
  using char_of_char[of "CHR ''1''", where ?'a = nat] by (simp add: nat_to_string.simps digit_char_def)

lemma next_nonce_eq: "next_nonce nonce = int_to_string ((case nonce of None \<Rightarrow> 0 | Some n \<Rightarrow> n) + 1)"
  by (simp add: next_nonce_def int_to_string_def split: option.splits)

lemma next_nonce_line [simp]: "newline \<notin> set (next_nonce n)"
  by (simp add: next_nonce_def split: option.splits)

lemma amount_line: "0 \<le> a \<Longrightarrow> newline \<notin> set (sdk_amountToString a d)"
  using amount_chars[of "nat a" d] sdk_amountToString_reference[of "nat a" d] by (auto simp: is_dec_def)

lemma amount_reads_back: "0 \<le> a \<Longrightarrow> stringToAmount (sdk_amountToString a d) d = Inr a"
  using stringToAmount_reference[of "nat a" d] sdk_amountToString_reference[of "nat a" d] by simp

text \<open>The parts of an intent that come from the chain, the wallet or a package and are written
  without a check: none of them may hold a line break.\<close>

definition transfer_clean :: "transfer_env \<Rightarrow> SendTransferOptions \<Rightarrow> bool" where
  "transfer_clean T options \<longleftrightarrow> newline \<notin> set (chainId (to_context options)) \<and>
     newline \<notin> set (fc_symbolOrMint (to_feeConfig options)) \<and> (\<forall>k. newline \<notin> set (toBase58 (te_lib T) k)) \<and>
     (\<forall>k s. metadata_symbol (te_env T) k = Inr (Some s) \<longrightarrow> newline \<notin> set s) \<and>
     0 \<le> to_amount options \<and> 0 \<le> fc_fee (to_feeConfig options)"

lemma transfer_body_wf:
  assumes "transfer_clean T options" and "newline \<notin> set token" and "newline \<notin> set amount"
  shows "wf_record (transfer_body T options token amount (next_nonce n))"
  using assms
  by (simp add: wf_record_def transfer_body_def wf_key_def dashed_def wf_value_line transfer_clean_def amount_line
      CURRENT_INTENT_TRANSFER_MAJOR_def CURRENT_INTENT_TRANSFER_MINOR_def)

lemma transfer_body_fields [simp]:
  "map_of (transfer_body T options token amount nonce) ''token'' = Some token"
  "map_of (transfer_body T options token amount nonce) ''amount'' = Some amount"
  "map_of (transfer_body T options token amount nonce) ''recipient'' = Some (toBase58 (te_lib T) (to_recipient options))"
  "map_of (transfer_body T options token amount nonce) ''fee_amount'' =
     Some (sdk_amountToString (fc_fee (to_feeConfig options)) (fc_decimals (to_feeConfig options)))"
  "map_of (transfer_body T options token amount nonce) ''nonce'' = Some nonce"
  by (simp_all add: transfer_body_def)

lemma intent_cases:
  assumes "buildIntentInstruction L w pk header body None = Inr i"
  obtains s where "signMessage w (utf8 (header @ [newline] @ serializeKV body @ [newline])) = Inr s"
  using assms by (auto simp: buildIntentInstruction_def intent_text_plain bind_result_eq_Inr)

section \<open>Properties\<close>


definition demo_transfer_env :: transfer_env where
  "demo_transfer_env = \<lparr>te_env = demo_env, fetch_feeConfig = (\<lambda>k. Inr (1, 2)),
     getProgramDerivedAddress = (\<lambda>seeds p. Inr (PublicKey (concat seeds))), fetchNullable_nonce = (\<lambda>k. Inr (Some 41))\<rparr>"

definition demo_fee :: fee_config where
  "demo_fee = \<lparr>fc_decimals = 6, fc_fee = 1, fc_metadata = PublicKey [2], fc_mint = PublicKey [3], fc_symbolOrMint = ''USDC.s''\<rparr>"

definition demo_transfer :: SendTransferOptions where
  "demo_transfer = \<lparr>to_context = demo_context, to_walletPublicKey = PublicKey [8],
     to_wallet = eo_wallet demo_establish, to_mint = PublicKey [3], to_amount = 5, to_recipient = PublicKey [9], to_feeConfig = demo_fee\<rparr>"

lemma demo_base58_line: "newline \<notin> set (toBase58 demo_lib k)"
  by (auto simp: demo_lib_def letters_def)

lemma demo_transfer_clean: "transfer_clean demo_transfer_env demo_transfer"
  using demo_base58_line
  by (auto simp: transfer_clean_def demo_transfer_env_def demo_transfer_def demo_fee_def demo_env_def demo_context_def)

lemma demo_transfer_built: "\<exists>is. transfer_instructions demo_transfer_env demo_transfer = Inr is"
  by (simp add: transfer_instructions_def buildTransferIntentInstruction_def getNonce_def demo_transfer_env_def demo_transfer_def
      demo_env_def demo_establish_def buildIntentInstruction_def intent_text_plain getOffchainMessagePublicKeyOffset_def demo_lib_def Let_def)


text \<open>A native transfer shows \<^verbatim>\<open>FOGO\<close>, the amount with nine decimals, the recipient and the next
  nonce, and its instruction moves the wallet's own balance to that recipient.\<close>

theorem native_transfer_executes_intent:
  assumes "native_transfer_instructions T options = Inr is" and "transfer_clean T options"
  shows "\<exists>intent send call text nonce s amt.
    is = [intent, send] \<and> anchor_instruction (te_lib T) call = Inr send \<and>
    signMessage (to_wallet options) (utf8 (TRANSFER_MESSAGE_HEADER @ [newline] @ text @ [newline])) = Inr s \<and>
    getNonce T (to_walletPublicKey options) TransferNonce = Inr nonce \<and>
    map_of (parse_kv text) ''token'' = Some ''FOGO'' \<and>
    map_of (parse_kv text) ''recipient'' = Some (toBase58 (te_lib T) (to_recipient options)) \<and>
    map_of (call_accounts call) ''destination'' = Some (Some (to_recipient options)) \<and>
    map_of (call_accounts call) ''source'' = Some (Some (to_walletPublicKey options)) \<and>
    map_of (parse_kv text) ''amount'' = Some amt \<and> stringToAmount amt 9 = Inr (to_amount options) \<and>
    map_of (parse_kv text) ''nonce'' = Some (int_to_string ((case nonce of None \<Rightarrow> 0 | Some n \<Rightarrow> n) + 1))"
proof -
  from assms(1) obtain intent feeSource send where
    i: "buildNativeTransferIntentInstruction T options = Inr intent"
    and c: "anchor_instruction (te_lib T) (send_native_call T options feeSource) = Inr send" and "is": "is = [intent, send]"
    by (auto simp: native_transfer_instructions_def Let_def bind_result_eq_Inr)
  from i obtain nonce where n: "getNonce T (to_walletPublicKey options) TransferNonce = Inr nonce"
    and b: "buildIntentInstruction (te_lib T) (to_wallet options) (to_walletPublicKey options) TRANSFER_MESSAGE_HEADER
      (transfer_body T options ''FOGO'' (sdk_amountToString (to_amount options) FOGO_DECIMALS) (next_nonce nonce)) None = Inr intent"
    by (auto simp: buildNativeTransferIntentInstruction_def bind_result_eq_Inr)
  let ?body = "transfer_body T options ''FOGO'' (sdk_amountToString (to_amount options) FOGO_DECIMALS) (next_nonce nonce)"
  have "wf_record ?body" using assms(2) by (intro transfer_body_wf) (auto simp: transfer_clean_def amount_line)
  then have p: "parse_kv (serializeKV ?body) = ?body" by (intro kv.parse_render) (simp add: transfer_body_def)
  from b obtain s where s: "signMessage (to_wallet options) (utf8 (TRANSFER_MESSAGE_HEADER @ [newline] @ serializeKV ?body @ [newline])) = Inr s"
    by (rule intent_cases)
  have am: "stringToAmount (sdk_amountToString (to_amount options) FOGO_DECIMALS) 9 = Inr (to_amount options)"
    using assms(2) amount_reads_back[of "to_amount options" 9] by (simp add: transfer_clean_def FOGO_DECIMALS_def)
  show ?thesis
    using "is" c s n am next_nonce_eq[of nonce, symmetric]
    by (intro exI[of _ intent] exI[of _ send] exI[of _ "send_native_call T options feeSource"]
        exI[of _ "serializeKV ?body"] exI[of _ nonce] exI[of _ s] exI[of _ "sdk_amountToString (to_amount options) FOGO_DECIMALS"])
      (simp add: p send_native_call_def)
qed

theorem native_transfer_executes_intent_witness:
  "\<exists>call send intent. anchor_instruction demo_lib call = Inr send \<and>
     map_of (call_accounts call) ''destination'' = Some (Some (PublicKey [9])) \<and>
     native_transfer_instructions demo_transfer_env demo_transfer = Inr [intent, send]"
proof -
  have "\<exists>ixs. native_transfer_instructions demo_transfer_env demo_transfer = Inr ixs"
    by (simp add: native_transfer_instructions_def buildNativeTransferIntentInstruction_def getNonce_def demo_transfer_env_def demo_transfer_def
      demo_env_def demo_establish_def buildIntentInstruction_def intent_text_plain getOffchainMessagePublicKeyOffset_def demo_lib_def Let_def)
  then obtain ixs where "native_transfer_instructions demo_transfer_env demo_transfer = Inr ixs" by blast
  from native_transfer_executes_intent[OF this demo_transfer_clean] this show ?thesis
    by (auto simp: demo_transfer_env_def demo_env_def demo_transfer_def)
qed

end
