(* ===== verification/Session_Store.thy ===== *)
theory Session_Store
  imports Session_Account
begin

text \<open>
  \<^verbatim>\<open>packages/sessions-sdk-web/src/index.ts\<close>: session keys kept in the browser's IndexedDB, one
  entry for each wallet and network. The object store is a map from cache keys to stored
  values. The browser rejects nothing here: opening the database and its transactions are the
  platform's.
\<close>

text \<open>A stored key is a \<^verbatim>\<open>CryptoKey\<close> of the platform or the object of a polyfill.\<close>

datatype stored_key = NativeKey bytes | PolyfillKey bytes

record StoredSession =
  stored_publicKey :: stored_key
  stored_privateKey :: stored_key
  stored_walletPublicKey :: string

type_synonym session_db = "string \<rightharpoonup> StoredSession"

definition NETWORK_TO_CACHE_KEY :: "Network \<Rightarrow> string" where
  "NETWORK_TO_CACHE_KEY n = (case n of Mainnet \<Rightarrow> ''mainnet'' | Testnet \<Rightarrow> ''testnet'')"

definition getCacheKey :: "solana_lib \<Rightarrow> Network \<Rightarrow> pubkey \<Rightarrow> string" where
  "getCacheKey L n wallet = toBase58 L wallet @ '':'' @ NETWORK_TO_CACHE_KEY n"

definition is_native :: "StoredSession \<Rightarrow> bool" where
  "is_native v = (case (stored_publicKey v, stored_privateKey v) of (NativeKey _, NativeKey _) \<Rightarrow> True | _ \<Rightarrow> False)"

definition read_stored :: "solana_lib \<Rightarrow> session_db \<Rightarrow> Network \<Rightarrow> pubkey \<Rightarrow> StoredSession option" where
  "read_stored L db n wallet =
     (case db (getCacheKey L n wallet) of
        None \<Rightarrow> None
      | Some value \<Rightarrow> if is_native value then Some value else None)"

text \<open>The session with its wallet key parsed.\<close>

definition getStoredSession ::
  "solana_lib \<Rightarrow> session_db \<Rightarrow> Network \<Rightarrow> pubkey \<Rightarrow> (stored_key \<times> stored_key \<times> pubkey) option result" where
  "getStoredSession L db n wallet =
     (case read_stored L db n wallet of
        None \<Rightarrow> Inr None
      | Some v \<Rightarrow> bind_result (parsePublicKey L (stored_walletPublicKey v)) (\<lambda>pk.
          Inr (Some (stored_publicKey v, stored_privateKey v, pk))))"

definition clearStoredSession :: "solana_lib \<Rightarrow> Network \<Rightarrow> pubkey \<Rightarrow> session_db \<Rightarrow> session_db" where
  "clearStoredSession L n wallet db = db(getCacheKey L n wallet := None)"

definition setStoredSession :: "solana_lib \<Rightarrow> Network \<Rightarrow> stored_key \<Rightarrow> stored_key \<Rightarrow> pubkey \<Rightarrow> session_db \<Rightarrow> session_db" where
  "setStoredSession L n pub priv wallet db =
     db(getCacheKey L n wallet \<mapsto> \<lparr>stored_publicKey = pub, stored_privateKey = priv, stored_walletPublicKey = toBase58 L wallet\<rparr>)"

section \<open>The contract of a keyed store\<close>

text \<open>A history of writes (\<open>Some\<close>) and deletions (\<open>None\<close>), applied from the left.\<close>

fun replay :: "('i \<Rightarrow> 'v \<Rightarrow> 'd \<Rightarrow> 'd) \<Rightarrow> ('i \<Rightarrow> 'd \<Rightarrow> 'd) \<Rightarrow> ('i \<times> 'v option) list \<Rightarrow> 'd \<Rightarrow> 'd" where
  "replay put del [] d = d"
| "replay put del ((i, Some v) # h) d = replay put del h (put i v d)"
| "replay put del ((i, None) # h) d = replay put del h (del i d)"

lemma replay_append: "replay put del (h @ h') d = replay put del h' (replay put del h d)"
  by (induction put del h d rule: replay.induct) auto

text \<open>What a client of the store relies on: a slot is what was last written to it, and writing
  one slot leaves every other alone.\<close>

locale keyed_store =
  fixes slot :: "'i \<Rightarrow> 'k" and get :: "'d \<Rightarrow> 'i \<Rightarrow> 'v option"
    and put :: "'i \<Rightarrow> 'v \<Rightarrow> 'd \<Rightarrow> 'd" and del :: "'i \<Rightarrow> 'd \<Rightarrow> 'd"
  assumes get_put: "slot i = slot j \<Longrightarrow> get (put i v d) j = Some v"
    and get_put_other: "slot i \<noteq> slot j \<Longrightarrow> get (put i v d) j = get d j"
    and get_del: "slot i = slot j \<Longrightarrow> get (del i d) j = None"
    and get_del_other: "slot i \<noteq> slot j \<Longrightarrow> get (del i d) j = get d j"
begin

lemma replay_last:
  "get (replay put del h d) j = (case filter (\<lambda>(i, _). slot i = slot j) (rev h) of [] \<Rightarrow> get d j | (_, w) # _ \<Rightarrow> w)"
proof (induction h rule: rev_induct)
  case (snoc e h)
  obtain i w where e: "e = (i, w)" by (cases e)
  have last: "replay put del [(i, w)] d' = (case w of Some v \<Rightarrow> put i v d' | None \<Rightarrow> del i d')" for d' by (cases w) simp_all
  show ?case
    using snoc by (cases w; cases "slot i = slot j")
      (simp_all add: e replay_append last get_put get_put_other get_del get_del_other)
qed simp

end

definition db_get :: "solana_lib \<Rightarrow> session_db \<Rightarrow> Network \<times> pubkey \<Rightarrow> StoredSession option" where
  "db_get L db i = db (getCacheKey L (fst i) (snd i))"

definition db_put :: "solana_lib \<Rightarrow> Network \<times> pubkey \<Rightarrow> StoredSession \<Rightarrow> session_db \<Rightarrow> session_db" where
  "db_put L i v db = db(getCacheKey L (fst i) (snd i) \<mapsto> v)"

interpretation idb: keyed_store "\<lambda>i. getCacheKey L (fst i) (snd i)" "db_get L" "db_put L"
  "\<lambda>(m, w). clearStoredSession L m w" for L
  by unfold_locales (auto simp: db_get_def db_put_def clearStoredSession_def)

lemma setStoredSession_put:
  "setStoredSession L n pub priv wallet = db_put L (n, wallet)
     \<lparr>stored_publicKey = pub, stored_privateKey = priv, stored_walletPublicKey = toBase58 L wallet\<rparr>"
  by (rule ext) (simp add: setStoredSession_def db_put_def)

section \<open>Cache keys\<close>

lemma getCacheKey_inj:
  assumes "\<And>k. CHR '':'' \<notin> set (toBase58 L k)" and "inj (toBase58 L)"
  shows "getCacheKey L n w = getCacheKey L m v \<longleftrightarrow> n = m \<and> w = v"
proof
  assume eq: "getCacheKey L n w = getCacheKey L m v"
  have "takeWhile (\<lambda>c. c \<noteq> CHR '':'') (s @ CHR '':'' # t) = s" if "CHR '':'' \<notin> set s" for s t
    using that by (induction s) auto
  with assms(1) have "takeWhile (\<lambda>c. c \<noteq> CHR '':'') (getCacheKey L k x) = toBase58 L x" for k x
    by (simp add: getCacheKey_def)
  with eq have b: "toBase58 L w = toBase58 L v" by metis
  with eq have "NETWORK_TO_CACHE_KEY n = NETWORK_TO_CACHE_KEY m" by (simp add: getCacheKey_def)
  then have "n = m" by (cases n; cases m) (simp_all add: NETWORK_TO_CACHE_KEY_def)
  with b assms(2) show "n = m \<and> w = v" by (simp add: inj_eq)
qed simp

section \<open>Properties\<close>


text \<open>Hexadecimal-like letters identify a key: the demonstration library's text is injective, colon-free
  and, with a matching parser, invertible.\<close>

fun unletters :: "nat \<Rightarrow> string \<Rightarrow> bytes" where
  "unletters 0 s = []"
| "unletters (Suc k) s = horner_sum of_bool 2 (map (\<lambda>c. c = CHR ''B'') (take 8 s)) # unletters k (drop 8 s)"

definition demo_text_lib :: solana_lib where
  "demo_text_lib = demo_lib\<lparr>parsePublicKey := \<lambda>s. Inr (PublicKey (unletters (length s div 8) s))\<rparr>"

lemma letters_bits: "horner_sum of_bool 2 (map (\<lambda>c. c = CHR ''B'') (letters b)) = b"
proof -
  have "map (\<lambda>c. c = CHR ''B'') (letters b) = map (bit b) [0..<8]" by (simp add: letters_def)
  then show ?thesis by (simp add: horner_sum_bit_eq_take_bit take_bit_word_eq_self)
qed

lemma unletters_letters: "unletters (length bs) (concat (map letters bs)) = bs"
proof (induction bs)
  case (Cons b bs)
  have "length (letters b) = 8" by (simp add: letters_def)
  with Cons show ?case by (simp add: letters_bits)
qed simp

lemma length_letters: "length (concat (map letters bs)) = 8 * length bs"
  by (induction bs) (simp_all add: letters_def)

lemma demo_text_parse: "parsePublicKey demo_text_lib (toBase58 demo_text_lib k) = Inr k"
  by (simp add: demo_text_lib_def demo_lib_def length_letters unletters_letters)

lemma demo_text_inj: "inj (toBase58 demo_text_lib)"
  by (rule injI) (metis demo_text_parse sum.inject(2))

lemma demo_text_colon: "CHR '':'' \<notin> set (toBase58 demo_text_lib k)"
  by (auto simp: demo_text_lib_def demo_lib_def letters_def)


end
