(* ===== verification/Login_Token.thy ===== *)
theory Login_Token
  imports Session_Store
begin

text \<open>
  Login tokens (\<^verbatim>\<open>createLogInToken\<close> and \<^verbatim>\<open>verifyLogInToken\<close> of \<^verbatim>\<open>index.ts\<close>) and the key functions of
  \<^verbatim>\<open>crypto.ts\<close>. The platform's Ed25519, \<^verbatim>\<open>bs58\<close>, the text decoder and \<^verbatim>\<open>JSON.parse\<close> followed by the
  zod schema are parameters.
\<close>

record crypto_lib =
  subtle_sign :: "bytes \<Rightarrow> bytes \<Rightarrow> bytes result"
  subtle_verify :: "bytes \<Rightarrow> bytes \<Rightarrow> bytes \<Rightarrow> bool result"
  subtle_importKey :: "bytes \<Rightarrow> bytes result"
  bs58_encode :: "bytes \<Rightarrow> string"
  bs58_decode :: "string \<Rightarrow> bytes result"
  TextDecoder_decode :: "bytes \<Rightarrow> string"
  parsePayload :: "string \<Rightarrow> (int \<times> string) result"

definition signMessageWithKey :: "crypto_lib \<Rightarrow> key_pair \<Rightarrow> string \<Rightarrow> string result" where
  "signMessageWithKey C pair message =
     bind_result (subtle_sign C (kp_private pair) (utf8 message)) (\<lambda>signature. Inr (bs58_encode C signature))"

definition verifyMessageWithKey :: "crypto_lib \<Rightarrow> bytes \<Rightarrow> string \<Rightarrow> string \<Rightarrow> bool result" where
  "verifyMessageWithKey C publicKey message signature =
     bind_result (bs58_decode C signature) (\<lambda>sig. subtle_verify C publicKey sig (utf8 message))"

definition importKey :: "crypto_lib \<Rightarrow> string \<Rightarrow> bytes result" where
  "importKey C publicKey = bind_result (bs58_decode C publicKey) (subtle_importKey C)"

text \<open>\<^verbatim>\<open>JSON.stringify\<close> of the payload: a number and a base58 text, which needs no escapes.\<close>

definition quoted :: "string \<Rightarrow> string" where
  "quoted s = CHR 0x22 # s @ [CHR 0x22]"

definition json_payload :: "int \<Rightarrow> string \<Rightarrow> string" where
  "json_payload iat pk =
     ''{'' @ quoted ''iat'' @ '':'' @ int_to_string iat @ '','' @ quoted ''sessionPublicKey'' @ '':'' @ quoted pk @ ''}''"

definition createLogInToken :: "solana_lib \<Rightarrow> crypto_lib \<Rightarrow> int \<Rightarrow> Session \<Rightarrow> string result" where
  "createLogInToken L C now session =
     (let message = json_payload now (toBase58 L (sessionPublicKey session)) in
      bind_result (signMessageWithKey C (sessionKey session) message) (\<lambda>signature.
      Inr (bs58_encode C (utf8 message) @ ''.'' @ signature)))"

text \<open>An invalid date compares as not expired: \<^verbatim>\<open>NaN < now\<close> is false.\<close>

definition expired :: "int \<Rightarrow> sessionInfo \<Rightarrow> bool" where
  "expired now si = (case info_expiration si of None \<Rightarrow> False | Some t \<Rightarrow> t < now)"

definition verify_parts ::
  "solana_lib \<Rightarrow> crypto_lib \<Rightarrow> (bytes \<Rightarrow> raw_session result) \<Rightarrow> world \<Rightarrow> int \<Rightarrow> string \<Rightarrow> string \<Rightarrow> sessionInfo option result" where
  "verify_parts L C decode W now rawMessage signature =
     bind_result (bs58_decode C rawMessage) (\<lambda>raw.
     let messageStr = TextDecoder_decode C raw in
     bind_result (parsePayload C messageStr) (\<lambda>(_, payloadKey).
     bind_result (importKey C payloadKey) (\<lambda>cryptoKey.
     bind_result (verifyMessageWithKey C cryptoKey messageStr signature) (\<lambda>isValid.
     if \<not> isValid then Inr None
     else bind_result (parsePublicKey L payloadKey) (\<lambda>pk.
          bind_result (getSessionAccount decode W pk) (\<lambda>account.
          case account of
            None \<Rightarrow> Inr None
          | Some si \<Rightarrow>
              if expired now si then Inl (Error ''The session associated with this login token has expired'')
              else Inr (Some si)))))))"

definition verifyLogInToken ::
  "solana_lib \<Rightarrow> crypto_lib \<Rightarrow> (bytes \<Rightarrow> raw_session result) \<Rightarrow> world \<Rightarrow> int \<Rightarrow> string \<Rightarrow> sessionInfo option result" where
  "verifyLogInToken L C decode W now token =
     (case split_on (CHR ''.'') token of
        rawMessage # signature # _ \<Rightarrow>
          if rawMessage = [] \<or> signature = [] then Inr None
          else verify_parts L C decode W now rawMessage signature
      | _ \<Rightarrow> Inr None)"

lemma fresh_token_verifies:
  assumes "createLogInToken L C now session = Inr token"
    and "\<And>b. bs58_decode C (bs58_encode C b) = Inr b" and "\<And>b. CHR ''.'' \<notin> set (bs58_encode C b)"
    and "\<And>b. b \<noteq> [] \<Longrightarrow> bs58_encode C b \<noteq> []"
    and "\<And>s. TextDecoder_decode C (utf8 s) = s"
    and "parsePayload C (json_payload now (toBase58 L (sessionPublicKey session))) = Inr (now, toBase58 L (sessionPublicKey session))"
    and "importKey C (toBase58 L (sessionPublicKey session)) = Inr cryptoKey"
    and "\<And>m sig. subtle_sign C (kp_private (sessionKey session)) m = Inr sig \<Longrightarrow> sig \<noteq> [] \<and> subtle_verify C cryptoKey sig m = Inr True"
    and "parsePublicKey L (toBase58 L (sessionPublicKey session)) = Inr (sessionPublicKey session)"
    and "getSessionAccount decode W (sessionPublicKey session) = Inr (Some si)" and "\<not> expired later si"
  shows "verifyLogInToken L C decode W later token = Inr (Some si)"
proof -
  let ?m = "json_payload now (toBase58 L (sessionPublicKey session))"
  from assms(1) obtain sig where sig: "subtle_sign C (kp_private (sessionKey session)) (utf8 ?m) = Inr sig"
    and token: "token = bs58_encode C (utf8 ?m) @ ''.'' @ bs58_encode C sig"
    by (auto simp: createLogInToken_def signMessageWithKey_def Let_def bind_result_eq_Inr)
  have split: "split_on (CHR ''.'') token = [bs58_encode C (utf8 ?m), bs58_encode C sig]"
    using assms(3) by (simp add: token split_on_append split_on_no_sep)
  have "utf8 ?m \<noteq> []" by (simp add: utf8_def json_payload_def utf8_char_def Let_def)
  with assms(4,8) sig have "bs58_encode C (utf8 ?m) \<noteq> []" "bs58_encode C sig \<noteq> []" by auto
  then show ?thesis
    using assms(2,5-11) sig by (simp add: verifyLogInToken_def split verify_parts_def Let_def verifyMessageWithKey_def)
qed

section \<open>Properties\<close>

text \<open>C12: what an accepted token proves. If verification returns an account, the token's first part
  decodes to a message whose payload names a key, the second part is a signature of that very
  message that verifies for the named key, and the account is the active, unexpired session
  account of that key.\<close>

theorem login_token_sound:
  assumes "verifyLogInToken L C decode W now token = Inr (Some si)"
  shows "\<exists>rawMessage signature rest raw iat key cryptoKey pk sig.
    split_on (CHR ''.'') token = rawMessage # signature # rest \<and>
    bs58_decode C rawMessage = Inr raw \<and> parsePayload C (TextDecoder_decode C raw) = Inr (iat, key) \<and>
    importKey C key = Inr cryptoKey \<and> bs58_decode C signature = Inr sig \<and>
    subtle_verify C cryptoKey sig (utf8 (TextDecoder_decode C raw)) = Inr True \<and>
    parsePublicKey L key = Inr pk \<and> getSessionAccount decode W pk = Inr (Some si) \<and> \<not> expired now si"
proof -
  from assms obtain rawMessage signature rest where
    split: "split_on (CHR ''.'') token = rawMessage # signature # rest"
    and parts: "verify_parts L C decode W now rawMessage signature = Inr (Some si)"
    by (auto simp: verifyLogInToken_def split: list.splits if_splits)
  from parts obtain raw iat key cryptoKey valid where
    a: "bs58_decode C rawMessage = Inr raw" "parsePayload C (TextDecoder_decode C raw) = Inr (iat, key)"
      "importKey C key = Inr cryptoKey" "verifyMessageWithKey C cryptoKey (TextDecoder_decode C raw) signature = Inr valid"
    and v: "(if \<not> valid then Inr None
     else bind_result (parsePublicKey L key) (\<lambda>pk.
          bind_result (getSessionAccount decode W pk) (\<lambda>account.
          case account of
            None \<Rightarrow> Inr None
          | Some si \<Rightarrow>
              if expired now si then Inl (Error ''The session associated with this login token has expired'')
              else Inr (Some si)))) = Inr (Some si)"
    by (auto simp: verify_parts_def Let_def bind_result_eq_Inr)
  from v have "valid" by (auto split: if_splits)
  with v obtain pk where "parsePublicKey L key = Inr pk" "getSessionAccount decode W pk = Inr (Some si)" "\<not> expired now si"
    by (auto simp: bind_result_eq_Inr split: option.splits if_splits)
  with split a \<open>valid\<close> show ?thesis by (fastforce simp: verifyMessageWithKey_def bind_result_eq_Inr)
qed

text \<open>A fresh token is accepted. With a signature scheme that verifies what it signs and
  encodings that decode what they encode, the token a session creates verifies to the
  session's account as long as that account exists, is active and has not expired.\<close>

theorem login_token_complete:
  assumes "createLogInToken L C now session = Inr token"
    and "\<And>b. bs58_decode C (bs58_encode C b) = Inr b" and "\<And>b. CHR ''.'' \<notin> set (bs58_encode C b)"
    and "\<And>b. b \<noteq> [] \<Longrightarrow> bs58_encode C b \<noteq> []"
    and "\<And>s. TextDecoder_decode C (utf8 s) = s"
    and "parsePayload C (json_payload now (toBase58 L (sessionPublicKey session))) = Inr (now, toBase58 L (sessionPublicKey session))"
    and "importKey C (toBase58 L (sessionPublicKey session)) = Inr cryptoKey"
    and "\<And>m sig. subtle_sign C (kp_private (sessionKey session)) m = Inr sig \<Longrightarrow> sig \<noteq> [] \<and> subtle_verify C cryptoKey sig m = Inr True"
    and "parsePublicKey L (toBase58 L (sessionPublicKey session)) = Inr (sessionPublicKey session)"
    and "getSessionAccount decode W (sessionPublicKey session) = Inr (Some si)" and "\<not> expired later si"
  shows "verifyLogInToken L C decode W later token = Inr (Some si)"
  using assms by (rule fresh_token_verifies)

text \<open>A concrete platform for the witnesses: the decoder of the modelled UTF-8, letters for base58, a
  signature that names the private key, and a payload reader for the layout above.\<close>

fun utf8_decode :: "bytes \<Rightarrow> string" where
  "utf8_decode [] = []"
| "utf8_decode [b] = [char_of (unat b)]"
| "utf8_decode (b # c # bs) =
     (if unat b < 128 then char_of (unat b) # utf8_decode (c # bs)
      else char_of ((unat b - 192) * 64 + (unat c - 128)) # utf8_decode bs)"

lemma unat_small: "n < 256 \<Longrightarrow> unat (word_of_nat n :: byte) = n"
  by (simp add: unat_of_nat)

lemma utf8_decode_char: "utf8_decode (utf8_char c @ bs) = c # utf8_decode bs"
proof (cases "of_char c < (128::nat)")
  case True
  then have "utf8_char c = [word_of_nat (of_char c)]" by (simp add: utf8_char_def)
  with True show ?thesis by (cases bs) (simp_all add: unat_small)
next
  case False
  let ?n = "of_char c :: nat"
  have n: "?n < 256" by simp
  have u: "utf8_char c = [word_of_nat (192 + ?n div 64), word_of_nat (128 + ?n mod 64)]"
    using False by (simp add: utf8_char_def Let_def)
  have "?n div 64 < 4" using n by (intro less_mult_imp_div_less) simp
  then have "unat (word_of_nat (192 + ?n div 64) :: byte) = 192 + ?n div 64" by (intro unat_small) simp
  moreover have "unat (word_of_nat (128 + ?n mod 64) :: byte) = 128 + ?n mod 64"
    using mod_less_divisor[of 64 ?n] by (intro unat_small) simp
  ultimately show ?thesis unfolding u by (simp add: div_mult_mod_eq)
qed

lemma utf8_decode_utf8: "utf8_decode (utf8 s) = s"
  by (induction s) (simp_all add: utf8_def utf8_decode_char)

definition demo_token_crypto :: crypto_lib where
  "demo_token_crypto = \<lparr>subtle_sign = (\<lambda>k m. Inr (9 # k)), subtle_verify = (\<lambda>k s m. Inr (s = [9, 2])),
     subtle_importKey = Inr, bs58_encode = (\<lambda>b. concat (map letters b)),
     bs58_decode = (\<lambda>s. Inr (unletters (length s div 8) s)), TextDecoder_decode = utf8_decode,
     parsePayload = (\<lambda>s. Inr (0, takeWhile (\<lambda>c. c \<noteq> CHR 0x22) (drop 29 s)))\<rparr>"

definition demo_login :: Session where
  "demo_login = \<lparr>sessionPublicKey = PublicKey [7], sessionKey = demo_key, walletPublicKey = PublicKey [8],
     session_payer = PublicKey [6], session_sessionInfo = the (schema_transform demo_raw), session_context = demo_context\<rparr>"

abbreviation demo_accounts :: world where
  "demo_accounts \<equiv> (demo_world (PublicKey [1]))\<lparr>getAccountInfo := \<lambda>k. Inr (Some [])\<rparr>"

lemma demo_login_account:
  "getSessionAccount (\<lambda>d. Inr demo_raw) demo_accounts pk = Inr (Some (the (schema_transform demo_raw)))"
  "\<not> expired 1600000000000 (the (schema_transform demo_raw))"
  by (simp_all add: getSessionAccount_def sessionInfoSchema_parse_def demo_raw_def schema_ok_def schema_transform_def
      session_of_active_def expired_def js_Date_def)

lemma demo_login_payload:
  "parsePayload demo_token_crypto (json_payload 0 (toBase58 demo_text_lib (PublicKey [7]))) = Inr (0, toBase58 demo_text_lib (PublicKey [7]))"
proof -
  have "takeWhile (\<lambda>c. c \<noteq> CHR 0x22) (s @ CHR 0x22 # t) = s" if "CHR 0x22 \<notin> set s" for s t
    using that by (induction s) auto
  moreover have "CHR 0x22 \<notin> set (toBase58 demo_text_lib (PublicKey [7]))"
    by (auto simp: demo_text_lib_def demo_lib_def letters_def)
  moreover have "length (nat_to_string 0) = 1" by (simp add: nat_to_string.simps)
  ultimately show ?thesis
    by (simp add: demo_token_crypto_def json_payload_def quoted_def int_to_string_def)
qed

lemma demo_token_laws:
  "bs58_decode demo_token_crypto (bs58_encode demo_token_crypto b) = Inr b" "CHR ''.'' \<notin> set (bs58_encode demo_token_crypto b)"
  "b \<noteq> [] \<Longrightarrow> bs58_encode demo_token_crypto b \<noteq> []" "TextDecoder_decode demo_token_crypto (utf8 s) = s"
  "importKey demo_token_crypto (toBase58 demo_text_lib (PublicKey [7])) = Inr [7]"
  "subtle_sign demo_token_crypto (kp_private (sessionKey demo_login)) m = Inr sig \<Longrightarrow>
     sig \<noteq> [] \<and> subtle_verify demo_token_crypto [7] sig m = Inr True"
proof -
  show "bs58_decode demo_token_crypto (bs58_encode demo_token_crypto b) = Inr b"
    by (simp add: demo_token_crypto_def length_letters unletters_letters)
  show "CHR ''.'' \<notin> set (bs58_encode demo_token_crypto b)"
    by (auto simp: demo_token_crypto_def letters_def)
  show "b \<noteq> [] \<Longrightarrow> bs58_encode demo_token_crypto b \<noteq> []"
    using length_letters[of b] by (auto simp: demo_token_crypto_def letters_def)
  show "TextDecoder_decode demo_token_crypto (utf8 s) = s" by (simp add: demo_token_crypto_def utf8_decode_utf8)
  show "importKey demo_token_crypto (toBase58 demo_text_lib (PublicKey [7])) = Inr [7]"
    using length_letters[of "[7]"] unletters_letters[of "[7]"]
    by (simp add: importKey_def demo_token_crypto_def demo_text_lib_def demo_lib_def)
  show "sig \<noteq> [] \<and> subtle_verify demo_token_crypto [7] sig m = Inr True"
    if "subtle_sign demo_token_crypto (kp_private (sessionKey demo_login)) m = Inr sig"
    using that by (auto simp: demo_token_crypto_def demo_login_def)
qed

lemma demo_token_created: "\<exists>token. createLogInToken demo_text_lib demo_token_crypto 0 demo_login = Inr token"
  by (simp add: createLogInToken_def signMessageWithKey_def demo_token_crypto_def Let_def)

lemma demo_login_pk: "sessionPublicKey demo_login = PublicKey [7]"
  by (simp add: demo_login_def)

lemmas demo_token_premises = demo_login_payload demo_token_laws(5) demo_text_parse demo_login_pk

theorem login_token_complete_witness:
  "\<exists>token. createLogInToken demo_text_lib demo_token_crypto 0 demo_login = Inr token \<and>
     verifyLogInToken demo_text_lib demo_token_crypto (\<lambda>d. Inr demo_raw) demo_accounts 1600000000000 token
       = Inr (Some (the (schema_transform demo_raw)))"
proof -
  obtain token where t: "createLogInToken demo_text_lib demo_token_crypto 0 demo_login = Inr token"
    using demo_token_created by blast
  show ?thesis
    using t login_token_complete[OF t demo_token_laws(1-4) _ _ demo_token_laws(6) _ demo_login_account]
    by (auto simp: demo_token_premises)
qed

theorem login_token_sound_witness:
  "\<exists>token si. verifyLogInToken demo_text_lib demo_token_crypto (\<lambda>d. Inr demo_raw) demo_accounts 1600000000000 token = Inr (Some si) \<and>
     \<not> expired 1600000000000 si \<and> (\<exists>pk. getSessionAccount (\<lambda>d. Inr demo_raw) demo_accounts pk = Inr (Some si))"
proof -
  obtain token where t: "createLogInToken demo_text_lib demo_token_crypto 0 demo_login = Inr token"
    using demo_token_created by blast
  have "verifyLogInToken demo_text_lib demo_token_crypto (\<lambda>d. Inr demo_raw) demo_accounts 1600000000000 token
      = Inr (Some (the (schema_transform demo_raw)))"
    using t fresh_token_verifies[OF t demo_token_laws(1-4) _ _ demo_token_laws(6) _ demo_login_account]
    by (auto simp: demo_token_premises)
  with login_token_sound[OF this] show ?thesis by blast
qed

end
