(* ===== verification/Provider.thy ===== *)
theory Provider
  imports Session_Store
begin

text \<open>
  \<^verbatim>\<open>session-state.ts\<close> and \<^verbatim>\<open>components/session-provider.tsx\<close> of the React package: the life of a
  session in the browser, as a state machine. The state is the React state, the listeners on
  the wallets, the promises that are still pending, the stored sessions, the remembered wallet
  name and the session keys that are valid on chain. Every user action, wallet event and
  promise that settles is an event, and events interleave freely. A closure kept in a state or
  a promise is represented by the values it captured.
\<close>

section \<open>States\<close>

type_synonym limits = "(pubkey \<times> int) list"

text \<open>The values that \<^verbatim>\<open>EstablishedOptions\<close> captures: the session key (by a number), its wallet
  key and the wallet adapter (by its name).\<close>

record established =
  e_key :: nat
  e_pk :: pubkey
  e_wallet :: string

datatype StateType =
    T_Initializing | T_CheckingStoredSession | T_NotEstablished | T_SelectingWallet | T_WalletConnecting
  | T_RequestingLimits | T_SettingLimits | T_Established | T_UpdatingSession | T_RequestingExtendedExpiry
  | T_RequestingIncreasedLimits

datatype SessionState =
    Initializing
  | CheckingStoredSession
  | NotEstablished
  | SelectingWallet "limits option"
  | WalletConnecting nat
  | RequestingLimits string pubkey "limits option"
  | SettingLimits string pubkey nat
  | Established established
  | UpdatingSession established StateType
  | RequestingExtendedExpiry established
  | RequestingIncreasedLimits established

definition state_type :: "SessionState \<Rightarrow> StateType" where
  "state_type s = (case s of
      Initializing \<Rightarrow> T_Initializing | CheckingStoredSession \<Rightarrow> T_CheckingStoredSession | NotEstablished \<Rightarrow> T_NotEstablished
    | SelectingWallet _ \<Rightarrow> T_SelectingWallet | WalletConnecting _ \<Rightarrow> T_WalletConnecting
    | RequestingLimits _ _ _ \<Rightarrow> T_RequestingLimits | SettingLimits _ _ _ \<Rightarrow> T_SettingLimits | Established _ \<Rightarrow> T_Established
    | UpdatingSession _ _ \<Rightarrow> T_UpdatingSession | RequestingExtendedExpiry _ \<Rightarrow> T_RequestingExtendedExpiry
    | RequestingIncreasedLimits _ \<Rightarrow> T_RequestingIncreasedLimits)"

text \<open>The options of a state that has a \<^verbatim>\<open>sessionKey\<close>.\<close>

definition established_of :: "SessionState \<Rightarrow> established option" where
  "established_of s = (case s of Established e \<Rightarrow> Some e | UpdatingSession e _ \<Rightarrow> Some e
     | RequestingExtendedExpiry e \<Rightarrow> Some e | RequestingIncreasedLimits e \<Rightarrow> Some e | _ \<Rightarrow> None)"

definition isEstablished :: "SessionState \<Rightarrow> bool" where
  "isEstablished s = (established_of s \<noteq> None)"

definition isWalletLoading :: "SessionState \<Rightarrow> bool" where
  "isWalletLoading s = (state_type s \<in> {T_Initializing, T_CheckingStoredSession, T_RequestingLimits, T_SettingLimits,
     T_WalletConnecting, T_SelectingWallet})"

definition isUpdatable :: "SessionState \<Rightarrow> bool" where
  "isUpdatable s = (case s of Established _ \<Rightarrow> True | RequestingExtendedExpiry _ \<Rightarrow> True
     | RequestingIncreasedLimits _ \<Rightarrow> True | _ \<Rightarrow> False)"

definition isCancelable :: "SessionState \<Rightarrow> bool" where
  "isCancelable s = (case s of SelectingWallet _ \<Rightarrow> True | WalletConnecting _ \<Rightarrow> True | RequestingLimits _ _ _ \<Rightarrow> True
     | SettingLimits _ _ _ \<Rightarrow> True | RequestingExtendedExpiry _ \<Rightarrow> True | RequestingIncreasedLimits _ \<Rightarrow> True | _ \<Rightarrow> False)"

section \<open>Pending promises and the machine's state\<close>

text \<open>\<^verbatim>\<open>onError\<close> of an establishment: back to the wallet list, or back to the limits form.\<close>

datatype retry = RetryWallet "limits option" | RetryLimits string pubkey "limits option"

text \<open>Who waits for a wallet to disconnect: the automatic connection, an aborted connection, or
  the clean-up with the given number.\<close>

datatype waiter = ForAuto | ForConnect "limits option" | ForCleanup nat

datatype task =
    AutoConnecting string
  | Connecting string nat "limits option"
  | WalletDisconnecting string waiter
  | CheckingStored string pubkey "limits option"
  | Establishing string pubkey nat "limits option" retry
  | Updating established
  | Sending established
  | Revoking nat "nat option"
  | Clearing pubkey nat
  | Cleanup nat

text \<open>The two listeners that \<^verbatim>\<open>setupWalletEvents\<close> registers together.\<close>

record listener =
  l_wallet :: string
  l_limits :: "limits option"

record provider =
  pv_state :: SessionState
  listeners :: "listener list"
  tasks :: "task list"
  aborted :: "nat set"
  connected :: "string \<rightharpoonup> pubkey"
  stored :: "pubkey \<rightharpoonup> nat"
  walletName :: "string option"
  owner :: "nat \<rightharpoonup> pubkey"
  valid_keys :: "nat set"
  next_id :: nat

record provider_config =
  no_tokens :: bool
  enable_unlimited :: bool
  wallet_names :: "string list"

definition setState :: "SessionState \<Rightarrow> provider \<Rightarrow> provider" where
  "setState s st = st\<lparr>pv_state := s\<rparr>"

definition spawn :: "task list \<Rightarrow> provider \<Rightarrow> provider" where
  "spawn ts st = st\<lparr>tasks := tasks st @ ts\<rparr>"

section \<open>The callbacks of the provider\<close>

definition requestWallet :: "limits option \<Rightarrow> provider \<Rightarrow> provider" where
  "requestWallet requestedLimits st = setState (SelectingWallet requestedLimits) st"

definition completeSessionSetup :: "nat \<Rightarrow> pubkey \<Rightarrow> string \<Rightarrow> provider \<Rightarrow> provider" where
  "completeSessionSetup key pk wallet st =
     setState (Established \<lparr>e_key = key, e_pk = pk, e_wallet = wallet\<rparr>) (st\<lparr>stored := (stored st)(pk \<mapsto> key)\<rparr>)"

definition disconnect :: "string \<Rightarrow> established option \<Rightarrow> provider \<Rightarrow> provider" where
  "disconnect wallet sessionInfo st =
     (let g = next_id st in
      spawn ([WalletDisconnecting wallet (ForCleanup g)] @
             (case sessionInfo of None \<Rightarrow> [] | Some e \<Rightarrow> [Revoking (e_key e) (Some g), Clearing (e_pk e) g]) @
             [Cleanup g]) (st\<lparr>next_id := Suc g\<rparr>))"

definition submitLimits :: "string \<Rightarrow> pubkey \<Rightarrow> limits option \<Rightarrow> retry \<Rightarrow> provider \<Rightarrow> provider" where
  "submitLimits wallet pk lims onError st =
     (let c = next_id st in
      spawn [Establishing wallet pk c lims onError] (setState (SettingLimits wallet pk c) (st\<lparr>next_id := Suc c\<rparr>)))"

definition requestLimits :: "string \<Rightarrow> pubkey \<Rightarrow> limits option \<Rightarrow> provider \<Rightarrow> provider" where
  "requestLimits wallet pk requestedLimits st = setState (RequestingLimits wallet pk requestedLimits) st"

definition run_retry :: "retry \<Rightarrow> provider \<Rightarrow> provider" where
  "run_retry r st = (case r of RetryWallet lims \<Rightarrow> requestWallet lims st
     | RetryLimits wallet pk lims \<Rightarrow> requestLimits wallet pk lims st)"

definition setupWalletEvents :: "string \<Rightarrow> limits option \<Rightarrow> provider \<Rightarrow> provider" where
  "setupWalletEvents wallet requestedLimits st =
     st\<lparr>listeners := listeners st @ [\<lparr>l_wallet = wallet, l_limits = requestedLimits\<rparr>]\<rparr>"

definition onWalletConnected :: "listener \<Rightarrow> pubkey \<Rightarrow> provider \<Rightarrow> provider" where
  "onWalletConnected l pk st =
     spawn [CheckingStored (l_wallet l) pk (l_limits l)] (setState CheckingStoredSession st)"

definition onWalletDisconnected :: "listener \<Rightarrow> provider \<Rightarrow> provider" where
  "onWalletDisconnected l st =
     (if connected st (l_wallet l) = None
      then setState NotEstablished (st\<lparr>listeners := remove1 l (listeners st)\<rparr>) else st)"

text \<open>Emitting an event runs the listeners registered at that moment, in order.\<close>

definition listeners_of :: "string \<Rightarrow> provider \<Rightarrow> listener list" where
  "listeners_of wallet st = filter (\<lambda>l. l_wallet l = wallet) (listeners st)"

definition emit_connect :: "string \<Rightarrow> pubkey \<Rightarrow> provider \<Rightarrow> provider" where
  "emit_connect wallet pk st = fold (\<lambda>l. onWalletConnected l pk) (listeners_of wallet st) st"

definition emit_disconnect :: "string \<Rightarrow> provider \<Rightarrow> provider" where
  "emit_disconnect wallet st = fold onWalletDisconnected (listeners_of wallet st) st"

definition connectWallet :: "string \<Rightarrow> limits option \<Rightarrow> provider \<Rightarrow> provider" where
  "connectWallet wallet requestedLimits st =
     (let c = next_id st in
      spawn [Connecting wallet c requestedLimits]
        (setState (WalletConnecting c) ((setupWalletEvents wallet requestedLimits st)\<lparr>next_id := Suc c\<rparr>)))"

text \<open>The effect at start-up.\<close>

definition mount :: "provider_config \<Rightarrow> provider \<Rightarrow> provider" where
  "mount cfg st =
     (case walletName st of
        None \<Rightarrow> setState NotEstablished st
      | Some n \<Rightarrow>
          if n \<in> set (wallet_names cfg)
          then spawn [AutoConnecting n] (setState CheckingStoredSession (setupWalletEvents n None st))
          else setState NotEstablished st)"

section \<open>Promises that settle\<close>

text \<open>How a promise settles: it resolves (with a flag where the code looks at a time-out, or with
  a new session key), the operation reports a failure, or it rejects.\<close>

datatype outcome = Done bool | DoneKey nat | FailedWith int | Rejected

definition no_stored_session :: "provider_config \<Rightarrow> string \<Rightarrow> pubkey \<Rightarrow> limits option \<Rightarrow> provider \<Rightarrow> provider" where
  "no_stored_session cfg wallet pk lims st =
     (let st' = st\<lparr>walletName := Some wallet\<rparr> in
      if no_tokens cfg \<and> \<not> enable_unlimited cfg then submitLimits wallet pk (Some []) (RetryWallet lims) st'
      else requestLimits wallet pk lims st')"

definition checkStoredSession :: "provider_config \<Rightarrow> string \<Rightarrow> pubkey \<Rightarrow> limits option \<Rightarrow> provider \<Rightarrow> provider" where
  "checkStoredSession cfg wallet pk lims st =
     (case stored st pk of
        None \<Rightarrow> no_stored_session cfg wallet pk lims st
      | Some key \<Rightarrow>
          if key \<in> valid_keys st then completeSessionSetup key pk wallet (st\<lparr>walletName := Some wallet\<rparr>)
          else no_stored_session cfg wallet pk lims (st\<lparr>stored := (stored st)(pk := None)\<rparr>))"

text \<open>A session key is new, valid on chain and belongs to the wallet that signed for it.\<close>

definition issue_key :: "nat \<Rightarrow> pubkey \<Rightarrow> provider \<Rightarrow> provider" where
  "issue_key k pk st = st\<lparr>owner := (owner st)(k \<mapsto> pk), valid_keys := insert k (valid_keys st)\<rparr>"

definition establishSession_result :: "string \<Rightarrow> pubkey \<Rightarrow> nat \<Rightarrow> retry \<Rightarrow> outcome \<Rightarrow> provider \<Rightarrow> provider option" where
  "establishSession_result wallet pk c onError out st =
     (case out of
        DoneKey k \<Rightarrow>
          if owner st k \<noteq> None then None
          else Some (if c \<in> aborted st then spawn [Revoking k None] (issue_key k pk st)
                     else completeSessionSetup k pk wallet (issue_key k pk st))
      | FailedWith _ \<Rightarrow> Some (if c \<in> aborted st then st else run_retry onError st)
      | Rejected \<Rightarrow> Some (run_retry onError st)
      | Done _ \<Rightarrow> None)"

definition ERROR_CODE_SESSION_EXPIRED :: int where "ERROR_CODE_SESSION_EXPIRED = 4000000000"
definition ERROR_CODE_SESSION_LIMITS_EXCEEDED :: int where "ERROR_CODE_SESSION_LIMITS_EXCEEDED = 4000000008"

definition sendTransaction_result :: "established \<Rightarrow> outcome \<Rightarrow> provider \<Rightarrow> provider option" where
  "sendTransaction_result e out st =
     (case out of
        Done _ \<Rightarrow> Some st
      | Rejected \<Rightarrow> Some st
      | FailedWith code \<Rightarrow>
          Some (if code = ERROR_CODE_SESSION_EXPIRED then setState (RequestingExtendedExpiry e) st
                else if code = ERROR_CODE_SESSION_LIMITS_EXCEEDED then setState (RequestingIncreasedLimits e) st
                else st)
      | DoneKey _ \<Rightarrow> None)"

definition updateSession_result :: "established \<Rightarrow> outcome \<Rightarrow> provider \<Rightarrow> provider option" where
  "updateSession_result e out st =
     (case out of
        DoneKey k \<Rightarrow> if owner st k \<noteq> None then None
          else Some (completeSessionSetup k (e_pk e) (e_wallet e) (issue_key k (e_pk e) st))
      | FailedWith _ \<Rightarrow> Some (setState (Established e) st)
      | Rejected \<Rightarrow> Some (setState (Established e) st)
      | Done _ \<Rightarrow> None)"

text \<open>A failed part of a clean-up keeps the remembered wallet: its final step never runs.\<close>

definition drop_cleanup :: "nat \<Rightarrow> provider \<Rightarrow> provider" where
  "drop_cleanup g st = st\<lparr>tasks := filter (\<lambda>t. t \<noteq> Cleanup g) (tasks st)\<rparr>"

definition in_group :: "nat \<Rightarrow> task \<Rightarrow> bool" where
  "in_group g t = (case t of WalletDisconnecting _ (ForCleanup h) \<Rightarrow> h = g | Revoking _ (Some h) \<Rightarrow> h = g
     | Clearing _ h \<Rightarrow> h = g | _ \<Rightarrow> False)"

definition disconnect_failed :: "waiter \<Rightarrow> provider \<Rightarrow> provider" where
  "disconnect_failed for st = (case for of ForAuto \<Rightarrow> setState NotEstablished st
     | ForConnect lims \<Rightarrow> requestWallet lims st | ForCleanup g \<Rightarrow> drop_cleanup g st)"

definition settle :: "provider_config \<Rightarrow> task \<Rightarrow> outcome \<Rightarrow> provider \<Rightarrow> provider option" where
  "settle cfg t out st =
     (case t of
        AutoConnecting w \<Rightarrow>
          (case out of
             Done timedOut \<Rightarrow> Some (if timedOut \<or> connected st w = None then spawn [WalletDisconnecting w ForAuto] st else st)
           | Rejected \<Rightarrow> Some (setState NotEstablished st)
           | _ \<Rightarrow> None)
      | Connecting w c lims \<Rightarrow>
          (case out of
             Done _ \<Rightarrow> Some (if c \<in> aborted st \<or> connected st w = None then spawn [WalletDisconnecting w (ForConnect lims)] st else st)
           | Rejected \<Rightarrow> Some (requestWallet lims st)
           | _ \<Rightarrow> None)
      | WalletDisconnecting w for \<Rightarrow>
          (case out of
             Done _ \<Rightarrow> Some (emit_disconnect w (st\<lparr>connected := (connected st)(w := None)\<rparr>))
           | Rejected \<Rightarrow> Some (disconnect_failed for st)
           | _ \<Rightarrow> None)
      | CheckingStored w pk lims \<Rightarrow>
          (case out of
             Done _ \<Rightarrow> Some (checkStoredSession cfg w pk lims st)
           | Rejected \<Rightarrow> Some (requestWallet lims st)
           | _ \<Rightarrow> None)
      | Establishing w pk c lims onError \<Rightarrow> establishSession_result w pk c onError out st
      | Updating e \<Rightarrow> updateSession_result e out st
      | Sending e \<Rightarrow> sendTransaction_result e out st
      | Revoking k g \<Rightarrow>
          (case out of
             Done _ \<Rightarrow> Some (st\<lparr>valid_keys := valid_keys st - {k}\<rparr>)
           | Rejected \<Rightarrow> Some (case g of None \<Rightarrow> st | Some h \<Rightarrow> drop_cleanup h st)
           | _ \<Rightarrow> None)
      | Clearing pk g \<Rightarrow>
          (case out of
             Done _ \<Rightarrow> Some (st\<lparr>stored := (stored st)(pk := None)\<rparr>)
           | Rejected \<Rightarrow> Some (drop_cleanup g st)
           | _ \<Rightarrow> None)
      | Cleanup g \<Rightarrow>
          (case out of
             Done _ \<Rightarrow> if list_ex (in_group g) (tasks st) then None else Some (st\<lparr>walletName := None\<rparr>)
           | _ \<Rightarrow> None))"

section \<open>User actions and the step function\<close>

datatype event =
    UserEstablish "limits option"
  | UserSelectWallet string
  | UserCancel
  | UserSubmitLimits "limits option"
  | UserEndSession
  | UserUpdate
  | UserSend
  | WalletConnects string pubkey
  | WalletDisconnects string
  | Settles nat outcome

definition cancel :: "provider \<Rightarrow> provider option" where
  "cancel st =
     (case pv_state st of
        SelectingWallet _ \<Rightarrow> Some (setState NotEstablished st)
      | WalletConnecting c \<Rightarrow> Some (setState NotEstablished (st\<lparr>aborted := insert c (aborted st)\<rparr>))
      | RequestingLimits w _ _ \<Rightarrow> Some (disconnect w None st)
      | SettingLimits w _ c \<Rightarrow> Some (disconnect w None (st\<lparr>aborted := insert c (aborted st)\<rparr>))
      | RequestingExtendedExpiry e \<Rightarrow> Some (setState (Established e) st)
      | RequestingIncreasedLimits e \<Rightarrow> Some (setState (Established e) st)
      | _ \<Rightarrow> None)"

definition remove_nth :: "nat \<Rightarrow> 'a list \<Rightarrow> 'a list" where
  "remove_nth i xs = take i xs @ drop (Suc i) xs"

definition handle :: "provider_config \<Rightarrow> provider \<Rightarrow> event \<Rightarrow> provider option" where
  "handle cfg st ev =
     (case ev of
        UserEstablish lims \<Rightarrow> (if pv_state st = NotEstablished then Some (requestWallet lims st) else None)
      | UserSelectWallet w \<Rightarrow>
          (case pv_state st of SelectingWallet lims \<Rightarrow> if w \<in> set (wallet_names cfg) then Some (connectWallet w lims st) else None
           | _ \<Rightarrow> None)
      | UserCancel \<Rightarrow> cancel st
      | UserSubmitLimits lims \<Rightarrow>
          (case pv_state st of RequestingLimits w pk req \<Rightarrow> Some (submitLimits w pk lims (RetryLimits w pk req) st) | _ \<Rightarrow> None)
      | UserEndSession \<Rightarrow> (case established_of (pv_state st) of None \<Rightarrow> None | Some e \<Rightarrow> Some (disconnect (e_wallet e) (Some e) st))
      | UserUpdate \<Rightarrow>
          (if isUpdatable (pv_state st)
           then (case established_of (pv_state st) of None \<Rightarrow> None
                 | Some e \<Rightarrow> Some (spawn [Updating e] (setState (UpdatingSession e (state_type (pv_state st))) st)))
           else None)
      | UserSend \<Rightarrow> (case established_of (pv_state st) of None \<Rightarrow> None | Some e \<Rightarrow> Some (spawn [Sending e] st))
      | WalletConnects w pk \<Rightarrow> Some (emit_connect w pk (st\<lparr>connected := (connected st)(w \<mapsto> pk)\<rparr>))
      | WalletDisconnects w \<Rightarrow> Some (emit_disconnect w (st\<lparr>connected := (connected st)(w := None)\<rparr>))
      | Settles i out \<Rightarrow>
          (if i < length (tasks st) then settle cfg (tasks st ! i) out (st\<lparr>tasks := remove_nth i (tasks st)\<rparr>) else None))"

fun run :: "provider_config \<Rightarrow> provider \<Rightarrow> event list \<Rightarrow> provider option" where
  "run cfg st [] = Some st"
| "run cfg st (ev # evs) = (case handle cfg st ev of None \<Rightarrow> None | Some st' \<Rightarrow> run cfg st' evs)"

definition initial :: "string option \<Rightarrow> (pubkey \<rightharpoonup> nat) \<Rightarrow> (nat \<rightharpoonup> pubkey) \<Rightarrow> nat set \<Rightarrow> provider" where
  "initial name db own ok = \<lparr>pv_state = Initializing, listeners = [], tasks = [], aborted = {}, connected = Map.empty,
     stored = db, walletName = name, owner = own, valid_keys = ok, next_id = 0\<rparr>"

text \<open>The states the provider can be in: start-up on a store whose keys belong to the wallets they
  are stored for, then any events.\<close>

inductive reachable :: "provider_config \<Rightarrow> provider \<Rightarrow> bool" for cfg where
  start: "(\<And>pk k. db pk = Some k \<Longrightarrow> own k = Some pk) \<Longrightarrow> ok \<subseteq> dom own \<Longrightarrow> reachable cfg (mount cfg (initial name db own ok))"
| step: "reachable cfg st \<Longrightarrow> handle cfg st ev = Some st' \<Longrightarrow> reachable cfg st'"

lemma reachable_run: "reachable cfg st \<Longrightarrow> run cfg st evs = Some st' \<Longrightarrow> reachable cfg st'"
  by (induction cfg st evs rule: run.induct) (auto split: option.splits intro: reachable.step)

section \<open>Invariants\<close>

text \<open>The interface between an invariant and the machine: it holds after start-up and every event
  keeps it; then it holds in every reachable state and along every run.\<close>

locale provider_invariant =
  fixes cfg :: provider_config and I :: "provider \<Rightarrow> bool"
  assumes start_ok: "(\<And>pk k. db pk = Some k \<Longrightarrow> own k = Some pk) \<Longrightarrow> ok \<subseteq> dom own \<Longrightarrow> I (mount cfg (initial name db own ok))"
    and event_ok: "I st \<Longrightarrow> handle cfg st ev = Some st' \<Longrightarrow> I st'"
begin

lemma holds: "reachable cfg st \<Longrightarrow> I st"
  by (induction rule: reachable.induct) (blast intro: start_ok event_ok)+

lemma along_run: "I st \<Longrightarrow> run cfg st evs = Some st' \<Longrightarrow> I st'"
  by (induction evs arbitrary: st) (auto split: option.splits intro: event_ok)

end

text \<open>Ownership: every session shown, being updated or sending belongs to the wallet key shown with
  it, and so does every stored one.\<close>

definition sessions_held :: "provider \<Rightarrow> established set" where
  "sessions_held st = set_option (established_of (pv_state st)) \<union> {e. Updating e \<in> set (tasks st) \<or> Sending e \<in> set (tasks st)}"

definition owned :: "provider \<Rightarrow> bool" where
  "owned st \<longleftrightarrow> (\<forall>e \<in> sessions_held st. owner st (e_key e) = Some (e_pk e)) \<and>
     (\<forall>pk k. stored st pk = Some k \<longrightarrow> owner st k = Some pk) \<and> valid_keys st \<subseteq> dom (owner st)"

lemma owned_frame [simp]:
  "owned (st\<lparr>next_id := n\<rparr>) = owned st" "owned (st\<lparr>aborted := a\<rparr>) = owned st" "owned (st\<lparr>walletName := w\<rparr>) = owned st"
  "owned (st\<lparr>connected := c\<rparr>) = owned st" "owned (st\<lparr>listeners := l\<rparr>) = owned st"
  by (simp_all add: owned_def sessions_held_def)

lemma owned_setState: "owned st \<Longrightarrow> (\<And>e. established_of s = Some e \<Longrightarrow> owner st (e_key e) = Some (e_pk e)) \<Longrightarrow> owned (setState s st)"
  by (auto simp: owned_def sessions_held_def setState_def)

lemma owned_spawn:
  "owned st \<Longrightarrow> (\<And>e. Updating e \<in> set ts \<or> Sending e \<in> set ts \<Longrightarrow> owner st (e_key e) = Some (e_pk e)) \<Longrightarrow> owned (spawn ts st)"
  by (auto simp: owned_def sessions_held_def spawn_def)

lemma owned_fewer_tasks: "owned st \<Longrightarrow> set ts \<subseteq> set (tasks st) \<Longrightarrow> owned (st\<lparr>tasks := ts\<rparr>)"
  by (auto simp: owned_def sessions_held_def)

lemma owned_fewer_stored: "owned st \<Longrightarrow> owned (st\<lparr>stored := (stored st)(pk := None)\<rparr>)"
  by (auto simp: owned_def sessions_held_def)

lemma owned_fewer_valid: "owned st \<Longrightarrow> owned (st\<lparr>valid_keys := valid_keys st - {k}\<rparr>)"
  by (auto simp: owned_def sessions_held_def)

lemma owned_issue: "owned st \<Longrightarrow> owner st k = None \<Longrightarrow> owned (issue_key k pk st)"
  by (fastforce simp: owned_def sessions_held_def issue_key_def)

lemma owner_issue [simp]: "owner (issue_key k pk st) k = Some pk"
  by (simp add: issue_key_def)

lemma owned_complete: "owned st \<Longrightarrow> owner st k = Some pk \<Longrightarrow> owned (completeSessionSetup k pk w st)"
  by (auto simp: owned_def sessions_held_def completeSessionSetup_def setState_def established_of_def)

lemma frame_owner [simp]: "owner (setState s st) = owner st" "owner (spawn ts st) = owner st"
  "owner (drop_cleanup g st) = owner st"
  by (simp_all add: setState_def spawn_def drop_cleanup_def)

lemma owned_simple:
  assumes "owned st"
  shows "owned (requestWallet l st)" "owned (requestLimits w pk l st)" "owned (run_retry r st)"
    "owned (submitLimits w pk l r st)" "owned (disconnect w e st)" "owned (onWalletConnected li pk st)"
    "owned (onWalletDisconnected li st)" "owned (connectWallet w l st)" "owned (drop_cleanup g st)" "owned (disconnect_failed f st)"
  using assms
  by (auto simp: requestWallet_def requestLimits_def run_retry_def submitLimits_def disconnect_def onWalletConnected_def
      onWalletDisconnected_def connectWallet_def setupWalletEvents_def drop_cleanup_def disconnect_failed_def Let_def established_of_def
      intro!: owned_setState owned_spawn owned_fewer_tasks split: retry.splits option.splits waiter.splits)

lemma owned_fold: "owned st \<Longrightarrow> (\<And>l st. owned st \<Longrightarrow> owned (f l st)) \<Longrightarrow> owned (fold f ls st)"
  by (induction ls arbitrary: st) auto

lemma owned_emit: "owned st \<Longrightarrow> owned (emit_connect w pk st)" "owned st \<Longrightarrow> owned (emit_disconnect w st)"
  unfolding emit_connect_def emit_disconnect_def by (rule owned_fold; simp add: owned_simple)+

lemma owned_checkStored: "owned st \<Longrightarrow> owned (checkStoredSession cfg w pk l st)"
  by (auto simp: checkStoredSession_def no_stored_session_def Let_def owned_simple owned_fewer_stored owned_def[of st]
      intro!: owned_complete split: option.splits)

lemma set_remove_nth: "set (remove_nth i xs) \<subseteq> set xs"
  by (auto simp: remove_nth_def dest: in_set_takeD in_set_dropD)

lemma remove_nth_keeps: "x \<in> set xs \<Longrightarrow> i < length xs \<Longrightarrow> x \<noteq> xs ! i \<Longrightarrow> x \<in> set (remove_nth i xs)"
  by (metis Un_iff append_take_drop_id Cons_nth_drop_Suc remove_nth_def set_ConsD set_append)

lemma owned_settle:
  assumes "owned st" and "settle cfg t out st = Some st'"
    and "\<And>e. t = Updating e \<or> t = Sending e \<Longrightarrow> owner st (e_key e) = Some (e_pk e)"
  shows "owned st'"
  using assms
  by (cases t)
    (auto simp: settle_def establishSession_result_def updateSession_result_def sendTransaction_result_def established_of_def
      owned_simple owned_emit owned_checkStored owned_fewer_stored owned_fewer_valid owned_issue
      intro!: owned_setState owned_spawn owned_complete split: outcome.splits if_splits option.splits)

lemma owned_cancel: "owned st \<Longrightarrow> cancel st = Some st' \<Longrightarrow> owned st'"
  by (auto simp: cancel_def owned_simple established_of_def owned_def[of st] sessions_held_def split: SessionState.splits
      intro!: owned_setState owned_simple)

lemma owned_established: "owned st \<Longrightarrow> established_of (pv_state st) = Some e \<Longrightarrow> owner st (e_key e) = Some (e_pk e)"
  by (auto simp: owned_def sessions_held_def)

lemma owned_handle:
  assumes "owned st" and "handle cfg st ev = Some st'"
  shows "owned st'"
proof (cases ev)
  case (Settles i out)
  let ?st = "st\<lparr>tasks := remove_nth i (tasks st)\<rparr>"
  have i: "i < length (tasks st)" and s: "settle cfg (tasks st ! i) out ?st = Some st'"
    using assms(2) by (auto simp: handle_def Settles split: if_splits)
  have "owner ?st (e_key e) = Some (e_pk e)" if "tasks st ! i = Updating e \<or> tasks st ! i = Sending e" for e
    using assms(1) that nth_mem[OF i] by (auto simp: owned_def sessions_held_def)
  with owned_settle[OF owned_fewer_tasks[OF assms(1) set_remove_nth] s] show ?thesis by blast
next
  case UserCancel
  with assms show ?thesis by (simp add: handle_def owned_cancel)
qed (use assms owned_established[OF assms(1)] in
    \<open>auto simp: handle_def owned_simple owned_emit established_of_def split: if_splits option.splits SessionState.splits
      intro!: owned_spawn owned_setState\<close>)

interpretation ownership: provider_invariant cfg owned for cfg
proof
  fix db :: "pubkey \<rightharpoonup> nat" and own :: "nat \<rightharpoonup> pubkey" and ok :: "nat set" and name
  assume "\<And>pk k. db pk = Some k \<Longrightarrow> own k = Some pk" and "ok \<subseteq> dom own"
  then have "owned (initial name db own ok)"
    by (auto simp: owned_def sessions_held_def initial_def established_of_def)
  then show "owned (mount cfg (initial name db own ok))"
    by (auto simp: mount_def setupWalletEvents_def established_of_def intro!: owned_spawn owned_setState split: option.splits)
qed (rule owned_handle)

text \<open>A state that shows progress has a pending promise that will end it, unless it was aborted.\<close>

definition in_progress :: "provider \<Rightarrow> bool" where
  "in_progress st = (case pv_state st of
      UpdatingSession e _ \<Rightarrow> Updating e \<in> set (tasks st)
    | SettingLimits w pk c \<Rightarrow> c \<in> aborted st \<or> (\<exists>lims r. Establishing w pk c lims r \<in> set (tasks st))
    | _ \<Rightarrow> True)"

definition quiet :: "SessionState \<Rightarrow> bool" where
  "quiet s = (case s of UpdatingSession _ _ \<Rightarrow> False | SettingLimits _ _ _ \<Rightarrow> False | _ \<Rightarrow> True)"

lemma in_progress_quiet: "quiet (pv_state st) \<Longrightarrow> in_progress st"
  by (simp add: in_progress_def quiet_def split: SessionState.splits)

lemma in_progress_mono:
  "in_progress st \<Longrightarrow> pv_state st' = pv_state st \<Longrightarrow> aborted st \<subseteq> aborted st' \<Longrightarrow>
   (\<And>t. t \<in> set (tasks st) \<Longrightarrow> (\<exists>e. t = Updating e) \<or> (\<exists>w pk c l r. t = Establishing w pk c l r) \<Longrightarrow> t \<in> set (tasks st')) \<Longrightarrow>
   in_progress st'"
  by (fastforce simp: in_progress_def split: SessionState.splits)

lemma quiet_simple:
  "quiet (pv_state (requestWallet l st))" "quiet (pv_state (requestLimits w pk l st))" "quiet (pv_state (run_retry r st))"
  "quiet (pv_state (completeSessionSetup k pk w st))" "quiet (pv_state (setState NotEstablished st))"
  "quiet (pv_state (setState (Established e) st))" "quiet (pv_state (setState (RequestingExtendedExpiry e) st))"
  "quiet (pv_state (setState (RequestingIncreasedLimits e) st))" "quiet (pv_state (connectWallet w l st))"
  "quiet (pv_state (onWalletConnected li pk st))"
  by (simp_all add: quiet_def requestWallet_def requestLimits_def run_retry_def completeSessionSetup_def setState_def
      connectWallet_def onWalletConnected_def spawn_def Let_def split: retry.splits)

lemmas in_progress_set = quiet_simple[THEN in_progress_quiet]

lemma in_progress_submit: "in_progress (submitLimits w pk l r st)"
  by (auto simp: in_progress_def submitLimits_def setState_def spawn_def Let_def)

lemma in_progress_frame: "in_progress st \<Longrightarrow> in_progress (st\<lparr>connected := c\<rparr>)" "in_progress st \<Longrightarrow> in_progress (spawn ts st)"
  "in_progress st \<Longrightarrow> in_progress (st\<lparr>walletName := n\<rparr>)" "in_progress st \<Longrightarrow> in_progress (st\<lparr>valid_keys := v\<rparr>)"
  "in_progress st \<Longrightarrow> in_progress (st\<lparr>stored := s\<rparr>)" "in_progress st \<Longrightarrow> in_progress (drop_cleanup g st)"
  "in_progress st \<Longrightarrow> in_progress (issue_key k pk st)" "in_progress st \<Longrightarrow> in_progress (disconnect w e st)"
  "in_progress st \<Longrightarrow> in_progress (st\<lparr>aborted := insert c' (aborted st)\<rparr>)"
  by (erule in_progress_mono; auto simp: spawn_def drop_cleanup_def issue_key_def disconnect_def Let_def)+

lemma in_progress_emit:
  "in_progress st \<Longrightarrow> in_progress (emit_connect w pk st)" "in_progress st \<Longrightarrow> in_progress (emit_disconnect w st)"
proof -
  assume st: "in_progress st"
  have "in_progress s \<Longrightarrow> in_progress (fold (\<lambda>l. onWalletConnected l pk) ls s)" for ls s
    by (induction ls arbitrary: s) (simp_all add: in_progress_quiet quiet_simple)
  with st show "in_progress (emit_connect w pk st)" by (simp add: emit_connect_def)
  have "in_progress (onWalletDisconnected l s)" if "in_progress s" for l s
    using that by (simp add: onWalletDisconnected_def in_progress_quiet quiet_simple)
  then have "in_progress s \<Longrightarrow> in_progress (fold onWalletDisconnected ls s)" for ls s
    by (induction ls arbitrary: s) simp_all
  with st show "in_progress (emit_disconnect w st)" by (simp add: emit_disconnect_def)
qed

lemma in_progress_check: "in_progress (checkStoredSession cfg w pk l st)"
  by (simp add: checkStoredSession_def no_stored_session_def Let_def in_progress_quiet quiet_simple in_progress_submit split: option.splits)

text \<open>Settling a promise: the state stays in progress, given that it was so with the promise still
  in the list.\<close>

lemma in_progress_settle:
  assumes "settle cfg t out st = Some st'"
    and "(\<And>e. t \<noteq> Updating e) \<Longrightarrow> (\<And>w pk c l r. t \<noteq> Establishing w pk c l r) \<Longrightarrow> in_progress st"
    and "\<And>w pk c l r. t = Establishing w pk c l r \<Longrightarrow> c \<in> aborted st \<Longrightarrow> in_progress st"
  shows "in_progress st'"
  using assms
  by (cases t)
    (auto simp: settle_def establishSession_result_def updateSession_result_def sendTransaction_result_def disconnect_failed_def
      in_progress_frame in_progress_emit in_progress_check in_progress_set
      split: outcome.splits if_splits option.splits waiter.splits)

lemma in_progress_handle:
  assumes "in_progress st" and "handle cfg st ev = Some st'"
  shows "in_progress st'"
proof (cases ev)
  case (Settles i out)
  let ?st = "st\<lparr>tasks := remove_nth i (tasks st)\<rparr>"
  have i: "i < length (tasks st)" and s: "settle cfg (tasks st ! i) out ?st = Some st'"
    using assms(2) by (auto simp: handle_def Settles split: if_splits)
  show ?thesis
  proof (rule in_progress_settle[OF s])
    assume "\<And>e. tasks st ! i \<noteq> Updating e" "\<And>w pk c l r. tasks st ! i \<noteq> Establishing w pk c l r"
    then have "t \<in> set (remove_nth i (tasks st))"
      if "t \<in> set (tasks st)" "(\<exists>e. t = Updating e) \<or> (\<exists>w pk c l r. t = Establishing w pk c l r)" for t
      using that remove_nth_keeps[OF _ i] by metis
    then show "in_progress ?st" by (intro in_progress_mono[OF assms(1)]) auto
  next
    fix w pk c l r
    assume t: "tasks st ! i = Establishing w pk c l r" and c: "c \<in> aborted ?st"
    show "in_progress ?st"
    proof (cases "\<exists>w' pk'. pv_state st = SettingLimits w' pk' c")
      case True
      with c show ?thesis by (auto simp: in_progress_def)
    next
      case False
      with assms(1) t remove_nth_keeps[OF _ i] show ?thesis
        by (fastforce simp: in_progress_def split: SessionState.splits)
    qed
  qed
next
  case UserCancel
  with assms show ?thesis
    by (auto simp: handle_def cancel_def in_progress_set in_progress_frame split: SessionState.splits)
next
  case UserUpdate
  with assms(2) show ?thesis
    by (auto simp: handle_def in_progress_def spawn_def setState_def split: if_splits option.splits)
qed (use assms in
    \<open>auto simp: handle_def in_progress_set in_progress_emit in_progress_frame in_progress_submit
      split: if_splits option.splits SessionState.splits\<close>)

interpretation progress: provider_invariant cfg in_progress for cfg
proof
  show "in_progress (mount cfg (initial name db own ok))" for name db own ok
    by (auto simp: mount_def initial_def setupWalletEvents_def spawn_def setState_def quiet_def intro!: in_progress_quiet
        split: option.splits)
qed (rule in_progress_handle)

section \<open>Properties\<close>

text \<open>C10: sessions are never mixed up between wallets. In every reachable state the session that is
  shown, and the one being updated or sending a transaction, was issued for the wallet key
  shown with it; a stored session key was issued for the wallet it is stored under.\<close>

theorem provider_ownership:
  assumes "reachable cfg st"
  shows "(\<forall>e. established_of (pv_state st) = Some e \<or> Updating e \<in> set (tasks st) \<or> Sending e \<in> set (tasks st) \<longrightarrow>
      owner st (e_key e) = Some (e_pk e)) \<and>
    (\<forall>pk k. stored st pk = Some k \<longrightarrow> owner st k = Some pk)"
  using ownership.holds[OF assms] by (auto simp: owned_def sessions_held_def)

text \<open>C31: the provider does not hang in a state that waits for a transaction. In every reachable
  state, updating a session has its update pending, and setting limits has its establishment
  pending or was cancelled by the user.\<close>

theorem provider_progress:
  assumes "reachable cfg st"
  shows "(\<forall>e p. pv_state st = UpdatingSession e p \<longrightarrow> Updating e \<in> set (tasks st)) \<and>
    (\<forall>w pk c. pv_state st = SettingLimits w pk c \<longrightarrow>
       c \<in> aborted st \<or> (\<exists>lims r. Establishing w pk c lims r \<in> set (tasks st)))"
  using progress.holds[OF assms] by (auto simp: in_progress_def)

definition tokenless :: provider_config where
  "tokenless = \<lparr>no_tokens = True, enable_unlimited = False, wallet_names = [''w'']\<rparr>"

definition with_tokens :: provider_config where
  "with_tokens = \<lparr>no_tokens = False, enable_unlimited = False, wallet_names = [''w'']\<rparr>"

abbreviation fresh_start :: "provider_config \<Rightarrow> provider" where
  "fresh_start cfg \<equiv> mount cfg (initial None Map.empty Map.empty {})"

lemma fresh_start_reachable: "reachable cfg (fresh_start cfg)"
  by (rule reachable.start) simp_all

lemmas provider_run = run.simps handle_def settle_def cancel_def mount_def initial_def setState_def spawn_def requestWallet_def
  completeSessionSetup_def disconnect_def submitLimits_def requestLimits_def run_retry_def setupWalletEvents_def
  onWalletConnected_def onWalletDisconnected_def listeners_of_def emit_connect_def emit_disconnect_def connectWallet_def
  no_stored_session_def checkStoredSession_def issue_key_def establishSession_result_def updateSession_result_def
  sendTransaction_result_def drop_cleanup_def in_group_def disconnect_failed_def remove_nth_def established_of_def
  isUpdatable_def state_type_def Let_def tokenless_def with_tokens_def

abbreviation demo_pk :: pubkey where "demo_pk \<equiv> PublicKey [8]"

text \<open>A first sign-in on an app without tokens, up to the established session.\<close>

definition sign_in :: "event list" where
  "sign_in = [UserEstablish None, UserSelectWallet ''w'', WalletConnects ''w'' demo_pk, Settles 0 (Done False),
     Settles 0 (Done False), Settles 0 (DoneKey 10)]"

lemma sign_in_run:
  "\<exists>st. run tokenless (fresh_start tokenless) sign_in = Some st \<and>
     pv_state st = Established \<lparr>e_key = 10, e_pk = demo_pk, e_wallet = ''w''\<rparr> \<and> tasks st = [] \<and> stored st demo_pk = Some 10"
  by (simp add: provider_run sign_in_def)

theorem provider_ownership_witness:
  "\<exists>st. run tokenless (fresh_start tokenless) sign_in = Some st \<and> pv_state st = Established \<lparr>e_key = 10, e_pk = demo_pk, e_wallet = ''w''\<rparr> \<and>
     owner st 10 = Some demo_pk"
proof -
  obtain st where st: "run tokenless (fresh_start tokenless) sign_in = Some st"
    "pv_state st = Established \<lparr>e_key = 10, e_pk = demo_pk, e_wallet = ''w''\<rparr>" using sign_in_run by blast
  from provider_ownership[OF reachable_run[OF fresh_start_reachable st(1)]] st show ?thesis
    by (auto simp: established_of_def)
qed

theorem provider_progress_witness:
  "\<exists>st w pk c. run tokenless (fresh_start tokenless) (take 5 sign_in) = Some st \<and> pv_state st = SettingLimits w pk c \<and>
     (\<exists>lims r. Establishing w pk c lims r \<in> set (tasks st))"
proof -
  have "\<exists>st c. run tokenless (fresh_start tokenless) (take 5 sign_in) = Some st \<and> pv_state st = SettingLimits ''w'' demo_pk c \<and> c \<notin> aborted st"
    by (simp add: provider_run sign_in_def)
  then obtain st c where st: "run tokenless (fresh_start tokenless) (take 5 sign_in) = Some st"
    "pv_state st = SettingLimits ''w'' demo_pk c" "c \<notin> aborted st" by blast
  from provider_progress[OF reachable_run[OF fresh_start_reachable st(1)]] st show ?thesis by auto
qed


definition cancelled_run :: "event list" where
  "cancelled_run = take 5 sign_in @ [UserCancel]"


text \<open>Signing out can be undone by an update that was still pending. After the user signed out
  while a session update was waiting, and the sign-out has run completely (wallet
  disconnected, session revoked, store and wallet name cleared), the update's success
  establishes and stores a session again, with no wallet connected.\<close>

theorem logout_undone_by_update:
  "\<exists>st. reachable tokenless st \<and> isEstablished (pv_state st) \<and> connected st ''w'' = None \<and> walletName st = None \<and>
     stored st demo_pk = Some 11 \<and> 11 \<in> valid_keys st"
proof -
  have "\<exists>st. run tokenless (fresh_start tokenless) (sign_in @ [UserUpdate, UserEndSession, Settles 1 (Done False), Settles 1 (Done False),
      Settles 1 (Done False), Settles 1 (Done False), Settles 0 (DoneKey 11)]) = Some st \<and>
    isEstablished (pv_state st) \<and> connected st ''w'' = None \<and> walletName st = None \<and> stored st demo_pk = Some 11 \<and> 11 \<in> valid_keys st"
    by (simp add: provider_run sign_in_def isEstablished_def)
  then show ?thesis using reachable_run[OF fresh_start_reachable] by blast
qed

text \<open>Retrying with a connected wallet can leave the provider waiting for nothing. On an app
  without tokens, a failed establishment goes back to the wallet list with the wallet still
  connected; choosing it again, with an adapter that resolves at once and announces nothing
  because it is connected, ends in \<^verbatim>\<open>WalletConnecting\<close> with no promise pending.\<close>

theorem retry_waits_forever:
  "\<exists>st c. reachable tokenless st \<and> pv_state st = WalletConnecting c \<and> c \<notin> aborted st \<and> tasks st = []"
proof -
  have "\<exists>st c. run tokenless (fresh_start tokenless) (take 5 sign_in @ [Settles 0 Rejected, UserSelectWallet ''w'', Settles 0 (Done False)]) = Some st \<and>
    pv_state st = WalletConnecting c \<and> c \<notin> aborted st \<and> tasks st = []"
    by (simp add: provider_run sign_in_def)
  then show ?thesis using reachable_run[OF fresh_start_reachable] by blast
qed

text \<open>A declined connection leaves its listeners behind. After the user declines once and then
  accepts, both pairs of listeners answer: two sessions are established for one sign-in, and
  the first stays valid on chain although nothing stores it, shows it or will revoke it.\<close>

theorem declined_connection_doubles:
  "\<exists>st. reachable tokenless st \<and> {10, 11} \<subseteq> valid_keys st \<and> owner st 10 = Some demo_pk \<and> owner st 11 = Some demo_pk \<and>
     stored st demo_pk = Some 11 \<and> map_option e_key (established_of (pv_state st)) = Some 11 \<and> Revoking 10 None \<notin> set (tasks st) \<and>
     tasks st = []"
proof -
  have "\<exists>st. run tokenless (fresh_start tokenless) [UserEstablish None, UserSelectWallet ''w'', Settles 0 Rejected, UserSelectWallet ''w'',
      WalletConnects ''w'' demo_pk, Settles 0 (Done False), Settles 0 (Done False), Settles 0 (Done False),
      Settles 0 (DoneKey 10), Settles 0 (DoneKey 11)] = Some st \<and>
    {10, 11} \<subseteq> valid_keys st \<and> owner st 10 = Some demo_pk \<and> owner st 11 = Some demo_pk \<and>
     stored st demo_pk = Some 11 \<and> map_option e_key (established_of (pv_state st)) = Some 11 \<and> Revoking 10 None \<notin> set (tasks st) \<and>
     tasks st = []"
    by (simp add: provider_run)
  then show ?thesis using reachable_run[OF fresh_start_reachable] by blast
qed

text \<open>A cancelled limits form can come back. When the wallet's prompt is declined after the user
  cancelled and the wallet was disconnected, the error handler shows the limits form again,
  for a wallet that is no longer connected.\<close>

theorem cancelled_form_returns:
  "\<exists>st pk lims. reachable with_tokens st \<and> pv_state st = RequestingLimits ''w'' pk lims \<and> connected st ''w'' = None \<and>
     listeners_of ''w'' st = []"
proof -
  have "\<exists>st. run with_tokens (fresh_start with_tokens) (take 5 sign_in @ [UserSubmitLimits None, UserCancel, Settles 1 (Done False),
      Settles 0 Rejected]) = Some st \<and>
    pv_state st = RequestingLimits ''w'' demo_pk None \<and> connected st ''w'' = None \<and> listeners_of ''w'' st = []"
    by (simp add: provider_run sign_in_def)
  then show ?thesis using reachable_run[OF fresh_start_reachable] by blast
qed

end
