(* ===== verification/Js_Number.thy ===== *)
theory Js_Number
  imports Complex_Main Sessions_Prelude
begin

text \<open>
  JavaScript numbers, as far as the sources use them: \<^verbatim>\<open>Number(string)\<close> with rounding to the
  nearest double, \<^verbatim>\<open>x || 0\<close>, \<^verbatim>\<open>Math.max\<close>, \<^verbatim>\<open>Math.min\<close> and the tests of the schemas. A finite
  number is its rational value; the two zeros are one value.
\<close>

datatype js_number = NaN | Infinite bool | Num rat

section \<open>Rounding to a double\<close>

function bit_length :: "int \<Rightarrow> int" where
  "bit_length n = (if n \<le> 0 then 0 else 1 + bit_length (n div 2))"
  by pat_completeness auto
termination by (relation "measure nat") auto

declare bit_length.simps [simp del]

definition floor_log2 :: "rat \<Rightarrow> int" where
  "floor_log2 q =
     (let (a, b) = quotient_of q; e = bit_length a - bit_length b
      in if 2 powi e \<le> q then e else e - 1)"

text \<open>Round to the nearest integer, a tie to the even one.\<close>

definition round_even :: "rat \<Rightarrow> int" where
  "round_even x =
     (let f = \<lfloor>x\<rfloor>; r = x - of_int f
      in if r < 1 / 2 then f else if 1 / 2 < r then f + 1 else if even f then f else f + 1)"

text \<open>The spacing of the doubles around a positive value: 53 significant bits, and not finer than
  the smallest subnormal.\<close>

definition ulp_exponent :: "rat \<Rightarrow> int" where
  "ulp_exponent q = max (- 1074) (floor_log2 q - 52)"

definition round_pos :: "rat \<Rightarrow> rat" where
  "round_pos q = (let e = ulp_exponent q in of_int (round_even (q / 2 powi e)) * 2 powi e)"

definition to_double :: "rat \<Rightarrow> js_number" where
  "to_double q =
     (if q = 0 then Num 0
      else let v = round_pos \<bar>q\<bar> in
        if 2 ^ 1024 \<le> v then Infinite (q < 0) else Num (if q < 0 then - v else v))"

section \<open>\<^verbatim>\<open>Number\<close> of a string\<close>

definition exponent_part :: "string \<Rightarrow> int option" where
  "exponent_part s =
     (case s of
        [] \<Rightarrow> Some 0
      | c # t \<Rightarrow>
          if c = CHR ''e'' \<or> c = CHR ''E''
          then (case t of
                  [] \<Rightarrow> None
                | d # u \<Rightarrow> if d = CHR ''-'' then map_option (\<lambda>n. - int n) (digits_value 10 u)
                           else if d = CHR ''+'' then map_option int (digits_value 10 u)
                           else map_option int (digits_value 10 t))
          else None)"

text \<open>Digits with an optional fraction and an optional exponent.\<close>

definition decimal_literal :: "string \<Rightarrow> rat option" where
  "decimal_literal s =
     (let w = takeWhile is_dec s; r = dropWhile is_dec s;
          t = (if r \<noteq> [] \<and> hd r = CHR ''.'' then tl r else []);
          f = takeWhile is_dec t;
          rest = (if r \<noteq> [] \<and> hd r = CHR ''.'' then dropWhile is_dec t else r)
      in if w = [] \<and> f = [] then None
         else map_option (\<lambda>e. of_nat (dec_value (w @ f)) * 10 powi (e - int (length f))) (exponent_part rest))"

definition unsigned_number :: "string \<Rightarrow> js_number" where
  "unsigned_number s =
     (if s = ''Infinity'' then Infinite False
      else case decimal_literal s of None \<Rightarrow> NaN | Some q \<Rightarrow> to_double q)"

definition js_neg :: "js_number \<Rightarrow> js_number" where
  "js_neg x = (case x of NaN \<Rightarrow> NaN | Infinite s \<Rightarrow> Infinite (\<not> s) | Num q \<Rightarrow> Num (- q))"

definition prefixed_number :: "nat \<Rightarrow> string \<Rightarrow> js_number" where
  "prefixed_number b s = (case digits_value b s of None \<Rightarrow> NaN | Some n \<Rightarrow> to_double (of_nat n))"

definition js_Number :: "string \<Rightarrow> js_number" where
  "js_Number s =
     (case js_trim s of
        [] \<Rightarrow> Num 0
      | c # u \<Rightarrow>
          if c = CHR ''-'' then js_neg (unsigned_number u)
          else if c = CHR ''+'' then unsigned_number u
          else if c = CHR ''0'' \<and> u \<noteq> [] \<and> hd u \<in> {CHR ''x'', CHR ''X''} then prefixed_number 16 (tl u)
          else if c = CHR ''0'' \<and> u \<noteq> [] \<and> hd u \<in> {CHR ''o'', CHR ''O''} then prefixed_number 8 (tl u)
          else if c = CHR ''0'' \<and> u \<noteq> [] \<and> hd u \<in> {CHR ''b'', CHR ''B''} then prefixed_number 2 (tl u)
          else unsigned_number (c # u))"

section \<open>Arithmetic and tests\<close>

text \<open>\<^verbatim>\<open>x || 0\<close>: zero and \<^verbatim>\<open>NaN\<close> are falsy.\<close>

definition or_zero :: "js_number \<Rightarrow> js_number" where
  "or_zero x = (case x of NaN \<Rightarrow> Num 0 | _ \<Rightarrow> x)"

fun js_less :: "js_number \<Rightarrow> js_number \<Rightarrow> bool" where
  "js_less (Num p) (Num q) = (p < q)"
| "js_less (Num p) (Infinite s) = (\<not> s)"
| "js_less (Infinite s) (Num q) = s"
| "js_less (Infinite s) (Infinite t) = (s \<and> \<not> t)"
| "js_less _ _ = False"

definition Math_max :: "js_number \<Rightarrow> js_number \<Rightarrow> js_number" where
  "Math_max x y = (if x = NaN \<or> y = NaN then NaN else if js_less x y then y else x)"

definition Math_min :: "js_number \<Rightarrow> js_number \<Rightarrow> js_number" where
  "Math_min x y = (if x = NaN \<or> y = NaN then NaN else if js_less y x then y else x)"

definition MAX_SAFE_INTEGER :: int where
  "MAX_SAFE_INTEGER = 9007199254740991"

text \<open>\<^verbatim>\<open>z.number().int().min(lo).max(hi)\<close> on a number.\<close>

definition int_between :: "int \<Rightarrow> int \<Rightarrow> js_number \<Rightarrow> bool" where
  "int_between lo hi x = (case x of Num q \<Rightarrow> of_int \<lfloor>q\<rfloor> = q \<and> of_int lo \<le> q \<and> q \<le> of_int hi | _ \<Rightarrow> False)"

definition js_int :: "int \<Rightarrow> js_number" where
  "js_int i = Num (of_int i)"

section \<open>Integers are exact\<close>

lemma bit_length_bound: "n < 2 ^ k \<Longrightarrow> bit_length n \<le> int k"
proof (induction k arbitrary: n)
  case 0
  then show ?case by (simp add: bit_length.simps)
next
  case (Suc k)
  then have "n div 2 < 2 ^ k" by simp
  from Suc.IH[OF this] show ?case by (subst bit_length.simps) simp
qed

lemma round_even_int [simp]: "round_even (of_int i) = i"
  by (simp add: round_even_def)

lemma quotient_of_of_nat: "quotient_of (of_nat n) = (int n, 1)"
  using quotient_of_int[of "int n"] by simp

lemma floor_log2_small: "n < 2 ^ 53 \<Longrightarrow> floor_log2 (of_nat n) \<le> 52"
proof -
  assume "n < 2 ^ 53"
  then have "int n < 2 ^ 53" by simp
  with bit_length_bound[of "int n" 53] bit_length.simps[of 1] bit_length.simps[of 0] show ?thesis
    by (simp add: floor_log2_def quotient_of_of_nat Let_def)
qed

lemma round_pos_exact: "n < 2 ^ 53 \<Longrightarrow> round_pos (of_nat n) = of_nat n"
proof -
  assume n: "n < 2 ^ 53"
  let ?e = "ulp_exponent (of_nat n)"
  have e: "?e \<le> 0" using floor_log2_small[OF n] by (simp add: ulp_exponent_def)
  then have "of_nat n / 2 powi ?e = (of_nat n * 2 ^ nat (- ?e) :: rat)"
    by (simp add: power_int_def field_simps)
  also have "\<dots> = of_int (int n * 2 ^ nat (- ?e))" by simp
  finally have "round_even (of_nat n / 2 powi ?e) = int n * 2 ^ nat (- ?e)" by (metis round_even_int)
  moreover have "(2::rat) ^ nat (- ?e) * 2 powi ?e = 1"
    using e by (simp add: power_int_def field_simps)
  ultimately show ?thesis by (simp add: round_pos_def Let_def mult.assoc)
qed

lemma to_double_int:
  assumes "\<bar>i\<bar> \<le> MAX_SAFE_INTEGER"
  shows "to_double (of_int i) = js_int i"
proof -
  let ?n = "nat \<bar>i\<bar>"
  have n: "?n < 2 ^ 53" using assms by (simp add: MAX_SAFE_INTEGER_def)
  have a: "\<bar>of_int i :: rat\<bar> = of_nat ?n" by simp
  have big: "(2::rat) ^ 53 \<le> 2 ^ 1024" by (rule power_increasing) simp_all
  have "(of_nat ?n :: rat) < 2 ^ 53" using n by (metis of_nat_less_iff of_nat_numeral of_nat_power)
  with big have small: "\<not> 2 ^ 1024 \<le> (of_nat ?n :: rat)" by linarith
  have "to_double (of_int i) = (if i = 0 then Num 0 else Num (if i < 0 then - of_nat ?n else of_nat ?n))"
    unfolding to_double_def a round_pos_exact[OF n] Let_def using small by (simp del: power_numeral)
  also have "\<dots> = js_int i" by (simp add: js_int_def)
  finally show ?thesis .
qed

lemma decimal_literal_digits: "list_all is_dec s \<Longrightarrow> s \<noteq> [] \<Longrightarrow> decimal_literal s = Some (of_nat (dec_value s))"
  by (simp add: decimal_literal_def Let_def exponent_part_def list_all_iff takeWhile_eq_all_conv[THEN iffD2]
      dropWhile_eq_Nil_conv[THEN iffD2])

lemma unsigned_number_nat:
  assumes "int n \<le> MAX_SAFE_INTEGER"
  shows "unsigned_number (nat_to_string n) = js_int (int n)"
proof -
  have "nat_to_string n \<noteq> ''Infinity''"
    using nat_to_string_dec[of n] by (auto simp: is_dec_def)
  then show ?thesis
    using decimal_literal_digits[OF nat_to_string_dec[of n]] to_double_int[of "int n"] assms
    by (simp add: unsigned_number_def)
qed


lemma js_Number_nat:
  assumes "int n \<le> MAX_SAFE_INTEGER"
  shows "js_Number (nat_to_string n) = js_int (int n)"
proof -
  have dec: "list_all is_dec (nat_to_string n)" by (rule nat_to_string_dec)
  obtain c u where s: "nat_to_string n = c # u" by (cases "nat_to_string n") auto
  have c: "is_dec c" and u: "list_all is_dec u" using dec by (simp_all add: s)
  have "js_trim (nat_to_string n) = c # u"
    using js_trim_dec[OF dec] by (simp add: s)
  moreover have "c \<noteq> CHR ''-''" "c \<noteq> CHR ''+''" using c by auto
  moreover have "u \<noteq> [] \<Longrightarrow> hd u \<notin> {CHR ''x'', CHR ''X'', CHR ''o'', CHR ''O'', CHR ''b'', CHR ''B''}"
    using u by (cases u) auto
  ultimately have "js_Number (nat_to_string n) = unsigned_number (c # u)"
    by (auto simp: js_Number_def)
  then show ?thesis using unsigned_number_nat[OF assms] by (simp add: s)
qed

end
