(* ===== verification/Json_Schema.thy ===== *)
theory Json_Schema
  imports Js_Number
begin

text \<open>
  JSON values, and the combinators of the schema library that the admin application and the wallet use: a
  schema is a function from JSON to a typed value or nothing. An object is an association list with
  distinct keys.
\<close>

section \<open>JSON values and schema combinators\<close>

datatype json = JNull | JBool bool | JNum js_number | JStr string | JArr "json list" | JObj "(string \<times> json) list"

definition field :: "string \<Rightarrow> json \<Rightarrow> json option" where
  "field k j = (case j of JObj kvs \<Rightarrow> map_of kvs k | _ \<Rightarrow> None)"

definition is_object :: "json \<Rightarrow> bool" where
  "is_object j = (case j of JObj _ \<Rightarrow> True | _ \<Rightarrow> False)"

definition parse_int :: "int \<Rightarrow> int \<Rightarrow> json \<Rightarrow> js_number option" where
  "parse_int lo hi j = (case j of JNum x \<Rightarrow> if int_between lo hi x then Some x else None | _ \<Rightarrow> None)"

definition parse_str :: "(string \<Rightarrow> bool) \<Rightarrow> json \<Rightarrow> string option" where
  "parse_str P j = (case j of JStr s \<Rightarrow> if P s then Some s else None | _ \<Rightarrow> None)"

definition parse_bool :: "json \<Rightarrow> bool option" where
  "parse_bool j = (case j of JBool b \<Rightarrow> Some b | _ \<Rightarrow> None)"

definition parse_arr :: "(json \<Rightarrow> 'a option) \<Rightarrow> json \<Rightarrow> 'a list option" where
  "parse_arr p j = (case j of JArr js \<Rightarrow> those (map p js) | _ \<Rightarrow> None)"

definition required :: "string \<Rightarrow> (json \<Rightarrow> 'a option) \<Rightarrow> json \<Rightarrow> 'a option" where
  "required k p j = (case field k j of None \<Rightarrow> None | Some v \<Rightarrow> p v)"

definition with_default :: "'a \<Rightarrow> string \<Rightarrow> (json \<Rightarrow> 'a option) \<Rightarrow> json \<Rightarrow> 'a option" where
  "with_default d k p j = (case field k j of None \<Rightarrow> Some d | Some v \<Rightarrow> p v)"

definition optional :: "string \<Rightarrow> (json \<Rightarrow> 'a option) \<Rightarrow> json \<Rightarrow> 'a option option" where
  "optional k p j = (case field k j of None \<Rightarrow> Some None | Some v \<Rightarrow> map_option Some (p v))"

fun first_some :: "'a option list \<Rightarrow> 'a option" where
  "first_some [] = None"
| "first_some (x # xs) = (case x of None \<Rightarrow> first_some xs | Some v \<Rightarrow> Some v)"

definition tagged :: "string \<Rightarrow> (json \<Rightarrow> 'a option) \<Rightarrow> ('a \<Rightarrow> 'b) \<Rightarrow> json \<Rightarrow> 'b option" where
  "tagged k p C j = map_option C (required k p j)"

end
