(* ===== verification/Admin_Schema.thy ===== *)
theory Admin_Schema
  imports Json_Schema "HOL-Library.Monad_Syntax"
begin

text \<open>
  \<^verbatim>\<open>apps/paymaster-admin/src/db-schema.ts\<close>: the schemas of the paymaster's configuration. A value
  from outside is a \<open>json\<close>; a schema is a function that returns the typed value or nothing. The
  typed values carry JavaScript numbers and strings that a form may have filled with anything,
  so each type has a predicate \<open>wf\<close> and an encoder; the lemmas say that a schema accepts exactly
  the encodings of well-formed values. The schemas ignore keys they do not name, a union takes
  its first alternative that accepts, and \<^verbatim>\<open>default\<close> applies to a missing key (see Json_Schema).
\<close>

section \<open>Constraints\<close>

definition is_base58_char :: "char \<Rightarrow> bool" where
  "is_base58_char c = (c \<in> set ''123456789ABCDEFGHJKLMNPQRSTUVWXYZabcdefghijkmnopqrstuvwxyz'')"

definition is_hex_char :: "char \<Rightarrow> bool" where
  "is_hex_char c = (digit_val c \<noteq> None)"

definition Base58Pubkey :: "string \<Rightarrow> bool" where
  "Base58Pubkey s = (list_all is_base58_char s \<and> 32 \<le> length s \<and> length s \<le> 44)"

definition hex_string :: "string \<Rightarrow> bool" where
  "hex_string s = list_all is_hex_char s"

definition quoter_string :: "string \<Rightarrow> bool" where
  "quoter_string s = (take 2 s = ''0x'' \<and> length s = 42 \<and> list_all is_hex_char (drop 2 s))"

definition u16 :: "json \<Rightarrow> js_number option" where "u16 = parse_int 0 65535"
definition u64 :: "json \<Rightarrow> js_number option" where "u64 = parse_int 0 MAX_SAFE_INTEGER"

datatype PrimitiveDataValue =
    U8 js_number | U16 js_number | U32 js_number | U64 js_number | Bool bool | Pubkey string | Bytes string
  | NttSignedQuoter string

definition PrimitiveDataValueSchema :: "json \<Rightarrow> PrimitiveDataValue option" where
  "PrimitiveDataValueSchema j = first_some
     [tagged ''U8'' (parse_int 0 255) U8 j,
      tagged ''U16'' (parse_int 0 65535) U16 j,
      tagged ''U32'' (parse_int 0 0xffffffff) U32 j,
      tagged ''U64'' u64 U64 j,
      tagged ''Bool'' parse_bool Bool j,
      tagged ''Pubkey'' (parse_str Base58Pubkey) Pubkey j,
      tagged ''Bytes'' (parse_str hex_string) Bytes j,
      tagged ''NttSignedQuoter'' (parse_str quoter_string) NttSignedQuoter j]"

datatype PrimitiveDataType = TU8 | TU16 | TU32 | TU64 | TBool | TPubkey | TBytes js_number

definition data_type_names :: "(string \<times> PrimitiveDataType) list" where
  "data_type_names = [(''U8'', TU8), (''U16'', TU16), (''U32'', TU32), (''U64'', TU64), (''Bool'', TBool), (''Pubkey'', TPubkey)]"

definition PrimitiveDataTypeSchema :: "json \<Rightarrow> PrimitiveDataType option" where
  "PrimitiveDataTypeSchema j = first_some
     [(case j of JStr s \<Rightarrow> map_of data_type_names s | _ \<Rightarrow> None),
      tagged ''Bytes'' (required ''length'' (parse_int 0 MAX_SAFE_INTEGER)) TBytes j]"

datatype DataConstraintSpecification =
    LessThan PrimitiveDataValue | GreaterThan PrimitiveDataValue
  | EqualTo "PrimitiveDataValue list" | Neq "PrimitiveDataValue list"

definition parse_nonempty :: "(json \<Rightarrow> 'a option) \<Rightarrow> json \<Rightarrow> 'a list option" where
  "parse_nonempty p j = (case parse_arr p j of Some (x # xs) \<Rightarrow> Some (x # xs) | _ \<Rightarrow> None)"

definition DataConstraintSpecificationSchema :: "json \<Rightarrow> DataConstraintSpecification option" where
  "DataConstraintSpecificationSchema j = first_some
     [tagged ''LessThan'' PrimitiveDataValueSchema LessThan j,
      tagged ''GreaterThan'' PrimitiveDataValueSchema GreaterThan j,
      tagged ''EqualTo'' (parse_nonempty PrimitiveDataValueSchema) EqualTo j,
      tagged ''Neq'' (parse_nonempty PrimitiveDataValueSchema) Neq j]"

record DataConstraint =
  dc_constraint :: DataConstraintSpecification
  dc_data_type :: "PrimitiveDataType option"
  dc_start_byte :: js_number

definition DataConstraintSchema :: "json \<Rightarrow> DataConstraint option" where
  "DataConstraintSchema j = do {
     c \<leftarrow> required ''constraint'' DataConstraintSpecificationSchema j;
     t \<leftarrow> optional ''data_type'' PrimitiveDataTypeSchema j;
     s \<leftarrow> required ''start_byte'' u16 j;
     Some \<lparr>dc_constraint = c, dc_data_type = t, dc_start_byte = s\<rparr>}"

datatype ContextualPubkey = Explicit string | Sponsor | NonFeePayerSigner | DomainRegistry

definition ContextualPubkeySchema :: "json \<Rightarrow> ContextualPubkey option" where
  "ContextualPubkeySchema j = first_some
     [tagged ''Explicit'' (required ''pubkey'' (parse_str Base58Pubkey)) Explicit j,
      (if j = JStr ''Sponsor'' then Some Sponsor else None),
      (if j = JStr ''NonFeePayerSigner'' then Some NonFeePayerSigner else None),
      (if j = JStr ''DomainRegistry'' then Some DomainRegistry else None)]"

record AccountConstraint =
  ac_exclude :: "ContextualPubkey list"
  ac_include :: "ContextualPubkey list"
  ac_index :: js_number

definition AccountConstraintSchema :: "json \<Rightarrow> AccountConstraint option" where
  "AccountConstraintSchema j = do {
     e \<leftarrow> with_default [] ''exclude'' (parse_arr ContextualPubkeySchema) j;
     i \<leftarrow> with_default [] ''include'' (parse_arr ContextualPubkeySchema) j;
     n \<leftarrow> required ''index'' u16 j;
     Some \<lparr>ac_exclude = e, ac_include = i, ac_index = n\<rparr>}"

record InstructionConstraint =
  ic_accounts :: "AccountConstraint list"
  ic_data :: "DataConstraint list"
  ic_program :: string
  ic_required :: bool
  ic_requires_wrapped_native_tokens :: "bool option"

definition InstructionConstraintSchema :: "json \<Rightarrow> InstructionConstraint option" where
  "InstructionConstraintSchema j = do {
     as \<leftarrow> with_default [] ''accounts'' (parse_arr AccountConstraintSchema) j;
     ds \<leftarrow> with_default [] ''data'' (parse_arr DataConstraintSchema) j;
     p \<leftarrow> required ''program'' (parse_str Base58Pubkey) j;
     r \<leftarrow> required ''required'' parse_bool j;
     w \<leftarrow> optional ''requires_wrapped_native_tokens'' parse_bool j;
     Some \<lparr>ic_accounts = as, ic_data = ds, ic_program = p, ic_required = r, ic_requires_wrapped_native_tokens = w\<rparr>}"

definition TransactionVariations :: "json \<Rightarrow> InstructionConstraint list option" where
  "TransactionVariations = parse_arr InstructionConstraintSchema"


section \<open>Encoding and well-formedness\<close>

definition prim_json :: "PrimitiveDataValue \<Rightarrow> json" where
  "prim_json v = (case v of U8 x \<Rightarrow> JObj [(''U8'', JNum x)] | U16 x \<Rightarrow> JObj [(''U16'', JNum x)]
     | U32 x \<Rightarrow> JObj [(''U32'', JNum x)] | U64 x \<Rightarrow> JObj [(''U64'', JNum x)] | Bool b \<Rightarrow> JObj [(''Bool'', JBool b)]
     | Pubkey s \<Rightarrow> JObj [(''Pubkey'', JStr s)] | Bytes s \<Rightarrow> JObj [(''Bytes'', JStr s)]
     | NttSignedQuoter s \<Rightarrow> JObj [(''NttSignedQuoter'', JStr s)])"

definition wf_prim :: "PrimitiveDataValue \<Rightarrow> bool" where
  "wf_prim v = (case v of U8 x \<Rightarrow> int_between 0 255 x | U16 x \<Rightarrow> int_between 0 65535 x
     | U32 x \<Rightarrow> int_between 0 0xffffffff x | U64 x \<Rightarrow> int_between 0 MAX_SAFE_INTEGER x | Bool b \<Rightarrow> True
     | Pubkey s \<Rightarrow> Base58Pubkey s | Bytes s \<Rightarrow> hex_string s | NttSignedQuoter s \<Rightarrow> quoter_string s)"

definition data_type_json :: "PrimitiveDataType \<Rightarrow> json" where
  "data_type_json t = (case t of TU8 \<Rightarrow> JStr ''U8'' | TU16 \<Rightarrow> JStr ''U16'' | TU32 \<Rightarrow> JStr ''U32'' | TU64 \<Rightarrow> JStr ''U64''
     | TBool \<Rightarrow> JStr ''Bool'' | TPubkey \<Rightarrow> JStr ''Pubkey'' | TBytes n \<Rightarrow> JObj [(''Bytes'', JObj [(''length'', JNum n)])])"

definition wf_data_type :: "PrimitiveDataType \<Rightarrow> bool" where
  "wf_data_type t = (case t of TBytes n \<Rightarrow> int_between 0 MAX_SAFE_INTEGER n | _ \<Rightarrow> True)"

definition spec_json :: "DataConstraintSpecification \<Rightarrow> json" where
  "spec_json s = (case s of LessThan v \<Rightarrow> JObj [(''LessThan'', prim_json v)] | GreaterThan v \<Rightarrow> JObj [(''GreaterThan'', prim_json v)]
     | EqualTo vs \<Rightarrow> JObj [(''EqualTo'', JArr (map prim_json vs))] | Neq vs \<Rightarrow> JObj [(''Neq'', JArr (map prim_json vs))])"

definition wf_spec :: "DataConstraintSpecification \<Rightarrow> bool" where
  "wf_spec s = (case s of LessThan v \<Rightarrow> wf_prim v | GreaterThan v \<Rightarrow> wf_prim v
     | EqualTo vs \<Rightarrow> vs \<noteq> [] \<and> list_all wf_prim vs | Neq vs \<Rightarrow> vs \<noteq> [] \<and> list_all wf_prim vs)"

definition data_json :: "DataConstraint \<Rightarrow> json" where
  "data_json d = JObj ([(''constraint'', spec_json (dc_constraint d))] @
     (case dc_data_type d of None \<Rightarrow> [] | Some t \<Rightarrow> [(''data_type'', data_type_json t)]) @
     [(''start_byte'', JNum (dc_start_byte d))])"

definition wf_data :: "DataConstraint \<Rightarrow> bool" where
  "wf_data d = (wf_spec (dc_constraint d) \<and> (case dc_data_type d of None \<Rightarrow> True | Some t \<Rightarrow> wf_data_type t) \<and>
     int_between 0 65535 (dc_start_byte d))"

definition pubkey_json :: "ContextualPubkey \<Rightarrow> json" where
  "pubkey_json k = (case k of Explicit s \<Rightarrow> JObj [(''Explicit'', JObj [(''pubkey'', JStr s)])] | Sponsor \<Rightarrow> JStr ''Sponsor''
     | NonFeePayerSigner \<Rightarrow> JStr ''NonFeePayerSigner'' | DomainRegistry \<Rightarrow> JStr ''DomainRegistry'')"

definition wf_pubkey :: "ContextualPubkey \<Rightarrow> bool" where
  "wf_pubkey k = (case k of Explicit s \<Rightarrow> Base58Pubkey s | _ \<Rightarrow> True)"

definition account_json :: "AccountConstraint \<Rightarrow> json" where
  "account_json a = JObj [(''exclude'', JArr (map pubkey_json (ac_exclude a))),
     (''include'', JArr (map pubkey_json (ac_include a))), (''index'', JNum (ac_index a))]"

definition wf_account :: "AccountConstraint \<Rightarrow> bool" where
  "wf_account a = (list_all wf_pubkey (ac_exclude a) \<and> list_all wf_pubkey (ac_include a) \<and> int_between 0 65535 (ac_index a))"

definition instruction_json :: "InstructionConstraint \<Rightarrow> json" where
  "instruction_json i = JObj ([(''accounts'', JArr (map account_json (ic_accounts i))),
     (''data'', JArr (map data_json (ic_data i))), (''program'', JStr (ic_program i)), (''required'', JBool (ic_required i))] @
     (case ic_requires_wrapped_native_tokens i of None \<Rightarrow> [] | Some b \<Rightarrow> [(''requires_wrapped_native_tokens'', JBool b)]))"

definition wf_instruction :: "InstructionConstraint \<Rightarrow> bool" where
  "wf_instruction i = (list_all wf_account (ic_accounts i) \<and> list_all wf_data (ic_data i) \<and> Base58Pubkey (ic_program i))"

definition variations_json :: "InstructionConstraint list \<Rightarrow> json" where
  "variations_json is = JArr (map instruction_json is)"

text \<open>The contract of a schema with its encoder: it accepts the encoding of exactly the
  well-formed values and returns the value, and whatever it returns is well formed.\<close>

locale schema =
  fixes parse :: "json \<Rightarrow> 'a option" and enc :: "'a \<Rightarrow> json" and wf :: "'a \<Rightarrow> bool"
  assumes parse_enc: "parse (enc v) = (if wf v then Some v else None)"
    and parse_wf: "parse j = Some v \<Longrightarrow> wf v"
begin

lemma reparse: "parse j = Some v \<Longrightarrow> parse (enc v) = Some v"
  by (simp add: parse_enc parse_wf)

lemma parse_map_enc: "those (map (\<lambda>v. parse (enc v)) vs) = (if list_all wf vs then Some vs else None)"
  by (induction vs) (simp_all add: parse_enc)

lemma those_wf: "those (map parse js) = Some vs \<Longrightarrow> list_all wf vs"
  by (induction js arbitrary: vs) (auto simp: parse_wf split: option.splits)

lemma parse_arr_enc: "parse_arr parse (JArr (map enc vs)) = (if list_all wf vs then Some vs else None)"
  by (simp add: parse_arr_def o_def parse_map_enc)

lemma parse_arr_wf: "parse_arr parse j = Some vs \<Longrightarrow> list_all wf vs"
  by (simp add: parse_arr_def those_wf split: json.splits)

lemma parse_nonempty_enc: "parse_nonempty parse (JArr (map enc vs)) = (if vs \<noteq> [] \<and> list_all wf vs then Some vs else None)"
  unfolding parse_nonempty_def parse_arr_enc by (cases vs) simp_all

lemma parse_nonempty_wf: "parse_nonempty parse j = Some vs \<Longrightarrow> vs \<noteq> [] \<and> list_all wf vs"
  by (auto simp: parse_nonempty_def dest: parse_arr_wf split: option.splits list.splits)

end

lemmas schema_comb = field_def required_def with_default_def optional_def tagged_def parse_int_def parse_str_def parse_bool_def
  u16_def u64_def

lemma first_some_in: "first_some xs = Some v \<Longrightarrow> Some v \<in> set xs"
  by (induction xs) (auto split: option.splits)

lemma tagged_Some: "tagged k p C j = Some w \<longleftrightarrow> (\<exists>x v. field k j = Some x \<and> p x = Some v \<and> w = C v)"
  by (auto simp: tagged_def required_def split: option.splits)

lemma required_Some: "required k p j = Some v \<longleftrightarrow> (\<exists>x. field k j = Some x \<and> p x = Some v)"
  by (auto simp: required_def split: option.splits)

lemma parse_int_wf: "parse_int lo hi j = Some x \<Longrightarrow> int_between lo hi x"
  by (auto simp: parse_int_def split: json.splits if_splits)

lemma parse_str_wf: "parse_str P j = Some s \<Longrightarrow> P s"
  by (auto simp: parse_str_def split: json.splits if_splits)

lemmas schema_wf = tagged_Some required_Some u16_def u64_def

interpretation prim: schema PrimitiveDataValueSchema prim_json wf_prim
proof
  show "PrimitiveDataValueSchema (prim_json v) = (if wf_prim v then Some v else None)" for v
    by (cases v) (simp_all add: PrimitiveDataValueSchema_def prim_json_def wf_prim_def schema_comb)
  show "wf_prim v" if "PrimitiveDataValueSchema j = Some v" for j v
    using first_some_in[OF that[unfolded PrimitiveDataValueSchema_def]]
    by (auto simp: wf_prim_def schema_wf eq_commute[of "Some v"] dest: parse_int_wf parse_str_wf)
qed

interpretation data_type: schema PrimitiveDataTypeSchema data_type_json wf_data_type
proof
  show "PrimitiveDataTypeSchema (data_type_json v) = (if wf_data_type v then Some v else None)" for v
    by (cases v) (simp_all add: PrimitiveDataTypeSchema_def data_type_json_def wf_data_type_def data_type_names_def schema_comb)
  show "wf_data_type v" if "PrimitiveDataTypeSchema j = Some v" for j v
    using first_some_in[OF that[unfolded PrimitiveDataTypeSchema_def]]
    by (auto simp: wf_data_type_def schema_wf eq_commute[of "Some v"] data_type_names_def dest: parse_int_wf
        split: json.splits if_splits)
qed

interpretation spec: schema DataConstraintSpecificationSchema spec_json wf_spec
proof
  show "DataConstraintSpecificationSchema (spec_json v) = (if wf_spec v then Some v else None)" for v
    by (cases v) (simp_all add: DataConstraintSpecificationSchema_def spec_json_def wf_spec_def tagged_def required_def field_def
        prim.parse_enc prim.parse_nonempty_enc)
  show "wf_spec v" if "DataConstraintSpecificationSchema j = Some v" for j v
    using first_some_in[OF that[unfolded DataConstraintSpecificationSchema_def]]
    by (auto simp: wf_spec_def tagged_Some eq_commute[of "Some v"] dest: prim.parse_wf prim.parse_nonempty_wf)
qed

interpretation data: schema DataConstraintSchema data_json wf_data
proof
  show "DataConstraintSchema (data_json v) = (if wf_data v then Some v else None)" for v
    by (cases v) (simp add: DataConstraintSchema_def data_json_def wf_data_def schema_comb spec.parse_enc data_type.parse_enc
        split: option.splits)
  show "wf_data v" if "DataConstraintSchema j = Some v" for j v
    using that
    by (auto simp: DataConstraintSchema_def wf_data_def optional_def schema_wf bind_eq_Some_conv
        dest: spec.parse_wf data_type.parse_wf parse_int_wf split: option.splits)
qed

interpretation contextual: schema ContextualPubkeySchema pubkey_json wf_pubkey
proof
  show "ContextualPubkeySchema (pubkey_json v) = (if wf_pubkey v then Some v else None)" for v
    by (cases v) (simp_all add: ContextualPubkeySchema_def pubkey_json_def wf_pubkey_def schema_comb)
  show "wf_pubkey v" if "ContextualPubkeySchema j = Some v" for j v
    using first_some_in[OF that[unfolded ContextualPubkeySchema_def]]
    by (auto simp: wf_pubkey_def schema_wf eq_commute[of "Some v"] dest: parse_str_wf split: if_splits)
qed

interpretation account: schema AccountConstraintSchema account_json wf_account
proof
  show "AccountConstraintSchema (account_json v) = (if wf_account v then Some v else None)" for v
    by (cases v) (simp add: AccountConstraintSchema_def account_json_def wf_account_def schema_comb contextual.parse_arr_enc)
  show "wf_account v" if "AccountConstraintSchema j = Some v" for j v
    using that
    by (auto simp: AccountConstraintSchema_def wf_account_def with_default_def schema_wf bind_eq_Some_conv
        dest: contextual.parse_arr_wf parse_int_wf split: option.splits)
qed

interpretation instruction: schema InstructionConstraintSchema instruction_json wf_instruction
proof
  show "InstructionConstraintSchema (instruction_json v) = (if wf_instruction v then Some v else None)" for v
    by (cases v) (simp add: InstructionConstraintSchema_def instruction_json_def wf_instruction_def schema_comb
        account.parse_arr_enc data.parse_arr_enc split: option.splits)
  show "wf_instruction v" if "InstructionConstraintSchema j = Some v" for j v
    using that
    by (auto simp: InstructionConstraintSchema_def wf_instruction_def with_default_def optional_def schema_wf bind_eq_Some_conv
        dest: account.parse_arr_wf data.parse_arr_wf parse_str_wf split: option.splits)
qed

interpretation variations: schema TransactionVariations variations_json "list_all wf_instruction"
  by unfold_locales (simp_all add: TransactionVariations_def variations_json_def instruction.parse_arr_enc instruction.parse_arr_wf)

section \<open>Properties\<close>

text \<open>C17: the schema of a variation's constraints accepts the JSON of exactly the well-formed
  constraint lists and returns them unchanged; whatever JSON it accepts, printing the result
  and reading it again gives the same constraints, so what the admin app validates before it
  writes a variation is what it reads back.\<close>

theorem transaction_variations_roundtrip:
  "TransactionVariations (variations_json is) = (if list_all wf_instruction is then Some is else None) \<and>
   (case TransactionVariations j of None \<Rightarrow> True
    | Some js \<Rightarrow> list_all wf_instruction js \<and> TransactionVariations (variations_json js) = Some js)"
  by (auto simp: variations.parse_enc dest: variations.parse_wf split: option.splits)


section \<open>Variations, domains, apps and users\<close>

text \<open>What the schemas take from outside: the UUID test of the schema library and \<^verbatim>\<open>new Date\<close> of a
  string, in milliseconds.\<close>

record zod_lib =
  zd_uuid :: "string \<Rightarrow> bool"
  zd_date :: "string \<Rightarrow> int option"

text \<open>A number becomes a date when its integer part is in the range of dates.\<close>

definition date_of_number :: "js_number \<Rightarrow> int option" where
  "date_of_number x = (case x of Num q \<Rightarrow>
     (let t = (if q < 0 then \<lceil>q\<rceil> else \<lfloor>q\<rfloor>) in if \<bar>q\<bar> \<le> 8640000000000000 then Some t else None) | _ \<Rightarrow> None)"

definition TimeStr :: "zod_lib \<Rightarrow> json \<Rightarrow> int option" where
  "TimeStr Z j = (case j of JStr s \<Rightarrow> zd_date Z s | JNum x \<Rightarrow> date_of_number x | _ \<Rightarrow> None)"

definition UUID :: "zod_lib \<Rightarrow> json \<Rightarrow> string option" where
  "UUID Z = parse_str (zd_uuid Z)"

definition any_string :: "json \<Rightarrow> string option" where
  "any_string = parse_str (\<lambda>_. True)"

record variation_meta =
  vm_created_at :: int
  vm_id :: string
  vm_name :: string
  vm_updated_at :: int

datatype Variation =
    VariationV0 (variation_meta: variation_meta) "string list"
  | VariationV1 (variation_meta: variation_meta) (max_gas_spend: js_number) (paymaster_fee_lamports: "js_number option")
      (transaction_variation: "InstructionConstraint list")

definition variation_meta_schema :: "zod_lib \<Rightarrow> json \<Rightarrow> variation_meta option" where
  "variation_meta_schema Z j = do {
     c \<leftarrow> required ''created_at'' (TimeStr Z) j;
     i \<leftarrow> required ''id'' (UUID Z) j;
     n \<leftarrow> required ''name'' any_string j;
     u \<leftarrow> required ''updated_at'' (TimeStr Z) j;
     Some \<lparr>vm_created_at = c, vm_id = i, vm_name = n, vm_updated_at = u\<rparr>}"

definition VariationV0Schema :: "zod_lib \<Rightarrow> json \<Rightarrow> Variation option" where
  "VariationV0Schema Z j = do {
     m \<leftarrow> variation_meta_schema Z j;
     ps \<leftarrow> required ''transaction_variation'' (parse_arr (parse_str Base58Pubkey)) j;
     Some (VariationV0 m ps)}"

text \<open>\<^verbatim>\<open>nullable().optional()\<close> with \<^verbatim>\<open>null\<close> turned into \<^verbatim>\<open>undefined\<close>.\<close>

definition nullish_u64 :: "json \<Rightarrow> js_number option option" where
  "nullish_u64 j = (case field ''paymaster_fee_lamports'' j of
     None \<Rightarrow> Some None | Some JNull \<Rightarrow> Some None | Some v \<Rightarrow> map_option Some (u64 v))"

definition VariationV1Schema :: "zod_lib \<Rightarrow> json \<Rightarrow> Variation option" where
  "VariationV1Schema Z j = do {
     m \<leftarrow> variation_meta_schema Z j;
     g \<leftarrow> required ''max_gas_spend'' u64 j;
     f \<leftarrow> nullish_u64 j;
     is \<leftarrow> required ''transaction_variation'' TransactionVariations j;
     Some (VariationV1 m g f is)}"

definition VariationSchema :: "zod_lib \<Rightarrow> json \<Rightarrow> Variation option" where
  "VariationSchema Z j = (case field ''version'' j of
     Some (JStr v) \<Rightarrow> if v = ''v0'' then VariationV0Schema Z j else if v = ''v1'' then VariationV1Schema Z j else None
   | _ \<Rightarrow> None)"

datatype NetworkEnvironment = EnvMainnet | EnvTestnet | EnvLocalnet

definition NetworkEnvironmentSchema :: "json \<Rightarrow> NetworkEnvironment option" where
  "NetworkEnvironmentSchema j = (case j of
     JStr s \<Rightarrow> map_of [(''mainnet'', EnvMainnet), (''testnet'', EnvTestnet), (''localnet'', EnvLocalnet)] s | _ \<Rightarrow> None)"

record DomainConfig =
  dcf_created_at :: int
  dcf_domain :: string
  dcf_enable_preflight_simulation :: bool
  dcf_enable_session_management :: bool
  dcf_id :: string
  dcf_network_environment :: NetworkEnvironment
  dcf_updated_at :: int
  dcf_variations :: "Variation list"

definition DomainConfigWithVariationsSchema :: "zod_lib \<Rightarrow> json \<Rightarrow> DomainConfig option" where
  "DomainConfigWithVariationsSchema Z j = do {
     c \<leftarrow> required ''created_at'' (TimeStr Z) j;
     d \<leftarrow> required ''domain'' any_string j;
     p \<leftarrow> required ''enable_preflight_simulation'' parse_bool j;
     s \<leftarrow> required ''enable_session_management'' parse_bool j;
     i \<leftarrow> required ''id'' (UUID Z) j;
     n \<leftarrow> required ''network_environment'' NetworkEnvironmentSchema j;
     u \<leftarrow> required ''updated_at'' (TimeStr Z) j;
     vs \<leftarrow> required ''variations'' (parse_arr (VariationSchema Z)) j;
     Some \<lparr>dcf_created_at = c, dcf_domain = d, dcf_enable_preflight_simulation = p, dcf_enable_session_management = s,
           dcf_id = i, dcf_network_environment = n, dcf_updated_at = u, dcf_variations = vs\<rparr>}"

record App =
  app_created_at :: int
  app_domain_configs :: "DomainConfig list"
  app_id :: string
  app_name :: string
  app_updated_at :: int

definition AppWithDomainConfigsSchema :: "zod_lib \<Rightarrow> json \<Rightarrow> App option" where
  "AppWithDomainConfigsSchema Z j = do {
     c \<leftarrow> required ''created_at'' (TimeStr Z) j;
     ds \<leftarrow> required ''domain_configs'' (parse_arr (DomainConfigWithVariationsSchema Z)) j;
     i \<leftarrow> required ''id'' (UUID Z) j;
     n \<leftarrow> required ''name'' any_string j;
     u \<leftarrow> required ''updated_at'' (TimeStr Z) j;
     Some \<lparr>app_created_at = c, app_domain_configs = ds, app_id = i, app_name = n, app_updated_at = u\<rparr>}"

record User =
  usr_apps :: "App list"
  usr_created_at :: int
  usr_id :: string
  usr_updated_at :: int
  usr_username :: string
  usr_wallet_address :: string

definition UserSchema :: "zod_lib \<Rightarrow> json \<Rightarrow> User option" where
  "UserSchema Z j = do {
     as \<leftarrow> required ''apps'' (parse_arr (AppWithDomainConfigsSchema Z)) j;
     c \<leftarrow> required ''created_at'' (TimeStr Z) j;
     i \<leftarrow> required ''id'' (UUID Z) j;
     u \<leftarrow> required ''updated_at'' (TimeStr Z) j;
     n \<leftarrow> required ''username'' any_string j;
     w \<leftarrow> required ''wallet_address'' any_string j;
     Some \<lparr>usr_apps = as, usr_created_at = c, usr_id = i, usr_updated_at = u, usr_username = n, usr_wallet_address = w\<rparr>}"

end
