(* ===== verification/Admin_Store.thy ===== *)
theory Admin_Store
  imports Admin_Schema "HOL-Library.Char_ord" "HOL-Library.List_Lexorder" "HOL-Library.Product_Lexorder"
begin

text \<open>
  \<^verbatim>\<open>apps/paymaster-admin/src/server/paymaster.ts\<close>: the SQL statements of the admin app on the tables
  of \<^verbatim>\<open>services/paymaster/migrations\<close>. A table is a list of rows; a statement is a function of the
  four tables, with the joins written out. The keys and unique constraints of the migrations
  are the invariant \<open>db_ok\<close>; a statement that would violate one raises, as the database does.
  The columns of type \<^verbatim>\<open>bigint\<close> are integers of 64 bits.
\<close>

section \<open>Tables\<close>

record user_row =
  ur_id :: string
  ur_username :: string
  ur_wallet_address :: string
  ur_created_at :: int
  ur_updated_at :: int

record app_row =
  ar_id :: string
  ar_name :: string
  ar_user_id :: string
  ar_created_at :: int
  ar_updated_at :: int

record domain_config_row =
  dr_id :: string
  dr_app_id :: string
  dr_domain :: string
  dr_network_environment :: string
  dr_enable_session_management :: bool
  dr_enable_preflight_simulation :: bool
  dr_created_at :: int
  dr_updated_at :: int

record variation_row =
  vr_id :: string
  vr_domain_config_id :: string
  vr_name :: string
  vr_version :: string
  vr_max_gas_spend :: "int option"
  vr_paymaster_fee_lamports :: "int option"
  vr_transaction_variation :: json
  vr_created_at :: int
  vr_updated_at :: int

record admin_db =
  db_users :: "user_row list"
  db_apps :: "app_row list"
  db_configs :: "domain_config_row list"
  db_variations :: "variation_row list"

text \<open>The database server: how it prints a time in JSON, and its clock.\<close>

record pg_env =
  pg_time :: "int \<Rightarrow> string"
  pg_now :: int

section \<open>Reading a user's data\<close>

definition bigint_json :: "int option \<Rightarrow> json" where
  "bigint_json c = (case c of None \<Rightarrow> JNull | Some i \<Rightarrow> JNum (to_double (of_int i)))"

definition variation_row_json :: "pg_env \<Rightarrow> variation_row \<Rightarrow> json" where
  "variation_row_json P v = JObj
     [(''id'', JStr (vr_id v)), (''name'', JStr (vr_name v)), (''version'', JStr (vr_version v)),
      (''transaction_variation'', vr_transaction_variation v), (''max_gas_spend'', bigint_json (vr_max_gas_spend v)),
      (''paymaster_fee_lamports'', bigint_json (vr_paymaster_fee_lamports v)),
      (''created_at'', JStr (pg_time P (vr_created_at v))), (''updated_at'', JStr (pg_time P (vr_updated_at v)))]"

definition variations_of :: "admin_db \<Rightarrow> string \<Rightarrow> variation_row list" where
  "variations_of db c = filter (\<lambda>v. vr_domain_config_id v = c) (db_variations db)"

definition config_row_json :: "pg_env \<Rightarrow> admin_db \<Rightarrow> domain_config_row \<Rightarrow> json" where
  "config_row_json P db c = JObj
     [(''id'', JStr (dr_id c)), (''domain'', JStr (dr_domain c)), (''network_environment'', JStr (dr_network_environment c)),
      (''enable_session_management'', JBool (dr_enable_session_management c)),
      (''enable_preflight_simulation'', JBool (dr_enable_preflight_simulation c)),
      (''created_at'', JStr (pg_time P (dr_created_at c))), (''updated_at'', JStr (pg_time P (dr_updated_at c))),
      (''variations'', JArr (map (variation_row_json P)
         (sort_key (\<lambda>v. (vr_created_at v, vr_id v)) (variations_of db (dr_id c)))))]"

definition configs_of :: "admin_db \<Rightarrow> string \<Rightarrow> domain_config_row list" where
  "configs_of db a = filter (\<lambda>c. dr_app_id c = a) (db_configs db)"

definition app_row_json :: "pg_env \<Rightarrow> admin_db \<Rightarrow> app_row \<Rightarrow> json" where
  "app_row_json P db a = JObj
     [(''id'', JStr (ar_id a)), (''name'', JStr (ar_name a)), (''created_at'', JStr (pg_time P (ar_created_at a))),
      (''updated_at'', JStr (pg_time P (ar_updated_at a))),
      (''domain_configs'', JArr (map (config_row_json P db) (configs_of db (ar_id a))))]"

definition user_row_json :: "pg_env \<Rightarrow> admin_db \<Rightarrow> user_row \<Rightarrow> json" where
  "user_row_json P db u = JObj
     [(''apps'', JArr (map (app_row_json P db) (filter (\<lambda>a. ar_user_id a = ur_id u) (db_apps db)))),
      (''id'', JStr (ur_id u)), (''username'', JStr (ur_username u)), (''wallet_address'', JStr (ur_wallet_address u)),
      (''created_at'', JStr (pg_time P (ur_created_at u))), (''updated_at'', JStr (pg_time P (ur_updated_at u)))]"

definition fetchUserPaymasterData :: "zod_lib \<Rightarrow> pg_env \<Rightarrow> admin_db \<Rightarrow> string \<Rightarrow> User option result" where
  "fetchUserPaymasterData Z P db walletAddress =
     (case filter (\<lambda>u. ur_wallet_address u = walletAddress) (db_users db) of
        [] \<Rightarrow> Inr None
      | u # _ \<Rightarrow> (case UserSchema Z (user_row_json P db u) of
           None \<Rightarrow> Inl (ExternalError ''ZodError'') | Some user \<Rightarrow> Inr (Some user)))"

section \<open>Writing\<close>

record variation_data =
  vd_name :: string
  vd_maxGasSpend :: js_number
  vd_paymasterFeeLamports :: "js_number option"
  vd_variation :: "InstructionConstraint list"

text \<open>A JavaScript number as a \<^verbatim>\<open>bigint\<close> parameter: its text must be an integer of 64 bits.\<close>

definition to_bigint :: "js_number \<Rightarrow> int result" where
  "to_bigint x = (case x of
     Num q \<Rightarrow> if of_int \<lfloor>q\<rfloor> = q \<and> - (2 ^ 63) \<le> q \<and> q < 2 ^ 63 then Inr \<lfloor>q\<rfloor> else Inl (ExternalError ''bigint'')
   | _ \<Rightarrow> Inl (ExternalError ''bigint''))"

definition to_bigint_nullable :: "js_number option \<Rightarrow> int option result" where
  "to_bigint_nullable x = (case x of None \<Rightarrow> Inr None | Some n \<Rightarrow> bind_result (to_bigint n) (\<lambda>i. Inr (Some i)))"

text \<open>The join of a domain config with its app and the app's user.\<close>

definition owns_config :: "admin_db \<Rightarrow> string \<Rightarrow> domain_config_row \<Rightarrow> bool" where
  "owns_config db wallet c =
     list_ex (\<lambda>a. ar_id a = dr_app_id c \<and>
       list_ex (\<lambda>u. ur_id u = ar_user_id a \<and> ur_wallet_address u = wallet) (db_users db)) (db_apps db)"

definition owns_variation :: "admin_db \<Rightarrow> string \<Rightarrow> variation_row \<Rightarrow> bool" where
  "owns_variation db wallet v =
     list_ex (\<lambda>c. dr_id c = vr_domain_config_id v \<and> owns_config db wallet c) (db_configs db)"

definition variation_keys_ok :: "variation_row list \<Rightarrow> bool" where
  "variation_keys_ok vs =
     (distinct (map vr_id vs) \<and> distinct (map (\<lambda>v. (vr_domain_config_id v, vr_name v)) vs))"

definition put_variations :: "variation_row list \<Rightarrow> admin_db \<Rightarrow> admin_db result" where
  "put_variations vs db =
     (if variation_keys_ok vs then Inr (db\<lparr>db_variations := vs\<rparr>) else Inl (ExternalError ''unique_violation''))"

definition set_variation :: "pg_env \<Rightarrow> variation_data \<Rightarrow> int \<Rightarrow> int option \<Rightarrow> variation_row \<Rightarrow> variation_row" where
  "set_variation P d g f v = v\<lparr>vr_name := vd_name d, vr_max_gas_spend := Some g, vr_paymaster_fee_lamports := f,
     vr_transaction_variation := variations_json (vd_variation d), vr_updated_at := pg_now P\<rparr>"

definition updateVariation :: "pg_env \<Rightarrow> string \<Rightarrow> string \<Rightarrow> variation_data \<Rightarrow> admin_db \<Rightarrow> admin_db result" where
  "updateVariation P walletAddress variationId d db =
     bind_result (to_bigint (vd_maxGasSpend d)) (\<lambda>g.
     bind_result (to_bigint_nullable (vd_paymasterFeeLamports d)) (\<lambda>f.
     let hit = (\<lambda>v. vr_id v = variationId \<and> owns_variation db walletAddress v) in
     if \<not> list_ex hit (db_variations db) then Inl (Error ''Not found or not authorized'')
     else put_variations (map (\<lambda>v. if hit v then set_variation P d g f v else v) (db_variations db)) db))"

definition new_variation :: "pg_env \<Rightarrow> string \<Rightarrow> string \<Rightarrow> variation_data \<Rightarrow> int \<Rightarrow> int option \<Rightarrow> variation_row" where
  "new_variation P uuid c d g f = \<lparr>vr_id = uuid, vr_domain_config_id = c, vr_name = vd_name d, vr_version = ''v1'',
     vr_max_gas_spend = Some g, vr_paymaster_fee_lamports = f, vr_transaction_variation = variations_json (vd_variation d),
     vr_created_at = pg_now P, vr_updated_at = pg_now P\<rparr>"

definition createVariation :: "pg_env \<Rightarrow> string \<Rightarrow> string \<Rightarrow> string \<Rightarrow> variation_data \<Rightarrow> admin_db \<Rightarrow> admin_db result" where
  "createVariation P uuid walletAddress domainConfigId d db =
     bind_result (to_bigint (vd_maxGasSpend d)) (\<lambda>g.
     bind_result (to_bigint_nullable (vd_paymasterFeeLamports d)) (\<lambda>f.
     let hits = filter (\<lambda>c. dr_id c = domainConfigId \<and> owns_config db walletAddress c) (db_configs db) in
     if hits = [] then Inl (Error ''Domain config not found or unauthorized'')
     else put_variations (db_variations db @ map (\<lambda>c. new_variation P uuid (dr_id c) d g f) hits) db))"

definition deleteVariation :: "string \<Rightarrow> string \<Rightarrow> admin_db \<Rightarrow> admin_db result" where
  "deleteVariation walletAddress variationId db =
     (let hit = (\<lambda>v. vr_id v = variationId \<and> owns_variation db walletAddress v) in
      if \<not> list_ex hit (db_variations db) then Inl (Error ''Not found or not authorized'')
      else Inr (db\<lparr>db_variations := filter (\<lambda>v. \<not> hit v) (db_variations db)\<rparr>))"

definition set_settings :: "pg_env \<Rightarrow> bool \<Rightarrow> bool \<Rightarrow> domain_config_row \<Rightarrow> domain_config_row" where
  "set_settings P s p c = c\<lparr>dr_enable_session_management := s, dr_enable_preflight_simulation := p, dr_updated_at := pg_now P\<rparr>"

definition updateDomainSettings :: "pg_env \<Rightarrow> string \<Rightarrow> string \<Rightarrow> bool \<Rightarrow> bool \<Rightarrow> admin_db \<Rightarrow> admin_db result" where
  "updateDomainSettings P walletAddress domainConfigId enableSessionManagement enablePreflightSimulation db =
     (let hit = (\<lambda>c. dr_id c = domainConfigId \<and> owns_config db walletAddress c) in
      if \<not> list_ex hit (db_configs db) then Inl (Error ''Domain config not found or unauthorized'')
      else Inr (db\<lparr>db_configs := map (\<lambda>c. if hit c
                then set_settings P enableSessionManagement enablePreflightSimulation c else c) (db_configs db)\<rparr>))"

section \<open>Keys and ownership\<close>

text \<open>The primary keys, unique constraints and foreign keys of the migrations that the statements
  rely on.\<close>

definition db_ok :: "admin_db \<Rightarrow> bool" where
  "db_ok db = (distinct (map ur_id (db_users db)) \<and> distinct (map ur_wallet_address (db_users db)) \<and>
     distinct (map ar_id (db_apps db)) \<and> distinct (map dr_id (db_configs db)) \<and> variation_keys_ok (db_variations db) \<and>
     list_all (\<lambda>v. vr_domain_config_id v \<in> set (map dr_id (db_configs db))) (db_variations db))"

text \<open>What a statement for one wallet must leave alone: the users, the apps and, for every config
  the wallet does not own, the config and its variations, in order.\<close>

definition others_same :: "string \<Rightarrow> admin_db \<Rightarrow> admin_db \<Rightarrow> bool" where
  "others_same w db db' \<longleftrightarrow> db_users db' = db_users db \<and> db_apps db' = db_apps db \<and>
     (\<forall>a. \<not> list_ex (\<lambda>u. ur_id u = ar_user_id a \<and> ur_wallet_address u = w) (db_users db) \<longrightarrow> a \<in> set (db_apps db) \<longrightarrow>
        configs_of db' (ar_id a) = configs_of db (ar_id a)) \<and>
     (\<forall>c \<in> set (db_configs db). \<not> owns_config db w c \<longrightarrow> variations_of db' (dr_id c) = variations_of db (dr_id c))"


lemma distinct_map_eq: "distinct (map f xs) \<Longrightarrow> x \<in> set xs \<Longrightarrow> y \<in> set xs \<Longrightarrow> f x = f y \<Longrightarrow> x = y"
  by (metis distinct_map inj_on_eq_iff)

lemma owns_configI:
  "a \<in> set (db_apps db) \<Longrightarrow> ar_id a = dr_app_id c \<Longrightarrow> u \<in> set (db_users db) \<Longrightarrow> ur_id u = ar_user_id a \<Longrightarrow>
   ur_wallet_address u = w \<Longrightarrow> owns_config db w c"
  by (auto simp: owns_config_def list_ex_iff)

text \<open>An app, and with it a config, has one owner.\<close>

lemma owner_unique:
  assumes "db_ok db" and "owns_config db w c" and "a \<in> set (db_apps db)" and "ar_id a = dr_app_id c"
    and "u \<in> set (db_users db)" and "ur_id u = ar_user_id a"
  shows "ur_wallet_address u = w"
proof -
  obtain a' u' where a': "a' \<in> set (db_apps db)" "ar_id a' = dr_app_id c" and
    u': "u' \<in> set (db_users db)" "ur_id u' = ar_user_id a'" "ur_wallet_address u' = w"
    using assms(2) by (auto simp: owns_config_def list_ex_iff)
  have "a' = a" using assms(1,3,4) a' by (auto simp: db_ok_def intro: distinct_map_eq)
  then have "u' = u" using assms(1,5,6) u' by (auto simp: db_ok_def intro: distinct_map_eq)
  with u' show ?thesis by simp
qed

lemma fetch_others_same:
  assumes "db_ok db" and "others_same w db db'" and "w' \<noteq> w"
  shows "fetchUserPaymasterData Z P db' w' = fetchUserPaymasterData Z P db w'"
proof -
  have tables: "db_users db' = db_users db" "db_apps db' = db_apps db" using assms(2) by (auto simp: others_same_def)
  have "user_row_json P db' u = user_row_json P db u" if u: "u \<in> set (db_users db)" "ur_wallet_address u = w'" for u
  proof -
    have "app_row_json P db' a = app_row_json P db a" if a: "a \<in> set (db_apps db)" "ar_user_id a = ur_id u" for a
    proof -
      have "ur_wallet_address u' \<noteq> w" if "u' \<in> set (db_users db)" "ur_id u' = ar_user_id a" for u'
        using that a u assms(1,3) by (auto simp: db_ok_def dest: distinct_map_eq)
      then have cs: "configs_of db' (ar_id a) = configs_of db (ar_id a)"
        using assms(2) a by (auto simp: others_same_def list_ex_iff)
      have "config_row_json P db' c = config_row_json P db c" if c: "c \<in> set (configs_of db (ar_id a))" for c
      proof -
        have c': "c \<in> set (db_configs db)" "ar_id a = dr_app_id c" using c by (auto simp: configs_of_def)
        then have "\<not> owns_config db w c" using owner_unique[OF assms(1) _ a(1) c'(2) u(1)] a u assms(3) by auto
        with assms(2) c' show ?thesis by (simp add: others_same_def config_row_json_def)
      qed
      with cs show ?thesis by (simp add: app_row_json_def)
    qed
    then show ?thesis by (simp add: user_row_json_def tables)
  qed
  note same = this
  show ?thesis
  proof (cases "filter (\<lambda>u. ur_wallet_address u = w') (db_users db)")
    case (Cons u us)
    then have "u \<in> set (filter (\<lambda>u. ur_wallet_address u = w') (db_users db))" by simp
    then have "u \<in> set (db_users db)" "ur_wallet_address u = w'" by auto
    with same Cons show ?thesis by (simp add: fetchUserPaymasterData_def tables)
  qed (simp add: fetchUserPaymasterData_def tables)
qed

section \<open>The contract of a statement on behalf of a wallet\<close>

text \<open>A statement that succeeds keeps the keys and touches only what its wallet owns.\<close>

locale owner_guarded =
  fixes stmt :: "'x \<Rightarrow> string \<Rightarrow> admin_db \<Rightarrow> admin_db result"
  assumes keeps_keys: "db_ok db \<Longrightarrow> stmt x w db = Inr db' \<Longrightarrow> db_ok db'"
    and guarded: "db_ok db \<Longrightarrow> stmt x w db = Inr db' \<Longrightarrow> others_same w db db'"
begin

lemma unseen:
  assumes "db_ok db" and "stmt x w db = Inr db'" and "w' \<noteq> w"
  shows "fetchUserPaymasterData Z P db' w' = fetchUserPaymasterData Z P db w'"
  using fetch_others_same[OF assms(1) guarded[OF assms(1,2)] assms(3)] .

end

lemma filter_map_outside:
  assumes "\<And>v. v \<in> set vs \<Longrightarrow> Q v \<Longrightarrow> f v = v" and "\<And>v. v \<in> set vs \<Longrightarrow> Q (f v) = Q v"
  shows "filter Q (map f vs) = filter Q vs"
  using assms by (induction vs) auto

lemma owns_variation_config:
  assumes "db_ok db" and "c \<in> set (db_configs db)" and "vr_domain_config_id v = dr_id c" and "owns_variation db w v"
  shows "owns_config db w c"
proof -
  obtain c' where "c' \<in> set (db_configs db)" "dr_id c' = dr_id c" "owns_config db w c'"
    using assms(3,4) by (auto simp: owns_variation_def list_ex_iff)
  with assms(1,2) show ?thesis by (metis db_ok_def distinct_map_eq)
qed

text \<open>Replacing the variations by rows that keep their configs, with changes only to the wallet's own.\<close>

lemma put_variations_keeps:
  assumes "db_ok db" and "put_variations vs db = Inr db'"
    and "\<And>v. v \<in> set vs \<Longrightarrow> vr_domain_config_id v \<in> set (map dr_id (db_configs db))"
  shows "db_ok db'"
  using assms by (auto simp: put_variations_def db_ok_def list_all_iff split: if_splits)

lemma put_variations_guarded:
  assumes "put_variations vs db = Inr db'"
    and "\<And>c. c \<in> set (db_configs db) \<Longrightarrow> \<not> owns_config db w c \<Longrightarrow>
       filter (\<lambda>v. vr_domain_config_id v = dr_id c) vs = variations_of db (dr_id c)"
  shows "others_same w db db'"
  using assms by (auto simp: put_variations_def others_same_def configs_of_def variations_of_def split: if_splits)

interpretation update: owner_guarded "\<lambda>(P, i, d) w. updateVariation P w i d"
proof
  fix x :: "pg_env \<times> string \<times> variation_data" and w db db'
  obtain P i d where x: "x = (P, i, d)" by (cases x)
  assume ok: "db_ok db" and run: "(case x of (P, i, d) \<Rightarrow> \<lambda>w. updateVariation P w i d) w db = Inr db'"
  let ?hit = "\<lambda>v. vr_id v = i \<and> owns_variation db w v"
  obtain g f where put: "put_variations (map (\<lambda>v. if ?hit v then set_variation P d g f v else v) (db_variations db)) db = Inr db'"
    using run by (auto simp: x updateVariation_def Let_def bind_result_eq_Inr split: if_splits)
  show "db_ok db'"
    by (rule put_variations_keeps[OF ok put]) (use ok in \<open>auto simp: db_ok_def list_all_iff set_variation_def\<close>)
  show "others_same w db db'"
  proof (rule put_variations_guarded[OF put])
    fix c assume "c \<in> set (db_configs db)" "\<not> owns_config db w c"
    then show "filter (\<lambda>v. vr_domain_config_id v = dr_id c) (map (\<lambda>v. if ?hit v then set_variation P d g f v else v) (db_variations db))
        = variations_of db (dr_id c)"
      unfolding variations_of_def using owns_variation_config[OF ok]
      by (intro filter_map_outside) (auto simp: set_variation_def)
  qed
qed

interpretation create: owner_guarded "\<lambda>(P, uuid, c, d) w. createVariation P uuid w c d"
proof
  fix x :: "pg_env \<times> string \<times> string \<times> variation_data" and w db db'
  obtain P uuid c d where x: "x = (P, uuid, c, d)" by (cases x)
  assume ok: "db_ok db" and run: "(case x of (P, uuid, c, d) \<Rightarrow> \<lambda>w. createVariation P uuid w c d) w db = Inr db'"
  let ?hits = "filter (\<lambda>k. dr_id k = c \<and> owns_config db w k) (db_configs db)"
  obtain g f where put: "put_variations (db_variations db @ map (\<lambda>c. new_variation P uuid (dr_id c) d g f) ?hits) db = Inr db'"
    using run by (auto simp: x createVariation_def Let_def bind_result_eq_Inr split: if_splits)
  show "db_ok db'"
    by (rule put_variations_keeps[OF ok put]) (use ok in \<open>auto simp: db_ok_def list_all_iff new_variation_def\<close>)
  show "others_same w db db'"
  proof (rule put_variations_guarded[OF put])
    fix k assume k: "k \<in> set (db_configs db)" "\<not> owns_config db w k"
    have "dr_id h \<noteq> dr_id k" if "h \<in> set ?hits" for h
      using that k ok by (auto simp: db_ok_def dest: distinct_map_eq)
    then have "filter (\<lambda>v. vr_domain_config_id v = dr_id k) (map (\<lambda>c. new_variation P uuid (dr_id c) d g f) ?hits) = []"
      by (auto simp: filter_empty_conv new_variation_def)
    then show "filter (\<lambda>v. vr_domain_config_id v = dr_id k)
        (db_variations db @ map (\<lambda>c. new_variation P uuid (dr_id c) d g f) ?hits) = variations_of db (dr_id k)"
      by (simp add: variations_of_def)
  qed
qed

interpretation delete: owner_guarded "\<lambda>i w. deleteVariation w i"
proof
  fix i w db db'
  assume ok: "db_ok db" and run: "deleteVariation w i db = Inr db'"
  let ?hit = "\<lambda>v. vr_id v = i \<and> owns_variation db w v"
  have db': "db' = db\<lparr>db_variations := filter (\<lambda>v. \<not> ?hit v) (db_variations db)\<rparr>"
    using run by (auto simp: deleteVariation_def Let_def split: if_splits)
  show "db_ok db'"
    using ok by (auto simp: db' db_ok_def variation_keys_ok_def distinct_map_filter list_all_iff)
  have "filter (\<lambda>v. vr_domain_config_id v = dr_id c \<and> \<not> ?hit v) vs = filter (\<lambda>v. vr_domain_config_id v = dr_id c) vs"
    if "c \<in> set (db_configs db)" "\<not> owns_config db w c" for c vs
    using that owns_variation_config[OF ok] by (intro filter_cong) auto
  then show "others_same w db db'"
    by (simp add: db' others_same_def configs_of_def variations_of_def conj_commute)
qed

interpretation settings: owner_guarded "\<lambda>(P, i, s, p) w. updateDomainSettings P w i s p"
proof
  fix x :: "pg_env \<times> string \<times> bool \<times> bool" and w db db'
  obtain P i s p where x: "x = (P, i, s, p)" by (cases x)
  assume ok: "db_ok db" and run: "(case x of (P, i, s, p) \<Rightarrow> \<lambda>w. updateDomainSettings P w i s p) w db = Inr db'"
  let ?f = "\<lambda>c. if dr_id c = i \<and> owns_config db w c then set_settings P s p c else c"
  have db': "db' = db\<lparr>db_configs := map ?f (db_configs db)\<rparr>"
    using run by (auto simp: x updateDomainSettings_def Let_def split: if_splits)
  have ids: "map dr_id (map ?f (db_configs db)) = map dr_id (db_configs db)"
    by (auto simp: set_settings_def)
  show "db_ok db'" using ok by (simp add: db' db_ok_def ids del: map_map)
  have "filter (\<lambda>c. dr_app_id c = ar_id a) (map ?f (db_configs db)) = filter (\<lambda>c. dr_app_id c = ar_id a) (db_configs db)"
    if a: "a \<in> set (db_apps db)" "\<not> list_ex (\<lambda>u. ur_id u = ar_user_id a \<and> ur_wallet_address u = w) (db_users db)" for a
  proof (rule filter_map_outside)
    fix c assume "c \<in> set (db_configs db)" "dr_app_id c = ar_id a"
    then have "\<not> owns_config db w c"
      using a ok by (auto simp: owns_config_def list_ex_iff db_ok_def dest: distinct_map_eq)
    then show "?f c = c" by simp
  qed (simp add: set_settings_def)
  then show "others_same w db db'"
    by (auto simp: db' others_same_def configs_of_def variations_of_def)
qed


section \<open>What makes a user's data readable\<close>

lemma those_None_iff: "those xs = None \<longleftrightarrow> None \<in> set xs"
  by (induction xs) (auto split: option.splits)

lemma parse_arr_None_iff: "parse_arr p (JArr js) = None \<longleftrightarrow> (\<exists>j \<in> set js. p j = None)"
  by (force simp: parse_arr_def those_None_iff image_iff)

lemma parse_arr_mem: "parse_arr p (JArr js) = Some vs \<Longrightarrow> j \<in> set js \<Longrightarrow> \<exists>v \<in> set vs. p j = Some v"
  by (induction js arbitrary: vs) (auto simp: parse_arr_def split: option.splits)

definition time_ok :: "zod_lib \<Rightarrow> pg_env \<Rightarrow> int \<Rightarrow> bool" where
  "time_ok Z P t = (zd_date Z (pg_time P t) \<noteq> None)"

definition row_readable :: "zod_lib \<Rightarrow> pg_env \<Rightarrow> variation_row \<Rightarrow> bool" where
  "row_readable Z P v = (VariationSchema Z (variation_row_json P v) \<noteq> None)"

definition config_readable :: "zod_lib \<Rightarrow> pg_env \<Rightarrow> admin_db \<Rightarrow> domain_config_row \<Rightarrow> bool" where
  "config_readable Z P db c = (time_ok Z P (dr_created_at c) \<and> time_ok Z P (dr_updated_at c) \<and> zd_uuid Z (dr_id c) \<and>
     NetworkEnvironmentSchema (JStr (dr_network_environment c)) \<noteq> None \<and>
     list_all (row_readable Z P) (variations_of db (dr_id c)))"

definition app_readable :: "zod_lib \<Rightarrow> pg_env \<Rightarrow> admin_db \<Rightarrow> app_row \<Rightarrow> bool" where
  "app_readable Z P db a = (time_ok Z P (ar_created_at a) \<and> time_ok Z P (ar_updated_at a) \<and> zd_uuid Z (ar_id a) \<and>
     list_all (config_readable Z P db) (configs_of db (ar_id a)))"

definition user_readable :: "zod_lib \<Rightarrow> pg_env \<Rightarrow> admin_db \<Rightarrow> user_row \<Rightarrow> bool" where
  "user_readable Z P db u = (time_ok Z P (ur_created_at u) \<and> time_ok Z P (ur_updated_at u) \<and> zd_uuid Z (ur_id u) \<and>
     list_all (app_readable Z P db) (filter (\<lambda>a. ar_user_id a = ur_id u) (db_apps db)))"

lemmas row_fields = required_def field_def UUID_def any_string_def parse_str_def parse_bool_def TimeStr_def

lemma config_readable_iff: "DomainConfigWithVariationsSchema Z (config_row_json P db c) \<noteq> None \<longleftrightarrow> config_readable Z P db c"
proof -
  have "parse_arr (VariationSchema Z) (JArr (map (variation_row_json P) (sort_key f vs))) \<noteq> None \<longleftrightarrow> list_all (row_readable Z P) vs"
    for f :: "variation_row \<Rightarrow> int \<times> string" and vs
    by (auto simp: parse_arr_None_iff row_readable_def list_all_iff)
  then show ?thesis
    by (auto simp: DomainConfigWithVariationsSchema_def config_row_json_def config_readable_def row_fields time_ok_def
        bind_eq_None_conv)
qed

lemma app_readable_iff: "AppWithDomainConfigsSchema Z (app_row_json P db a) \<noteq> None \<longleftrightarrow> app_readable Z P db a"
proof -
  have "parse_arr (DomainConfigWithVariationsSchema Z) (JArr (map (config_row_json P db) cs)) \<noteq> None \<longleftrightarrow>
      list_all (config_readable Z P db) cs" for cs
    using config_readable_iff by (auto simp: parse_arr_None_iff list_all_iff)
  then show ?thesis
    by (auto simp: AppWithDomainConfigsSchema_def app_row_json_def app_readable_def row_fields time_ok_def bind_eq_None_conv)
qed

lemma user_readable_iff: "UserSchema Z (user_row_json P db u) \<noteq> None \<longleftrightarrow> user_readable Z P db u"
proof -
  have "parse_arr (AppWithDomainConfigsSchema Z) (JArr (map (app_row_json P db) as)) \<noteq> None \<longleftrightarrow>
      list_all (app_readable Z P db) as" for as
    using app_readable_iff by (auto simp: parse_arr_None_iff list_all_iff)
  then show ?thesis
    by (auto simp: UserSchema_def user_row_json_def user_readable_def row_fields time_ok_def bind_eq_None_conv)
qed

lemma fetch_user:
  assumes "db_ok db" and "u \<in> set (db_users db)"
  shows "fetchUserPaymasterData Z P db (ur_wallet_address u) =
    (case UserSchema Z (user_row_json P db u) of None \<Rightarrow> Inl (ExternalError ''ZodError'') | Some user \<Rightarrow> Inr (Some user))"
proof -
  obtain us vs where split: "db_users db = us @ u # vs" using split_list[OF assms(2)] by blast
  then have "ur_wallet_address u \<notin> ur_wallet_address ` set us" using assms(1) by (simp add: db_ok_def)
  then have "filter (\<lambda>x. ur_wallet_address x = ur_wallet_address u) us = []"
    unfolding filter_empty_conv by (metis image_eqI)
  then have "filter (\<lambda>x. ur_wallet_address x = ur_wallet_address u) (db_users db) =
      u # filter (\<lambda>x. ur_wallet_address x = ur_wallet_address u) vs" by (simp add: split)
  then show ?thesis by (simp add: fetchUserPaymasterData_def)
qed

text \<open>Replacing the variations by readable ones keeps a readable user readable.\<close>

lemma user_readable_variations:
  assumes "user_readable Z P db u"
    and "\<And>v. v \<in> set vs \<Longrightarrow> v \<in> set (db_variations db) \<or> row_readable Z P v"
  shows "user_readable Z P (db\<lparr>db_variations := vs\<rparr>) u"
proof -
  have "config_readable Z P (db\<lparr>db_variations := vs\<rparr>) c" if "config_readable Z P db c" for c
    using that assms(2) by (auto simp: config_readable_def variations_of_def list_all_iff)
  then have "app_readable Z P (db\<lparr>db_variations := vs\<rparr>) a" if "app_readable Z P db a" for a
    using that by (simp add: app_readable_def configs_of_def list_all_iff)
  with assms(1) show ?thesis by (simp add: user_readable_def list_all_iff)
qed

lemma variation_shown:
  assumes "UserSchema Z (user_row_json P db u) = Some usr" and "a \<in> set (db_apps db)" "ar_user_id a = ur_id u"
    and "c \<in> set (configs_of db (ar_id a))" and "v \<in> set (variations_of db (dr_id c))"
  shows "\<exists>A \<in> set (usr_apps usr). \<exists>C \<in> set (app_domain_configs A). dcf_id C = dr_id c \<and>
    (\<exists>V \<in> set (dcf_variations C). VariationSchema Z (variation_row_json P v) = Some V)"
proof -
  from assms(1) have "parse_arr (AppWithDomainConfigsSchema Z)
      (JArr (map (app_row_json P db) (filter (\<lambda>a. ar_user_id a = ur_id u) (db_apps db)))) = Some (usr_apps usr)"
    by (auto simp: UserSchema_def user_row_json_def row_fields bind_eq_Some_conv split: if_splits)
  from parse_arr_mem[OF this, of "app_row_json P db a"] assms(2,3)
  obtain A where A: "A \<in> set (usr_apps usr)" "AppWithDomainConfigsSchema Z (app_row_json P db a) = Some A" by auto
  then have "parse_arr (DomainConfigWithVariationsSchema Z) (JArr (map (config_row_json P db) (configs_of db (ar_id a)))) =
      Some (app_domain_configs A)"
    by (auto simp: AppWithDomainConfigsSchema_def app_row_json_def row_fields bind_eq_Some_conv split: if_splits)
  from parse_arr_mem[OF this, of "config_row_json P db c"] assms(4)
  obtain C where C: "C \<in> set (app_domain_configs A)" "DomainConfigWithVariationsSchema Z (config_row_json P db c) = Some C" by auto
  then have "parse_arr (VariationSchema Z) (JArr (map (variation_row_json P)
        (sort_key (\<lambda>v. (vr_created_at v, vr_id v)) (variations_of db (dr_id c))))) = Some (dcf_variations C)"
    and "dcf_id C = dr_id c"
    by (auto simp: DomainConfigWithVariationsSchema_def config_row_json_def row_fields bind_eq_Some_conv split: if_splits)
  from parse_arr_mem[OF this(1), of "variation_row_json P v"] assms(5) this(2) A C show ?thesis by auto
qed

end
