(* ===== verification/Admin_Actions.thy ===== *)
theory Admin_Actions
  imports Admin_Store Login_Token
begin

text \<open>
  How a request reaches the admin app's data: the login token is verified, the wallet of its
  session is the identity, and the statement runs for that identity. Models
  \<^verbatim>\<open>components/Variation/actions/variation.ts\<close>, \<^verbatim>\<open>components/DomainSettings/actions/domainSettings.ts\<close>,
  \<^verbatim>\<open>proxy.ts\<close> and \<^verbatim>\<open>app/api/auth/user-data/route.ts\<close> of \<^verbatim>\<open>apps/paymaster-admin/src\<close>. The response cache of the route is not modelled. An error of a
  library is an \<open>ExternalError\<close> whose text is left open.
\<close>

section \<open>Server actions\<close>

record admin_env =
  ae_lib :: solana_lib
  ae_crypto :: crypto_lib
  ae_decode :: "bytes \<Rightarrow> raw_session result"
  ae_world :: world
  ae_now :: int
  ae_zod :: zod_lib
  ae_pg :: pg_env

definition verified :: "admin_env \<Rightarrow> string \<Rightarrow> sessionInfo option result" where
  "verified E sessionToken = verifyLogInToken (ae_lib E) (ae_crypto E) (ae_decode E) (ae_world E) (ae_now E) sessionToken"

definition user_address :: "admin_env \<Rightarrow> string \<Rightarrow> string result" where
  "user_address E sessionToken =
     bind_result (verified E sessionToken) (\<lambda>sessionAccount.
       case sessionAccount of
         None \<Rightarrow> Inl (Error ''User not found'')
       | Some si \<Rightarrow> (let userAddress = toBase58 (ae_lib E) (info_user si) in
           if userAddress = [] then Inl (Error ''User not found'') else Inr userAddress))"

definition createOrUpdateVariationSchema :: "string \<Rightarrow> string \<Rightarrow> string \<Rightarrow> json \<Rightarrow> variation_data option" where
  "createOrUpdateVariationSchema maxGasSpend name paymasterFeeLamports variation = do {
     g \<leftarrow> (case js_Number maxGasSpend of Num q \<Rightarrow> if 1 \<le> q then Some (Num q) else None | _ \<Rightarrow> None);
     n \<leftarrow> (if name = [] then None else Some name);
     f \<leftarrow> (if paymasterFeeLamports = [] then Some None
          else let x = js_Number paymasterFeeLamports in
            if int_between 0 MAX_SAFE_INTEGER x then Some (Some x) else None);
     is \<leftarrow> TransactionVariations variation;
     Some \<lparr>vd_name = n, vd_maxGasSpend = g, vd_paymasterFeeLamports = f, vd_variation = is\<rparr>}"

record save_request =
  sv_variationId :: "string option"
  sv_domainConfigId :: string
  sv_name :: string
  sv_maxGasSpend :: string
  sv_paymasterFeeLamports :: string
  sv_variation :: json
  sv_sessionToken :: string
  sv_uuid :: string

text \<open>\<^verbatim>\<open>String(error)\<close> of a statement's own error, wrapped in a new one.\<close>

definition rethrown :: "js_error \<Rightarrow> js_error" where
  "rethrown e = (case e of Error m \<Rightarrow> Error (''Error: '' @ m) | _ \<Rightarrow> e)"

definition write_variation :: "admin_env \<Rightarrow> save_request \<Rightarrow> string \<Rightarrow> admin_db \<Rightarrow> admin_db result" where
  "write_variation E r userAddress db =
     (case createOrUpdateVariationSchema (sv_maxGasSpend r) (sv_name r) (sv_paymasterFeeLamports r) (sv_variation r) of
        None \<Rightarrow> Inl (ExternalError ''ZodError'')
      | Some d \<Rightarrow>
          (case sv_variationId r of
             Some i \<Rightarrow> if i = [] then createVariation (ae_pg E) (sv_uuid r) userAddress (sv_domainConfigId r) d db
                       else updateVariation (ae_pg E) userAddress i d db
           | None \<Rightarrow> createVariation (ae_pg E) (sv_uuid r) userAddress (sv_domainConfigId r) d db))"

definition createOrUpdateVariation :: "admin_env \<Rightarrow> save_request \<Rightarrow> admin_db \<Rightarrow> User option result \<times> admin_db" where
  "createOrUpdateVariation E r db =
     (case user_address E (sv_sessionToken r) of
        Inl e \<Rightarrow> (Inl e, db)
      | Inr userAddress \<Rightarrow>
          (case write_variation E r userAddress db of
             Inl e \<Rightarrow> (Inl (rethrown e), db)
           | Inr db' \<Rightarrow> (fetchUserPaymasterData (ae_zod E) (ae_pg E) db' userAddress, db')))"

definition deleteVariation_action :: "admin_env \<Rightarrow> string \<Rightarrow> string \<Rightarrow> admin_db \<Rightarrow> bool result \<times> admin_db" where
  "deleteVariation_action E variationId sessionToken db =
     (case bind_result (user_address E sessionToken) (\<lambda>w. deleteVariation w variationId db) of
        Inl e \<Rightarrow> (Inl e, db) | Inr db' \<Rightarrow> (Inr True, db'))"

definition updateDomainSettings_action ::
  "admin_env \<Rightarrow> string \<Rightarrow> bool \<Rightarrow> bool \<Rightarrow> string \<Rightarrow> admin_db \<Rightarrow> User option result \<times> admin_db" where
  "updateDomainSettings_action E domainConfigId enableSessionManagement enablePreflightSimulation sessionToken db =
     (case user_address E sessionToken of
        Inl e \<Rightarrow> (Inl e, db)
      | Inr userAddress \<Rightarrow>
          (case updateDomainSettings (ae_pg E) userAddress domainConfigId enableSessionManagement enablePreflightSimulation db of
             Inl e \<Rightarrow> (Inl e, db)
           | Inr db' \<Rightarrow> (fetchUserPaymasterData (ae_zod E) (ae_pg E) db' userAddress, db')))"

text \<open>A request is a call of one of the actions; each is served with the state of the world at its
  time.\<close>

datatype admin_request =
    SaveVariation save_request
  | DeleteVariation string string
  | SaveSettings string bool bool string

definition request_token :: "admin_request \<Rightarrow> string" where
  "request_token r = (case r of SaveVariation s \<Rightarrow> sv_sessionToken s | DeleteVariation _ t \<Rightarrow> t | SaveSettings _ _ _ t \<Rightarrow> t)"

definition serve :: "admin_env \<Rightarrow> admin_request \<Rightarrow> admin_db \<Rightarrow> admin_db" where
  "serve E r db = (case r of
     SaveVariation s \<Rightarrow> snd (createOrUpdateVariation E s db)
   | DeleteVariation i t \<Rightarrow> snd (deleteVariation_action E i t db)
   | SaveSettings i s p t \<Rightarrow> snd (updateDomainSettings_action E i s p t db))"

definition serve_all :: "(admin_env \<times> admin_request) list \<Rightarrow> admin_db \<Rightarrow> admin_db" where
  "serve_all rs db = fold (\<lambda>(E, r). serve E r) rs db"

section \<open>The user-data endpoint\<close>

type_synonym headers = "string \<rightharpoonup> string"

datatype response = JsonError nat string | TextError nat string | JsonData User | Thrown js_error

datatype proxied = Answer response | Next headers

definition bearer_token :: "headers \<Rightarrow> string option" where
  "bearer_token h = (case h ''authorization'' of
     Some auth \<Rightarrow> if take 7 auth = ''Bearer '' then Some (drop 7 auth) else None | None \<Rightarrow> None)"

text \<open>\<^verbatim>\<open>error.message\<close> of an error; the texts of a library's errors are left open.\<close>

definition message_of :: "js_error \<Rightarrow> string" where
  "message_of e = (case e of Error m \<Rightarrow> m | ExternalError m \<Rightarrow> m | _ \<Rightarrow> '''')"

definition proxy :: "admin_env \<Rightarrow> headers \<Rightarrow> proxied" where
  "proxy E h =
     (case bearer_token h of
        None \<Rightarrow> Answer (JsonError 401 ''Missing token'')
      | Some sessionToken \<Rightarrow>
          if sessionToken = [] then Answer (JsonError 401 ''Missing token'')
          else (case verified E sessionToken of
            Inl e \<Rightarrow> Answer (JsonError 401 (message_of e))
          | Inr None \<Rightarrow> Answer (JsonError 401 ''Invalid session token'')
          | Inr (Some acc) \<Rightarrow> Next (h(''x-authenticated-user'' \<mapsto> toBase58 (ae_lib E) (info_user acc)))))"

definition GET_user_data :: "admin_env \<Rightarrow> admin_db \<Rightarrow> headers \<Rightarrow> response" where
  "GET_user_data E db h =
     (case h ''x-authenticated-user'' of
        None \<Rightarrow> Thrown (Error ''Unauthorized. Failed to get wallet address from request headers.'')
      | Some walletAddress \<Rightarrow>
          if walletAddress = [] then Thrown (Error ''Unauthorized. Failed to get wallet address from request headers.'')
          else (case fetchUserPaymasterData (ae_zod E) (ae_pg E) db walletAddress of
            Inl e \<Rightarrow> Thrown e
          | Inr None \<Rightarrow> TextError 404 ''User not found''
          | Inr (Some userData) \<Rightarrow> JsonData userData))"

definition user_data_endpoint :: "admin_env \<Rightarrow> admin_db \<Rightarrow> headers \<Rightarrow> response" where
  "user_data_endpoint E db h = (case proxy E h of Answer r \<Rightarrow> r | Next h' \<Rightarrow> GET_user_data E db h')"

section \<open>Isolation\<close>

lemma write_variation_guarded:
  assumes "db_ok db" and "write_variation E r w db = Inr db'"
  shows "db_ok db' \<and> others_same w db db'"
  using assms create.keeps_keys[of db "(ae_pg E, sv_uuid r, sv_domainConfigId r, d)" w db' for d]
    create.guarded[of db "(ae_pg E, sv_uuid r, sv_domainConfigId r, d)" w db' for d]
    update.keeps_keys[of db "(ae_pg E, i, d)" w db' for i d] update.guarded[of db "(ae_pg E, i, d)" w db' for i d]
  by (auto simp: write_variation_def split: option.splits if_splits)

lemma others_same_refl [simp]: "others_same w db db"
  by (simp add: others_same_def)

text \<open>What one request does: nothing without a verified token, and otherwise only to the data of
  the token's wallet.\<close>

lemma serve_guarded:
  assumes "db_ok db"
  shows "(serve E r db = db \<and> \<not> (\<exists>w. user_address E (request_token r) = Inr w)) \<or>
    (\<exists>w. user_address E (request_token r) = Inr w \<and> db_ok (serve E r db) \<and> others_same w db (serve E r db))"
proof (cases "user_address E (request_token r)")
  case (Inl e)
  then show ?thesis
    by (auto simp: serve_def request_token_def createOrUpdateVariation_def deleteVariation_action_def
        updateDomainSettings_action_def split: admin_request.splits)
next
  case (Inr w)
  have "db_ok (serve E r db) \<and> others_same w db (serve E r db)"
  proof (cases r)
    case (SaveVariation s)
    with Inr assms show ?thesis
      by (auto simp: serve_def request_token_def createOrUpdateVariation_def write_variation_guarded split: sum.splits)
  next
    case (DeleteVariation i t)
    with Inr assms delete.keeps_keys[OF assms, of w i] delete.guarded[OF assms, of w i] show ?thesis
      by (auto simp: serve_def request_token_def deleteVariation_action_def split: sum.splits)
  next
    case (SaveSettings i s p t)
    with Inr assms settings.keeps_keys[OF assms, of "(ae_pg E, i, s, p)" w] settings.guarded[OF assms, of "(ae_pg E, i, s, p)" w]
    show ?thesis
      by (auto simp: serve_def request_token_def updateDomainSettings_action_def split: sum.splits)
  qed
  with Inr show ?thesis by blast
qed

lemma serve_ok: "db_ok db \<Longrightarrow> db_ok (serve E r db)"
  using serve_guarded[of db E r] by auto


lemma serve_all_Cons: "serve_all ((E, r) # rs) db = serve_all rs (serve E r db)"
  by (simp add: serve_all_def)

lemma serve_unseen:
  assumes "db_ok db" and "user_address E (request_token r) \<noteq> Inr w"
  shows "fetchUserPaymasterData Z P (serve E r db) w = fetchUserPaymasterData Z P db w"
  using serve_guarded[OF assms(1), of E r] assms(2) fetch_others_same[OF assms(1)] by auto

lemma serve_all_unseen:
  assumes "db_ok db" and "\<And>E r. (E, r) \<in> set rs \<Longrightarrow> user_address E (request_token r) \<noteq> Inr w"
  shows "db_ok (serve_all rs db) \<and> fetchUserPaymasterData Z P (serve_all rs db) w = fetchUserPaymasterData Z P db w"
  using assms
proof (induction rs arbitrary: db)
  case Nil
  then show ?case by (simp add: serve_all_def)
next
  case (Cons x rs)
  obtain E r where x: "x = (E, r)" by (cases x)
  have "user_address E (request_token r) \<noteq> Inr w" using Cons.prems(2)[of E r] by (simp add: x)
  with Cons.IH[OF serve_ok[OF Cons.prems(1)], of E r] Cons.prems(2) serve_unseen[OF Cons.prems(1)] show ?case
    by (simp add: x serve_all_Cons)
qed

section \<open>Saving and reading back\<close>

lemma to_bigint_Inr: "to_bigint x = Inr i \<Longrightarrow> x = js_int i"
  by (auto simp: to_bigint_def js_int_def split: js_number.splits if_splits)

lemma int_between_js_int [simp]: "int_between lo hi (js_int i) \<longleftrightarrow> lo \<le> i \<and> i \<le> hi"
  by (simp add: int_between_def js_int_def)

lemma schema_data:
  assumes "createOrUpdateVariationSchema g n f j = Some d"
  shows "vd_name d = n" "list_all wf_instruction (vd_variation d)" "vd_maxGasSpend d = js_int i \<Longrightarrow> 1 \<le> i"
    "vd_paymasterFeeLamports d = Some x \<Longrightarrow> int_between 0 MAX_SAFE_INTEGER x"
  using assms
  by (auto simp: createOrUpdateVariationSchema_def bind_eq_Some_conv js_int_def Let_def dest: variations.parse_wf
      split: js_number.splits if_splits)

text \<open>A row that an action wrote: the saved fields, and either a new key or the key of a row of
  the same wallet.\<close>

definition written_row :: "admin_env \<Rightarrow> save_request \<Rightarrow> string \<Rightarrow> admin_db \<Rightarrow> variation_data \<Rightarrow> int \<Rightarrow> int option \<Rightarrow> variation_row \<Rightarrow> bool" where
  "written_row E r w db d g f x \<longleftrightarrow> vr_name x = vd_name d \<and> vr_max_gas_spend x = Some g \<and> vr_paymaster_fee_lamports x = f \<and>
     vr_transaction_variation x = variations_json (vd_variation d) \<and> vr_updated_at x = pg_now (ae_pg E) \<and> owns_variation db w x \<and>
     (vr_id x = sv_uuid r \<and> vr_created_at x = pg_now (ae_pg E) \<and> vr_version x = ''v1'' \<or>
      (\<exists>v \<in> set (db_variations db). owns_variation db w v \<and> sv_variationId r = Some (vr_id v) \<and>
         vr_id x = vr_id v \<and> vr_created_at x = vr_created_at v \<and> vr_version x = vr_version v))"

lemma write_variation_rows:
  assumes "createOrUpdateVariationSchema (sv_maxGasSpend r) (sv_name r) (sv_paymasterFeeLamports r) (sv_variation r) = Some d"
    and "write_variation E r w db = Inr db'"
  obtains g f where "vd_maxGasSpend d = js_int g" "vd_paymasterFeeLamports d = map_option js_int f"
    "db' = db\<lparr>db_variations := db_variations db'\<rparr>"
    "\<exists>x \<in> set (db_variations db'). written_row E r w db d g f x"
    "\<And>v. v \<in> set (db_variations db') \<Longrightarrow> v \<in> set (db_variations db) \<or> written_row E r w db d g f v"
proof -
  have fee: "to_bigint_nullable x = Inr f \<Longrightarrow> x = map_option js_int f" for x f
    by (auto simp: to_bigint_nullable_def bind_result_eq_Inr dest: to_bigint_Inr split: option.splits)
  consider (create) "createVariation (ae_pg E) (sv_uuid r) w (sv_domainConfigId r) d db = Inr db'"
    | (update) i where "sv_variationId r = Some i" "updateVariation (ae_pg E) w i d db = Inr db'"
    using assms by (auto simp: write_variation_def split: option.splits if_splits)
  then show ?thesis
  proof cases
    case create
    let ?hits = "filter (\<lambda>c. dr_id c = sv_domainConfigId r \<and> owns_config db w c) (db_configs db)"
    from create obtain g f where gf: "to_bigint (vd_maxGasSpend d) = Inr g" "to_bigint_nullable (vd_paymasterFeeLamports d) = Inr f"
      and hits: "?hits \<noteq> []" and vs: "db_variations db' = db_variations db @ map (\<lambda>c. new_variation (ae_pg E) (sv_uuid r) (dr_id c) d g f) ?hits"
      and db': "db' = db\<lparr>db_variations := db_variations db'\<rparr>"
      by (auto simp: createVariation_def put_variations_def bind_result_eq_Inr Let_def split: if_splits)
    have new: "written_row E r w db d g f (new_variation (ae_pg E) (sv_uuid r) (dr_id c) d g f)" if "c \<in> set ?hits" for c
      using that by (auto simp: written_row_def new_variation_def owns_variation_def list_ex_iff)
    obtain c where "c \<in> set ?hits" using hits by (cases ?hits) auto
    with new vs have "\<exists>x \<in> set (db_variations db'). written_row E r w db d g f x" by auto
    moreover have "v \<in> set (db_variations db) \<or> written_row E r w db d g f v" if "v \<in> set (db_variations db')" for v
      using that new vs by auto
    ultimately show ?thesis using that[OF to_bigint_Inr[OF gf(1)] fee[OF gf(2)] db'] by blast
  next
    case (update i)
    let ?hit = "\<lambda>v. vr_id v = i \<and> owns_variation db w v"
    from update obtain g f where gf: "to_bigint (vd_maxGasSpend d) = Inr g" "to_bigint_nullable (vd_paymasterFeeLamports d) = Inr f"
      and hit: "\<exists>v \<in> set (db_variations db). ?hit v"
      and vs: "db_variations db' = map (\<lambda>v. if ?hit v then set_variation (ae_pg E) d g f v else v) (db_variations db)"
      and db': "db' = db\<lparr>db_variations := db_variations db'\<rparr>"
      by (auto simp: updateVariation_def put_variations_def bind_result_eq_Inr Let_def list_ex_iff split: if_splits)
    have new: "written_row E r w db d g f (set_variation (ae_pg E) d g f v)" if "v \<in> set (db_variations db)" "?hit v" for v
      using that update(1) by (auto simp: written_row_def set_variation_def owns_variation_def list_ex_iff)
    from hit new vs have "\<exists>x \<in> set (db_variations db'). written_row E r w db d g f x" by force
    moreover have "v \<in> set (db_variations db) \<or> written_row E r w db d g f v" if "v \<in> set (db_variations db')" for v
      using that new by (auto simp: vs split: if_splits)
    ultimately show ?thesis using that[OF to_bigint_Inr[OF gf(1)] fee[OF gf(2)] db'] by blast
  qed
qed

lemma bigint_json_safe: "\<bar>i\<bar> \<le> MAX_SAFE_INTEGER \<Longrightarrow> bigint_json (Some i) = JNum (js_int i)"
  by (simp add: bigint_json_def to_double_int)

text \<open>A stored first-version row reads as the variation it holds.\<close>

lemma v1_row_read:
  assumes "vr_version x = ''v1''" and "vr_max_gas_spend x = Some g" "0 \<le> g" "g \<le> MAX_SAFE_INTEGER"
    and "\<And>n. vr_paymaster_fee_lamports x = Some n \<Longrightarrow> 0 \<le> n \<and> n \<le> MAX_SAFE_INTEGER"
    and "vr_transaction_variation x = variations_json is" "list_all wf_instruction is"
    and "zd_uuid Z (vr_id x)" "zd_date Z (pg_time P (vr_created_at x)) = Some c" "zd_date Z (pg_time P (vr_updated_at x)) = Some u"
  shows "VariationSchema Z (variation_row_json P x) =
    Some (VariationV1 \<lparr>vm_created_at = c, vm_id = vr_id x, vm_name = vr_name x, vm_updated_at = u\<rparr> (js_int g)
      (map_option js_int (vr_paymaster_fee_lamports x)) is)"
proof -
  have gas: "u64 (bigint_json (Some g)) = Some (js_int g)"
    using assms(3,4) by (simp add: bigint_json_safe u64_def parse_int_def)
  have fee: "(case bigint_json (vr_paymaster_fee_lamports x) of JNull \<Rightarrow> Some None | v \<Rightarrow> map_option Some (u64 v)) =
      Some (map_option js_int (vr_paymaster_fee_lamports x))"
    using assms(5) by (cases "vr_paymaster_fee_lamports x")
      (simp_all add: bigint_json_safe u64_def parse_int_def, simp add: bigint_json_def)
  show ?thesis
    using assms gas fee
    by (simp add: VariationSchema_def VariationV1Schema_def variation_meta_schema_def variation_row_json_def row_fields nullish_u64_def
        variations.parse_enc)
qed

lemma owner_chain:
  assumes "db_ok db" and "owns_variation db w v" and "u \<in> set (db_users db)" "ur_wallet_address u = w"
  obtains c a where "c \<in> set (configs_of db (ar_id a))" "dr_id c = vr_domain_config_id v" "a \<in> set (db_apps db)" "ar_user_id a = ur_id u"
proof -
  from assms(2) obtain c where c: "c \<in> set (db_configs db)" "dr_id c = vr_domain_config_id v" "owns_config db w c"
    by (auto simp: owns_variation_def list_ex_iff)
  then obtain a u' where a: "a \<in> set (db_apps db)" "ar_id a = dr_app_id c" and u': "u' \<in> set (db_users db)"
    "ur_id u' = ar_user_id a" "ur_wallet_address u' = w"
    by (auto simp: owns_config_def list_ex_iff)
  have "u' = u" using assms(1,3,4) u' by (auto simp: db_ok_def intro: distinct_map_eq)
  with a c u' that[of c a] show ?thesis by (auto simp: configs_of_def)
qed

lemma owned_row_readable:
  assumes "db_ok db" and "user_readable Z P db u" and "u \<in> set (db_users db)" "ur_wallet_address u = w"
    and "v \<in> set (db_variations db)" "owns_variation db w v"
  shows "row_readable Z P v"
proof -
  obtain c a where "c \<in> set (configs_of db (ar_id a))" "dr_id c = vr_domain_config_id v" "a \<in> set (db_apps db)" "ar_user_id a = ur_id u"
    using owner_chain[OF assms(1,6,3,4)] by blast
  with assms(2,5) show ?thesis
    by (auto simp: user_readable_def app_readable_def config_readable_def list_all_iff variations_of_def)
qed

lemma row_readable_key:
  "row_readable Z P v \<Longrightarrow> vr_version v = ''v1'' \<Longrightarrow> zd_uuid Z (vr_id v) \<and> (\<exists>c. zd_date Z (pg_time P (vr_created_at v)) = Some c)"
  by (auto simp: row_readable_def VariationSchema_def VariationV1Schema_def variation_meta_schema_def variation_row_json_def
      row_fields bind_eq_Some_conv split: if_splits)

lemma fetch_row:
  assumes "db_ok db" and "fetchUserPaymasterData Z P db w = Inr (Some u0)"
  obtains u where "u \<in> set (db_users db)" "ur_wallet_address u = w" "user_readable Z P db u"
proof -
  from assms(2) obtain u us where "filter (\<lambda>u. ur_wallet_address u = w) (db_users db) = u # us"
    by (auto simp: fetchUserPaymasterData_def split: list.splits)
  then have "u \<in> set (filter (\<lambda>u. ur_wallet_address u = w) (db_users db))" by simp
  then have u: "u \<in> set (db_users db)" "ur_wallet_address u = w" by auto
  moreover have "UserSchema Z (user_row_json P db u) \<noteq> None"
    using assms(2) fetch_user[OF assms(1) u(1), of Z P] u(2) by (auto split: option.splits)
  ultimately show ?thesis using that user_readable_iff by blast
qed

lemma written_row_read:
  assumes "written_row E r w db d g f x" and "db_ok db" and "user_readable Z (ae_pg E) db u" "u \<in> set (db_users db)" "ur_wallet_address u = w"
    and "createOrUpdateVariationSchema m n fs j = Some d" "vd_maxGasSpend d = js_int g" "g \<le> MAX_SAFE_INTEGER"
    and "vd_paymasterFeeLamports d = map_option js_int f"
    and "zd_uuid Z (sv_uuid r)" "zd_date Z (pg_time (ae_pg E) (pg_now (ae_pg E))) = Some t"
    and "\<And>v. v \<in> set (db_variations db) \<Longrightarrow> sv_variationId r = Some (vr_id v) \<Longrightarrow> vr_version v = ''v1''"
  shows "\<exists>meta. VariationSchema Z (variation_row_json (ae_pg E) x) = Some (VariationV1 meta (js_int g) (vd_paymasterFeeLamports d) (vd_variation d)) \<and>
    vm_name meta = n"
proof -
  note d = schema_data[OF assms(6)]
  consider (new) "vr_id x = sv_uuid r" "vr_created_at x = pg_now (ae_pg E)" "vr_version x = ''v1''"
    | (kept) v where "v \<in> set (db_variations db)" "owns_variation db w v" "sv_variationId r = Some (vr_id v)"
        "vr_id x = vr_id v" "vr_created_at x = vr_created_at v" "vr_version x = vr_version v"
    using assms(1) by (auto simp: written_row_def)
  then have key: "vr_version x = ''v1'' \<and> zd_uuid Z (vr_id x) \<and> (\<exists>c. zd_date Z (pg_time (ae_pg E) (vr_created_at x)) = Some c)"
  proof cases
    case (kept v)
    then have "vr_version v = ''v1''" by (intro assms(12))
    with row_readable_key[OF owned_row_readable[OF assms(2-5) kept(1,2)]] kept show ?thesis by simp
  qed (use assms(10,11) in auto)
  then obtain c where c: "zd_date Z (pg_time (ae_pg E) (vr_created_at x)) = Some c" by blast
  have row: "vr_max_gas_spend x = Some g" "vr_paymaster_fee_lamports x = f" "vr_name x = n"
    "vr_transaction_variation x = variations_json (vd_variation d)" "zd_date Z (pg_time (ae_pg E) (vr_updated_at x)) = Some t"
    using assms(1,11) d(1) by (auto simp: written_row_def)
  have "1 \<le> g" by (rule d(3)[OF assms(7)])
  moreover have "0 \<le> i \<and> i \<le> MAX_SAFE_INTEGER" if "vr_paymaster_fee_lamports x = Some i" for i
    using that row(2) d(4)[of "js_int i"] assms(9) by simp
  ultimately show ?thesis
    using key v1_row_read[OF _ row(1) _ assms(8) _ row(4) d(2) _ c row(5)] assms(9) row(2,3) by auto
qed

lemma save_shown:
  assumes "db_ok db" and "user_address E (sv_sessionToken r) = Inr w"
    and "fetchUserPaymasterData (ae_zod E) (ae_pg E) db w = Inr (Some u0)"
    and "createOrUpdateVariationSchema (sv_maxGasSpend r) (sv_name r) (sv_paymasterFeeLamports r) (sv_variation r) = Some d"
    and "vd_maxGasSpend d = js_int g" "g \<le> MAX_SAFE_INTEGER"
    and "write_variation E r w db = Inr db'"
    and "zd_uuid (ae_zod E) (sv_uuid r)" "zd_date (ae_zod E) (pg_time (ae_pg E) (pg_now (ae_pg E))) = Some t"
    and "\<And>v. v \<in> set (db_variations db) \<Longrightarrow> sv_variationId r = Some (vr_id v) \<Longrightarrow> vr_version v = ''v1''"
  shows "\<exists>usr A C meta. createOrUpdateVariation E r db = (Inr (Some usr), db') \<and>
    A \<in> set (usr_apps usr) \<and> C \<in> set (app_domain_configs A) \<and>
    VariationV1 meta (js_int g) (vd_paymasterFeeLamports d) (vd_variation d) \<in> set (dcf_variations C) \<and> vm_name meta = sv_name r"
proof -
  obtain u where u: "u \<in> set (db_users db)" "ur_wallet_address u = w" "user_readable (ae_zod E) (ae_pg E) db u"
    using fetch_row[OF assms(1,3)] by blast
  obtain g' f where g': "vd_maxGasSpend d = js_int g'" and f: "vd_paymasterFeeLamports d = map_option js_int f"
    and db': "db' = db\<lparr>db_variations := db_variations db'\<rparr>"
    and ex: "\<exists>x \<in> set (db_variations db'). written_row E r w db d g' f x"
    and all: "\<And>v. v \<in> set (db_variations db') \<Longrightarrow> v \<in> set (db_variations db) \<or> written_row E r w db d g' f v"
    using write_variation_rows[OF assms(4,7)] by blast
  have "g' = g" using g' assms(5) by (simp add: js_int_def)
  then have small: "g' \<le> MAX_SAFE_INTEGER" using assms(6) by simp
  have read: "\<exists>meta. VariationSchema (ae_zod E) (variation_row_json (ae_pg E) v) =
      Some (VariationV1 meta (js_int g) (vd_paymasterFeeLamports d) (vd_variation d)) \<and> vm_name meta = sv_name r"
    if "written_row E r w db d g' f v" for v
    using written_row_read[OF that assms(1) u(3,1,2) assms(4) g' small f assms(8-10)] unfolding \<open>g' = g\<close> .
  have "row_readable (ae_zod E) (ae_pg E) v" if "written_row E r w db d g' f v" for v
    using read[OF that] by (auto simp: row_readable_def)
  with all have "user_readable (ae_zod E) (ae_pg E) (db\<lparr>db_variations := db_variations db'\<rparr>) u"
    by (intro user_readable_variations[OF u(3)]) blast
  then obtain usr where usr: "UserSchema (ae_zod E) (user_row_json (ae_pg E) db' u) = Some usr"
    using user_readable_iff db' by (metis option.exhaust)
  have ok': "db_ok db'" using write_variation_guarded[OF assms(1,7)] by simp
  have tables: "db_users db' = db_users db" "db_apps db' = db_apps db" "db_configs db' = db_configs db"
    by (subst db', simp)+
  obtain x where x: "x \<in> set (db_variations db')" "written_row E r w db d g' f x" using ex by blast
  then obtain c a where ca: "c \<in> set (configs_of db (ar_id a))" "dr_id c = vr_domain_config_id x" "a \<in> set (db_apps db)" "ar_user_id a = ur_id u"
    using owner_chain[OF assms(1) _ u(1,2)] by (auto simp: written_row_def)
  have "\<exists>A \<in> set (usr_apps usr). \<exists>C \<in> set (app_domain_configs A). dcf_id C = dr_id c \<and>
      (\<exists>V \<in> set (dcf_variations C). VariationSchema (ae_zod E) (variation_row_json (ae_pg E) x) = Some V)"
    by (rule variation_shown[OF usr]) (use ca x in \<open>auto simp: tables configs_of_def variations_of_def\<close>)
  moreover have "createOrUpdateVariation E r db = (Inr (Some usr), db')"
    using assms(2,7) fetch_user[OF ok', of u] usr u by (simp add: createOrUpdateVariation_def tables)
  ultimately show ?thesis using read[OF x(2)] by fastforce
qed

section \<open>Properties\<close>

text \<open>C7: one customer of the paymaster cannot touch another's configuration. Whatever sequence of
  requests the admin app serves (saving, deleting, changing settings, with valid, invalid or
  missing tokens and with any identifiers), the data of a wallet for which none of the
  tokens speaks is exactly what it was, and the keys of the database stay intact.\<close>

theorem admin_isolation:
  assumes "db_ok db" and "\<And>E r. (E, r) \<in> set rs \<Longrightarrow> user_address E (request_token r) \<noteq> Inr w"
  shows "db_ok (serve_all rs db) \<and> fetchUserPaymasterData Z P (serve_all rs db) w = fetchUserPaymasterData Z P db w"
  using assms by (rule serve_all_unseen)

text \<open>C9: the identity of a data request comes from the token alone. If the endpoint answers with a
  user's data, the request carried a bearer token that verifies to an active session, and the
  data is that of the session's wallet, whatever identity header the client sent.\<close>

theorem user_data_authenticated:
  assumes "user_data_endpoint E db h = JsonData u"
  shows "\<exists>token si. h ''authorization'' = Some (''Bearer '' @ token) \<and> token \<noteq> [] \<and> verified E token = Inr (Some si) \<and>
    fetchUserPaymasterData (ae_zod E) (ae_pg E) db (toBase58 (ae_lib E) (info_user si)) = Inr (Some u)"
proof -
  from assms obtain token si where t: "bearer_token h = Some token" "token \<noteq> []" "verified E token = Inr (Some si)"
    and g: "GET_user_data E db (h(''x-authenticated-user'' \<mapsto> toBase58 (ae_lib E) (info_user si))) = JsonData u"
    by (auto simp: user_data_endpoint_def proxy_def split: proxied.splits option.splits if_splits sum.splits)
  obtain auth where a: "h ''authorization'' = Some auth" "take 7 auth = ''Bearer ''" "token = drop 7 auth"
    using t(1) by (auto simp: bearer_token_def split: option.splits if_splits)
  have "auth = ''Bearer '' @ token" using append_take_drop_id[of 7 auth] a by simp
  moreover have "fetchUserPaymasterData (ae_zod E) (ae_pg E) db (toBase58 (ae_lib E) (info_user si)) = Inr (Some u)"
    using g by (auto simp: GET_user_data_def split: option.splits if_splits sum.splits)
  ultimately show ?thesis using a t by auto
qed


section \<open>A concrete admin app\<close>

definition demo_zod :: zod_lib where
  "demo_zod = \<lparr>zd_uuid = (\<lambda>s. s \<noteq> []), zd_date = (\<lambda>s. Some 0)\<rparr>"

definition demo_admin :: admin_env where
  "demo_admin = \<lparr>ae_lib = demo_text_lib, ae_crypto = demo_token_crypto, ae_decode = (\<lambda>d. Inr demo_raw), ae_world = demo_accounts,
     ae_now = 1600000000000, ae_zod = demo_zod, ae_pg = \<lparr>pg_time = (\<lambda>_. ''t''), pg_now = 5\<rparr>\<rparr>"

abbreviation demo_owner :: string where
  "demo_owner \<equiv> toBase58 demo_text_lib (PublicKey [8])"

definition demo_db :: admin_db where
  "demo_db = \<lparr>db_users = [\<lparr>ur_id = ''u'', ur_username = ''n'', ur_wallet_address = demo_owner, ur_created_at = 1, ur_updated_at = 1\<rparr>],
     db_apps = [\<lparr>ar_id = ''a'', ar_name = ''app'', ar_user_id = ''u'', ar_created_at = 1, ar_updated_at = 1\<rparr>],
     db_configs = [\<lparr>dr_id = ''c'', dr_app_id = ''a'', dr_domain = ''d'', dr_network_environment = ''testnet'',
        dr_enable_session_management = False, dr_enable_preflight_simulation = False, dr_created_at = 1, dr_updated_at = 1\<rparr>],
     db_variations = []\<rparr>"

lemma demo_verified:
  obtains token where "token \<noteq> []" "verified demo_admin token = Inr (Some (the (schema_transform demo_raw)))"
proof -
  obtain token where t: "createLogInToken demo_text_lib demo_token_crypto 0 demo_login = Inr token"
    using demo_token_created by blast
  have "verifyLogInToken demo_text_lib demo_token_crypto (\<lambda>d. Inr demo_raw) demo_accounts 1600000000000 token
      = Inr (Some (the (schema_transform demo_raw)))"
    using t fresh_token_verifies[OF t demo_token_laws(1-4) _ _ demo_token_laws(6) _ demo_login_account]
    by (auto simp: demo_token_premises)
  moreover have "token \<noteq> []" using t by (auto simp: createLogInToken_def Let_def bind_result_eq_Inr)
  ultimately show ?thesis using that by (simp add: verified_def demo_admin_def)
qed

lemma demo_info_user: "info_user (the (schema_transform demo_raw)) = PublicKey [8]"
  by (simp add: demo_raw_def schema_transform_def session_of_active_def)

lemma demo_owner_nonempty: "demo_owner \<noteq> []"
  by (simp add: demo_text_lib_def demo_lib_def letters_def)

lemma demo_user_address:
  "verified demo_admin token = Inr (Some (the (schema_transform demo_raw))) \<Longrightarrow> user_address demo_admin token = Inr demo_owner"
  using demo_owner_nonempty by (simp add: user_address_def demo_info_user Let_def) (simp add: demo_admin_def)

lemma demo_db_ok: "db_ok demo_db"
  by (simp add: db_ok_def demo_db_def variation_keys_ok_def)

lemma demo_fetch: "\<exists>u. fetchUserPaymasterData demo_zod P demo_db demo_owner = Inr (Some u)"
proof -
  have "UserSchema demo_zod (user_row_json P demo_db (hd (db_users demo_db))) \<noteq> None"
    unfolding user_readable_iff
    by (simp add: demo_db_def user_readable_def app_readable_def config_readable_def configs_of_def variations_of_def
        time_ok_def demo_zod_def NetworkEnvironmentSchema_def)
  then show ?thesis
    using fetch_user[OF demo_db_ok, of "hd (db_users demo_db)" demo_zod P] by (auto simp: demo_db_def split: option.splits)
qed

definition demo_save :: "string \<Rightarrow> string \<Rightarrow> save_request" where
  "demo_save gas token = \<lparr>sv_variationId = None, sv_domainConfigId = ''c'', sv_name = ''n'', sv_maxGasSpend = gas,
     sv_paymasterFeeLamports = '''', sv_variation = JArr [], sv_sessionToken = token, sv_uuid = ''v''\<rparr>"

lemma demo_owns: "owns_config demo_db demo_owner (hd (db_configs demo_db))"
  by (simp add: owns_config_def demo_db_def)

definition demo_data :: "int \<Rightarrow> variation_data" where
  "demo_data g = \<lparr>vd_name = ''n'', vd_maxGasSpend = js_int g, vd_paymasterFeeLamports = None, vd_variation = []\<rparr>"

lemma demo_schema:
  "js_Number gas = js_int g \<Longrightarrow> 1 \<le> g \<Longrightarrow> createOrUpdateVariationSchema gas ''n'' '''' (JArr []) = Some (demo_data g)"
  by (simp add: createOrUpdateVariationSchema_def js_int_def TransactionVariations_def parse_arr_def demo_data_def)

lemma demo_write:
  assumes "js_Number gas = js_int g" and "1 \<le> g" and "g < 2 ^ 63"
  shows "write_variation demo_admin (demo_save gas token) demo_owner demo_db =
    Inr (demo_db\<lparr>db_variations := [new_variation (ae_pg demo_admin) ''v'' ''c'' (demo_data g) g None]\<rparr>)"
proof -
  have q: "(of_int g :: rat) < 2 ^ 63" using assms(3) by (metis of_int_less_iff of_int_numeral of_int_power)
  then have "to_bigint (js_int g) = Inr g" using assms(2) by (simp add: to_bigint_def js_int_def)
  with demo_owns show ?thesis
    by (simp add: write_variation_def demo_save_def demo_schema[OF assms(1,2)] createVariation_def to_bigint_nullable_def
        put_variations_def variation_keys_ok_def demo_db_def demo_data_def)
qed

theorem admin_isolation_witness:
  "\<exists>rs. rs \<noteq> [] \<and> db_ok (serve_all rs demo_db) \<and> serve_all rs demo_db \<noteq> demo_db \<and>
     fetchUserPaymasterData demo_zod (ae_pg demo_admin) (serve_all rs demo_db) ''other'' =
     fetchUserPaymasterData demo_zod (ae_pg demo_admin) demo_db ''other''"
proof -
  obtain token where t: "verified demo_admin token = Inr (Some (the (schema_transform demo_raw)))"
    using demo_verified by blast
  let ?rs = "[(demo_admin, SaveVariation (demo_save ''5'' token))]"
  have n: "js_Number ''5'' = js_int 5"
    using js_Number_nat[of 5] by (simp add: MAX_SAFE_INTEGER_def nat_to_string.simps digit_char_def)
  have "length demo_owner = 8" by (simp add: demo_text_lib_def demo_lib_def letters_def)
  then have other: "demo_owner \<noteq> ''other''" by auto
  have "serve_all ?rs demo_db \<noteq> demo_db"
    using demo_user_address[OF t] demo_write[OF n, of token]
    by (simp add: serve_all_def serve_def createOrUpdateVariation_def demo_save_def) (simp add: demo_db_def)
  moreover have "db_ok (serve_all ?rs demo_db) \<and> fetchUserPaymasterData demo_zod (ae_pg demo_admin) (serve_all ?rs demo_db) ''other'' =
     fetchUserPaymasterData demo_zod (ae_pg demo_admin) demo_db ''other''"
    by (rule admin_isolation[OF demo_db_ok])
      (use demo_user_address[OF t] other in \<open>auto simp: request_token_def demo_save_def\<close>)
  ultimately show ?thesis by blast
qed

theorem user_data_authenticated_witness:
  "\<exists>h u token si. user_data_endpoint demo_admin demo_db h = JsonData u \<and> h ''authorization'' = Some (''Bearer '' @ token) \<and>
     verified demo_admin token = Inr (Some si)"
proof -
  obtain token where t: "token \<noteq> []" "verified demo_admin token = Inr (Some (the (schema_transform demo_raw)))"
    using demo_verified by blast
  let ?h = "[''authorization'' \<mapsto> ''Bearer '' @ token, ''x-authenticated-user'' \<mapsto> ''someone'']"
  obtain u where "fetchUserPaymasterData demo_zod (ae_pg demo_admin) demo_db demo_owner = Inr (Some u)" using demo_fetch by blast
  then have "user_data_endpoint demo_admin demo_db ?h = JsonData u"
    using t demo_owner_nonempty demo_info_user
    by (simp add: user_data_endpoint_def proxy_def bearer_token_def GET_user_data_def) (simp add: demo_admin_def)
  with user_data_authenticated[OF this] show ?thesis by blast
qed




lemma big_double: "to_double 9007199254740992 = Num 9007199254740992"
  by code_simp

lemma big_number: "js_Number ''9007199254740992'' = js_int 9007199254740992"
proof -
  have dec: "list_all is_dec ''9007199254740992''" by (simp add: is_dec_def)
  have "dec_value ''9007199254740992'' = 9007199254740992" by (simp add: dec_value_def digit_in_def digit_val_def)
  with decimal_literal_digits[OF dec] big_double show ?thesis
    by (simp add: js_Number_def js_trim_dec[OF dec] unsigned_number_def js_int_def)
qed


end
