(* ===== verification/Admin_Forms.thy ===== *)
theory Admin_Forms
  imports Admin_Schema Solana_Lib
begin

text \<open>
  \<^verbatim>\<open>apps/paymaster-admin/src/components/Variation/FormEditor\<close>: the form for a variation's constraints.
  Every component of the form is a pair of its value and a callback with the next value, so an
  edit is a function from the old value to the new one; what the form does not offer (a type
  selector that is disabled, an item that is not there) is \<open>None\<close>.
\<close>

section \<open>Values\<close>

datatype ValueType = VU8 | VU16 | VU32 | VU64 | VBool | VPubkey | VBytes | VNttSignedQuoter

definition getValueType :: "PrimitiveDataValue \<Rightarrow> ValueType" where
  "getValueType v = (case v of U8 _ \<Rightarrow> VU8 | U16 _ \<Rightarrow> VU16 | U32 _ \<Rightarrow> VU32 | U64 _ \<Rightarrow> VU64 | Bool _ \<Rightarrow> VBool | Pubkey _ \<Rightarrow> VPubkey
     | Bytes _ \<Rightarrow> VBytes | NttSignedQuoter _ \<Rightarrow> VNttSignedQuoter)"

definition SYSTEM_PROGRAM_ID :: "solana_lib \<Rightarrow> string" where
  "SYSTEM_PROGRAM_ID L = toBase58 L (SystemProgram_programId L)"

definition getDefaultForType :: "solana_lib \<Rightarrow> ValueType \<Rightarrow> PrimitiveDataValue" where
  "getDefaultForType L t = (case t of VU8 \<Rightarrow> U8 (Num 0) | VU16 \<Rightarrow> U16 (Num 0) | VU32 \<Rightarrow> U32 (Num 0) | VU64 \<Rightarrow> U64 (Num 0)
     | VBool \<Rightarrow> Bool True | VPubkey \<Rightarrow> Pubkey (SYSTEM_PROGRAM_ID L) | VBytes \<Rightarrow> Bytes [] | VNttSignedQuoter \<Rightarrow> NttSignedQuoter [])"

definition INTEGER_VALUE_TYPE_ITEMS :: "ValueType list" where
  "INTEGER_VALUE_TYPE_ITEMS = [VU8, VU16, VU32, VU64]"

definition ALL_VALUE_TYPE_ITEMS :: "ValueType list" where
  "ALL_VALUE_TYPE_ITEMS = [VU8, VU16, VU32, VU64, VBool, VPubkey, VBytes, VNttSignedQuoter]"

text \<open>\<^verbatim>\<open>Math.min(max, Math.max(0, Number(v) || 0))\<close>.\<close>

definition clamp :: "int \<Rightarrow> string \<Rightarrow> js_number" where
  "clamp hi v = Math_min (js_int hi) (Math_max (Num 0) (or_zero (js_Number v)))"

text \<open>The field of a value: a text field for numbers and strings, a selector for booleans.\<close>

datatype prim_edit = SelectType ValueType | Typed string | SelectBool bool

definition ValueInput :: "ValueType \<Rightarrow> prim_edit \<Rightarrow> PrimitiveDataValue option" where
  "ValueInput t e = (case e of
     Typed v \<Rightarrow> (case t of VU8 \<Rightarrow> Some (U8 (clamp 255 v)) | VU16 \<Rightarrow> Some (U16 (clamp 65535 v)) | VU32 \<Rightarrow> Some (U32 (clamp 0xffffffff v))
       | VU64 \<Rightarrow> Some (U64 (clamp MAX_SAFE_INTEGER v)) | VBool \<Rightarrow> None | VPubkey \<Rightarrow> Some (Pubkey v) | VBytes \<Rightarrow> Some (Bytes v)
       | VNttSignedQuoter \<Rightarrow> Some (NttSignedQuoter v))
   | SelectBool b \<Rightarrow> if t = VBool then Some (Bool b) else None
   | SelectType _ \<Rightarrow> None)"

definition PrimitiveDataValueInput :: "solana_lib \<Rightarrow> bool \<Rightarrow> bool \<Rightarrow> prim_edit \<Rightarrow> PrimitiveDataValue \<Rightarrow> PrimitiveDataValue option" where
  "PrimitiveDataValueInput L integerOnly disableTypeSelector e v = (case e of
     SelectType t \<Rightarrow> if \<not> disableTypeSelector \<and> t \<in> set (if integerOnly then INTEGER_VALUE_TYPE_ITEMS else ALL_VALUE_TYPE_ITEMS)
       then Some (getDefaultForType L t) else None
   | _ \<Rightarrow> ValueInput (getValueType v) e)"

section \<open>Lists\<close>

datatype 'e list_edit = AddItem | RemoveItem nat | ChangeItem nat 'e

definition DynamicList :: "'a \<Rightarrow> (nat \<Rightarrow> 'e \<Rightarrow> 'a \<Rightarrow> 'a option) \<Rightarrow> 'e list_edit \<Rightarrow> 'a list \<Rightarrow> 'a list option" where
  "DynamicList createDefault item e items = (case e of
     AddItem \<Rightarrow> Some (items @ [createDefault])
   | RemoveItem i \<Rightarrow> if i < length items then Some (take i items @ drop (Suc i) items) else None
   | ChangeItem i x \<Rightarrow> if i < length items then map_option (\<lambda>v. items[i := v]) (item i x (items ! i)) else None)"

section \<open>Data constraints\<close>

datatype OperatorType = OpLessThan | OpGreaterThan | OpEqualTo | OpNeq

definition isIntegerValue :: "PrimitiveDataValue \<Rightarrow> bool" where
  "isIntegerValue v = (getValueType v \<in> set INTEGER_VALUE_TYPE_ITEMS)"

definition getFirstValue :: "solana_lib \<Rightarrow> DataConstraintSpecification \<Rightarrow> PrimitiveDataValue" where
  "getFirstValue L s = (case s of LessThan v \<Rightarrow> v | GreaterThan v \<Rightarrow> v
     | EqualTo vs \<Rightarrow> (case vs of [] \<Rightarrow> getDefaultForType L VU8 | v # _ \<Rightarrow> v)
     | Neq vs \<Rightarrow> (case vs of [] \<Rightarrow> getDefaultForType L VU8 | v # _ \<Rightarrow> v))"

definition operatorItems :: "solana_lib \<Rightarrow> DataConstraintSpecification \<Rightarrow> OperatorType list" where
  "operatorItems L s = (if isIntegerValue (getFirstValue L s) then [OpLessThan, OpGreaterThan, OpEqualTo, OpNeq] else [OpEqualTo, OpNeq])"

definition handleOperatorChange :: "solana_lib \<Rightarrow> OperatorType \<Rightarrow> DataConstraintSpecification" where
  "handleOperatorChange L key = (let defaultVal = getDefaultForType L VU8 in
     case key of OpLessThan \<Rightarrow> LessThan defaultVal | OpGreaterThan \<Rightarrow> GreaterThan defaultVal
     | OpEqualTo \<Rightarrow> EqualTo [defaultVal] | OpNeq \<Rightarrow> Neq [defaultVal])"

definition handleSingleValueChange :: "PrimitiveDataValue \<Rightarrow> DataConstraintSpecification \<Rightarrow> DataConstraintSpecification option" where
  "handleSingleValueChange val s = (case s of LessThan _ \<Rightarrow> Some (LessThan val) | GreaterThan _ \<Rightarrow> Some (GreaterThan val) | _ \<Rightarrow> None)"

definition normalizedValues :: "ValueType \<Rightarrow> PrimitiveDataValue list \<Rightarrow> PrimitiveDataValue list" where
  "normalizedValues currentType values =
     (case List.find (\<lambda>v. getValueType v \<noteq> currentType) values of Some changedValue \<Rightarrow> [changedValue] | None \<Rightarrow> values)"

definition handleArrayValuesChange ::
  "solana_lib \<Rightarrow> PrimitiveDataValue list \<Rightarrow> DataConstraintSpecification \<Rightarrow> DataConstraintSpecification option" where
  "handleArrayValuesChange L values s =
     (let vs = normalizedValues (getValueType (getFirstValue L s)) values in
      case s of EqualTo _ \<Rightarrow> Some (EqualTo vs) | Neq _ \<Rightarrow> Some (Neq vs) | _ \<Rightarrow> None)"

datatype spec_edit = SelectOperator OperatorType | SingleValue prim_edit | ArrayValues "prim_edit list_edit"

definition DataConstraintSpecInput ::
  "solana_lib \<Rightarrow> spec_edit \<Rightarrow> DataConstraintSpecification \<Rightarrow> DataConstraintSpecification option" where
  "DataConstraintSpecInput L e s = (case e of
     SelectOperator k \<Rightarrow> if k \<in> set (operatorItems L s) then Some (handleOperatorChange L k) else None
   | SingleValue x \<Rightarrow> (case s of
       LessThan v \<Rightarrow> Option.bind (PrimitiveDataValueInput L True False x v) (\<lambda>w. handleSingleValueChange w s)
     | GreaterThan v \<Rightarrow> Option.bind (PrimitiveDataValueInput L True False x v) (\<lambda>w. handleSingleValueChange w s)
     | _ \<Rightarrow> None)
   | ArrayValues x \<Rightarrow>
       (let change = (\<lambda>vs. Option.bind (DynamicList (getDefaultForType L (getValueType (getFirstValue L s)))
              (\<lambda>index. PrimitiveDataValueInput L False (0 < index)) x vs) (\<lambda>ws. handleArrayValuesChange L ws s))
        in case s of EqualTo vs \<Rightarrow> change vs | Neq vs \<Rightarrow> change vs | _ \<Rightarrow> None))"

datatype data_edit = TypedStartByte string | EditSpec spec_edit

text \<open>\<^verbatim>\<open>Math.max(0, Number(v) || 0)\<close>.\<close>

definition non_negative :: "string \<Rightarrow> js_number" where
  "non_negative v = Math_max (Num 0) (or_zero (js_Number v))"

definition DataConstraintForm :: "solana_lib \<Rightarrow> data_edit \<Rightarrow> DataConstraint \<Rightarrow> DataConstraint option" where
  "DataConstraintForm L e d = (case e of
     TypedStartByte v \<Rightarrow> Some (d\<lparr>dc_start_byte := non_negative v\<rparr>)
   | EditSpec x \<Rightarrow> map_option (\<lambda>s. d\<lparr>dc_constraint := s\<rparr>) (DataConstraintSpecInput L x (dc_constraint d)))"

section \<open>Accounts and instructions\<close>

datatype pubkey_edit = SelectVariant ContextualPubkey | TypedPubkey string

text \<open>The selector of a contextual key, whose \<open>Explicit\<close> item starts with the system program, and
  the text field of an explicit key.\<close>

definition ContextualPubkeyInput :: "solana_lib \<Rightarrow> pubkey_edit \<Rightarrow> ContextualPubkey \<Rightarrow> ContextualPubkey option" where
  "ContextualPubkeyInput L e k = (case e of
     SelectVariant v \<Rightarrow> Some (case v of Explicit _ \<Rightarrow> Explicit (SYSTEM_PROGRAM_ID L) | _ \<Rightarrow> v)
   | TypedPubkey s \<Rightarrow> (case k of Explicit _ \<Rightarrow> Some (Explicit s) | _ \<Rightarrow> None))"

datatype account_edit = TypedIndex string | EditInclude "pubkey_edit list_edit" | EditExclude "pubkey_edit list_edit"

definition AccountConstraintForm :: "solana_lib \<Rightarrow> account_edit \<Rightarrow> AccountConstraint \<Rightarrow> AccountConstraint option" where
  "AccountConstraintForm L e a =
     (let keys = DynamicList (Explicit (SYSTEM_PROGRAM_ID L)) (\<lambda>_. ContextualPubkeyInput L) in
      case e of
        TypedIndex v \<Rightarrow> Some (a\<lparr>ac_index := non_negative v\<rparr>)
      | EditInclude x \<Rightarrow> map_option (\<lambda>ks. a\<lparr>ac_include := ks\<rparr>) (keys x (ac_include a))
      | EditExclude x \<Rightarrow> map_option (\<lambda>ks. a\<lparr>ac_exclude := ks\<rparr>) (keys x (ac_exclude a)))"

datatype instruction_edit =
    TypedProgram string | SwitchRequired bool | SwitchWrapped bool
  | EditAccounts "account_edit list_edit" | EditData "data_edit list_edit"

definition createDefaultAccountConstraint :: AccountConstraint where
  "createDefaultAccountConstraint = \<lparr>ac_exclude = [], ac_include = [], ac_index = Num 0\<rparr>"

definition createDefaultDataConstraint :: DataConstraint where
  "createDefaultDataConstraint = \<lparr>dc_constraint = EqualTo [U8 (Num 0)], dc_data_type = None, dc_start_byte = Num 0\<rparr>"

definition InstructionConstraintForm :: "solana_lib \<Rightarrow> instruction_edit \<Rightarrow> InstructionConstraint \<Rightarrow> InstructionConstraint option" where
  "InstructionConstraintForm L e i = (case e of
     TypedProgram p \<Rightarrow> Some (i\<lparr>ic_program := p\<rparr>)
   | SwitchRequired b \<Rightarrow> Some (i\<lparr>ic_required := b\<rparr>)
   | SwitchWrapped b \<Rightarrow> Some (i\<lparr>ic_requires_wrapped_native_tokens := Some b\<rparr>)
   | EditAccounts x \<Rightarrow> map_option (\<lambda>as. i\<lparr>ic_accounts := as\<rparr>)
       (DynamicList createDefaultAccountConstraint (\<lambda>_. AccountConstraintForm L) x (ic_accounts i))
   | EditData x \<Rightarrow> map_option (\<lambda>ds. i\<lparr>ic_data := ds\<rparr>)
       (DynamicList createDefaultDataConstraint (\<lambda>_. DataConstraintForm L) x (ic_data i)))"

definition createDefaultInstruction :: "solana_lib \<Rightarrow> InstructionConstraint" where
  "createDefaultInstruction L = \<lparr>ic_accounts = [], ic_data = [], ic_program = SYSTEM_PROGRAM_ID L, ic_required = True,
     ic_requires_wrapped_native_tokens = Some False\<rparr>"

definition VariationFormEditor ::
  "solana_lib \<Rightarrow> instruction_edit list_edit \<Rightarrow> InstructionConstraint list \<Rightarrow> InstructionConstraint list option" where
  "VariationFormEditor L e is = DynamicList (createDefaultInstruction L) (\<lambda>_. InstructionConstraintForm L) e is"

section \<open>What every edit keeps\<close>

text \<open>The contract of an editor: what it returns has a property when its argument has it.\<close>

locale keeps =
  fixes ok :: "'a \<Rightarrow> bool" and edit :: "nat \<Rightarrow> 'e \<Rightarrow> 'a \<Rightarrow> 'a option" and fresh :: 'a
  assumes fresh_ok: "ok fresh" and edit_ok: "ok v \<Longrightarrow> edit i e v = Some w \<Longrightarrow> ok w"
begin

lemma list_ok:
  assumes "list_all ok vs" and "DynamicList fresh edit e vs = Some ws"
  shows "list_all ok ws"
proof (cases e)
  case (ChangeItem i x)
  with assms(2) obtain w where i: "i < length vs" "edit i x (vs ! i) = Some w" and ws: "ws = vs[i := w]"
    by (auto simp: DynamicList_def split: if_splits)
  have "ok w" using edit_ok[OF _ i(2)] assms(1) i(1) by (simp add: list_all_iff)
  then show ?thesis using assms(1) ws by (auto simp: list_all_iff dest!: set_update_subset_insert[THEN subsetD])
qed (use assms fresh_ok in \<open>auto simp: DynamicList_def list_all_iff dest!: in_set_takeD in_set_dropD split: if_splits\<close>)

end

text \<open>A number field holds a number of its range, possibly with a fraction.\<close>

definition in_range :: "int \<Rightarrow> js_number \<Rightarrow> bool" where
  "in_range hi x = (case x of Num q \<Rightarrow> 0 \<le> q \<and> q \<le> of_int hi | _ \<Rightarrow> False)"

definition prim_ok :: "PrimitiveDataValue \<Rightarrow> bool" where
  "prim_ok v = (case v of U8 x \<Rightarrow> in_range 255 x | U16 x \<Rightarrow> in_range 65535 x | U32 x \<Rightarrow> in_range 0xffffffff x
     | U64 x \<Rightarrow> in_range MAX_SAFE_INTEGER x | _ \<Rightarrow> True)"

text \<open>An inequality compares with an integer, and the values of a list have one type.\<close>

definition same_type :: "PrimitiveDataValue list \<Rightarrow> bool" where
  "same_type vs = (case vs of [] \<Rightarrow> True | v # ws \<Rightarrow> list_all (\<lambda>w. getValueType w = getValueType v) ws)"

definition spec_ok :: "DataConstraintSpecification \<Rightarrow> bool" where
  "spec_ok s = (case s of LessThan v \<Rightarrow> isIntegerValue v \<and> prim_ok v | GreaterThan v \<Rightarrow> isIntegerValue v \<and> prim_ok v
     | EqualTo vs \<Rightarrow> same_type vs \<and> list_all prim_ok vs | Neq vs \<Rightarrow> same_type vs \<and> list_all prim_ok vs)"

definition instruction_ok :: "InstructionConstraint \<Rightarrow> bool" where
  "instruction_ok i = list_all (\<lambda>d. spec_ok (dc_constraint d)) (ic_data i)"

lemma clamp_in_range: "0 \<le> hi \<Longrightarrow> in_range hi (clamp hi v)"
  by (cases "js_Number v") (auto simp: clamp_def in_range_def Math_min_def Math_max_def or_zero_def js_int_def)

lemma default_ok: "prim_ok (getDefaultForType L t)" "getValueType (getDefaultForType L t) = t"
  by (cases t; simp add: getDefaultForType_def prim_ok_def in_range_def getValueType_def MAX_SAFE_INTEGER_def)+

lemma ValueInput_ok: "ValueInput t e = Some w \<Longrightarrow> prim_ok w \<and> getValueType w = t"
  by (auto simp: ValueInput_def prim_ok_def getValueType_def MAX_SAFE_INTEGER_def intro!: clamp_in_range
      split: prim_edit.splits ValueType.splits if_splits)

lemma prim_input_ok:
  "PrimitiveDataValueInput L i d e v = Some w \<Longrightarrow> prim_ok w"
  "PrimitiveDataValueInput L True d e v = Some w \<Longrightarrow> isIntegerValue v \<Longrightarrow> isIntegerValue w"
  by (auto simp: PrimitiveDataValueInput_def isIntegerValue_def default_ok dest: ValueInput_ok split: prim_edit.splits if_splits)

interpretation prim_list: keeps prim_ok "\<lambda>i. PrimitiveDataValueInput L False (0 < i)" "getDefaultForType L t" for L t
  by unfold_locales (simp_all add: default_ok prim_input_ok)

lemma normalized_same_type: "same_type (normalizedValues t vs)"
  by (auto simp: normalizedValues_def same_type_def list_all_iff find_None_iff split: option.splits list.splits)

lemma normalized_ok: "list_all prim_ok vs \<Longrightarrow> list_all prim_ok (normalizedValues t vs)"
  by (auto simp: normalizedValues_def list_all_iff find_Some_iff split: option.splits)

lemma handleArrayValuesChange_ok:
  "handleArrayValuesChange L vs s = Some s' \<Longrightarrow> list_all prim_ok vs \<Longrightarrow> spec_ok s'"
  by (auto simp: handleArrayValuesChange_def spec_ok_def Let_def normalized_same_type normalized_ok
      split: DataConstraintSpecification.splits)

lemma array_values_ok:
  assumes "Option.bind (DynamicList (getDefaultForType L t) (\<lambda>index. PrimitiveDataValueInput L False (0 < index)) x vs)
      (\<lambda>ws. handleArrayValuesChange L ws s) = Some s'" and "list_all prim_ok vs"
  shows "spec_ok s'"
  using assms prim_list.list_ok by (auto simp: bind_eq_Some_conv intro: handleArrayValuesChange_ok)

lemma spec_edit_ok:
  assumes "spec_ok s" and "DataConstraintSpecInput L e s = Some s'"
  shows "spec_ok s'"
proof (cases e)
  case (SelectOperator k)
  with assms(2) show ?thesis
    by (auto simp: DataConstraintSpecInput_def handleOperatorChange_def spec_ok_def same_type_def isIntegerValue_def default_ok
        INTEGER_VALUE_TYPE_ITEMS_def Let_def split: if_splits OperatorType.splits)
next
  case (SingleValue x)
  with assms show ?thesis
    by (cases s) (auto simp: DataConstraintSpecInput_def handleSingleValueChange_def spec_ok_def bind_eq_Some_conv dest: prim_input_ok)
next
  case (ArrayValues x)
  with assms show ?thesis
    by (cases s) (auto simp: DataConstraintSpecInput_def Let_def dest!: array_values_ok, simp_all add: spec_ok_def)
qed

interpretation data_list: keeps "\<lambda>d. spec_ok (dc_constraint d)" "\<lambda>_. DataConstraintForm L" createDefaultDataConstraint for L
  by unfold_locales
    (auto simp: DataConstraintForm_def dest: spec_edit_ok split: data_edit.splits,
      simp add: createDefaultDataConstraint_def spec_ok_def same_type_def prim_ok_def in_range_def)

interpretation instruction_list: keeps instruction_ok "\<lambda>_. InstructionConstraintForm L" "createDefaultInstruction L" for L
  by unfold_locales
    (auto simp: createDefaultInstruction_def instruction_ok_def InstructionConstraintForm_def
      dest: data_list.list_ok split: instruction_edit.splits)

section \<open>Properties\<close>

text \<open>A form that is edited any number of times, in any way it offers.\<close>

inductive form_reach :: "solana_lib \<Rightarrow> InstructionConstraint list \<Rightarrow> InstructionConstraint list \<Rightarrow> bool" for L is\<^sub>0 where
  opened: "form_reach L is\<^sub>0 is\<^sub>0"
| edited: "form_reach L is\<^sub>0 is \<Longrightarrow> VariationFormEditor L e is = Some is' \<Longrightarrow> form_reach L is\<^sub>0 is'"



end
