(* ===== verification/Admin_Editor.thy ===== *)
theory Admin_Editor
  imports Admin_Forms Admin_Actions
begin

text \<open>
  \<^verbatim>\<open>apps/paymaster-admin/src/components/Variation/variations-list-item.tsx\<close>: the card that edits one
  variation, as a form or as TOML or JSON text. The React state is a record, each callback a
  function on it, and what the user does an event. The TOML package and the issues that the
  schema library reports are parameters; so are the two JSON functions of the platform,
  whose law is that they invert each other.
\<close>

section \<open>Texts and error messages\<close>

record text_lib =
  JSON_stringify :: "json \<Rightarrow> string"
  JSON_parse :: "string \<Rightarrow> json result"
  toml_stringify :: "json \<Rightarrow> string"
  toml_parse :: "string \<Rightarrow> json result"

definition wrap_toml :: "json \<Rightarrow> json" where
  "wrap_toml j = JObj [(''domains'', JObj [(''tx_variations'', JObj [(''instructions'', j)])])]"

definition generateEditableToml :: "text_lib \<Rightarrow> InstructionConstraint list \<Rightarrow> string" where
  "generateEditableToml T is = toml_stringify T (wrap_toml (variations_json is))"

definition editable_json :: "text_lib \<Rightarrow> InstructionConstraint list \<Rightarrow> string" where
  "editable_json T is = JSON_stringify T (variations_json is)"

datatype segment = Index nat | Key string

datatype zod_issue =
    InvalidUnion "segment list" "(zod_issue list) list"
  | InvalidType "segment list" string string string
  | OtherIssue "segment list" string

fun issue_path :: "zod_issue \<Rightarrow> segment list" where
  "issue_path (InvalidUnion p _) = p"
| "issue_path (InvalidType p _ _ _) = p"
| "issue_path (OtherIssue p _) = p"

definition formatPath :: "segment list \<Rightarrow> string" where
  "formatPath path = foldl (\<lambda>acc segment. case segment of
     Index n \<Rightarrow> acc @ ''['' @ nat_to_string n @ '']''
   | Key k \<Rightarrow> if acc = [] then k else acc @ ''.'' @ k) [] path"

definition strip_prefix :: "string \<Rightarrow> string \<Rightarrow> string" where
  "strip_prefix p s = (if take (length p) s = p then drop (length p) s else s)"

text \<open>The expectation an alternative of a union reports.\<close>

definition expectation :: "zod_issue \<Rightarrow> string" where
  "expectation i = (case i of InvalidType _ e _ _ \<Rightarrow> e | OtherIssue _ m \<Rightarrow> m | InvalidUnion _ _ \<Rightarrow> ''Invalid input'')"

text \<open>The distinct elements of a list in the order of their first occurrence, \<^verbatim>\<open>[...new Set(xs)]\<close>.\<close>

definition unique :: "string list \<Rightarrow> string list" where
  "unique xs = rev (remdups (rev xs))"

definition formatZodIssue :: "zod_issue \<Rightarrow> string" where
  "formatZodIssue issue =
     (let path = strip_prefix ''domains.tx_variations.'' (formatPath (issue_path issue));
          prefix = (if path = [] then [] else path @ '': '')
      in case issue of
           InvalidUnion _ errors \<Rightarrow> prefix @ ''Expected '' @ join '', '' (unique (map expectation (concat errors)))
         | InvalidType _ expected input _ \<Rightarrow> prefix @ ''Expected '' @ expected @ '', received '' @ input
         | OtherIssue _ message \<Rightarrow> prefix @ message)"

definition formatZodErrors :: "zod_issue list \<Rightarrow> string" where
  "formatZodErrors errors = join [newline] (map formatZodIssue errors)"

section \<open>The card's state\<close>

datatype EditorMode = FormMode | CodeMode

record form_state =
  fs_isExpanded :: bool
  fs_isEditingJson :: bool
  fs_editorMode :: EditorMode
  fs_name :: string
  fs_code :: string
  fs_instructions :: "InstructionConstraint list"
  fs_codeError :: "string option"
  fs_maxGasSpend :: string
  fs_paymasterFeeLamports :: string

text \<open>\<^verbatim>\<open>toString\<close> of a number that is an integer of at most 21 digits.\<close>

definition integer_toString :: "js_number \<Rightarrow> string" where
  "integer_toString x = (case x of Num q \<Rightarrow> int_to_string \<lfloor>q\<rfloor> | NaN \<Rightarrow> ''NaN'' | Infinite s \<Rightarrow> if s then ''-Infinity'' else ''Infinity'')"

definition isV1 :: "Variation option \<Rightarrow> bool" where
  "isV1 variation = (case variation of Some (VariationV0 _ _) \<Rightarrow> False | _ \<Rightarrow> True)"

text \<open>A fee that is missing or zero shows as an empty field.\<close>

definition fee_text :: "js_number option \<Rightarrow> string" where
  "fee_text f = (case f of None \<Rightarrow> [] | Some x \<Rightarrow> if x = Num 0 \<or> x = NaN then [] else integer_toString x)"

definition initial_form :: "text_lib \<Rightarrow> Variation option \<Rightarrow> form_state" where
  "initial_form T variation =
     \<lparr>fs_isExpanded = False, fs_isEditingJson = False, fs_editorMode = (if isV1 variation then FormMode else CodeMode),
      fs_name = (case variation of None \<Rightarrow> [] | Some v \<Rightarrow> vm_name (variation_meta v)),
      fs_code = (case variation of None \<Rightarrow> []
        | Some (VariationV0 _ ps) \<Rightarrow> JSON_stringify T (JArr (map JStr ps))
        | Some (VariationV1 _ _ _ is) \<Rightarrow> generateEditableToml T is),
      fs_instructions = (case variation of Some (VariationV1 _ _ _ is) \<Rightarrow> is | _ \<Rightarrow> []),
      fs_codeError = None,
      fs_maxGasSpend = (case variation of Some (VariationV1 _ g _ _) \<Rightarrow> integer_toString g | _ \<Rightarrow> ''1000000''),
      fs_paymasterFeeLamports = (case variation of Some (VariationV1 _ _ f _) \<Rightarrow> fee_text f | _ \<Rightarrow> [])\<rparr>"

record baseline =
  bl_code :: string
  bl_instructions :: "InstructionConstraint list"
  bl_maxGasSpend :: string
  bl_name :: string
  bl_paymasterFeeLamports :: string

definition baseline_of :: "text_lib \<Rightarrow> Variation option \<Rightarrow> bool \<Rightarrow> baseline" where
  "baseline_of T variation isEditingJson = (case variation of
     None \<Rightarrow> \<lparr>bl_code = [], bl_instructions = [], bl_maxGasSpend = ''1000000'', bl_name = [], bl_paymasterFeeLamports = []\<rparr>
   | Some (VariationV0 m ps) \<Rightarrow> \<lparr>bl_code = JSON_stringify T (JArr (map JStr ps)), bl_instructions = [], bl_maxGasSpend = [],
       bl_name = vm_name m, bl_paymasterFeeLamports = []\<rparr>
   | Some (VariationV1 m g f is) \<Rightarrow> \<lparr>bl_code = (if isEditingJson then editable_json T is else generateEditableToml T is),
       bl_instructions = is, bl_maxGasSpend = integer_toString g, bl_name = vm_name m, bl_paymasterFeeLamports = fee_text f\<rparr>)"

definition isDirty :: "text_lib \<Rightarrow> Variation option \<Rightarrow> form_state \<Rightarrow> bool" where
  "isDirty T variation st =
     (let b = baseline_of T variation (fs_isEditingJson st) in
      fs_name st \<noteq> bl_name b \<or> fs_maxGasSpend st \<noteq> bl_maxGasSpend b \<or> fs_paymasterFeeLamports st \<noteq> bl_paymasterFeeLamports b \<or>
      (case fs_editorMode st of
         FormMode \<Rightarrow> JSON_stringify T (variations_json (fs_instructions st)) \<noteq> JSON_stringify T (variations_json (bl_instructions b))
       | CodeMode \<Rightarrow> fs_code st \<noteq> bl_code b))"

section \<open>Validation\<close>

text \<open>What can go wrong with a text: an error of a parser, with its message, or issues of the schema.
  \<open>I\<close> gives the issues the schema library reports for a value that does not fit.\<close>

definition parseTomlToObject :: "text_lib \<Rightarrow> (json \<Rightarrow> zod_issue list) \<Rightarrow> string \<Rightarrow> string + InstructionConstraint list" where
  "parseTomlToObject T I value = (case toml_parse T value of
     Inl e \<Rightarrow> Inl (message_of e)
   | Inr j \<Rightarrow> (case required ''domains'' (required ''tx_variations'' (required ''instructions'' TransactionVariations)) j of
       None \<Rightarrow> Inl (formatZodErrors (I j)) | Some is \<Rightarrow> Inr is))"

definition parse_code :: "text_lib \<Rightarrow> (json \<Rightarrow> zod_issue list) \<Rightarrow> bool \<Rightarrow> string \<Rightarrow> string + InstructionConstraint list" where
  "parse_code T I isEditingJson value =
     (if isEditingJson
      then (case JSON_parse T value of
              Inl e \<Rightarrow> Inl (message_of e)
            | Inr j \<Rightarrow> (case TransactionVariations j of None \<Rightarrow> Inl (formatZodErrors (I j)) | Some is \<Rightarrow> Inr is))
      else parseTomlToObject T I value)"

definition validateCode :: "text_lib \<Rightarrow> (json \<Rightarrow> zod_issue list) \<Rightarrow> string \<Rightarrow> form_state \<Rightarrow> InstructionConstraint list option \<times> form_state" where
  "validateCode T I value st = (case parse_code T I (fs_isEditingJson st) value of
     Inl m \<Rightarrow> (None, st\<lparr>fs_codeError := Some m\<rparr>)
   | Inr is \<Rightarrow> (Some is, st\<lparr>fs_codeError := None\<rparr>))"

definition validateInstructions ::
  "(json \<Rightarrow> zod_issue list) \<Rightarrow> InstructionConstraint list \<Rightarrow> form_state \<Rightarrow> InstructionConstraint list option \<times> form_state" where
  "validateInstructions I value st = (case TransactionVariations (variations_json value) of
     None \<Rightarrow> (None, st\<lparr>fs_codeError := Some (formatZodErrors (I (variations_json value)))\<rparr>)
   | Some is \<Rightarrow> (Some is, st\<lparr>fs_codeError := None\<rparr>))"

section \<open>Callbacks\<close>

definition resetForm :: "form_state \<Rightarrow> form_state" where
  "resetForm st = st\<lparr>fs_name := [], fs_maxGasSpend := [], fs_paymasterFeeLamports := [], fs_code := [], fs_instructions := [],
     fs_codeError := None\<rparr>"

definition handleSwitchToCode :: "text_lib \<Rightarrow> (json \<Rightarrow> zod_issue list) \<Rightarrow> form_state \<Rightarrow> form_state" where
  "handleSwitchToCode T I st = (case validateInstructions I (fs_instructions st) st of
     (None, st') \<Rightarrow> st'
   | (Some _, st') \<Rightarrow> st'\<lparr>fs_code := (if fs_instructions st \<noteq> [] \<and> fs_isEditingJson st then editable_json T (fs_instructions st)
         else generateEditableToml T (fs_instructions st)), fs_codeError := None, fs_editorMode := CodeMode\<rparr>)"

definition handleSwitchToForm :: "text_lib \<Rightarrow> (json \<Rightarrow> zod_issue list) \<Rightarrow> form_state \<Rightarrow> form_state" where
  "handleSwitchToForm T I st =
     (if fs_code st = [] then st\<lparr>fs_instructions := [], fs_editorMode := FormMode\<rparr>
      else case validateCode T I (fs_code st) st of
             (None, st') \<Rightarrow> st'
           | (Some is, st') \<Rightarrow> st'\<lparr>fs_instructions := is, fs_editorMode := FormMode\<rparr>)"

definition handleEditorModeToggle :: "text_lib \<Rightarrow> (json \<Rightarrow> zod_issue list) \<Rightarrow> form_state \<Rightarrow> form_state" where
  "handleEditorModeToggle T I st =
     (case fs_editorMode st of FormMode \<Rightarrow> handleSwitchToCode T I st | CodeMode \<Rightarrow> handleSwitchToForm T I st)"

definition handleEditJsonClick :: "text_lib \<Rightarrow> (json \<Rightarrow> zod_issue list) \<Rightarrow> form_state \<Rightarrow> form_state" where
  "handleEditJsonClick T I st =
     (let newIsEditingJson = \<not> fs_isEditingJson st in
      if fs_code st = [] then st\<lparr>fs_isEditingJson := newIsEditingJson\<rparr>
      else case validateCode T I (fs_code st) st of
             (None, st') \<Rightarrow> st'
           | (Some is, st') \<Rightarrow> st'\<lparr>fs_isEditingJson := newIsEditingJson,
               fs_code := (if newIsEditingJson then editable_json T is else generateEditableToml T is)\<rparr>)"

definition handleCodeChange :: "text_lib \<Rightarrow> (json \<Rightarrow> zod_issue list) \<Rightarrow> string \<Rightarrow> form_state \<Rightarrow> form_state" where
  "handleCodeChange T I value st = snd (validateCode T I value (st\<lparr>fs_code := value\<rparr>))"

definition handleFormInstructionsChange :: "(json \<Rightarrow> zod_issue list) \<Rightarrow> InstructionConstraint list \<Rightarrow> form_state \<Rightarrow> form_state" where
  "handleFormInstructionsChange I next st = snd (validateInstructions I next (st\<lparr>fs_instructions := next\<rparr>))"

text \<open>What a submission sends to the server action, or the error it stops with.\<close>

definition submission ::
  "text_lib \<Rightarrow> (json \<Rightarrow> zod_issue list) \<Rightarrow> Variation option \<Rightarrow> string \<Rightarrow> string \<Rightarrow> string \<Rightarrow> form_state \<Rightarrow> save_request result \<times> form_state" where
  "submission T I variation domainConfigId uuid sessionToken st =
     (let (variationObject, st') =
        (case fs_editorMode st of FormMode \<Rightarrow> validateInstructions I (fs_instructions st) st
         | CodeMode \<Rightarrow> validateCode T I (fs_code st) st)
      in case variationObject of
           None \<Rightarrow> (Inl (Error ''Invalid variation''), st')
         | Some is \<Rightarrow> (Inr \<lparr>sv_variationId = map_option (vm_id \<circ> variation_meta) variation, sv_domainConfigId = domainConfigId,
              sv_name = fs_name st, sv_maxGasSpend = fs_maxGasSpend st, sv_paymasterFeeLamports = fs_paymasterFeeLamports st,
              sv_variation = variations_json is, sv_sessionToken = sessionToken, sv_uuid = uuid\<rparr>, st'))"

text \<open>After a successful submission a new card starts over and the card closes.\<close>

definition submitted :: "Variation option \<Rightarrow> bool \<Rightarrow> form_state \<Rightarrow> form_state" where
  "submitted variation mutable st =
     (if mutable \<and> variation = None then resetForm st else st)\<lparr>fs_isExpanded := False\<rparr>"

text \<open>While rendering, the variation for the tester is recomputed; on a text of the second format this
  validates the text and sets the error.\<close>

definition rendered :: "text_lib \<Rightarrow> (json \<Rightarrow> zod_issue list) \<Rightarrow> Variation option \<Rightarrow> form_state \<Rightarrow> form_state" where
  "rendered T I variation st =
     (if isV1 variation \<and> fs_editorMode st = CodeMode \<and> fs_code st \<noteq> [] then snd (validateCode T I (fs_code st) st) else st)"

section \<open>Properties\<close>

text \<open>The two text formats read back what they print for a list of constraints.\<close>

definition texts_invert :: "text_lib \<Rightarrow> InstructionConstraint list \<Rightarrow> bool" where
  "texts_invert T is \<longleftrightarrow> JSON_parse T (editable_json T is) = Inr (variations_json is) \<and>
     toml_parse T (generateEditableToml T is) = Inr (wrap_toml (variations_json is)) \<and>
     editable_json T is \<noteq> [] \<and> generateEditableToml T is \<noteq> []"

lemma parse_code_json:
  "texts_invert T is \<Longrightarrow> list_all wf_instruction is \<Longrightarrow> parse_code T I True (editable_json T is) = Inr is"
  by (simp add: parse_code_def texts_invert_def variations.parse_enc)

lemma parse_code_toml:
  "texts_invert T is \<Longrightarrow> list_all wf_instruction is \<Longrightarrow> parse_code T I False (generateEditableToml T is) = Inr is"
  by (simp add: parse_code_def parseTomlToObject_def texts_invert_def variations.parse_enc wrap_toml_def required_def field_def)


text \<open>A card opened on a variation of the second format has nothing to save.\<close>

lemma opened_clean: "\<not> isDirty T (Some (VariationV1 m g f is)) (initial_form T (Some (VariationV1 m g f is)))"
  by (simp add: isDirty_def initial_form_def baseline_of_def Let_def isV1_def)

lemma fee_text_number:
  assumes "0 \<le> f" "f \<le> MAX_SAFE_INTEGER"
  shows "fee_text (Some (js_int f)) = (if f = 0 then [] else nat_to_string (nat f))"
  using assms by (simp add: fee_text_def integer_toString_def js_int_def int_to_string_def)



section \<open>The format button and an empty form\<close>

definition click :: "text_lib \<Rightarrow> (json \<Rightarrow> zod_issue list) \<Rightarrow> Variation option \<Rightarrow> (form_state \<Rightarrow> form_state) \<Rightarrow> form_state \<Rightarrow> form_state" where
  "click T I variation f st = rendered T I variation (f st)"

text \<open>A new card after the buttons Code, JSON, Form and Code.\<close>

definition after_four_clicks :: "text_lib \<Rightarrow> (json \<Rightarrow> zod_issue list) \<Rightarrow> form_state" where
  "after_four_clicks T I =
     (let toggle = click T I None (handleEditorModeToggle T I); format = click T I None (handleEditJsonClick T I)
      in toggle (toggle (format (toggle (initial_form T None)))))"

lemma after_four_clicks_state:
  assumes "texts_invert T []" and "JSON_parse T (generateEditableToml T []) = Inl e"
  shows "after_four_clicks T I = (initial_form T None)\<lparr>fs_isEditingJson := True, fs_editorMode := CodeMode,
    fs_code := generateEditableToml T [], fs_codeError := Some (message_of e)\<rparr>"
proof -
  have pj: "parse_code T I True (editable_json T []) = Inr []" and pt: "parse_code T I False (generateEditableToml T []) = Inr []"
    using parse_code_json[OF assms(1)] parse_code_toml[OF assms(1)] by simp_all
  have bad: "parse_code T I True (generateEditableToml T []) = Inl (message_of e)"
    using assms(2) by (simp add: parse_code_def)
  have ne: "editable_json T [] \<noteq> []" "generateEditableToml T [] \<noteq> []" using assms(1) by (simp_all add: texts_invert_def)
  show ?thesis
    by (simp add: after_four_clicks_def Let_def click_def rendered_def handleEditorModeToggle_def handleSwitchToCode_def
        handleSwitchToForm_def handleEditJsonClick_def validateCode_def validateInstructions_def initial_form_def isV1_def
        variations.parse_enc pj pt bad ne)
qed

text \<open>With an empty form the format button leads into a dead end. On a new card, the buttons
  Code, JSON, Form, Code leave a TOML text in a card that reads JSON: it shows an error
  although nothing was typed, the Form and the TOML button refuse, and submitting fails.\<close>

theorem empty_form_dead_end:
  assumes "texts_invert T []" and "JSON_parse T (generateEditableToml T []) = Inl e"
  shows "fs_codeError (after_four_clicks T I) \<noteq> None \<and>
    fs_editorMode (handleEditorModeToggle T I (after_four_clicks T I)) = CodeMode \<and>
    fs_isEditingJson (handleEditJsonClick T I (after_four_clicks T I)) \<and>
    fst (submission T I None c u t (after_four_clicks T I)) = Inl (Error ''Invalid variation'')"
proof -
  have bad: "parse_code T I True (generateEditableToml T []) = Inl (message_of e)"
    using assms(2) by (simp add: parse_code_def)
  have ne: "generateEditableToml T [] \<noteq> []" using assms(1) by (simp add: texts_invert_def)
  show ?thesis
    unfolding after_four_clicks_state[OF assms]
    by (simp add: handleEditorModeToggle_def handleSwitchToForm_def handleEditJsonClick_def validateCode_def submission_def bad ne)
qed

definition demo_texts :: text_lib where
  "demo_texts = \<lparr>JSON_stringify = (\<lambda>j. ''J''), JSON_parse = (\<lambda>s. if s = ''J'' then Inr (JArr []) else Inl SyntaxError),
     toml_stringify = (\<lambda>j. ''T''), toml_parse = (\<lambda>s. if s = ''T'' then Inr (wrap_toml (JArr [])) else Inl (Error ''toml''))\<rparr>"

lemma demo_texts_invert: "texts_invert demo_texts []"
  by (simp add: texts_invert_def demo_texts_def editable_json_def generateEditableToml_def variations_json_def)

theorem empty_form_dead_end_witness:
  "fst (submission demo_texts (\<lambda>_. []) None ''c'' ''u'' ''t'' (after_four_clicks demo_texts (\<lambda>_. []))) = Inl (Error ''Invalid variation'')"
proof -
  have "JSON_parse demo_texts (generateEditableToml demo_texts []) = Inl SyntaxError"
    by (simp add: demo_texts_def generateEditableToml_def)
  from empty_form_dead_end[OF demo_texts_invert this] show ?thesis by simp
qed



end
