(* ===== verification/Tx_Validator.thy ===== *)
theory Tx_Validator
  imports Admin_Editor
begin

text \<open>
  Testing a transaction against a variation: \<^verbatim>\<open>lib/transactions.ts\<close> and
  \<^verbatim>\<open>app/api/validate-transaction/route.ts\<close> of \<^verbatim>\<open>apps/paymaster-admin/src\<close>. The route writes a
  configuration file, runs the validator on it and removes the file; requests are served
  concurrently, so these three steps of different requests interleave freely. The validator
  program, the TOML package and the transaction decoder are parameters. The validator's
  output is the sequence of its UTF-8 bytes.
\<close>

section \<open>The input\<close>

record tx_lib =
  tx_normalize :: "string \<Rightarrow> string option"
  tx_bs58_decode :: "string \<Rightarrow> bytes result"

datatype TransactionInput = Serialized string | Hash string

definition normalizeVersionedTransactionBase64 :: "tx_lib \<Rightarrow> string \<Rightarrow> string option" where
  "normalizeVersionedTransactionBase64 X value = (if value = [] then None else tx_normalize X value)"

definition isValidTxHash :: "tx_lib \<Rightarrow> string \<Rightarrow> bool" where
  "isValidTxHash X value = (case tx_bs58_decode X value of Inl _ \<Rightarrow> False | Inr b \<Rightarrow> length b = 64)"

definition parseTransactionInput :: "tx_lib \<Rightarrow> string \<Rightarrow> TransactionInput result" where
  "parseTransactionInput X value =
     (let trimmed = js_trim value in
      if trimmed = [] then Inl (Error ''Transaction input cannot be empty'')
      else if (case normalizeVersionedTransactionBase64 X trimmed of None \<Rightarrow> False | Some s \<Rightarrow> s \<noteq> []) then Inr (Serialized trimmed)
      else if isValidTxHash X trimmed then Inr (Hash trimmed)
      else Inl (Error ''Invalid transaction input''))"

section \<open>The configuration\<close>

definition bool_or_false :: "bool option \<Rightarrow> bool" where
  "bool_or_false b = (case b of None \<Rightarrow> False | Some v \<Rightarrow> v)"

definition toml_instruction :: "InstructionConstraint \<Rightarrow> json" where
  "toml_instruction ix = JObj [(''accounts'', JArr (map account_json (ic_accounts ix))), (''data'', JArr (map data_json (ic_data ix))),
     (''program'', JStr (ic_program ix)), (''required'', JBool (ic_required ix)),
     (''requires_wrapped_native_tokens'', JBool (bool_or_false (ic_requires_wrapped_native_tokens ix)))]"

definition convertToTomlFormat :: "Variation \<Rightarrow> json" where
  "convertToTomlFormat variation = (case variation of
     VariationV0 m ps \<Rightarrow> JObj [(''name'', JStr (vm_name m)), (''version'', JStr ''v0''), (''whitelisted_programs'', JArr (map JStr ps))]
   | VariationV1 m g f is \<Rightarrow> JObj [(''instructions'', JArr (map toml_instruction is)), (''max_gas_spend'', JNum g),
       (''name'', JStr (vm_name m)), (''version'', JStr ''v1'')])"

definition generateConfigToml :: "text_lib \<Rightarrow> string \<Rightarrow> Variation \<Rightarrow> string" where
  "generateConfigToml T domain variation = toml_stringify T
     (JObj [(''domains'', JArr [JObj [(''domain'', JStr domain), (''tx_variations'', JArr [convertToTomlFormat variation])]])])"

section \<open>A request\<close>

record validate_request =
  vq_domain :: string
  vq_network :: string
  vq_input :: string
  vq_variation :: Variation

definition RequestBodySchema :: "zod_lib \<Rightarrow> json \<Rightarrow> validate_request option" where
  "RequestBodySchema Z j = do {
     d \<leftarrow> required ''domain'' (parse_str (\<lambda>s. s \<noteq> [])) j;
     n \<leftarrow> required ''network'' (\<lambda>n. if NetworkEnvironmentSchema n = None then None else any_string n) j;
     i \<leftarrow> required ''transactionInput'' any_string j;
     i' \<leftarrow> (if js_trim i = [] then None else Some (js_trim i));
     v \<leftarrow> required ''variation'' (VariationSchema Z) j;
     Some \<lparr>vq_domain = d, vq_network = n, vq_input = i', vq_variation = v\<rparr>}"

text \<open>What the three steps of a request work on.\<close>

record job =
  jb_path :: string
  jb_config :: string
  jb_args :: "string list"

definition tempPath :: "int \<Rightarrow> string" where
  "tempPath now = ''config-'' @ int_to_string now @ ''.toml''"

definition txFlag :: "TransactionInput \<Rightarrow> string list" where
  "txFlag i = (case i of Serialized v \<Rightarrow> [''--transaction'', v] | Hash v \<Rightarrow> [''--transaction-hash'', v])"

datatype validation = BadRequest | NotStarted js_error | Started job

definition POST_start :: "zod_lib \<Rightarrow> tx_lib \<Rightarrow> text_lib \<Rightarrow> int \<Rightarrow> json \<Rightarrow> validation" where
  "POST_start Z X T now body =
     (case RequestBodySchema Z body of
        None \<Rightarrow> BadRequest
      | Some q \<Rightarrow>
          (case parseTransactionInput X (vq_input q) of
             Inl e \<Rightarrow> NotStarted e
           | Inr parsedInput \<Rightarrow>
               Started \<lparr>jb_path = tempPath now, jb_config = generateConfigToml T (vq_domain q) (vq_variation q),
                 jb_args = [''validate'', ''--config'', tempPath now] @ txFlag parsedInput @
                   [''--domain'', vq_domain q, ''--variation'', vm_name (variation_meta (vq_variation q)), ''--network'', vq_network q]\<rparr>))"

text \<open>\<^verbatim>\<open>s.includes(p)\<close>.\<close>

fun str_includes :: "string \<Rightarrow> string \<Rightarrow> bool" where
  "str_includes p [] = (p = [])"
| "str_includes p (c # s) = (take (length p) (c # s) = p \<or> str_includes p s)"

definition match_mark :: string where
  "match_mark = [CHR 0xE2, CHR 0x9C, CHR 0x85] @ '' Matches''"

datatype verdict = Verdict bool string | ServerError string

text \<open>The validator reads the configuration from the file its arguments name; a missing file is an
  error of the program.\<close>

type_synonym validator = "string option \<Rightarrow> string list \<Rightarrow> string result"

definition POST_answer :: "string result \<Rightarrow> verdict" where
  "POST_answer out = (case out of
     Inr stdout \<Rightarrow> Verdict (str_includes match_mark stdout) stdout
   | Inl e \<Rightarrow> ServerError (''Error validating transaction: '' @ message_of e))"

section \<open>Concurrent requests\<close>

datatype phase = Waiting | Written | Answered verdict | Closed verdict | Crashed

record server =
  sv_files :: "string \<rightharpoonup> string"
  sv_phase :: "nat \<Rightarrow> phase"

text \<open>The steps of request \<open>i\<close>: write the file, run the validator, remove the file. Removing a file
  that is gone rejects, and the request ends with that error.\<close>

inductive server_step :: "validator \<Rightarrow> (nat \<Rightarrow> job) \<Rightarrow> server \<Rightarrow> server \<Rightarrow> bool" for V J where
  file_written: "sv_phase s i = Waiting \<Longrightarrow>
    server_step V J s (s\<lparr>sv_files := (sv_files s)(jb_path (J i) \<mapsto> jb_config (J i)), sv_phase := (sv_phase s)(i := Written)\<rparr>)"
| validated: "sv_phase s i = Written \<Longrightarrow>
    server_step V J s (s\<lparr>sv_phase := (sv_phase s)(i := Answered (POST_answer (V (sv_files s (jb_path (J i))) (jb_args (J i)))))\<rparr>)"
| file_removed: "sv_phase s i = Answered v \<Longrightarrow> sv_files s (jb_path (J i)) \<noteq> None \<Longrightarrow>
    server_step V J s (s\<lparr>sv_files := (sv_files s)(jb_path (J i) := None), sv_phase := (sv_phase s)(i := Closed v)\<rparr>)"
| file_gone: "sv_phase s i = Answered v \<Longrightarrow> sv_files s (jb_path (J i)) = None \<Longrightarrow>
    server_step V J s (s\<lparr>sv_phase := (sv_phase s)(i := Crashed)\<rparr>)"

inductive served :: "validator \<Rightarrow> (nat \<Rightarrow> job) \<Rightarrow> server \<Rightarrow> bool" for V J where
  idle: "served V J \<lparr>sv_files = fs, sv_phase = (\<lambda>_. Waiting)\<rparr>"
| step: "served V J s \<Longrightarrow> server_step V J s t \<Longrightarrow> served V J t"

text \<open>The answer of a request that is served alone.\<close>

definition own_answer :: "validator \<Rightarrow> job \<Rightarrow> verdict" where
  "own_answer V j = POST_answer (V (Some (jb_config j)) (jb_args j))"

definition phase_ok :: "validator \<Rightarrow> job \<Rightarrow> string option \<Rightarrow> phase \<Rightarrow> bool" where
  "phase_ok V j f p = (case p of
     Waiting \<Rightarrow> True
   | Written \<Rightarrow> f = Some (jb_config j)
   | Answered v \<Rightarrow> f = Some (jb_config j) \<and> v = own_answer V j
   | Closed v \<Rightarrow> v = own_answer V j
   | Crashed \<Rightarrow> False)"

definition isolated :: "validator \<Rightarrow> (nat \<Rightarrow> job) \<Rightarrow> server \<Rightarrow> bool" where
  "isolated V J s \<longleftrightarrow> (\<forall>i. phase_ok V (J i) (sv_files s (jb_path (J i))) (sv_phase s i))"

lemma phase_ok_simps [simp]:
  "phase_ok V j f Waiting" "phase_ok V j f Written \<longleftrightarrow> f = Some (jb_config j)"
  "phase_ok V j f (Answered v) \<longleftrightarrow> f = Some (jb_config j) \<and> v = own_answer V j"
  "phase_ok V j f (Closed v) \<longleftrightarrow> v = own_answer V j" "\<not> phase_ok V j f Crashed"
  by (simp_all add: phase_ok_def)

lemma isolated_step:
  assumes "server_step V J s t" and "inj (\<lambda>i. jb_path (J i))" and "isolated V J s"
  shows "isolated V J t"
proof -
  have other: "jb_path (J k) = jb_path (J i) \<longleftrightarrow> k = i" for k i using assms(2) by (auto dest: injD)
  have ok: "phase_ok V (J k) (sv_files s (jb_path (J k))) (sv_phase s k)" for k
    using assms(3) by (simp add: isolated_def)
  show ?thesis
    using assms(1)
  proof cases
    case (file_written i)
    with ok show ?thesis by (simp add: isolated_def other)
  next
    case (validated i)
    with ok[of i] have "sv_files s (jb_path (J i)) = Some (jb_config (J i))" by simp
    with validated ok show ?thesis by (simp add: isolated_def own_answer_def)
  next
    case (file_removed i v)
    with ok[of i] ok show ?thesis by (simp add: isolated_def other)
  next
    case (file_gone i v)
    with ok[of i] show ?thesis by simp
  qed
qed

lemma isolated_served:
  assumes "served V J s" and "inj (\<lambda>i. jb_path (J i))"
  shows "isolated V J s"
  using assms(1)
proof induction
  case (idle fs)
  then show ?case by (simp add: isolated_def)
next
  case (step s t)
  then show ?case using isolated_step[OF _ assms(2)] by blast
qed

lemma int_to_string_inj: "int_to_string a = int_to_string b \<longleftrightarrow> a = b"
proof -
  have "CHR ''-'' # s \<noteq> nat_to_string n" "nat_to_string n \<noteq> CHR ''-'' # s" for s n
    using nat_to_string_dec[of n] by (metis list.pred_inject(2) not_is_dec(3))+
  then show ?thesis by (auto simp: int_to_string_def dest: nat_to_string_inj split: if_splits)
qed

lemma tempPath_inj: "tempPath a = tempPath b \<longleftrightarrow> a = b"
  by (simp add: tempPath_def int_to_string_inj)

section \<open>Properties\<close>

lemma started_path: "POST_start Z X T now body = Started j \<Longrightarrow> jb_path j = tempPath now"
  by (auto simp: POST_start_def split: option.splits sum.splits)

text \<open>C27: concurrent tests do not disturb each other as long as no two start in the same millisecond.
  Whatever the interleaving, every answer is the validator's verdict on the request's own
  configuration, and no request fails because its file is gone.\<close>

theorem validations_isolated:
  assumes "\<And>i. POST_start Z X T (time i) (body i) = Started (J i)" and "inj time" and "served V J s"
  shows "sv_phase s i \<noteq> Crashed \<and> (\<forall>v. sv_phase s i = Answered v \<or> sv_phase s i = Closed v \<longrightarrow> v = own_answer V (J i))"
proof -
  have "jb_path (J i) = tempPath (time i)" for i by (rule started_path[OF assms(1)])
  then have "inj (\<lambda>i. jb_path (J i))" using assms(2) by (auto simp: inj_def tempPath_inj)
  from isolated_served[OF assms(3) this] have "phase_ok V (J i) (sv_files s (jb_path (J i))) (sv_phase s i)"
    by (simp add: isolated_def)
  then show ?thesis by (auto simp: phase_ok_def split: phase.splits)
qed

text \<open>Two tests that start in the same millisecond share one file. The first can then be answered
  with the verdict on the second's configuration, and the one that finishes last fails because
  the other has removed the file.\<close>

theorem same_millisecond_mixes:
  assumes "\<And>i. POST_start Z X T (time i) (body i) = Started (J i)" and "time 0 = time 1"
  shows "\<exists>s. served V J s \<and> sv_phase s 0 = Closed (POST_answer (V (Some (jb_config (J 1))) (jb_args (J 0)))) \<and> sv_phase s 1 = Crashed"
proof -
  have path: "jb_path (J 0) = jb_path (J 1)" using started_path[OF assms(1)] assms(2) by simp
  let ?p = "jb_path (J 1)"
  let ?v0 = "POST_answer (V (Some (jb_config (J 1))) (jb_args (J 0)))" and ?v1 = "POST_answer (V (Some (jb_config (J 1))) (jb_args (J 1)))"
  let ?s0 = "\<lparr>sv_files = Map.empty, sv_phase = (\<lambda>_. Waiting)\<rparr>"
  let ?s1 = "\<lparr>sv_files = [?p \<mapsto> jb_config (J 0)], sv_phase = (\<lambda>_. Waiting)(0 := Written)\<rparr>"
  let ?s2 = "\<lparr>sv_files = [?p \<mapsto> jb_config (J 1)], sv_phase = (\<lambda>_. Waiting)(0 := Written, 1 := Written)\<rparr>"
  let ?s3 = "\<lparr>sv_files = [?p \<mapsto> jb_config (J 1)], sv_phase = (\<lambda>_. Waiting)(0 := Answered ?v0, 1 := Written)\<rparr>"
  let ?s4 = "\<lparr>sv_files = [?p \<mapsto> jb_config (J 1)], sv_phase = (\<lambda>_. Waiting)(0 := Answered ?v0, 1 := Answered ?v1)\<rparr>"
  let ?s5 = "\<lparr>sv_files = Map.empty, sv_phase = (\<lambda>_. Waiting)(0 := Closed ?v0, 1 := Answered ?v1)\<rparr>"
  let ?s6 = "\<lparr>sv_files = Map.empty, sv_phase = (\<lambda>_. Waiting)(0 := Closed ?v0, 1 := Crashed)\<rparr>"
  have r0: "served V J ?s0" by (rule served.idle)
  have t1: "server_step V J ?s0 ?s1" using server_step.file_written[of ?s0 0 V J] path by simp
  have t2: "server_step V J ?s1 ?s2" using server_step.file_written[of ?s1 1 V J] by simp
  have t3: "server_step V J ?s2 ?s3" using server_step.validated[of ?s2 0 V J] path by (simp add: fun_upd_twist)
  have t4: "server_step V J ?s3 ?s4" using server_step.validated[of ?s3 1 V J] by simp
  have t5: "server_step V J ?s4 ?s5" using server_step.file_removed[of ?s4 0 ?v0 J V] path by (simp add: fun_upd_twist)
  have t6: "server_step V J ?s5 ?s6" using server_step.file_gone[of ?s5 1 ?v1 J V] by simp
  have "served V J ?s6"
    by (rule served.step[OF served.step[OF served.step[OF served.step[OF served.step[OF served.step[OF r0 t1] t2] t3] t4] t5] t6])
  then show ?thesis by (intro exI[of _ ?s6]) simp
qed

text \<open>The test does not see the fee. The configuration the validator is given is the same for
  every fee of the variation, although a paymaster that reads the variation from the database
  asks for the fee.\<close>

theorem tester_ignores_fee:
  "generateConfigToml T domain (VariationV1 m g f is) = generateConfigToml T domain (VariationV1 m g f' is)"
  by (simp add: generateConfigToml_def convertToTomlFormat_def)


definition demo_body :: json where
  "demo_body = JObj [(''domain'', JStr ''d''), (''network'', JStr ''testnet''), (''transactionInput'', JStr ''x''),
     (''variation'', JObj [(''created_at'', JStr ''t''), (''id'', JStr ''i''), (''name'', JStr ''n''), (''updated_at'', JStr ''t''),
        (''version'', JStr ''v0''), (''transaction_variation'', JArr [])])]"

definition demo_tx :: tx_lib where
  "demo_tx = \<lparr>tx_normalize = Some, tx_bs58_decode = (\<lambda>s. Inr [])\<rparr>"

definition demo_job :: "int \<Rightarrow> job" where
  "demo_job t = \<lparr>jb_path = tempPath t, jb_config = ''T'', jb_args = [''validate'', ''--config'', tempPath t, ''--transaction'', ''x'',
     ''--domain'', ''d'', ''--variation'', ''n'', ''--network'', ''testnet'']\<rparr>"

lemma demo_started: "POST_start demo_zod demo_tx demo_texts t demo_body = Started (demo_job t)"
proof -
  have "js_trim ''x'' = ''x''" by (rule js_trim_id) (simp_all add: is_ws_def)
  then show ?thesis
    by (simp add: POST_start_def RequestBodySchema_def demo_body_def row_fields NetworkEnvironmentSchema_def VariationSchema_def
        VariationV0Schema_def variation_meta_schema_def demo_zod_def parse_arr_def parseTransactionInput_def Let_def
        normalizeVersionedTransactionBase64_def demo_tx_def txFlag_def demo_job_def generateConfigToml_def demo_texts_def)
qed

theorem validations_isolated_witness:
  "\<exists>s. served (\<lambda>f a. Inr (case f of None \<Rightarrow> '''' | Some c \<Rightarrow> c)) (\<lambda>i. demo_job (int i)) s \<and> sv_phase s 0 \<noteq> Crashed"
proof -
  let ?V = "\<lambda>f a. Inr (case f of None \<Rightarrow> '''' | Some c \<Rightarrow> c)" and ?J = "\<lambda>i. demo_job (int i)"
  let ?s = "\<lparr>sv_files = Map.empty, sv_phase = (\<lambda>_. Waiting)\<rparr>"
  have r: "served ?V ?J ?s" by (rule served.idle)
  have "inj int" by (simp add: inj_def)
  from validations_isolated[OF demo_started this r, of 0] r show ?thesis by blast
qed

theorem same_millisecond_mixes_witness:
  "\<exists>s. served (\<lambda>f a. Inr (case f of None \<Rightarrow> '''' | Some c \<Rightarrow> c)) (\<lambda>i. demo_job 0) s \<and> sv_phase s 1 = Crashed"
  using same_millisecond_mixes[of demo_zod demo_tx demo_texts "\<lambda>_. 0" "\<lambda>_. demo_body" "\<lambda>_. demo_job 0"] demo_started by blast

end
