(* ===== verification/Ledger.thy ===== *)
theory Ledger
  imports Js_Number Solana_Lib
begin

text \<open>
  The hardware wallet of the maintenance scripts, \<^verbatim>\<open>scripts/ts/src/ledger.ts\<close>: the derivation
  path of a \<^verbatim>\<open>usb://ledger\<close> source, the loop that cuts a request into packets of at most 255 bytes,
  and the wallet's signing operations. The USB transport is a parameter that acts on a device state;
  it is called once for each packet.
\<close>

section \<open>Requests\<close>

definition INS_GET_PUBKEY :: byte where "INS_GET_PUBKEY = 5"
definition INS_SIGN_MESSAGE :: byte where "INS_SIGN_MESSAGE = 6"
definition P1_NON_CONFIRM :: byte where "P1_NON_CONFIRM = 0"
definition P1_CONFIRM :: byte where "P1_CONFIRM = 1"
definition P2_EXTEND :: byte where "P2_EXTEND = 1"
definition P2_MORE :: byte where "P2_MORE = 2"
definition MAX_PAYLOAD :: nat where "MAX_PAYLOAD = 255"
definition LEDGER_CLA :: byte where "LEDGER_CLA = 0xe0"

record apdu =
  ap_cla :: byte
  ap_ins :: byte
  ap_p1 :: byte
  ap_p2 :: byte
  ap_buffer :: bytes

type_synonym 'd transport = "apdu \<Rightarrow> 'd \<Rightarrow> bytes result \<times> 'd"

definition packet :: "byte \<Rightarrow> byte \<Rightarrow> byte \<Rightarrow> bytes \<Rightarrow> apdu" where
  "packet i p1 p2 b = \<lparr>ap_cla = LEDGER_CLA, ap_ins = i, ap_p1 = p1, ap_p2 = p2, ap_buffer = b\<rparr>"

text \<open>The loop of \<^verbatim>\<open>send\<close>: \<^verbatim>\<open>p2\<close> and \<^verbatim>\<open>offset\<close> are its variables. The test in front of the loop is
  the loop's own test at offset zero.\<close>

function send_from :: "'d transport \<Rightarrow> byte \<Rightarrow> byte \<Rightarrow> bytes \<Rightarrow> byte \<Rightarrow> nat \<Rightarrow> 'd \<Rightarrow> bytes result \<times> 'd" where
  "send_from T i p1 dat p2 off d =
     (if length dat - off > MAX_PAYLOAD then
        (case T (packet i p1 (or p2 P2_MORE) (take MAX_PAYLOAD (drop off dat))) d of
           (Inl e, d') \<Rightarrow> (Inl e, d')
         | (Inr resp, d') \<Rightarrow>
             if length resp \<noteq> 2 then (Inl (ExternalError ''INCORRECT_DATA''), d')
             else send_from T i p1 dat (or p2 P2_EXTEND) (off + MAX_PAYLOAD) d')
      else
        (case T (packet i p1 p2 (drop off dat)) d of
           (Inl e, d') \<Rightarrow> (Inl e, d')
         | (Inr resp, d') \<Rightarrow> (Inr (take (length resp - 2) resp), d')))"
  by pat_completeness auto
termination
  by (relation "measure (\<lambda>(T, i, p1, dat, p2, off, d). length dat - off)") (auto simp: MAX_PAYLOAD_def)

declare send_from.simps [simp del]

definition send :: "'d transport \<Rightarrow> byte \<Rightarrow> byte \<Rightarrow> bytes \<Rightarrow> 'd \<Rightarrow> bytes result \<times> 'd" where
  "send T i p1 dat d = send_from T i p1 dat 0 0 d"

section \<open>The wallet\<close>

text \<open>What the wallet takes from outside: the serialisation of a transaction, \<^verbatim>\<open>addSignature\<close>, and the
  derivation path of the wallet adapter package.\<close>

record 't ledger_lib =
  lg_message :: "'t \<Rightarrow> bytes result"
  lg_addSignature :: "'t \<Rightarrow> pubkey \<Rightarrow> bytes \<Rightarrow> 't result"
  lg_derivation_path :: "js_number option \<Rightarrow> js_number option \<Rightarrow> bytes"

record ledger_wallet =
  lw_path :: bytes
  lw_publicKey :: pubkey

definition getPublicKey :: "solana_lib \<Rightarrow> 'd transport \<Rightarrow> bytes \<Rightarrow> 'd \<Rightarrow> pubkey result \<times> 'd" where
  "getPublicKey L T path d =
     (let (r, d') = send T INS_GET_PUBKEY P1_NON_CONFIRM path d in (bind_result r (publicKeyOfBytes L), d'))"

definition signTransaction :: "'t ledger_lib \<Rightarrow> 'd transport \<Rightarrow> 't \<Rightarrow> bytes \<Rightarrow> 'd \<Rightarrow> bytes result \<times> 'd" where
  "signTransaction G T tx path d =
     (case lg_message G tx of
        Inl e \<Rightarrow> (Inl e, d)
      | Inr message \<Rightarrow> send T INS_SIGN_MESSAGE P1_CONFIRM ([1] @ path @ message) d)"

definition create :: "solana_lib \<Rightarrow> 't ledger_lib \<Rightarrow> 'd transport \<Rightarrow> js_number option \<Rightarrow> js_number option \<Rightarrow> 'd \<Rightarrow>
    ledger_wallet result \<times> 'd" where
  "create L G T account change d =
     (let path = lg_derivation_path G account change; (r, d') = getPublicKey L T path d in
      (bind_result r (\<lambda>pk. Inr \<lparr>lw_path = path, lw_publicKey = pk\<rparr>), d'))"

definition wallet_signTransaction :: "'t ledger_lib \<Rightarrow> 'd transport \<Rightarrow> ledger_wallet \<Rightarrow> 't \<Rightarrow> 'd \<Rightarrow> 't result \<times> 'd" where
  "wallet_signTransaction G T w tx d =
     (let (r, d') = signTransaction G T tx (lw_path w) d in
      (bind_result r (lg_addSignature G tx (lw_publicKey w)), d'))"

text \<open>The transactions are signed in place, one after the other; the first failure ends the loop.\<close>

fun signAllTransactions :: "'t ledger_lib \<Rightarrow> 'd transport \<Rightarrow> ledger_wallet \<Rightarrow> 't list \<Rightarrow> 'd \<Rightarrow> 't list result \<times> 'd" where
  "signAllTransactions G T w [] d = (Inr [], d)"
| "signAllTransactions G T w (tx # txs) d =
     (case wallet_signTransaction G T w tx d of
        (Inl e, d') \<Rightarrow> (Inl e, d')
      | (Inr tx', d') \<Rightarrow>
          (case signAllTransactions G T w txs d' of
             (Inl e, d'') \<Rightarrow> (Inl e, d'')
           | (Inr txs', d'') \<Rightarrow> (Inr (tx' # txs'), d'')))"

text \<open>The derivation path; the argument is the parameter \<^verbatim>\<open>key\<close> of the parsed URL.\<close>

definition parseDerivationPath :: "string option \<Rightarrow> (js_number option \<times> js_number option) result" where
  "parseDerivationPath key =
     (case key of
        None \<Rightarrow> Inr (None, None)
      | Some k \<Rightarrow>
          (case split_on (CHR ''/'') k of
             [a] \<Rightarrow> Inr (Some (js_Number a), None)
           | [a, c] \<Rightarrow> Inr (Some (js_Number a), Some (js_Number c))
           | _ \<Rightarrow> Inl (Error (''The provided derivation path is too long: '' @ k))))"

section \<open>The device's side of the protocol\<close>

text \<open>What the packets mean to the device: a packet without the extend bit starts a new request, one
  with it continues the request; the more bit asks for the rest with an empty answer, and the last
  packet is answered for the whole request. A packet longer than the limit is refused.
  The state is the bytes collected so far.\<close>

definition status_ok :: bytes where "status_ok = [0x90, 0]"

definition reassembling :: "(byte \<Rightarrow> byte \<Rightarrow> bytes \<Rightarrow> bytes result) \<Rightarrow> bytes transport" where
  "reassembling H p buf =
     (if length (ap_buffer p) > 255 \<or> ap_cla p \<noteq> 0xe0 then (Inl (ExternalError ''refused''), buf)
      else
        (let buf' = (if bit (ap_p2 p) 0 then buf else []) @ ap_buffer p in
         if bit (ap_p2 p) 1 then (Inr status_ok, buf')
         else (bind_result (H (ap_ins p) (ap_p1 p) buf') (\<lambda>r. Inr (r @ status_ok)), [])))"

definition request_so_far :: "byte \<Rightarrow> bytes \<Rightarrow> bytes" where
  "request_so_far p2 buf = (if bit p2 0 then buf else [])"

lemma p2_bits:
  assumes "p2 \<in> {0, 1}"
  shows "\<not> bit p2 (Suc 0)" "bit (or p2 P2_MORE) (Suc 0)" "bit (or p2 P2_MORE) 0 = bit p2 0"
    "bit (or p2 P2_EXTEND) 0" "or p2 P2_EXTEND \<in> {0, 1}"
  using assms by (auto simp: P2_MORE_def P2_EXTEND_def bit_or_iff bit_numeral_rec)

lemma status_ok_length [simp]: "length status_ok = 2"
  by (simp add: status_ok_def)

lemma reassembling_more:
  assumes "p2 \<in> {0, 1}" and "length b \<le> 255"
  shows "reassembling H (packet i p1 (or p2 P2_MORE) b) buf = (Inr status_ok, request_so_far p2 buf @ b)"
  using assms(2) p2_bits[OF assms(1)] by (simp add: reassembling_def packet_def LEDGER_CLA_def request_so_far_def Let_def)

lemma reassembling_last:
  assumes "p2 \<in> {0, 1}" and "length b \<le> 255"
  shows "reassembling H (packet i p1 p2 b) buf =
    (bind_result (H i p1 (request_so_far p2 buf @ b)) (\<lambda>r. Inr (r @ status_ok)), [])"
  using assms(2) p2_bits[OF assms(1)] by (simp add: reassembling_def packet_def LEDGER_CLA_def request_so_far_def Let_def)

lemma send_from_reassembled:
  assumes "p2 \<in> {0, 1}"
  shows "send_from (reassembling H) i p1 dat p2 off buf = (H i p1 (request_so_far p2 buf @ drop off dat), [])"
  using assms
proof (induction "reassembling H" i p1 dat p2 off buf rule: send_from.induct)
  case (1 i p1 dat p2 off buf)
  show ?case
  proof (cases "length dat - off > MAX_PAYLOAD")
    case True
    let ?chunk = "take MAX_PAYLOAD (drop off dat)"
    have more: "reassembling H (packet i p1 (or p2 P2_MORE) ?chunk) buf = (Inr status_ok, request_so_far p2 buf @ ?chunk)"
      by (rule reassembling_more[OF 1(2)]) (simp add: MAX_PAYLOAD_def)
    have "send_from (reassembling H) i p1 dat p2 off buf =
        send_from (reassembling H) i p1 dat (or p2 P2_EXTEND) (off + MAX_PAYLOAD) (request_so_far p2 buf @ ?chunk)"
      by (subst send_from.simps) (use True more in simp)
    also have "\<dots> = (H i p1 (request_so_far (or p2 P2_EXTEND) (request_so_far p2 buf @ ?chunk) @ drop (off + MAX_PAYLOAD) dat), [])"
      using 1(1)[OF True more[symmetric]] 1(2) p2_bits[of p2] by simp
    also have "request_so_far (or p2 P2_EXTEND) (request_so_far p2 buf @ ?chunk) = request_so_far p2 buf @ ?chunk"
      using p2_bits(4)[OF 1(2)] by (simp add: request_so_far_def)
    finally show ?thesis by (simp add: add.commute flip: drop_drop)
  next
    case False
    have "reassembling H (packet i p1 p2 (drop off dat)) buf =
        (bind_result (H i p1 (request_so_far p2 buf @ drop off dat)) (\<lambda>r. Inr (r @ status_ok)), [])"
      by (rule reassembling_last[OF 1(2)]) (use False in \<open>simp add: MAX_PAYLOAD_def\<close>)
    with False show ?thesis
      by (subst send_from.simps) (cases "H i p1 (request_so_far p2 buf @ drop off dat)"; simp)
  qed
qed

section \<open>Properties\<close>

text \<open>C15: cutting a request into packets is invisible. Over a device that follows the protocol, refuses
  packets of more than 255 bytes and may hold the rest of an abandoned request, the device
  answers for the whole request, however long it is, and the caller gets that answer or
  that error.\<close>

theorem ledger_send_reassembled:
  "send (reassembling H) i p1 dat buf = (H i p1 dat, [])"
  using send_from_reassembled[of 0] by (simp add: send_def request_so_far_def)

lemma signTransaction_reassembled:
  assumes "lg_message G tx = Inr m"
  shows "signTransaction G (reassembling H) tx path buf = (H INS_SIGN_MESSAGE P1_CONFIRM (1 # path @ m), [])"
  using assms send_from_reassembled[of 0 H] by (simp add: signTransaction_def send_def request_so_far_def)

text \<open>Every transaction of a batch is signed for its own message, with the wallet's key and path,
  and the batch fails with the first refusal.\<close>

theorem ledger_batch_signed:
  assumes "\<And>tx. tx \<in> set txs \<Longrightarrow> lg_message G tx = Inr (m tx)"
  shows "fst (signAllTransactions G (reassembling H) w txs []) =
    traverse (\<lambda>tx. bind_result (H INS_SIGN_MESSAGE P1_CONFIRM (1 # lw_path w @ m tx)) (lg_addSignature G tx (lw_publicKey w))) txs \<and>
    snd (signAllTransactions G (reassembling H) w txs []) = []"
  using assms
proof (induction txs)
  case (Cons tx txs)
  let ?r = "bind_result (H INS_SIGN_MESSAGE P1_CONFIRM (1 # lw_path w @ m tx)) (lg_addSignature G tx (lw_publicKey w))"
  have "wallet_signTransaction G (reassembling H) w tx [] = (?r, [])"
    using Cons.prems by (simp add: wallet_signTransaction_def signTransaction_reassembled)
  with Cons show ?case by (cases ?r) (auto simp: bind_result_def split: sum.splits prod.splits)
qed simp

theorem ledger_batch_signed_witness:
  "fst (signAllTransactions \<lparr>lg_message = (\<lambda>n::nat. Inr (replicate n 7)), lg_addSignature = (\<lambda>n pk s. Inr (length s)), lg_derivation_path = (\<lambda>_ _. [])\<rparr>
     (reassembling (\<lambda>_ _ d. Inr d)) \<lparr>lw_path = [1, 2], lw_publicKey = PublicKey []\<rparr> [4, 300] []) = Inr [7, 303]"
  using ledger_batch_signed[of "[4, 300]" "\<lparr>lg_message = (\<lambda>n::nat. Inr (replicate n 7)), lg_addSignature = (\<lambda>n pk s. Inr (length s)), lg_derivation_path = (\<lambda>_ _. [])\<rparr>"
      "\<lambda>n. replicate n 7" "\<lambda>_ _ d. Inr d" "\<lparr>lw_path = [1, 2], lw_publicKey = PublicKey []\<rparr>"]
  by simp

end
