(* ===== verification/Wallet_Data.thy ===== *)
theory Wallet_Data
  imports Transfers Json_Schema "HOL-Library.Multiset"
begin

text \<open>
  What the wallet panel knows about its tokens (\<^verbatim>\<open>packages/sessions-sdk-react/src\<close>):
  \<^verbatim>\<open>deserialize-public-key.ts\<close>, \<^verbatim>\<open>get-metadata.ts\<close>, \<^verbatim>\<open>hooks/use-token-account-data.ts\<close>,
  \<^verbatim>\<open>hooks/use-token-metadata.ts\<close>, and the four states of \<^verbatim>\<open>useData\<close> in the component library. The
  answers of the node and of the metadata service are parameters; the node's accounts are given
  as the package types them, the metadata as JSON.
\<close>

section \<open>Public keys from outside\<close>

datatype key_like = Key pubkey | KeyText string

datatype 'v key_map = KeyMap "(pubkey \<times> 'v) list" | KeyRecord "(string \<times> 'v) list"

definition deserializePublicKey :: "solana_lib \<Rightarrow> key_like \<Rightarrow> pubkey result" where
  "deserializePublicKey L k = (case k of Key pk \<Rightarrow> Inr pk | KeyText s \<Rightarrow> parsePublicKey L s)"

definition deserializePublicKeyList :: "solana_lib \<Rightarrow> key_like list \<Rightarrow> pubkey list result" where
  "deserializePublicKeyList L ks = traverse (deserializePublicKey L) ks"

definition deserializePublicKeyMap :: "solana_lib \<Rightarrow> 'v key_map \<Rightarrow> (pubkey \<times> 'v) list result" where
  "deserializePublicKeyMap L m =
     (case m of
        KeyMap kvs \<Rightarrow> Inr kvs
      | KeyRecord kvs \<Rightarrow> traverse (\<lambda>(k, v). bind_result (deserializePublicKey L (KeyText k)) (\<lambda>pk. Inr (pk, v))) kvs)"

section \<open>The states of fetched data\<close>

datatype 'a data_state = ErrorState js_error | Loading | Loaded 'a | NotLoaded

text \<open>The error takes precedence, then the first load; fetched values are objects, never falsy.\<close>

definition useData :: "js_error option \<Rightarrow> bool \<Rightarrow> 'a option \<Rightarrow> 'a data_state" where
  "useData err isLoading dat =
     (case err of Some e \<Rightarrow> ErrorState e
      | None \<Rightarrow> if isLoading then Loading else (case dat of Some d \<Rightarrow> Loaded d | None \<Rightarrow> NotLoaded))"

section \<open>Metadata\<close>

record metadata =
  md_image :: string
  md_name :: string
  md_symbol :: "string option"

type_synonym metadata_map = "(string \<times> metadata) list"

definition NETWORK_TO_QUERY_PARAM :: "Network \<Rightarrow> string" where
  "NETWORK_TO_QUERY_PARAM n = (case n of Mainnet \<Rightarrow> ''mainnet'' | Testnet \<Rightarrow> ''testnet'')"

definition any_string :: "json \<Rightarrow> string option" where
  "any_string = parse_str (\<lambda>_. True)"

definition metadata_entry :: "json \<Rightarrow> metadata option" where
  "metadata_entry j =
     Option.bind (required ''image'' any_string j) (\<lambda>i.
     Option.bind (required ''name'' any_string j) (\<lambda>n.
     Option.bind (optional ''symbol'' any_string j) (\<lambda>s.
     Some \<lparr>md_image = i, md_name = n, md_symbol = s\<rparr>)))"

definition metadataSchema :: "json \<Rightarrow> metadata_map option" where
  "metadataSchema j =
     (case j of JObj kvs \<Rightarrow> those (map (\<lambda>(k, v). map_option (Pair k) (metadata_entry v)) kvs) | _ \<Rightarrow> None)"

definition metadata_query :: "string list \<Rightarrow> Network \<Rightarrow> (string \<times> string) list" where
  "metadata_query mints n = map (\<lambda>m. (''mint[]'', m)) mints @ [(''network'', NETWORK_TO_QUERY_PARAM n)]"

definition getMetadata :: "((string \<times> string) list \<Rightarrow> json result) \<Rightarrow> string list \<Rightarrow> Network \<Rightarrow> metadata_map result" where
  "getMetadata ask mints n =
     bind_result (ask (metadata_query mints n)) (\<lambda>j. of_option (ExternalError ''ZodError'') (metadataSchema j))"

section \<open>Token accounts\<close>

record parsed_account =
  pa_mint :: string
  pa_amount :: string
  pa_decimals :: nat
  pa_delegate :: "string option"
  pa_delegatedAmount :: "string option"

record token_account =
  ta_amountInWallet :: int
  ta_decimals :: nat
  ta_delegate :: "string option"
  ta_delegateAmount :: "int option"
  ta_mint :: string

definition account_of :: "parsed_account \<Rightarrow> token_account result" where
  "account_of p =
     bind_result (BigInt (pa_amount p)) (\<lambda>amount.
     bind_result (case pa_delegatedAmount p of None \<Rightarrow> Inr None | Some s \<Rightarrow> bind_result (BigInt s) (\<lambda>i. Inr (Some i))) (\<lambda>dlg.
     Inr \<lparr>ta_amountInWallet = amount, ta_decimals = pa_decimals p, ta_delegate = pa_delegate p,
          ta_delegateAmount = dlg, ta_mint = pa_mint p\<rparr>))"

text \<open>A token without a mint is the native one.\<close>

record Token =
  tk_amountInWallet :: int
  tk_decimals :: nat
  tk_mint :: "pubkey option"
  tk_image :: "string option"
  tk_name :: "string option"
  tk_symbol :: "string option"

definition isNative :: "Token \<Rightarrow> bool" where
  "isNative t = (tk_mint t = None)"

definition native_token :: "int \<Rightarrow> Token" where
  "native_token balance = \<lparr>tk_amountInWallet = balance, tk_decimals = FOGO_DECIMALS, tk_mint = None,
     tk_image = Some ''https://api.fogo.io/tokens/fogo.svg'', tk_name = Some ''Fogo'', tk_symbol = Some ''FOGO''\<rparr>"

definition spl_token :: "solana_lib \<Rightarrow> metadata_map \<Rightarrow> token_account \<Rightarrow> Token result" where
  "spl_token L md a =
     bind_result (parsePublicKey L (ta_mint a)) (\<lambda>mint.
     let m = map_of md (ta_mint a) in
     Inr \<lparr>tk_amountInWallet = ta_amountInWallet a, tk_decimals = ta_decimals a, tk_mint = Some mint,
          tk_image = map_option md_image m, tk_name = map_option md_name m, tk_symbol = Option.bind m md_symbol\<rparr>)"

record session_limit =
  sl_mint :: pubkey
  sl_sessionLimit :: int
  sl_decimals :: nat

definition session_limit_of :: "solana_lib \<Rightarrow> token_account \<Rightarrow> session_limit option result" where
  "session_limit_of L a =
     (case ta_delegateAmount a of
        None \<Rightarrow> Inr None
      | Some n \<Rightarrow> bind_result (parsePublicKey L (ta_mint a)) (\<lambda>mint.
          Inr (Some \<lparr>sl_mint = mint, sl_sessionLimit = n, sl_decimals = ta_decimals a\<rparr>)))"

text \<open>\<^verbatim>\<open>localeCompare\<close> is a parameter; named tokens come before the ones without a name.\<close>

definition mint_string :: "solana_lib \<Rightarrow> Token \<Rightarrow> string" where
  "mint_string L t = (case tk_mint t of Some m \<Rightarrow> toBase58 L m | None \<Rightarrow> [])"

definition compare_tokens :: "solana_lib \<Rightarrow> (string \<Rightarrow> string \<Rightarrow> int) \<Rightarrow> Token \<Rightarrow> Token \<Rightarrow> int" where
  "compare_tokens L lc a b =
     (case tk_name a of
        None \<Rightarrow> (case tk_name b of None \<Rightarrow> lc (mint_string L a) (mint_string L b) | Some _ \<Rightarrow> 1)
      | Some x \<Rightarrow> (case tk_name b of None \<Rightarrow> -1 | Some y \<Rightarrow> lc x y))"

text \<open>\<^verbatim>\<open>toSorted\<close>: the stable sort for a comparison whose result is not positive when the first
  argument may stay in front.\<close>

fun insert_by :: "('a \<Rightarrow> 'a \<Rightarrow> int) \<Rightarrow> 'a \<Rightarrow> 'a list \<Rightarrow> 'a list" where
  "insert_by cmp x [] = [x]"
| "insert_by cmp x (y # ys) = (if cmp x y \<le> 0 then x # y # ys else y # insert_by cmp x ys)"

definition toSorted :: "('a \<Rightarrow> 'a \<Rightarrow> int) \<Rightarrow> 'a list \<Rightarrow> 'a list" where
  "toSorted cmp xs = foldr (insert_by cmp) xs []"

record wallet_rpc =
  wr_lib :: solana_lib
  wr_localeCompare :: "string \<Rightarrow> string \<Rightarrow> int"
  wr_getBalance :: "pubkey \<Rightarrow> int result"
  wr_accounts :: "pubkey \<Rightarrow> parsed_account list result"
  wr_fetch :: "(string \<times> string) list \<Rightarrow> json result"

record TokenAccountData =
  tad_sessionLimits :: "session_limit list"
  tad_tokensInWallet :: "Token list"

definition session_limits_of :: "solana_lib \<Rightarrow> pubkey option \<Rightarrow> token_account list \<Rightarrow> session_limit list result" where
  "session_limits_of L sKey accounts =
     (case sKey of
        None \<Rightarrow> Inr []
      | Some key \<Rightarrow>
          bind_result (traverse (session_limit_of L)
            (filter (\<lambda>a. ta_delegate a = Some (toBase58 L key) \<and> ta_delegateAmount a \<noteq> Some 0) accounts))
            (\<lambda>ls. Inr (List.map_filter id ls)))"

definition tokens_of :: "wallet_rpc \<Rightarrow> metadata_map \<Rightarrow> int \<Rightarrow> token_account list \<Rightarrow> Token list result" where
  "tokens_of R md nativeBalance accounts =
     bind_result (traverse (spl_token (wr_lib R) md) (filter (\<lambda>a. ta_amountInWallet a \<noteq> 0) accounts)) (\<lambda>ts.
     Inr ((if nativeBalance = 0 then [] else [native_token nativeBalance]) @
          toSorted (compare_tokens (wr_lib R) (wr_localeCompare R)) ts))"

text \<open>The session key is given when the session is established.\<close>

definition getTokenAccounts :: "wallet_rpc \<Rightarrow> Network \<Rightarrow> pubkey \<Rightarrow> pubkey option \<Rightarrow> TokenAccountData result" where
  "getTokenAccounts R n wallet sKey =
     bind_result (wr_getBalance R wallet) (\<lambda>nativeBalance.
     bind_result (wr_accounts R wallet) (\<lambda>unparsed.
     bind_result (traverse account_of unparsed) (\<lambda>accounts.
     bind_result (getMetadata (wr_fetch R) (map ta_mint accounts) n) (\<lambda>md.
     bind_result (session_limits_of (wr_lib R) sKey accounts) (\<lambda>ls.
     bind_result (tokens_of R md nativeBalance accounts) (\<lambda>ts.
     Inr \<lparr>tad_sessionLimits = ls, tad_tokensInWallet = ts\<rparr>))))))"

text \<open>The key under which the panel caches this data names the wallet and the network, not the session.\<close>

definition tokenDataCacheKey :: "solana_lib \<Rightarrow> Network \<Rightarrow> pubkey \<Rightarrow> string \<times> Network \<times> string" where
  "tokenDataCacheKey L n wallet = (''tokenAccountData'', n, toBase58 L wallet)"

record token_metadata =
  tm_decimals :: nat
  tm_name :: "string option"
  tm_symbol :: "string option"

definition getTokenMetadata ::
  "solana_lib \<Rightarrow> (pubkey \<Rightarrow> nat result) \<Rightarrow> ((string \<times> string) list \<Rightarrow> json result) \<Rightarrow> pubkey \<Rightarrow> Network \<Rightarrow> token_metadata result" where
  "getTokenMetadata L getMint ask mint n =
     bind_result (getMint mint) (\<lambda>decimals.
     bind_result (getMetadata ask [toBase58 L mint] n) (\<lambda>md.
     let m = map_of md (toBase58 L mint) in
     Inr \<lparr>tm_decimals = decimals, tm_name = map_option md_name m, tm_symbol = Option.bind m md_symbol\<rparr>))"

text \<open>The balance of a token by its mint, as the pages look it up: the first entry decides.\<close>

definition balance_of :: "Token list \<Rightarrow> pubkey \<Rightarrow> int" where
  "balance_of ts m = (case List.find (\<lambda>t. \<not> isNative t \<and> tk_mint t = Some m) ts of
     Some t \<Rightarrow> tk_amountInWallet t | None \<Rightarrow> 0)"


section \<open>Sorting\<close>

definition comparison :: "('a \<Rightarrow> 'a \<Rightarrow> int) \<Rightarrow> bool" where
  "comparison cmp \<longleftrightarrow> (\<forall>x y. cmp x y > 0 \<longrightarrow> cmp y x \<le> 0) \<and> (\<forall>x y z. cmp x y \<le> 0 \<longrightarrow> cmp y z \<le> 0 \<longrightarrow> cmp x z \<le> 0)"

lemma comparison_flip: "comparison cmp \<Longrightarrow> \<not> cmp x y \<le> 0 \<Longrightarrow> cmp y x \<le> 0"
  by (simp add: comparison_def)

lemma comparison_trans: "comparison cmp \<Longrightarrow> cmp x y \<le> 0 \<Longrightarrow> cmp y z \<le> 0 \<Longrightarrow> cmp x z \<le> 0"
  unfolding comparison_def by blast

lemma mset_insert_by [simp]: "mset (insert_by cmp x ys) = add_mset x (mset ys)"
  by (induction ys) auto

lemma mset_toSorted [simp]: "mset (toSorted cmp xs) = mset xs"
  by (induction xs) (simp_all add: toSorted_def)

lemma set_toSorted [simp]: "set (toSorted cmp xs) = set xs"
  by (metis mset_toSorted set_mset_mset)

lemma set_insert_by: "set (insert_by cmp x ys) = insert x (set ys)"
  by (metis mset_insert_by set_mset_add_mset_insert set_mset_mset)

lemma sorted_insert_by:
  assumes "comparison cmp" and "sorted_wrt (\<lambda>a b. cmp a b \<le> 0) ys"
  shows "sorted_wrt (\<lambda>a b. cmp a b \<le> 0) (insert_by cmp x ys)"
  using assms(2)
proof (induction ys)
  case (Cons y ys)
  show ?case
  proof (cases "cmp x y \<le> 0")
    case True
    with Cons.prems comparison_trans[OF assms(1) True] show ?thesis by auto
  next
    case False
    with Cons comparison_flip[OF assms(1) False] show ?thesis by (auto simp: set_insert_by)
  qed
qed simp

lemma sorted_toSorted: "comparison cmp \<Longrightarrow> sorted_wrt (\<lambda>a b. cmp a b \<le> 0) (toSorted cmp xs)"
  by (induction xs) (simp_all add: toSorted_def sorted_insert_by)

lemma compare_tokens_comparison: "comparison lc \<Longrightarrow> comparison (compare_tokens L lc)"
proof -
  assume lc: "comparison lc"
  have "compare_tokens L lc y x \<le> 0" if "compare_tokens L lc x y > 0" for x y
    using that comparison_flip[OF lc]
    by (cases "tk_name x"; cases "tk_name y") (simp_all add: compare_tokens_def)
  moreover have "compare_tokens L lc x z \<le> 0" if "compare_tokens L lc x y \<le> 0" "compare_tokens L lc y z \<le> 0" for x y z
    using that comparison_trans[OF lc]
    by (cases "tk_name x"; cases "tk_name y"; cases "tk_name z") (simp_all add: compare_tokens_def)
  ultimately show ?thesis by (simp add: comparison_def)
qed

section \<open>Reading the accounts\<close>

lemma traverse_map: "traverse f xs = Inr ys \<Longrightarrow> (\<And>x y. f x = Inr y \<Longrightarrow> g y = h x) \<Longrightarrow> map g ys = map h xs"
  by (induction xs arbitrary: ys) (auto simp: bind_result_eq_Inr)

lemma traverse_member: "traverse f xs = Inr ys \<Longrightarrow> y \<in> set ys \<Longrightarrow> \<exists>x \<in> set xs. f x = Inr y"
  by (induction xs arbitrary: ys) (auto simp: bind_result_eq_Inr)

lemma spl_token_Inr:
  assumes "spl_token L md a = Inr t"
  shows "\<exists>m. parsePublicKey L (ta_mint a) = Inr m \<and> tk_mint t = Some m" "tk_amountInWallet t = ta_amountInWallet a" "\<not> isNative t"
  using assms by (auto simp: spl_token_def bind_result_eq_Inr Let_def isNative_def)

lemma account_of_Inr:
  assumes "account_of p = Inr a"
  shows "BigInt (pa_amount p) = Inr (ta_amountInWallet a)" "ta_mint a = pa_mint p" "ta_delegate a = pa_delegate p"
    "case pa_delegatedAmount p of None \<Rightarrow> ta_delegateAmount a = None | Some s \<Rightarrow> (\<exists>i. BigInt s = Inr i \<and> ta_delegateAmount a = Some i)"
  using assms by (auto simp: account_of_def bind_result_eq_Inr split: option.splits)

definition total_of :: "pubkey \<Rightarrow> Token list \<Rightarrow> int" where
  "total_of m ts = sum_list (map tk_amountInWallet (filter (\<lambda>t. tk_mint t = Some m) ts))"

definition account_total :: "solana_lib \<Rightarrow> pubkey \<Rightarrow> parsed_account list \<Rightarrow> int" where
  "account_total L m ps =
     sum_list (map (\<lambda>p. projr (BigInt (pa_amount p))) (filter (\<lambda>p. parsePublicKey L (pa_mint p) = Inr m) ps))"

lemma total_of_mset: "mset ts = mset ts' \<Longrightarrow> total_of m ts = total_of m ts'"
proof -
  assume "mset ts = mset ts'"
  then have "mset (map tk_amountInWallet (filter (\<lambda>t. tk_mint t = Some m) ts)) =
      mset (map tk_amountInWallet (filter (\<lambda>t. tk_mint t = Some m) ts'))" by simp
  then show ?thesis unfolding total_of_def by (metis sum_mset_sum_list)
qed

lemma total_of_accounts:
  "traverse account_of ps = Inr accs \<Longrightarrow> traverse (spl_token L md) (filter (\<lambda>a. ta_amountInWallet a \<noteq> 0) accs) = Inr ts \<Longrightarrow>
   total_of m ts = account_total L m ps"
proof (induction ps arbitrary: accs ts)
  case (Cons p ps)
  from Cons.prems(1) obtain a accs' where a: "account_of p = Inr a" and accs': "traverse account_of ps = Inr accs'"
    and accs: "accs = a # accs'" by (auto simp: bind_result_eq_Inr)
  have rest: "total_of m us = account_total L m ps"
    if "traverse (spl_token L md) (filter (\<lambda>a. ta_amountInWallet a \<noteq> 0) accs') = Inr us" for us
    using Cons.IH[OF accs' that] .
  show ?case
  proof (cases "ta_amountInWallet a = 0")
    case True
    with Cons.prems(2) accs rest account_of_Inr(1)[OF a] show ?thesis by (simp add: account_total_def)
  next
    case False
    with Cons.prems(2) accs obtain t us where t: "spl_token L md a = Inr t"
      and us: "traverse (spl_token L md) (filter (\<lambda>a. ta_amountInWallet a \<noteq> 0) accs') = Inr us" and ts: "ts = t # us"
      by (auto simp: bind_result_eq_Inr)
    from spl_token_Inr[OF t] account_of_Inr[OF a] rest[OF us] ts show ?thesis
      by (auto simp: total_of_def account_total_def)
  qed
qed (simp add: total_of_def account_total_def)

text \<open>A positive entry of the session limits is a delegation to the session's key.\<close>

definition delegated :: "solana_lib \<Rightarrow> pubkey \<Rightarrow> parsed_account \<Rightarrow> pubkey \<Rightarrow> int \<Rightarrow> bool" where
  "delegated L key p m n \<longleftrightarrow> pa_delegate p = Some (toBase58 L key) \<and> parsePublicKey L (pa_mint p) = Inr m \<and> n \<noteq> 0 \<and>
     (case pa_delegatedAmount p of None \<Rightarrow> False | Some s \<Rightarrow> BigInt s = Inr n)"

lemma session_limits_of_delegated:
  assumes "traverse account_of ps = Inr accs" and "session_limits_of L (Some key) accs = Inr ls"
  shows "(\<exists>l \<in> set ls. sl_mint l = m \<and> sl_sessionLimit l = n) \<longleftrightarrow> (\<exists>p \<in> set ps. delegated L key p m n)"
proof -
  let ?P = "\<lambda>a. ta_delegate a = Some (toBase58 L key) \<and> ta_delegateAmount a \<noteq> Some 0"
  obtain os where os: "traverse (session_limit_of L) (filter ?P accs) = Inr os" "ls = List.map_filter id os"
    using assms(2) by (auto simp: session_limits_of_def bind_result_eq_Inr)
  have each: "(\<exists>l \<in> set ls. sl_mint l = m \<and> sl_sessionLimit l = n) \<longleftrightarrow>
      (\<exists>a \<in> set accs. ?P a \<and> ta_delegateAmount a = Some n \<and> parsePublicKey L (ta_mint a) = Inr m)"
    using os
  proof (induction accs arbitrary: os ls)
    case (Cons a accs)
    show ?case
    proof (cases "?P a")
      case False
      with Cons.IH Cons.prems show ?thesis by auto
    next
      case True
      with Cons.prems(1) obtain x os' where x: "session_limit_of L a = Inr x"
        and os': "traverse (session_limit_of L) (filter ?P accs) = Inr os'" and os: "os = x # os'"
        by (auto simp: bind_result_eq_Inr)
      have IH: "(\<exists>l \<in> set (List.map_filter id os'). sl_mint l = m \<and> sl_sessionLimit l = n) \<longleftrightarrow>
          (\<exists>a \<in> set accs. ?P a \<and> ta_delegateAmount a = Some n \<and> parsePublicKey L (ta_mint a) = Inr m)"
        by (rule Cons.IH[OF os' refl])
      have "ls = (case x of None \<Rightarrow> [] | Some l \<Rightarrow> [l]) @ List.map_filter id os'"
        using Cons.prems(2) os by (simp add: List.map_filter_simps id_def split: option.splits)
      moreover have "(\<exists>l \<in> set (case x of None \<Rightarrow> [] | Some l \<Rightarrow> [l]). sl_mint l = m \<and> sl_sessionLimit l = n) \<longleftrightarrow>
          ta_delegateAmount a = Some n \<and> parsePublicKey L (ta_mint a) = Inr m"
        using x by (cases "ta_delegateAmount a") (auto simp: session_limit_of_def bind_result_eq_Inr)
      ultimately show ?thesis using IH True by auto
    qed
  qed (simp add: List.map_filter_simps)
  have "(\<exists>a \<in> set accs. ?P a \<and> ta_delegateAmount a = Some n \<and> parsePublicKey L (ta_mint a) = Inr m) \<longleftrightarrow>
      (\<exists>p \<in> set ps. delegated L key p m n)"
    using assms(1)
  proof (induction ps arbitrary: accs)
    case (Cons p ps)
    then obtain a accs' where a: "account_of p = Inr a" "traverse account_of ps = Inr accs'" "accs = a # accs'"
      by (auto simp: bind_result_eq_Inr)
    have "(?P a \<and> ta_delegateAmount a = Some n \<and> parsePublicKey L (ta_mint a) = Inr m) = delegated L key p m n"
      using account_of_Inr[OF a(1)] by (auto simp: delegated_def split: option.splits)
    with Cons.IH[OF a(2)] a(3) show ?case by auto
  qed simp
  with each show ?thesis by blast
qed

lemma tokens_of_parts:
  assumes "tokens_of R md b accs = Inr ts"
  shows "\<exists>us. traverse (spl_token (wr_lib R) md) (filter (\<lambda>a. ta_amountInWallet a \<noteq> 0) accs) = Inr us \<and>
    ts = (if b = 0 then [] else [native_token b]) @ toSorted (compare_tokens (wr_lib R) (wr_localeCompare R)) us"
  using assms by (auto simp: tokens_of_def bind_result_eq_Inr)

lemma getTokenAccounts_parts:
  assumes "getTokenAccounts R n w sKey = Inr d" and "wr_accounts R w = Inr ps"
  shows "\<exists>b accs md. wr_getBalance R w = Inr b \<and> traverse account_of ps = Inr accs \<and>
    session_limits_of (wr_lib R) sKey accs = Inr (tad_sessionLimits d) \<and> tokens_of R md b accs = Inr (tad_tokensInWallet d)"
  using assms by (auto simp: getTokenAccounts_def bind_result_eq_Inr)

lemma native_token_total [simp]: "total_of m (native_token b # ts) = total_of m ts"
  by (simp add: total_of_def native_token_def)

lemma spl_tokens_listed:
  assumes "traverse (spl_token L md) (filter (\<lambda>a. ta_amountInWallet a \<noteq> 0) accs) = Inr us" and "t \<in> set us"
  shows "\<not> isNative t" "tk_amountInWallet t \<noteq> 0"
proof -
  obtain a where "a \<in> set (filter (\<lambda>a. ta_amountInWallet a \<noteq> 0) accs)" "spl_token L md a = Inr t"
    using traverse_member[OF assms] by blast
  with spl_token_Inr show "\<not> isNative t" "tk_amountInWallet t \<noteq> 0" by fastforce+
qed

section \<open>Properties\<close>

text \<open>C18: the wallet panel hides nothing and shows no empty balance. The amounts listed for a mint add
  up to what the wallet's accounts of that mint hold, however many accounts there are; the
  list is in the order of the comparison, and the limits shown are exactly the delegations to
  this session's key.\<close>

theorem wallet_shows_everything:
  assumes "getTokenAccounts R n w (Some key) = Inr d" and "wr_accounts R w = Inr ps" and "comparison (wr_localeCompare R)"
  shows "total_of m (tad_tokensInWallet d) = account_total (wr_lib R) m ps \<and>
    list_all (\<lambda>t. tk_amountInWallet t \<noteq> 0) (tad_tokensInWallet d) \<and>
    sorted_wrt (\<lambda>a b. compare_tokens (wr_lib R) (wr_localeCompare R) a b \<le> 0) (filter (\<lambda>t. \<not> isNative t) (tad_tokensInWallet d)) \<and>
    ((\<exists>l \<in> set (tad_sessionLimits d). sl_mint l = m \<and> sl_sessionLimit l = x) \<longleftrightarrow> (\<exists>p \<in> set ps. delegated (wr_lib R) key p m x))"
proof -
  let ?cmp = "compare_tokens (wr_lib R) (wr_localeCompare R)"
  obtain b accs md where b: "traverse account_of ps = Inr accs" "session_limits_of (wr_lib R) (Some key) accs = Inr (tad_sessionLimits d)"
    "tokens_of R md b accs = Inr (tad_tokensInWallet d)" using getTokenAccounts_parts[OF assms(1,2)] by blast
  obtain us where us: "traverse (spl_token (wr_lib R) md) (filter (\<lambda>a. ta_amountInWallet a \<noteq> 0) accs) = Inr us"
    and ts: "tad_tokensInWallet d = (if b = 0 then [] else [native_token b]) @ toSorted ?cmp us"
    using tokens_of_parts[OF b(3)] by blast
  have "total_of m (toSorted ?cmp us) = account_total (wr_lib R) m ps"
    using total_of_mset[of "toSorted ?cmp us" us] total_of_accounts[OF b(1) us] by simp
  then have total: "total_of m (tad_tokensInWallet d) = account_total (wr_lib R) m ps" by (simp add: ts)
  have "filter (\<lambda>t. \<not> isNative t) (toSorted ?cmp us) = toSorted ?cmp us"
    using spl_tokens_listed(1)[OF us] by (intro filter_True) simp
  then have spl: "filter (\<lambda>t. \<not> isNative t) (tad_tokensInWallet d) = toSorted ?cmp us"
    by (simp add: ts isNative_def native_token_def)
  have "list_all (\<lambda>t. tk_amountInWallet t \<noteq> 0) (tad_tokensInWallet d)"
    using spl_tokens_listed(2)[OF us] by (auto simp: ts list_all_iff native_token_def)
  with total spl sorted_toSorted[OF compare_tokens_comparison[OF assms(3)]] session_limits_of_delegated[OF b(1,2)]
  show ?thesis by metis
qed

definition demo_account :: "string \<Rightarrow> string \<Rightarrow> parsed_account" where
  "demo_account m a = \<lparr>pa_mint = m, pa_amount = a, pa_decimals = 6, pa_delegate = None, pa_delegatedAmount = None\<rparr>"

definition demo_rpc :: wallet_rpc where
  "demo_rpc = \<lparr>wr_lib = demo_lib\<lparr>parsePublicKey := (\<lambda>s. Inr (PublicKey (map of_char s)))\<rparr>, wr_localeCompare = (\<lambda>_ _. 0),
     wr_getBalance = (\<lambda>_. Inr 5), wr_accounts = (\<lambda>_. Inr [demo_account ''A'' ''0x3'', demo_account ''B'' ''0x0'', demo_account ''A'' ''0x4'']),
     wr_fetch = (\<lambda>_. Inr (JObj []))\<rparr>"

theorem wallet_shows_everything_witness:
  "\<exists>d. getTokenAccounts demo_rpc Testnet (PublicKey []) (Some (PublicKey [1])) = Inr d \<and>
     total_of (PublicKey [65]) (tad_tokensInWallet d) = 7"
proof -
  have nums: "BigInt ''0x3'' = Inr 3" "BigInt ''0x0'' = Inr 0" "BigInt ''0x4'' = Inr 4" by code_simp+
  have "\<exists>d. getTokenAccounts demo_rpc Testnet (PublicKey []) (Some (PublicKey [1])) = Inr d"
    by (simp add: getTokenAccounts_def demo_rpc_def demo_account_def account_of_def nums getMetadata_def metadataSchema_def
        session_limits_of_def tokens_of_def spl_token_def Let_def)
  then obtain d where d: "getTokenAccounts demo_rpc Testnet (PublicKey []) (Some (PublicKey [1])) = Inr d" by blast
  have "comparison (wr_localeCompare demo_rpc)" by (simp add: comparison_def demo_rpc_def)
  moreover have acc: "wr_accounts demo_rpc (PublicKey []) = Inr [demo_account ''A'' ''0x3'', demo_account ''B'' ''0x0'', demo_account ''A'' ''0x4'']"
    by (simp add: demo_rpc_def)
  ultimately have "total_of (PublicKey [65]) (tad_tokensInWallet d) = account_total (wr_lib demo_rpc) (PublicKey [65])
      [demo_account ''A'' ''0x3'', demo_account ''B'' ''0x0'', demo_account ''A'' ''0x4'']"
    using wallet_shows_everything[OF d acc] by blast
  also have "\<dots> = 7" by (simp add: account_total_def demo_rpc_def demo_account_def nums)
  finally show ?thesis using d by blast
qed

end
