(* ===== verification/Wallet_Forms.thy ===== *)
theory Wallet_Forms
  imports Wallet_Data
begin

text \<open>
  The forms of the wallet panel that move tokens
  (\<^verbatim>\<open>packages/sessions-sdk-react/src/components\<close>): \<^verbatim>\<open>send-token-page.tsx\<close>,
  \<^verbatim>\<open>withdraw-page.tsx\<close> and \<^verbatim>\<open>deposit-page.tsx\<close>. A page is a function of the fetched data; a form has a
  state and handlers. A form submits only when all its fields are enabled and valid, as the form library does
  it: an empty required field or a field whose validator returns a message blocks the submission.
\<close>

section \<open>Amount fields\<close>

definition positive_up_to :: "int option \<Rightarrow> amount_bounds" where
  "positive_up_to mx = \<lparr>gt_bound = Some 0, lt_bound = None, max_bound = mx, min_bound = None\<rparr>"

definition amount_field_ok :: "string \<Rightarrow> nat \<Rightarrow> string \<Rightarrow> int \<Rightarrow> string \<Rightarrow> bool" where
  "amount_field_ok syntaxMessage decimals symbol mx value \<longleftrightarrow>
     value \<noteq> [] \<and> validate_amount syntaxMessage decimals symbol (positive_up_to (Some mx)) value = None"

lemma check_positive: "check_bounds d symb (positive_up_to (Some mx)) a = Inr None \<longleftrightarrow> 0 < a \<and> a \<le> mx"
  by (auto simp: check_bounds_def positive_up_to_def exceeds_def bind_result_eq_Inr not_le)

lemma check_positive_no_error: "check_bounds d symb (positive_up_to (Some mx)) a = Inr r \<Longrightarrow> r = None \<Longrightarrow> 0 < a \<and> a \<le> mx"
  using check_positive by blast

lemma amount_field_parses:
  assumes "amount_field_ok m d symb mx s"
  obtains a where "stringToAmount s d = Inr a" "0 < a" "a \<le> mx"
proof (cases "stringToAmount s d")
  case (Inr a)
  with assms have "check_bounds d symb (positive_up_to (Some mx)) a = Inr None"
    by (auto simp: amount_field_ok_def validate_amount_def split: sum.splits)
  with Inr that show thesis by (simp add: check_positive)
qed (use assms in \<open>auto simp: amount_field_ok_def validate_amount_def\<close>)

lemma amount_field_complete:
  assumes "stringToAmount s d = Inr a" and "0 < a" and "a \<le> mx" and "s \<noteq> []"
  shows "amount_field_ok m d symb mx s"
proof -
  have "check_bounds d symb (positive_up_to (Some mx)) a = Inr None" using assms by (simp add: check_positive)
  with assms show ?thesis by (simp add: amount_field_ok_def validate_amount_def)
qed

lemma amount_text_nonempty: "0 \<le> x \<Longrightarrow> sdk_amountToString x d \<noteq> []"
proof -
  assume "0 \<le> x"
  then obtain n where "x = int n" using nonneg_int_cases by blast
  then show ?thesis by (simp add: sdk_amountToString_reference amount_reference_def)
qed

text \<open>The text that a Max button writes.\<close>

lemma max_text:
  assumes "0 \<le> x"
  shows "amountToString x d False = Inr (sdk_amountToString x d)" "stringToAmount (sdk_amountToString x d) d = Inr x"
    "sdk_amountToString x d \<noteq> []"
proof -
  obtain n where "x = int n" using assms nonneg_int_cases by blast
  then show "stringToAmount (sdk_amountToString x d) d = Inr x" by (simp add: sdk_amountToString_reference stringToAmount_reference)
qed (use assms in \<open>simp_all add: amountToString_plain amount_text_nonempty\<close>)

text \<open>What the three forms have in common: a request is made from an amount text that the field
  accepts under the form's limit, and carries the amount of that text.\<close>

locale amount_form =
  fixes submit :: "'c \<Rightarrow> string \<Rightarrow> 'r option" and amount_of :: "'r \<Rightarrow> int" and limit :: "'c \<Rightarrow> int" and places :: "'c \<Rightarrow> nat"
  assumes submitted: "submit c s = Some r \<Longrightarrow> \<exists>m symb. amount_field_ok m (places c) symb (limit c) s \<and> stringToAmount s (places c) = Inr (amount_of r)"
begin

lemma within: "submit c s = Some r \<Longrightarrow> 0 < amount_of r \<and> amount_of r \<le> limit c"
  using submitted by (metis amount_field_parses sum.inject(2))

lemma max_request:
  assumes "submit c s = Some r" and "amountToString (limit c) (places c) False = Inr s"
  shows "amount_of r = limit c"
proof -
  have "0 \<le> limit c" using within[OF assms(1)] by simp
  with submitted[OF assms(1)] assms(2) max_text show ?thesis by (metis sum.inject(2))
qed

lemma no_request: "limit c \<le> 0 \<Longrightarrow> submit c s = None"
  using within by (cases "submit c s") fastforce+

end

section \<open>Sending tokens\<close>

datatype 'f token_page = FetchFailed string js_error | ShortOfFee string "string result" | PageLoading | PageForm 'f

definition short_of_fee :: "fee_config \<Rightarrow> string \<Rightarrow> 'f token_page" where
  "short_of_fee fc what = ShortOfFee (''Not enough '' @ fc_symbolOrMint fc)
     (bind_result (amountToString (fc_fee fc) (fc_decimals fc) True) (\<lambda>s.
        Inr (''You need at least '' @ s @ '' '' @ fc_symbolOrMint fc @ '' to pay network fees to '' @ what @ ''.'')))"

text \<open>The amount that may be sent: the fee is set aside when it is paid in the same token.\<close>

definition maxSendAmount :: "fee_config \<Rightarrow> Token \<Rightarrow> int" where
  "maxSendAmount fc token =
     (if isNative token \<or> tk_mint token \<noteq> Some (fc_mint fc) then tk_amountInWallet token
      else tk_amountInWallet token - fc_fee fc)"

definition SendTokenWithFeeConfig :: "fee_config \<Rightarrow> TokenAccountData data_state \<Rightarrow> Token \<Rightarrow> fee_config token_page" where
  "SendTokenWithFeeConfig fc accounts token =
     (case accounts of
        ErrorState e \<Rightarrow> FetchFailed ''Failed to load token account balance'' e
      | Loaded d \<Rightarrow>
          if \<not> isNative token \<and> balance_of (tad_tokensInWallet d) (fc_mint fc) < fc_fee fc
          then short_of_fee fc ''send tokens'' else PageForm fc
      | _ \<Rightarrow> PageLoading)"

definition SendTokenPage :: "fee_config data_state \<Rightarrow> TokenAccountData data_state \<Rightarrow> Token \<Rightarrow> fee_config token_page" where
  "SendTokenPage fee accounts token =
     (case fee of
        ErrorState e \<Rightarrow> FetchFailed ''Failed to load fee information'' e
      | Loaded fc \<Rightarrow> SendTokenWithFeeConfig fc accounts token
      | _ \<Rightarrow> PageLoading)"

record send_config =
  sd_lib :: solana_lib
  sd_syntaxMessage :: string
  sd_walletPublicKey :: pubkey
  sd_token :: Token
  sd_feeConfig :: fee_config

record send_form =
  sf_amount :: string
  sf_recipient :: string
  sf_isSubmitting :: bool
  sf_showScanner :: bool

definition initial_send_form :: send_form where
  "initial_send_form = \<lparr>sf_amount = [], sf_recipient = [], sf_isSubmitting = False, sf_showScanner = False\<rparr>"

definition validate_recipient :: "solana_lib \<Rightarrow> pubkey \<Rightarrow> string \<Rightarrow> string option" where
  "validate_recipient L wallet value =
     (if value = [] then None
      else case parsePublicKey L value of
        Inl _ \<Rightarrow> Some ''This is not a valid public key address.''
      | Inr pk \<Rightarrow> if pk = wallet then Some ''You cannot send tokens to yourself'' else None)"

definition token_symbol :: "Token \<Rightarrow> string" where
  "token_symbol t = (case tk_symbol t of Some s \<Rightarrow> s | None \<Rightarrow> ''Tokens'')"

definition send_valid :: "send_config \<Rightarrow> send_form \<Rightarrow> bool" where
  "send_valid c st \<longleftrightarrow> sf_recipient st \<noteq> [] \<and> validate_recipient (sd_lib c) (sd_walletPublicKey c) (sf_recipient st) = None \<and>
     amount_field_ok (sd_syntaxMessage c) (tk_decimals (sd_token c)) (token_symbol (sd_token c))
       (maxSendAmount (sd_feeConfig c) (sd_token c)) (sf_amount st)"

text \<open>The arguments that \<^verbatim>\<open>onSubmit\<close> builds from the fields once the context is there.\<close>

definition send_args :: "send_config \<Rightarrow> string \<Rightarrow> string \<Rightarrow> (int \<times> pubkey) result" where
  "send_args c amount recipient =
     bind_result (stringToAmount amount (tk_decimals (sd_token c))) (\<lambda>a.
     bind_result (parsePublicKey (sd_lib c) recipient) (\<lambda>pk. Inr (a, pk)))"

definition send_submit :: "send_config \<Rightarrow> send_form \<Rightarrow> (int \<times> pubkey) result option" where
  "send_submit c st = (if sf_isSubmitting st \<or> \<not> send_valid c st then None else Some (send_args c (sf_amount st) (sf_recipient st)))"

datatype send_event =
  ChangeAmount string | ChangeRecipient string | PressMax | PressScanner | CloseScanner | Scan "string list" | SubmitSend | SendSettled

text \<open>While a submission is under way the fields, the Max and the scan links are disabled.\<close>

definition send_step :: "send_config \<Rightarrow> send_event \<Rightarrow> send_form \<Rightarrow> send_form" where
  "send_step c ev st =
     (case ev of
        ChangeAmount s \<Rightarrow> if sf_isSubmitting st then st else st\<lparr>sf_amount := s\<rparr>
      | ChangeRecipient s \<Rightarrow> if sf_isSubmitting st then st else st\<lparr>sf_recipient := s\<rparr>
      | PressMax \<Rightarrow>
          if sf_isSubmitting st then st
          else (case amountToString (maxSendAmount (sd_feeConfig c) (sd_token c)) (tk_decimals (sd_token c)) False of
                  Inr s \<Rightarrow> st\<lparr>sf_amount := s\<rparr> | Inl _ \<Rightarrow> st)
      | PressScanner \<Rightarrow> if sf_isSubmitting st then st else st\<lparr>sf_showScanner := True\<rparr>
      | CloseScanner \<Rightarrow> st\<lparr>sf_showScanner := False\<rparr>
      | Scan results \<Rightarrow>
          (case results of
             [] \<Rightarrow> st
           | value # _ \<Rightarrow> if sf_showScanner st \<and> value \<noteq> [] then st\<lparr>sf_showScanner := False, sf_recipient := value\<rparr> else st)
      | SubmitSend \<Rightarrow> if send_submit c st = None then st else st\<lparr>sf_isSubmitting := True\<rparr>
      | SendSettled \<Rightarrow> st\<lparr>sf_isSubmitting := False\<rparr>)"

text \<open>The transfer that a submission starts, and what the user is told.\<close>

definition send_options :: "send_config \<Rightarrow> SessionContext \<Rightarrow> wallet_env \<Rightarrow> int \<times> pubkey \<Rightarrow> SendTransferOptions" where
  "send_options c context wallet = (\<lambda>(amount, recipient).
     \<lparr>to_context = context, to_walletPublicKey = sd_walletPublicKey c, to_wallet = wallet,
      to_mint = (case tk_mint (sd_token c) of Some m \<Rightarrow> m | None \<Rightarrow> PublicKey []),
      to_amount = amount, to_recipient = recipient, to_feeConfig = sd_feeConfig c\<rparr>)"

definition send_tokens ::
  "transfer_env \<Rightarrow> world \<Rightarrow> conn_state \<Rightarrow> send_config \<Rightarrow> SessionContext \<Rightarrow> wallet_env \<Rightarrow> (int \<times> pubkey) result \<Rightarrow>
   TransactionResult result \<times> conn_state" where
  "send_tokens T W cs c context wallet args =
     (case args of
        Inl e \<Rightarrow> (Inl e, cs)
      | Inr x \<Rightarrow> if isNative (sd_token c) then sendNativeTransfer T W cs (send_options c context wallet x)
                 else sendTransfer T W cs (send_options c context wallet x))"

datatype toast = ToastSuccess string string | ToastError string string

text \<open>The second component says whether \<^verbatim>\<open>onSendComplete\<close> is called; \<open>errorToString\<close> is given for both kinds of error.\<close>

definition send_outcome ::
  "(TransactionError \<Rightarrow> string) \<Rightarrow> (js_error \<Rightarrow> string) \<Rightarrow> TransactionResult result \<Rightarrow> toast \<times> bool" where
  "send_outcome txError jsError r =
     (case r of
        Inr (Success sig) \<Rightarrow> (ToastSuccess ''Tokens sent successfully!'' sig, True)
      | Inr (Failed _ e) \<Rightarrow> (ToastError ''Failed to send tokens'' (txError e), False)
      | Inl e \<Rightarrow> (ToastError ''Failed to send tokens'' (jsError e), False))"

section \<open>Transferring USDC out\<close>

definition USDC_WORMHOLE_DECIMALS :: nat where "USDC_WORMHOLE_DECIMALS = 6"

definition wormhole_token :: "solana_lib \<Rightarrow> string \<Rightarrow> string \<Rightarrow> string \<Rightarrow> string \<Rightarrow> WormholeToken result" where
  "wormhole_token L chain manager mint transceiver =
     bind_result (parsePublicKey L manager) (\<lambda>mg. bind_result (parsePublicKey L mint) (\<lambda>mt.
     bind_result (parsePublicKey L transceiver) (\<lambda>tc.
     Inr \<lparr>wt_chain = chain, wt_mint = mt, wt_manager = mg, wt_transceiver = tc\<rparr>)))"

text \<open>The USDC entry of a network: the token on Fogo and the token on Solana.\<close>

definition USDC :: "solana_lib \<Rightarrow> Network \<Rightarrow> (WormholeToken \<times> WormholeToken) result" where
  "USDC L n =
     (case n of
        Mainnet \<Rightarrow>
          bind_result (wormhole_token L ''Fogo'' ''nttu74CdAmsErx5daJVCQNoDZujswFrskMzonoZSdGk''
            ''uSd2czE61Evaf76RNbq4KPpXnkiL3irdzgLFUMe3NoG'' ''9ioH2HQmVsnbmA8Ej5o1LCAHPRisS8of4whyjCNHJXiw'') (\<lambda>f.
          bind_result (wormhole_token L ''Solana'' ''nttu74CdAmsErx5daJVCQNoDZujswFrskMzonoZSdGk''
            ''EPjFWdd5AufqSSqeM2qN1xzybapC8G4wEGGkZwyTDt1v'' ''9ioH2HQmVsnbmA8Ej5o1LCAHPRisS8of4whyjCNHJXiw'') (\<lambda>s. Inr (f, s)))
      | Testnet \<Rightarrow>
          bind_result (wormhole_token L ''Fogo'' ''NTtktYPsu3a9fvQeuJW6Ea11kinvGc7ricT1iikaTue''
            ''ELNbJ1RtERV2fjtuZjbTscDekWhVzkQ1LjmiPsxp5uND'' ''GJVgi8cwwUuyjjzM19xnT3KNYoX4pXvpp8UAS3ikgZLB'') (\<lambda>f.
          bind_result (wormhole_token L ''Solana'' ''NTtktYPsu3a9fvQeuJW6Ea11kinvGc7ricT1iikaTue''
            ''4zMMC9srt5Ri5X14GAgXhaHii3GnPAEERYPJgZJDncDU'' ''BLu7SyjSHWZVsiSSWhx3f3sL11rBpuzRYM1HyobVZR4v'') (\<lambda>s. Inr (f, s))))"

definition getUsdcBalance :: "WormholeToken \<Rightarrow> Token list \<Rightarrow> int" where
  "getUsdcBalance fogo ts = balance_of ts (wt_mint fogo)"

record withdraw_config =
  wd_syntaxMessage :: string
  wd_tokens :: "WormholeToken \<times> WormholeToken"
  wd_feeConfig :: fee_config
  wd_amountAvailable :: int

definition WithdrawFormWithFeeConfig ::
  "string \<Rightarrow> WormholeToken \<times> WormholeToken \<Rightarrow> fee_config \<Rightarrow> TokenAccountData data_state \<Rightarrow> withdraw_config token_page" where
  "WithdrawFormWithFeeConfig syntaxMessage usdc fc accounts =
     (case accounts of
        ErrorState e \<Rightarrow> FetchFailed ''Failed to load token account balance'' e
      | Loaded d \<Rightarrow>
          if balance_of (tad_tokensInWallet d) (fc_mint fc) < fc_fee fc then short_of_fee fc ''transfer tokens out''
          else PageForm \<lparr>wd_syntaxMessage = syntaxMessage, wd_tokens = usdc, wd_feeConfig = fc,
                  wd_amountAvailable = getUsdcBalance (fst usdc) (tad_tokensInWallet d)\<rparr>
      | _ \<Rightarrow> PageLoading)"

definition WithdrawForm ::
  "string \<Rightarrow> WormholeToken \<times> WormholeToken \<Rightarrow> fee_config data_state \<Rightarrow> TokenAccountData data_state \<Rightarrow> withdraw_config token_page" where
  "WithdrawForm syntaxMessage usdc fee accounts =
     (case fee of
        ErrorState e \<Rightarrow> FetchFailed ''Failed to load fee information'' e
      | Loaded fc \<Rightarrow> WithdrawFormWithFeeConfig syntaxMessage usdc fc accounts
      | _ \<Rightarrow> PageLoading)"

definition maxWithdrawAmount :: "withdraw_config \<Rightarrow> int" where
  "maxWithdrawAmount c =
     (if fc_mint (wd_feeConfig c) = wt_mint (fst (wd_tokens c)) then wd_amountAvailable c - fc_fee (wd_feeConfig c)
      else wd_amountAvailable c)"

text \<open>The withdraw and the deposit form have one field.\<close>

record amount_state =
  as_amount :: string
  as_isSubmitting :: bool

definition withdraw_submit :: "withdraw_config \<Rightarrow> amount_state \<Rightarrow> int result option" where
  "withdraw_submit c st =
     (if as_isSubmitting st \<or>
        \<not> amount_field_ok (wd_syntaxMessage c) USDC_WORMHOLE_DECIMALS ''USDC'' (maxWithdrawAmount c) (as_amount st)
      then None else Some (stringToAmount (as_amount st) USDC_WORMHOLE_DECIMALS))"

datatype amount_event = SetAmount string | AmountMax | SubmitAmount | AmountSettled

definition withdraw_step :: "withdraw_config \<Rightarrow> amount_event \<Rightarrow> amount_state \<Rightarrow> amount_state" where
  "withdraw_step c ev st =
     (case ev of
        SetAmount s \<Rightarrow> if as_isSubmitting st then st else st\<lparr>as_amount := s\<rparr>
      | AmountMax \<Rightarrow>
          if as_isSubmitting st then st
          else (case amountToString (maxWithdrawAmount c) USDC_WORMHOLE_DECIMALS False of Inr s \<Rightarrow> st\<lparr>as_amount := s\<rparr> | Inl _ \<Rightarrow> st)
      | SubmitAmount \<Rightarrow> if withdraw_submit c st = None then st else st\<lparr>as_isSubmitting := True\<rparr>
      | AmountSettled \<Rightarrow> st\<lparr>as_isSubmitting := False\<rparr>)"

definition withdraw_options ::
  "withdraw_config \<Rightarrow> SessionContext \<Rightarrow> key_pair \<Rightarrow> pubkey \<Rightarrow> wallet_env \<Rightarrow> int \<Rightarrow> SendBridgeOutOptions" where
  "withdraw_options c context sKey wallet_pk wallet amount =
     \<lparr>bo_context = context, bo_sessionKey = sKey, bo_walletPublicKey = wallet_pk, bo_wallet = wallet,
      bo_amount = amount, bo_fromToken = fst (wd_tokens c), bo_toToken = snd (wd_tokens c), bo_feeConfig = wd_feeConfig c\<rparr>"

definition withdraw_tokens ::
  "transfer_env \<Rightarrow> wormhole_lib \<Rightarrow> world \<Rightarrow> conn_state \<Rightarrow> withdraw_config \<Rightarrow> SessionContext \<Rightarrow> key_pair \<Rightarrow> pubkey \<Rightarrow> wallet_env \<Rightarrow>
   int result \<Rightarrow> TransactionResult result \<times> conn_state" where
  "withdraw_tokens T X W cs c context sKey wallet_pk wallet args =
     (case args of
        Inl e \<Rightarrow> (Inl e, cs)
      | Inr a \<Rightarrow> bridgeOut T X W cs (withdraw_options c context sKey wallet_pk wallet a))"

definition withdraw_outcome ::
  "(TransactionError \<Rightarrow> string) \<Rightarrow> (js_error \<Rightarrow> string) \<Rightarrow> TransactionResult result \<Rightarrow> toast \<times> bool" where
  "withdraw_outcome txError jsError r =
     (case r of
        Inr (Success sig) \<Rightarrow> (ToastSuccess ''Successful transferred tokens to your Solana wallet!'' sig, True)
      | Inr (Failed _ e) \<Rightarrow> (ToastError ''Failed to transfer tokens'' (txError e), False)
      | Inl e \<Rightarrow> (ToastError ''Failed to withdraw tokens'' (jsError e), False))"

section \<open>Transferring USDC in\<close>

text \<open>The answer of the Solana node: a balance (base units and their display form), an error of the
  node with its message, or another failure.\<close>

datatype balance_answer = Balance string "string option" | RpcError string | OtherError js_error

definition NO_ACCOUNT_MESSAGE :: string where
  "NO_ACCOUNT_MESSAGE = ''failed to get token account balance: Invalid param: could not find account''"

record solana_balances =
  sb_usdc_amount :: string
  sb_usdc_ui :: "string option"
  sb_sol :: int

definition getSolanaUsdcBalance :: "balance_answer \<Rightarrow> (string \<times> string option) result" where
  "getSolanaUsdcBalance answer =
     (case answer of
        Balance amount ui \<Rightarrow> Inr (amount, ui)
      | RpcError m \<Rightarrow> if m = NO_ACCOUNT_MESSAGE then Inr (''0'', Some ''0'') else Inl (ExternalError m)
      | OtherError e \<Rightarrow> Inl e)"

definition getSolanaBalance ::
  "solana_lib \<Rightarrow> (pubkey \<Rightarrow> balance_answer) \<Rightarrow> (pubkey \<Rightarrow> int result) \<Rightarrow> WormholeToken \<Rightarrow> pubkey \<Rightarrow> solana_balances result" where
  "getSolanaBalance L tokenBalance solBalance solanaUsdc wallet =
     bind_result (ata L (wt_mint solanaUsdc) wallet) (\<lambda>account.
     bind_result (getSolanaUsdcBalance (tokenBalance account)) (\<lambda>(amount, ui).
     bind_result (solBalance wallet) (\<lambda>sol.
     Inr \<lparr>sb_usdc_amount = amount, sb_usdc_ui = ui, sb_sol = sol\<rparr>)))"

datatype deposit_page = DepositFetchError js_error | NoSol | NoUsdc | DepositLoading | DepositForm solana_balances

definition DepositPageContents :: "solana_balances data_state \<Rightarrow> deposit_page" where
  "DepositPageContents balances =
     (case balances of
        ErrorState e \<Rightarrow> DepositFetchError e
      | Loaded b \<Rightarrow> if sb_sol b = 0 then NoSol else if sb_usdc_amount b = ''0'' then NoUsdc else DepositForm b
      | _ \<Rightarrow> DepositLoading)"

text \<open>The largest deposit, \<^verbatim>\<open>BigInt(amount)\<close>; rendering fails when the node's amount is not a number.\<close>

definition maxDeposit :: "solana_balances \<Rightarrow> int result" where
  "maxDeposit b = BigInt (sb_usdc_amount b)"

definition deposit_submit :: "string \<Rightarrow> solana_balances \<Rightarrow> amount_state \<Rightarrow> int result option" where
  "deposit_submit syntaxMessage b st =
     (case maxDeposit b of
        Inl _ \<Rightarrow> None
      | Inr mx \<Rightarrow>
          if as_isSubmitting st \<or> \<not> amount_field_ok syntaxMessage USDC_WORMHOLE_DECIMALS ''USDC'' mx (as_amount st) then None
          else Some (stringToAmount (as_amount st) USDC_WORMHOLE_DECIMALS))"

definition deposit_step :: "string \<Rightarrow> solana_balances \<Rightarrow> amount_event \<Rightarrow> amount_state \<Rightarrow> amount_state" where
  "deposit_step syntaxMessage b ev st =
     (case ev of
        SetAmount s \<Rightarrow> if as_isSubmitting st then st else st\<lparr>as_amount := s\<rparr>
      | AmountMax \<Rightarrow> st\<lparr>as_amount := (case sb_usdc_ui b of Some s \<Rightarrow> s | None \<Rightarrow> ''0'')\<rparr>
      | SubmitAmount \<Rightarrow> if deposit_submit syntaxMessage b st = None then st else st\<lparr>as_isSubmitting := True\<rparr>
      | AmountSettled \<Rightarrow> st\<lparr>as_isSubmitting := False\<rparr>)"


section \<open>The three forms\<close>

definition answered :: "'a result option \<Rightarrow> 'a option" where
  "answered x = (case x of Some (Inr y) \<Rightarrow> Some y | _ \<Rightarrow> None)"

lemma answered_eq_Some: "answered x = Some y \<longleftrightarrow> x = Some (Inr y)"
  by (auto simp: answered_def split: option.splits sum.splits)

lemma send_submit_args:
  assumes "send_submit c st = Some x"
  obtains a pk where "x = Inr (a, pk)" "stringToAmount (sf_amount st) (tk_decimals (sd_token c)) = Inr a"
    "parsePublicKey (sd_lib c) (sf_recipient st) = Inr pk" "pk \<noteq> sd_walletPublicKey c"
    "0 < a" "a \<le> maxSendAmount (sd_feeConfig c) (sd_token c)"
proof -
  from assms have v: "send_valid c st" and x: "x = send_args c (sf_amount st) (sf_recipient st)"
    by (auto simp: send_submit_def split: if_splits)
  from v obtain pk where pk: "parsePublicKey (sd_lib c) (sf_recipient st) = Inr pk" "pk \<noteq> sd_walletPublicKey c"
    by (auto simp: send_valid_def validate_recipient_def split: sum.splits if_splits)
  from v have "amount_field_ok (sd_syntaxMessage c) (tk_decimals (sd_token c)) (token_symbol (sd_token c))
      (maxSendAmount (sd_feeConfig c) (sd_token c)) (sf_amount st)" by (simp add: send_valid_def)
  from amount_field_parses[OF this] obtain a where "stringToAmount (sf_amount st) (tk_decimals (sd_token c)) = Inr a" "0 < a"
    "a \<le> maxSendAmount (sd_feeConfig c) (sd_token c)" .
  with pk x that show thesis by (simp add: send_args_def)
qed

interpretation send: amount_form "\<lambda>(c, st) s. answered (send_submit c (st\<lparr>sf_amount := s\<rparr>))" fst
  "\<lambda>(c, _). maxSendAmount (sd_feeConfig c) (sd_token c)" "\<lambda>(c, _). tk_decimals (sd_token c)"
proof (unfold_locales, clarify)
  fix c st s a pk assume "answered (send_submit c (st\<lparr>sf_amount := s\<rparr>)) = Some (a, pk)"
  then have r: "send_submit c (st\<lparr>sf_amount := s\<rparr>) = Some (Inr (a, pk))" by (simp add: answered_eq_Some)
  then have "send_valid c (st\<lparr>sf_amount := s\<rparr>)" by (auto simp: send_submit_def split: if_splits)
  moreover have "stringToAmount s (tk_decimals (sd_token c)) = Inr a" using send_submit_args[OF r] by auto
  ultimately show "\<exists>m symb. amount_field_ok m (tk_decimals (sd_token c)) symb (maxSendAmount (sd_feeConfig c) (sd_token c)) s \<and>
      stringToAmount s (tk_decimals (sd_token c)) = Inr (fst (a, pk))" by (auto simp: send_valid_def)
qed

interpretation withdraw: amount_form "\<lambda>(c, st) s. answered (withdraw_submit c (st\<lparr>as_amount := s\<rparr>))" id
  "\<lambda>(c, _). maxWithdrawAmount c" "\<lambda>_. USDC_WORMHOLE_DECIMALS"
  by unfold_locales (auto simp: answered_eq_Some withdraw_submit_def split: if_splits, blast)

interpretation deposit: amount_form "\<lambda>(m, b, st) s. answered (deposit_submit m b (st\<lparr>as_amount := s\<rparr>))" id
  "\<lambda>(_, b, _). case maxDeposit b of Inr mx \<Rightarrow> mx | Inl _ \<Rightarrow> 0" "\<lambda>_. USDC_WORMHOLE_DECIMALS"
  by unfold_locales (auto simp: answered_eq_Some deposit_submit_def split: if_splits sum.splits, blast)

lemma SendTokenPage_form:
  assumes "SendTokenPage fee (Loaded d) token = PageForm fc"
  shows "isNative token \<or> fc_fee fc \<le> balance_of (tad_tokensInWallet d) (fc_mint fc)"
  using assms by (auto simp: SendTokenPage_def SendTokenWithFeeConfig_def short_of_fee_def split: data_state.splits if_splits)

lemma WithdrawForm_form:
  assumes "WithdrawForm m usdc fee (Loaded d) = PageForm c"
  shows "fc_fee (wd_feeConfig c) \<le> balance_of (tad_tokensInWallet d) (fc_mint (wd_feeConfig c))"
    "wd_amountAvailable c = balance_of (tad_tokensInWallet d) (wt_mint (fst (wd_tokens c)))" "wd_tokens c = usdc"
  using assms
  by (auto simp: WithdrawForm_def WithdrawFormWithFeeConfig_def short_of_fee_def getUsdcBalance_def split: data_state.splits if_splits)

lemma withdraw_submit_args:
  assumes "withdraw_submit c st = Some x"
  obtains a where "x = Inr a" "0 < a" "a \<le> maxWithdrawAmount c"
proof -
  from assms have ok: "amount_field_ok (wd_syntaxMessage c) USDC_WORMHOLE_DECIMALS ''USDC'' (maxWithdrawAmount c) (as_amount st)"
    and x: "x = stringToAmount (as_amount st) USDC_WORMHOLE_DECIMALS" by (auto simp: withdraw_submit_def split: if_splits)
  from amount_field_parses[OF ok] x that show thesis by metis
qed

section \<open>Properties\<close>

text \<open>C8: the send form only starts transfers that the wallet can pay. When the page shows the form and
  the form submits, the arguments parse, the recipient is someone else, the amount is positive
  and covered by the balance; the wallet also holds the fee, on top of the amount when
  both are the same token (a native transfer takes no fee).\<close>

theorem send_form_affordable:
  assumes "SendTokenPage fee (Loaded d) (sd_token c) = PageForm (sd_feeConfig c)" and "send_submit c st = Some x"
  shows "\<exists>a pk. x = Inr (a, pk) \<and> 0 < a \<and> a \<le> tk_amountInWallet (sd_token c) - (if tk_mint (sd_token c) = Some (fc_mint (sd_feeConfig c))
      then fc_fee (sd_feeConfig c) else 0) \<and> parsePublicKey (sd_lib c) (sf_recipient st) = Inr pk \<and> pk \<noteq> sd_walletPublicKey c \<and>
    (isNative (sd_token c) \<or> fc_fee (sd_feeConfig c) \<le> balance_of (tad_tokensInWallet d) (fc_mint (sd_feeConfig c)))"
proof -
  obtain a pk where "x = Inr (a, pk)" "parsePublicKey (sd_lib c) (sf_recipient st) = Inr pk" "pk \<noteq> sd_walletPublicKey c"
    "0 < a" "a \<le> maxSendAmount (sd_feeConfig c) (sd_token c)" by (rule send_submit_args[OF assms(2)])
  with SendTokenPage_form[OF assms(1)] show ?thesis
    by (auto simp: maxSendAmount_def isNative_def split: if_splits)
qed

definition demo_fee :: fee_config where
  "demo_fee = \<lparr>fc_decimals = 0, fc_fee = 3, fc_metadata = PublicKey [], fc_mint = PublicKey [7], fc_symbolOrMint = ''USDC.s''\<rparr>"

definition demo_token :: Token where
  "demo_token = \<lparr>tk_amountInWallet = 10, tk_decimals = 0, tk_mint = Some (PublicKey [7]), tk_image = None, tk_name = None, tk_symbol = None\<rparr>"

definition demo_send :: send_config where
  "demo_send = \<lparr>sd_lib = wr_lib demo_rpc, sd_syntaxMessage = [], sd_walletPublicKey = PublicKey [1], sd_token = demo_token, sd_feeConfig = demo_fee\<rparr>"

definition demo_data :: TokenAccountData where
  "demo_data = \<lparr>tad_sessionLimits = [], tad_tokensInWallet = [demo_token]\<rparr>"

lemma demo_balance: "balance_of [demo_token] (PublicKey [7]) = 10"
  by (simp add: balance_of_def demo_token_def isNative_def)

lemma seven: "stringToAmount ''7'' d = Inr (7 * 10 ^ d)"
  using stringToAmount_whole[of "''7''" d] by (simp add: is_dec_def dec_value_def digit_in_def digit_val_def)

theorem send_form_affordable_witness:
  "\<exists>a pk. send_submit demo_send \<lparr>sf_amount = ''7'', sf_recipient = ''B'', sf_isSubmitting = False, sf_showScanner = False\<rparr> = Some (Inr (a, pk)) \<and>
     0 < a \<and> a \<le> 10 - 3 \<and> pk \<noteq> PublicKey [1]"
proof -
  let ?st = "\<lparr>sf_amount = ''7'', sf_recipient = ''B'', sf_isSubmitting = False, sf_showScanner = False\<rparr>"
  have "SendTokenPage (Loaded demo_fee) (Loaded demo_data) (sd_token demo_send) = PageForm (sd_feeConfig demo_send)"
    by (simp add: SendTokenPage_def SendTokenWithFeeConfig_def demo_data_def demo_balance demo_send_def demo_fee_def)
  moreover have "send_submit demo_send ?st = Some (Inr (7, PublicKey [66]))"
    by (simp add: send_submit_def send_valid_def validate_recipient_def send_args_def demo_send_def demo_rpc_def demo_token_def
        demo_fee_def maxSendAmount_def isNative_def seven amount_field_complete)
  ultimately show ?thesis using send_form_affordable[of _ demo_data demo_send ?st]
    by (fastforce simp: demo_send_def demo_token_def demo_fee_def)
qed

text \<open>C13: the withdraw form likewise: a submitted amount is positive, within the USDC balance, and leaves
  the fee when it is taken in USDC; the fee itself is covered.\<close>

theorem withdraw_form_affordable:
  assumes "WithdrawForm m usdc fee (Loaded d) = PageForm c" and "withdraw_submit c st = Some x"
  shows "\<exists>a. x = Inr a \<and> 0 < a \<and> fc_fee (wd_feeConfig c) \<le> balance_of (tad_tokensInWallet d) (fc_mint (wd_feeConfig c)) \<and>
    a + (if fc_mint (wd_feeConfig c) = wt_mint (fst usdc) then fc_fee (wd_feeConfig c) else 0)
      \<le> balance_of (tad_tokensInWallet d) (wt_mint (fst usdc))"
proof -
  obtain a where "x = Inr a" "0 < a" "a \<le> maxWithdrawAmount c" by (rule withdraw_submit_args[OF assms(2)])
  with WithdrawForm_form[OF assms(1)] show ?thesis by (auto simp: maxWithdrawAmount_def split: if_splits)
qed

definition demo_usdc :: "WormholeToken \<times> WormholeToken" where
  "demo_usdc = (\<lparr>wt_chain = ''Fogo'', wt_mint = PublicKey [7], wt_manager = PublicKey [], wt_transceiver = PublicKey []\<rparr>,
     \<lparr>wt_chain = ''Solana'', wt_mint = PublicKey [8], wt_manager = PublicKey [], wt_transceiver = PublicKey []\<rparr>)"

definition million :: int where "million = 10 ^ 6"

theorem withdraw_form_affordable_witness:
  "\<exists>c a. WithdrawForm [] demo_usdc (Loaded demo_fee) (Loaded (demo_data\<lparr>tad_tokensInWallet := [demo_token\<lparr>tk_amountInWallet := 8 * million\<rparr>]\<rparr>)) = PageForm c \<and>
     withdraw_submit c \<lparr>as_amount = ''7'', as_isSubmitting = False\<rparr> = Some (Inr a) \<and> a + 3 \<le> 8 * million"
proof -
  let ?d = "demo_data\<lparr>tad_tokensInWallet := [demo_token\<lparr>tk_amountInWallet := 8 * million\<rparr>]\<rparr>"
  let ?c = "\<lparr>wd_syntaxMessage = [], wd_tokens = demo_usdc, wd_feeConfig = demo_fee, wd_amountAvailable = 8 * million\<rparr>"
  have b: "balance_of [demo_token\<lparr>tk_amountInWallet := x\<rparr>] (PublicKey [7]) = x" for x
    by (simp add: balance_of_def demo_token_def isNative_def)
  have p: "WithdrawForm [] demo_usdc (Loaded demo_fee) (Loaded ?d) = PageForm ?c"
    by (simp add: WithdrawForm_def WithdrawFormWithFeeConfig_def demo_data_def demo_fee_def b getUsdcBalance_def demo_usdc_def million_def)
  have s: "withdraw_submit ?c \<lparr>as_amount = ''7'', as_isSubmitting = False\<rparr> = Some (Inr (7 * million))"
    by (simp add: withdraw_submit_def seven USDC_WORMHOLE_DECIMALS_def maxWithdrawAmount_def demo_fee_def demo_usdc_def million_def
        amount_field_complete)
  from withdraw_form_affordable[OF p s] p s show ?thesis
    by (auto simp: demo_fee_def demo_usdc_def demo_data_def b)
qed

text \<open>The Max button works. With a valid recipient it submits exactly the amount that may be sent,
  and when nothing may be sent no text in the field can be submitted.\<close>

theorem send_max_button:
  assumes "\<not> sf_isSubmitting st" and "sf_recipient st \<noteq> []" and "parsePublicKey (sd_lib c) (sf_recipient st) = Inr pk"
    and "pk \<noteq> sd_walletPublicKey c" and "mx = maxSendAmount (sd_feeConfig c) (sd_token c)"
  shows "if 0 < mx then send_submit c (send_step c PressMax st) = Some (Inr (mx, pk))
    else \<forall>s. send_submit c (st\<lparr>sf_amount := s\<rparr>) = None"
proof (cases "0 < mx")
  case True
  let ?s = "sdk_amountToString mx (tk_decimals (sd_token c))"
  have t: "amountToString mx (tk_decimals (sd_token c)) False = Inr ?s" "stringToAmount ?s (tk_decimals (sd_token c)) = Inr mx" "?s \<noteq> []"
    using max_text[of mx] True by simp_all
  have "amount_field_ok m (tk_decimals (sd_token c)) symb mx ?s" for m symb
    using amount_field_complete[OF t(2) True order_refl t(3)] .
  with assms t True show ?thesis
    by (simp add: send_step_def send_submit_def send_valid_def send_args_def validate_recipient_def)
next
  case False
  have "send_submit c (st\<lparr>sf_amount := s\<rparr>) = None" for s
  proof (cases "send_submit c (st\<lparr>sf_amount := s\<rparr>)")
    case (Some x)
    then show ?thesis using False assms(5) by (rule_tac send_submit_args[OF Some]) simp
  qed
  with False show ?thesis by simp
qed


theorem send_max_button_witness:
  "send_submit demo_send (send_step demo_send PressMax \<lparr>sf_amount = [], sf_recipient = ''B'', sf_isSubmitting = False, sf_showScanner = False\<rparr>) =
     Some (Inr (7, PublicKey [66]))"
  using send_max_button[of "\<lparr>sf_amount = [], sf_recipient = ''B'', sf_isSubmitting = False, sf_showScanner = False\<rparr>" demo_send "PublicKey [66]" 7]
  by (simp add: demo_send_def demo_rpc_def demo_token_def demo_fee_def maxSendAmount_def isNative_def)

end
