(* ===== verification/Limits_Form.thy ===== *)
theory Limits_Form
  imports Wallet_Forms Provider
begin

text \<open>
  The form for session limits (\<^verbatim>\<open>components/session-limits.tsx\<close> of the React package): which tokens
  it lists, with which amounts, and what it submits to the provider. It is shown while limits are
  requested for a new session and when the limits of an established session are changed. The fields
  are uncontrolled: what the user typed is read from the form data at submission.
\<close>

section \<open>Durations\<close>

definition ONE_SECOND_IN_MS :: int where "ONE_SECOND_IN_MS = 1000"
definition ONE_MINUTE_IN_MS :: int where "ONE_MINUTE_IN_MS = 60 * ONE_SECOND_IN_MS"
definition ONE_HOUR_IN_MS :: int where "ONE_HOUR_IN_MS = 60 * ONE_MINUTE_IN_MS"
definition ONE_DAY_IN_MS :: int where "ONE_DAY_IN_MS = 24 * ONE_HOUR_IN_MS"

definition DURATION :: "(string \<times> string \<times> int) list" where
  "DURATION = [(''30-seconds'', ''30 Seconds'', 30 * ONE_SECOND_IN_MS), (''one-day'', ''One Day'', ONE_DAY_IN_MS),
     (''one-hour'', ''One Hour'', ONE_HOUR_IN_MS), (''one-week'', ''One Week'', 7 * ONE_DAY_IN_MS)]"

definition selected_duration :: "string option \<Rightarrow> int" where
  "selected_duration sel =
     (case Option.bind sel (map_of DURATION) of Some (_, v) \<Rightarrow> v | None \<Rightarrow> snd (the (map_of DURATION ''one-week'')))"

section \<open>What the form lists\<close>

record limits_context =
  lc_lib :: solana_lib
  lc_enableUnlimited :: bool
  lc_whitelistedTokens :: "pubkey list"
  lc_defaultRequestedLimits :: "limits option"

definition initial_applyLimits :: "limits_context \<Rightarrow> SessionState \<Rightarrow> bool \<Rightarrow> bool" where
  "initial_applyLimits c s isLimited = (if isEstablished s then isLimited else \<not> lc_enableUnlimited c)"

definition userTokens :: "TokenAccountData option \<Rightarrow> pubkey list" where
  "userTokens d =
     (case d of None \<Rightarrow> []
      | Some d \<Rightarrow> List.map_filter tk_mint (filter (\<lambda>t. \<not> Wallet_Data.isNative t) (tad_tokensInWallet d)) @ map sl_mint (tad_sessionLimits d))"

definition whitelistedTokensThatUserHas :: "limits_context \<Rightarrow> TokenAccountData option \<Rightarrow> pubkey list" where
  "whitelistedTokensThatUserHas c d = filter (\<lambda>m. m \<in> set (userTokens d)) (lc_whitelistedTokens c)"

definition initialLimits :: "limits_context \<Rightarrow> SessionState \<Rightarrow> TokenAccountData option \<Rightarrow> limits option" where
  "initialLimits c s d =
     (case s of
        RequestingLimits _ _ requested \<Rightarrow> (case requested of Some ls \<Rightarrow> Some ls | None \<Rightarrow> lc_defaultRequestedLimits c)
      | SettingLimits _ _ _ \<Rightarrow> lc_defaultRequestedLimits c
      | _ \<Rightarrow> map_option (\<lambda>d. map (\<lambda>l. (sl_mint l, sl_sessionLimit l)) (tad_sessionLimits d)) d)"

definition initialAmount :: "limits option \<Rightarrow> pubkey \<Rightarrow> int" where
  "initialAmount ls m = (case ls of None \<Rightarrow> 0 | Some ls \<Rightarrow> (case List.find (\<lambda>(k, _). k = m) ls of Some (_, a) \<Rightarrow> a | None \<Rightarrow> 0))"

text \<open>One row of the form: a mint, its decimals and the text the field starts with. A token whose
  metadata is missing has no named field.\<close>

record limit_row =
  lr_mint :: pubkey
  lr_decimals :: nat
  lr_symbol :: string
  lr_default :: string

definition token_row :: "(pubkey \<Rightarrow> token_metadata data_state) \<Rightarrow> limits option \<Rightarrow> pubkey \<Rightarrow> limit_row list" where
  "token_row metadata ls m =
     (case metadata m of
        Loaded md \<Rightarrow>
          (case amountToString (initialAmount ls m) (tm_decimals md) False of
             Inr s \<Rightarrow> [\<lparr>lr_mint = m, lr_decimals = tm_decimals md,
               lr_symbol = (case tm_symbol md of Some y \<Rightarrow> y | None \<Rightarrow> ''Tokens''), lr_default = s\<rparr>]
           | Inl _ \<Rightarrow> [])
      | _ \<Rightarrow> [])"

definition LoadedTokenLimits ::
  "limits_context \<Rightarrow> SessionState \<Rightarrow> (pubkey \<Rightarrow> token_metadata data_state) \<Rightarrow> TokenAccountData option \<Rightarrow> limit_row list" where
  "LoadedTokenLimits c s metadata d =
     concat (map (token_row metadata (initialLimits c s d)) (whitelistedTokensThatUserHas c d))"

definition TokenLimits ::
  "limits_context \<Rightarrow> SessionState \<Rightarrow> (pubkey \<Rightarrow> token_metadata data_state) \<Rightarrow> TokenAccountData data_state \<Rightarrow> limit_row list" where
  "TokenLimits c s metadata accounts =
     (case accounts of
        ErrorState _ \<Rightarrow> LoadedTokenLimits c s metadata None
      | Loaded d \<Rightarrow> LoadedTokenLimits c s metadata (Some d)
      | _ \<Rightarrow> [])"

text \<open>The list is shown while limits apply; the checkbox only exists when unlimited sessions do.\<close>

definition shown_rows ::
  "limits_context \<Rightarrow> SessionState \<Rightarrow> (pubkey \<Rightarrow> token_metadata data_state) \<Rightarrow> TokenAccountData data_state \<Rightarrow> bool \<Rightarrow> limit_row list" where
  "shown_rows c s metadata accounts applyLimits = (if applyLimits then TokenLimits c s metadata accounts else [])"

section \<open>What the form submits\<close>

type_synonym form_data = "(string \<times> string) list"

text \<open>The fields of a row are its hidden decimals and its amount.\<close>

definition row_fields :: "solana_lib \<Rightarrow> (pubkey \<Rightarrow> string) \<Rightarrow> limit_row \<Rightarrow> form_data" where
  "row_fields L typed r = [(toBase58 L (lr_mint r) @ ''-decimals'', nat_to_string (lr_decimals r)), (toBase58 L (lr_mint r), typed (lr_mint r))]"

definition form_data :: "limits_context \<Rightarrow> string \<Rightarrow> bool \<Rightarrow> (pubkey \<Rightarrow> string) \<Rightarrow> limit_row list \<Rightarrow> form_data" where
  "form_data c durationKey applyLimits typed rows =
     [(''duration'', durationKey)] @ (if lc_enableUnlimited c \<and> applyLimits then [(''applyLimits'', ''on'')] else []) @
     concat (map (row_fields (lc_lib c) typed) rows)"

text \<open>\<^verbatim>\<open>Number.parseInt(s, 10)\<close>; nothing stands for NaN.\<close>

definition parseInt10 :: "string \<Rightarrow> int option" where
  "parseInt10 s =
     (let t = js_trim s;
          neg = (t \<noteq> [] \<and> hd t = CHR ''-'');
          ds = takeWhile is_dec (if t \<noteq> [] \<and> hd t \<in> {CHR ''-'', CHR ''+''} then tl t else t)
      in if ds = [] then None else Some (if neg then - int (dec_value ds) else int (dec_value ds)))"

text \<open>A number of decimals that is not a natural number makes the parser raise.\<close>

definition limit_amount :: "string \<Rightarrow> string \<Rightarrow> int result" where
  "limit_amount value decimals =
     (case parseInt10 decimals of
        Some d \<Rightarrow> if 0 \<le> d then stringToAmount value (nat d) else Inl RangeError
      | None \<Rightarrow> Inl RangeError)"

definition limit_entry :: "solana_lib \<Rightarrow> form_data \<Rightarrow> pubkey \<Rightarrow> (pubkey \<times> int) option result" where
  "limit_entry L fd m =
     (case (map_of fd (toBase58 L m), map_of fd (toBase58 L m @ ''-decimals'')) of
        (Some value, Some decimals) \<Rightarrow> bind_result (limit_amount value decimals) (\<lambda>a. Inr (Some (m, a)))
      | _ \<Rightarrow> Inr None)"

text \<open>The limits that are submitted: nothing stands for an unlimited session.\<close>

definition submitted_limits :: "limits_context \<Rightarrow> form_data \<Rightarrow> limits option result" where
  "submitted_limits c fd =
     (if lc_enableUnlimited c \<and> map_of fd ''applyLimits'' \<in> {None, Some []} then Inr None
      else bind_result (traverse (limit_entry (lc_lib c) fd) (lc_whitelistedTokens c)) (\<lambda>es. Inr (Some (List.map_filter id es))))"

datatype limits_handler = UpdateSession | SubmitLimits | NoHandler

definition submitHandler :: "SessionState \<Rightarrow> limits_handler" where
  "submitHandler s = (if isUpdatable s then UpdateSession else case s of RequestingLimits _ _ _ \<Rightarrow> SubmitLimits | _ \<Rightarrow> NoHandler)"

definition row_valid :: "string \<Rightarrow> (pubkey \<Rightarrow> string) \<Rightarrow> limit_row \<Rightarrow> bool" where
  "row_valid syntaxMessage typed r =
     (validate_amount syntaxMessage (lr_decimals r) (lr_symbol r)
        \<lparr>gt_bound = None, lt_bound = None, max_bound = None, min_bound = Some 0\<rparr> (typed (lr_mint r)) = None)"

text \<open>A valid form calls the handler with the duration and the limits; nothing happens when there is
  no handler or a field is not valid.\<close>

definition limits_onSubmit ::
  "string \<Rightarrow> limits_context \<Rightarrow> SessionState \<Rightarrow> string \<Rightarrow> bool \<Rightarrow> (pubkey \<Rightarrow> string) \<Rightarrow> limit_row list \<Rightarrow>
   (int \<times> limits option) result option" where
  "limits_onSubmit syntaxMessage c s durationKey applyLimits typed rows =
     (if submitHandler s = NoHandler \<or> \<not> list_all (row_valid syntaxMessage typed) rows then None
      else (let fd = form_data c durationKey applyLimits typed rows in
            Some (bind_result (submitted_limits c fd) (\<lambda>ls. Inr (selected_duration (map_of fd ''duration''), ls)))))"

text \<open>What the provider makes of a submission when it establishes or replaces a session at time
  \<open>now\<close>: the limits and the expiry it asks the SDK for.\<close>

definition requested_session :: "int \<Rightarrow> int \<times> limits option \<Rightarrow> SessionLimits \<times> int option" where
  "requested_session now = (\<lambda>(duration, ls).
     (case ls of None \<Rightarrow> Unlimited | Some es \<Rightarrow> Limited (Some es), js_Date (now + duration)))"

section \<open>Reading the form data\<close>

text \<open>The names of the fields do not clash: base58 has no dash and no key prints as a fixed name.\<close>

definition field_names_ok :: "solana_lib \<Rightarrow> bool" where
  "field_names_ok L \<longleftrightarrow> inj (toBase58 L) \<and> (\<forall>m. CHR ''-'' \<notin> set (toBase58 L m) \<and> toBase58 L m \<noteq> ''duration'' \<and> toBase58 L m \<noteq> ''applyLimits'')"

lemma dash_name: "field_names_ok L \<Longrightarrow> toBase58 L m @ ''-decimals'' \<noteq> toBase58 L k"
proof
  assume "field_names_ok L" "toBase58 L m @ ''-decimals'' = toBase58 L k"
  then have "CHR ''-'' \<notin> set (toBase58 L m @ ''-decimals'')" by (simp add: field_names_ok_def)
  then show False by simp
qed

lemma base58_eq: "field_names_ok L \<Longrightarrow> toBase58 L m = toBase58 L k \<longleftrightarrow> m = k"
  by (auto simp: field_names_ok_def dest: injD)

lemma rows_get_value:
  assumes "field_names_ok L"
  shows "map_of (concat (map (row_fields L typed) rows)) (toBase58 L m) =
    (if m \<in> lr_mint ` set rows then Some (typed m) else None)"
proof (induction rows)
  case (Cons r rows)
  then show ?case using dash_name[OF assms] dash_name[OF assms, symmetric] base58_eq[OF assms] by (simp add: row_fields_def)
qed simp

lemma rows_get_decimals:
  assumes "field_names_ok L"
  shows "map_of (concat (map (row_fields L typed) rows)) (toBase58 L m @ ''-decimals'') =
    map_option (\<lambda>r. nat_to_string (lr_decimals r)) (List.find (\<lambda>r. lr_mint r = m) rows)"
proof (induction rows)
  case (Cons r rows)
  then show ?case using dash_name[OF assms] base58_eq[OF assms] by (auto simp: row_fields_def)
qed simp

lemma fixed_names:
  assumes "field_names_ok L"
  shows "toBase58 L m \<noteq> ''duration''" "toBase58 L m \<noteq> ''applyLimits''"
    "toBase58 L m @ ''-decimals'' \<noteq> ''duration''" "toBase58 L m @ ''-decimals'' \<noteq> ''applyLimits''"
proof -
  have "CHR ''-'' \<notin> set ''duration''" "CHR ''-'' \<notin> set ''applyLimits''" by simp_all
  moreover have "CHR ''-'' \<in> set (toBase58 L m @ ''-decimals'')" by simp
  ultimately show "toBase58 L m @ ''-decimals'' \<noteq> ''duration''" "toBase58 L m @ ''-decimals'' \<noteq> ''applyLimits''" by metis+
qed (use assms in \<open>simp_all add: field_names_ok_def\<close>)

lemma form_data_get:
  assumes "field_names_ok (lc_lib c)"
  shows "map_of (form_data c k a typed rows) (toBase58 (lc_lib c) m) = (if m \<in> lr_mint ` set rows then Some (typed m) else None)"
    "map_of (form_data c k a typed rows) (toBase58 (lc_lib c) m @ ''-decimals'') =
      map_option (\<lambda>r. nat_to_string (lr_decimals r)) (List.find (\<lambda>r. lr_mint r = m) rows)"
  using fixed_names[OF assms, of m] rows_get_value[OF assms] rows_get_decimals[OF assms]
  by (auto simp: form_data_def)

lemma parseInt10_printed [simp]: "parseInt10 (nat_to_string n) = Some (int n)"
proof -
  have d: "list_all is_dec (nat_to_string n)" and ne: "nat_to_string n \<noteq> []" by (simp_all add: nat_to_string_dec)
  then have "is_dec (hd (nat_to_string n))" by (cases "nat_to_string n") auto
  then have "hd (nat_to_string n) \<noteq> CHR ''-''" "hd (nat_to_string n) \<noteq> CHR ''+''" by (auto simp: is_dec_def)
  moreover have tw: "takeWhile is_dec (nat_to_string n) = nat_to_string n" using d by (simp add: takeWhile_eq_all_conv list_all_iff)
  ultimately show ?thesis using ne js_trim_dec[OF d] by (simp add: parseInt10_def Let_def tw)
qed

section \<open>What is submitted\<close>

definition row_of :: "limit_row list \<Rightarrow> pubkey \<Rightarrow> limit_row option" where
  "row_of rows m = List.find (\<lambda>r. lr_mint r = m) rows"

lemma row_of_None: "row_of rows m = None \<longleftrightarrow> m \<notin> lr_mint ` set rows"
  by (auto simp: row_of_def find_None_iff)

lemma row_of_Some: "row_of rows m = Some r \<Longrightarrow> r \<in> set rows \<and> lr_mint r = m"
  by (auto simp: row_of_def find_Some_iff)

lemma limit_entry_form:
  assumes "field_names_ok (lc_lib c)"
  shows "limit_entry (lc_lib c) (form_data c k a typed rows) m =
    (case row_of rows m of None \<Rightarrow> Inr None
     | Some r \<Rightarrow> bind_result (stringToAmount (typed m) (lr_decimals r)) (\<lambda>x. Inr (Some (m, x))))"
proof (cases "row_of rows m")
  case None
  then have "m \<notin> lr_mint ` set rows" by (simp add: row_of_None)
  with None show ?thesis by (simp add: limit_entry_def form_data_get[OF assms])
next
  case (Some r)
  then have "m \<in> lr_mint ` set rows" using row_of_None[of rows m] by fastforce
  with Some show ?thesis
    by (simp add: limit_entry_def form_data_get[OF assms] limit_amount_def row_of_def[symmetric])
qed

lemma empty_amount: "stringToAmount [] d = Inr 0"
proof -
  have "BigInt [] = Inr 0" by code_simp
  then show ?thesis by (simp add: stringToAmount_def)
qed

lemma row_valid_amount:
  assumes "row_valid m typed r"
  obtains a where "stringToAmount (typed (lr_mint r)) (lr_decimals r) = Inr a" "0 \<le> a"
proof (cases "typed (lr_mint r) = []")
  case True
  with that empty_amount show thesis by simp
next
  case False
  with assms obtain a where a: "stringToAmount (typed (lr_mint r)) (lr_decimals r) = Inr a"
    by (auto simp: row_valid_def validate_amount_def bind_result_eq_Inr split: sum.splits)
  with assms False have "check_bounds (lr_decimals r) (lr_symbol r)
      \<lparr>gt_bound = None, lt_bound = None, max_bound = None, min_bound = Some 0\<rparr> a = Inr None"
    by (auto simp: row_valid_def validate_amount_def split: sum.splits)
  then have "0 \<le> a" by (auto simp: check_bounds_def exceeds_def bind_result_eq_Inr not_less split: if_splits)
  from that[OF a this] show thesis .
qed

definition typed_amount :: "(pubkey \<Rightarrow> string) \<Rightarrow> limit_row list \<Rightarrow> pubkey \<Rightarrow> (pubkey \<times> int) option" where
  "typed_amount typed rows m = map_option (\<lambda>r. (m, projr (stringToAmount (typed m) (lr_decimals r)))) (row_of rows m)"

lemma submitted_form:
  assumes "field_names_ok (lc_lib c)" and "list_all (row_valid sm typed) rows"
  shows "submitted_limits c (form_data c k a typed rows) =
    (if lc_enableUnlimited c \<and> \<not> a then Inr None
     else Inr (Some (List.map_filter (typed_amount typed rows) (lc_whitelistedTokens c))))"
proof -
  let ?fd = "form_data c k a typed rows"
  have each: "limit_entry (lc_lib c) ?fd m = Inr (typed_amount typed rows m)" for m
  proof (cases "row_of rows m")
    case (Some r)
    with row_of_Some have r: "r \<in> set rows" "lr_mint r = m" by blast+
    then obtain x where "stringToAmount (typed m) (lr_decimals r) = Inr x"
      using assms(2) by (metis list_all_iff row_valid_amount)
    with Some show ?thesis by (simp add: limit_entry_form[OF assms(1)] typed_amount_def)
  qed (simp add: limit_entry_form[OF assms(1)] typed_amount_def)
  have "map_of ?fd ''applyLimits'' = (if lc_enableUnlimited c \<and> a then Some ''on'' else None)"
  proof -
    have "map_of (concat (map (row_fields (lc_lib c) typed) rows)) ''applyLimits'' = None"
      using fixed_names[OF assms(1), symmetric] by (induction rows) (simp_all add: row_fields_def)
    then show ?thesis by (simp add: form_data_def)
  qed
  moreover have "traverse (limit_entry (lc_lib c) ?fd) ms = Inr (map (typed_amount typed rows) ms)" for ms
    by (rule traverse_total) (rule each)
  ultimately show ?thesis by (simp add: submitted_limits_def List.map_filter_def comp_def filter_map)
qed

lemma form_duration: "map_of (form_data c k a typed rows) ''duration'' = Some k"
  by (simp add: form_data_def)

lemma limits_onSubmit_form:
  assumes "field_names_ok (lc_lib c)"
  shows "limits_onSubmit sm c s k a typed rows =
    (if submitHandler s = NoHandler \<or> \<not> list_all (row_valid sm typed) rows then None
     else Some (Inr (selected_duration (Some k), if lc_enableUnlimited c \<and> \<not> a then None
        else Some (List.map_filter (typed_amount typed rows) (lc_whitelistedTokens c)))))"
  by (auto simp: limits_onSubmit_def form_duration submitted_form[OF assms] Let_def)

lemma shown_row:
  assumes "r \<in> set (shown_rows c s metadata accounts apply)"
  shows "lr_mint r \<in> set (lc_whitelistedTokens c)" "\<exists>md. metadata (lr_mint r) = Loaded md \<and> lr_decimals r = tm_decimals md"
    "apply" "\<exists>d. accounts = Loaded d \<and> lr_mint r \<in> set (userTokens (Some d))"
proof -
  from assms obtain d where a: "apply" and r: "r \<in> set (LoadedTokenLimits c s metadata d)"
    and d: "d = None \<and> (\<exists>e. accounts = ErrorState e) \<or> (\<exists>x. d = Some x \<and> accounts = Loaded x)"
    by (auto simp: shown_rows_def TokenLimits_def split: if_splits data_state.splits)
  from r obtain m where m: "m \<in> set (whitelistedTokensThatUserHas c d)" and row: "r \<in> set (token_row metadata (initialLimits c s d) m)"
    by (auto simp: LoadedTokenLimits_def)
  from row obtain md where md: "metadata m = Loaded md" by (cases "metadata m") (auto simp: token_row_def)
  with row have lr: "lr_mint r = m" "\<exists>md. metadata m = Loaded md \<and> lr_decimals r = tm_decimals md"
    by (auto simp: token_row_def split: sum.splits)
  from m have w: "m \<in> set (lc_whitelistedTokens c)" "m \<in> set (userTokens d)" by (auto simp: whitelistedTokensThatUserHas_def)
  then have "d \<noteq> None" by (auto simp: userTokens_def)
  with d w(2) lr have "\<exists>x. accounts = Loaded x \<and> lr_mint r \<in> set (userTokens (Some x))" by auto
  with w lr a show "lr_mint r \<in> set (lc_whitelistedTokens c)" "\<exists>md. metadata (lr_mint r) = Loaded md \<and> lr_decimals r = tm_decimals md"
    "apply" "\<exists>d. accounts = Loaded d \<and> lr_mint r \<in> set (userTokens (Some d))" by simp_all
qed

lemma row_of_shown:
  assumes "r \<in> set (shown_rows c s metadata accounts apply)"
  shows "\<exists>q. row_of (shown_rows c s metadata accounts apply) (lr_mint r) = Some q \<and> lr_decimals q = lr_decimals r"
proof -
  have "row_of (shown_rows c s metadata accounts apply) (lr_mint r) \<noteq> None" using assms by (auto simp: row_of_None)
  then obtain q where q: "row_of (shown_rows c s metadata accounts apply) (lr_mint r) = Some q" by blast
  from row_of_Some[OF q] have "q \<in> set (shown_rows c s metadata accounts apply)" "lr_mint q = lr_mint r" by auto
  with shown_row(2)[OF assms] shown_row(2)[of q] q show ?thesis by fastforce
qed

section \<open>Properties\<close>

text \<open>The limits form grants what it shows. Whatever was typed, a submission carries the chosen
  duration; the session is unlimited exactly when the app allows it and the box is not ticked;
  otherwise the limits are the typed amounts, never negative, of the listed tokens, and those are
  on the app's list and in the user's wallet or session.\<close>

theorem limits_form_grants_shown:
  assumes "field_names_ok (lc_lib c)" and "rows = shown_rows c s metadata accounts ticked"
    and "limits_onSubmit sm c s k ticked typed rows = Some x"
  shows "\<exists>ls. x = Inr (selected_duration (Some k), ls) \<and> (ls = None \<longleftrightarrow> lc_enableUnlimited c \<and> \<not> ticked) \<and>
    (\<forall>es. ls = Some es \<longrightarrow>
       (\<forall>m a. (m, a) \<in> set es \<longleftrightarrow> (\<exists>r \<in> set rows. lr_mint r = m \<and> stringToAmount (typed m) (lr_decimals r) = Inr a)) \<and>
       (\<forall>(m, a) \<in> set es. 0 \<le> a \<and> m \<in> set (lc_whitelistedTokens c) \<and> (\<exists>d. accounts = Loaded d \<and> m \<in> set (userTokens (Some d)))))"
proof -
  let ?es = "List.map_filter (typed_amount typed rows) (lc_whitelistedTokens c)"
  from assms(3) have valid: "list_all (row_valid sm typed) rows"
    and x: "x = Inr (selected_duration (Some k), if lc_enableUnlimited c \<and> \<not> ticked then None else Some ?es)"
    by (auto simp: limits_onSubmit_form[OF assms(1)] split: if_splits)
  have amount: "\<exists>a. stringToAmount (typed (lr_mint r)) (lr_decimals r) = Inr a \<and> 0 \<le> a" if "r \<in> set rows" for r
    using valid that by (metis list_all_iff row_valid_amount)
  have entry: "(m, a) \<in> set ?es \<longleftrightarrow> (\<exists>r \<in> set rows. lr_mint r = m \<and> stringToAmount (typed m) (lr_decimals r) = Inr a)" for m a
  proof
    assume "(m, a) \<in> set ?es"
    then obtain r where r: "row_of rows m = Some r" and a: "a = projr (stringToAmount (typed m) (lr_decimals r))"
      by (auto simp: List.map_filter_def typed_amount_def)
    from row_of_Some[OF r] amount[of r] a show "\<exists>r \<in> set rows. lr_mint r = m \<and> stringToAmount (typed m) (lr_decimals r) = Inr a"
      by fastforce
  next
    assume "\<exists>r \<in> set rows. lr_mint r = m \<and> stringToAmount (typed m) (lr_decimals r) = Inr a"
    then obtain r where r: "r \<in> set rows" "lr_mint r = m" "stringToAmount (typed m) (lr_decimals r) = Inr a" by blast
    then have "m \<in> set (lc_whitelistedTokens c)" using shown_row(1) assms(2) by blast
    moreover obtain q where "row_of rows m = Some q" "lr_decimals q = lr_decimals r" using row_of_shown r assms(2) by metis
    ultimately show "(m, a) \<in> set ?es"
      using r(3) by (auto simp: List.map_filter_def typed_amount_def image_iff intro!: bexI[of _ m])
  qed
  have "\<forall>(m, a) \<in> set ?es. 0 \<le> a \<and> m \<in> set (lc_whitelistedTokens c) \<and> (\<exists>d. accounts = Loaded d \<and> m \<in> set (userTokens (Some d)))"
  proof clarify
    fix m a assume "(m, a) \<in> set ?es"
    then obtain r where r: "r \<in> set rows" "lr_mint r = m" "stringToAmount (typed m) (lr_decimals r) = Inr a" using entry by blast
    with amount[OF r(1)] shown_row(1,4)[of r c s metadata accounts ticked] assms(2)
    show "0 \<le> a \<and> m \<in> set (lc_whitelistedTokens c) \<and> (\<exists>d. accounts = Loaded d \<and> m \<in> set (userTokens (Some d)))" by auto
  qed
  with entry x show ?thesis by auto
qed

definition default_row :: "(pubkey \<Rightarrow> token_metadata data_state) \<Rightarrow> limits option \<Rightarrow> pubkey \<Rightarrow> limit_row" where
  "default_row metadata ls m = hd (token_row metadata ls m)"

lemma token_row_loaded:
  assumes "metadata m = Loaded md" and "0 \<le> initialAmount ls m"
  shows "token_row metadata ls m = [default_row metadata ls m]" "lr_mint (default_row metadata ls m) = m"
    "stringToAmount (lr_default (default_row metadata ls m)) (lr_decimals (default_row metadata ls m)) = Inr (initialAmount ls m)"
  using assms max_text[of "initialAmount ls m"] by (simp_all add: default_row_def token_row_def)

lemma row_of_map: "(\<And>m. m \<in> set ms \<Longrightarrow> lr_mint (f m) = m) \<Longrightarrow> row_of (map f ms) m = (if m \<in> set ms then Some (f m) else None)"
  by (induction ms) (auto simp: row_of_def)

lemma map_filter_if: "List.map_filter (\<lambda>m. if P m then Some (f m) else None) ms = map f (filter P ms)"
  by (induction ms) (simp_all add: List.map_filter_simps)

lemma find_member: "List.find P xs = Some x \<Longrightarrow> x \<in> set xs \<and> P x"
  by (auto simp: find_Some_iff)

lemma concat_singletons: "(\<And>m. m \<in> set ms \<Longrightarrow> f m = [g m]) \<Longrightarrow> concat (map f ms) = map g ms"
  by (induction ms) simp_all

lemma initialAmount_nonneg:
  assumes "\<And>l. l \<in> set (tad_sessionLimits d) \<Longrightarrow> 0 \<le> sl_sessionLimit l"
  shows "0 \<le> initialAmount (Some (map (\<lambda>l. (sl_mint l, sl_sessionLimit l)) (tad_sessionLimits d))) m"
  using assms by (auto simp: initialAmount_def dest!: find_member split: option.splits)

lemma established_limits:
  assumes "isEstablished s"
  shows "initialLimits c s (Some d) = Some (map (\<lambda>l. (sl_mint l, sl_sessionLimit l)) (tad_sessionLimits d))"
  using assms by (cases s) (simp_all add: initialLimits_def isEstablished_def established_of_def)


text \<open>While the balances are being loaded the form can already be submitted, and then grants nothing:
  the limits are empty although the user has not removed any.\<close>

theorem loading_form_grants_nothing:
  assumes "field_names_ok (lc_lib c)" and "submitHandler s \<noteq> NoHandler" and "accounts = Loading \<or> accounts = NotLoaded"
    and "ticked \<or> \<not> lc_enableUnlimited c"
  shows "limits_onSubmit sm c s k ticked typed (shown_rows c s metadata accounts ticked) =
    Some (Inr (selected_duration (Some k), Some []))"
proof -
  have "shown_rows c s metadata accounts ticked = []"
    using assms(3) by (auto simp: shown_rows_def TokenLimits_def)
  then show ?thesis using assms by (auto simp: limits_onSubmit_form[OF assms(1)] typed_amount_def row_of_def List.map_filter_def)
qed

section \<open>Examples\<close>

lemma demo_field_names: "field_names_ok demo_text_lib"
proof -
  have "set (toBase58 demo_text_lib m) \<subseteq> {CHR ''A'', CHR ''B''}" for m
    by (auto simp: demo_text_lib_def demo_lib_def letters_def)
  then have "CHR ''-'' \<notin> set (toBase58 demo_text_lib m)" "CHR ''d'' \<notin> set (toBase58 demo_text_lib m)"
    "CHR ''a'' \<notin> set (toBase58 demo_text_lib m)" for m by (fastforce simp del: set_subset_Cons)+
  then show ?thesis using demo_text_inj unfolding field_names_ok_def by (metis list.set_intros(1))
qed

definition demo_limits_context :: limits_context where
  "demo_limits_context = \<lparr>lc_lib = demo_text_lib, lc_enableUnlimited = False, lc_whitelistedTokens = [PublicKey [7]], lc_defaultRequestedLimits = None\<rparr>"

definition demo_limits_data :: TokenAccountData where
  "demo_limits_data = demo_data\<lparr>tad_sessionLimits := [\<lparr>sl_mint = PublicKey [7], sl_sessionLimit = 4, sl_decimals = 0\<rparr>]\<rparr>"

definition demo_established :: SessionState where
  "demo_established = Established \<lparr>e_key = 0, e_pk = PublicKey [1], e_wallet = ''w''\<rparr>"

definition demo_metadata :: "pubkey \<Rightarrow> token_metadata data_state" where
  "demo_metadata m = Loaded \<lparr>tm_decimals = 0, tm_name = None, tm_symbol = None\<rparr>"

lemma demo_four: "sdk_amountToString 4 0 = ''4''"
  by code_simp

lemma demo_rows: "shown_rows demo_limits_context demo_established demo_metadata (Loaded demo_limits_data) True =
    [\<lparr>lr_mint = PublicKey [7], lr_decimals = 0, lr_symbol = ''Tokens'', lr_default = ''4''\<rparr>]"
  by (simp add: shown_rows_def TokenLimits_def LoadedTokenLimits_def whitelistedTokensThatUserHas_def demo_limits_context_def
      demo_limits_data_def demo_data_def userTokens_def token_row_def demo_metadata_def initialLimits_def demo_established_def
      initialAmount_def amountToString_plain demo_four)


theorem limits_form_grants_shown_witness:
  "\<exists>ls. limits_onSubmit [] demo_limits_context demo_established ''one-day'' True (\<lambda>_. ''7'')
     (shown_rows demo_limits_context demo_established demo_metadata (Loaded demo_limits_data) True) = Some (Inr (ONE_DAY_IN_MS, Some ls)) \<and>
   (PublicKey [7], 7) \<in> set ls"
proof -
  have names: "field_names_ok (lc_lib demo_limits_context)" by (simp add: demo_limits_context_def demo_field_names)
  let ?rows = "shown_rows demo_limits_context demo_established demo_metadata (Loaded demo_limits_data) True"
  have "list_all (row_valid [] (\<lambda>_. ''7'')) ?rows"
    by (simp add: demo_rows row_valid_def validate_amount_def seven check_bounds_def exceeds_def)
  moreover have "submitHandler demo_established \<noteq> NoHandler" by (simp add: submitHandler_def demo_established_def isUpdatable_def)
  ultimately obtain x where x: "limits_onSubmit [] demo_limits_context demo_established ''one-day'' True (\<lambda>_. ''7'') ?rows = Some x"
    by (simp add: limits_onSubmit_form[OF names])
  from limits_form_grants_shown[OF names refl x] obtain ls where ls: "x = Inr (selected_duration (Some ''one-day''), Some ls)"
    and e: "(PublicKey [7], 7) \<in> set ls \<longleftrightarrow> (\<exists>r \<in> set ?rows. lr_mint r = PublicKey [7] \<and> stringToAmount ''7'' (lr_decimals r) = Inr 7)"
    by (auto simp: demo_limits_context_def)
  have "(PublicKey [7], 7) \<in> set ls" unfolding e by (simp add: demo_rows seven)
  moreover have "selected_duration (Some ''one-day'') = ONE_DAY_IN_MS" by (simp add: selected_duration_def DURATION_def)
  ultimately show ?thesis using x ls by simp
qed

theorem loading_form_grants_nothing_witness:
  "limits_onSubmit [] demo_limits_context demo_established ''one-day'' True (\<lambda>_. ''7'')
     (shown_rows demo_limits_context demo_established demo_metadata Loading True) = Some (Inr (selected_duration (Some ''one-day''), Some []))"
  by (rule loading_form_grants_nothing)
     (simp_all add: demo_limits_context_def demo_field_names submitHandler_def demo_established_def isUpdatable_def)

end
