(* ===== verification/Session_Expiry.thy ===== *)
theory Session_Expiry
  imports Limits_Form
begin

text \<open>
  How the wallet panel tells that a session expires: the banner of
  \<^verbatim>\<open>components/session-limits-tab.tsx\<close>, which updates itself with a timer, and the hook \<^verbatim>\<open>useIsExpired\<close> of
  \<^verbatim>\<open>components/session-button.tsx\<close>. Times are milliseconds; a timer fires on time, and its
  delay is converted to 32 bits as the platform does.
\<close>

section \<open>The platform's timers\<close>

text \<open>The delay of \<^verbatim>\<open>setTimeout\<close> is a signed 32-bit integer; a negative one counts as zero.\<close>

definition timer_delay :: "int \<Rightarrow> int" where
  "timer_delay ms = max 0 (sint (word_of_int ms :: 32 word))"

lemma timer_delay_small: "0 \<le> ms \<Longrightarrow> ms < 2 ^ 31 \<Longrightarrow> timer_delay ms = ms"
  by (simp add: timer_delay_def sint_uint uint_word_of_int signed_take_bit_int_eq_self take_bit_int_eq_self signed_of_int)

section \<open>The banner\<close>

definition getRelativeTimeFormatArgs :: "int \<Rightarrow> (int \<times> string) option" where
  "getRelativeTimeFormatArgs interval =
     (if interval > ONE_DAY_IN_MS then Some (ONE_DAY_IN_MS, ''day'')
      else if interval > ONE_HOUR_IN_MS then Some (ONE_HOUR_IN_MS, ''hour'')
      else if interval > ONE_MINUTE_IN_MS then Some (ONE_MINUTE_IN_MS, ''minute'')
      else if interval > ONE_SECOND_IN_MS then Some (ONE_SECOND_IN_MS, ''second'')
      else None)"

text \<open>What the banner shows: expired, or a number of units. The second component of an update is the
  time of the next one.\<close>

datatype banner = Expired | ExpiresIn int int string

definition update_banner :: "int \<Rightarrow> int \<Rightarrow> banner \<times> int option" where
  "update_banner expires_at now =
     (let interval = expires_at - now in
      case getRelativeTimeFormatArgs interval of
        None \<Rightarrow> (Expired, None)
      | Some (ms, unit) \<Rightarrow> (ExpiresIn (interval div ms) ms unit, Some (now + timer_delay ms)))"

lemma units_ms:
  "getRelativeTimeFormatArgs i = Some (ms, u) \<Longrightarrow> ms \<in> {86400000, 3600000, 60000, 1000} \<and> ms < i"
  by (auto simp: getRelativeTimeFormatArgs_def ONE_DAY_IN_MS_def ONE_HOUR_IN_MS_def ONE_MINUTE_IN_MS_def ONE_SECOND_IN_MS_def split: if_splits)

lemma update_banner_next:
  assumes "update_banner expires_at now = (b, Some nx)"
  shows "\<exists>ms u. b = ExpiresIn ((expires_at - now) div ms) ms u \<and> nx = now + ms \<and> 0 < ms \<and> nx < expires_at"
proof -
  from assms obtain ms u where a: "getRelativeTimeFormatArgs (expires_at - now) = Some (ms, u)"
    and b: "b = ExpiresIn ((expires_at - now) div ms) ms u" "nx = now + timer_delay ms"
    by (auto simp: update_banner_def Let_def split: option.splits)
  from units_ms[OF a] have ms: "0 < ms" "ms < 2 ^ 31" "ms < expires_at - now" by auto
  with b timer_delay_small[of ms] show ?thesis by auto
qed

text \<open>What is on screen at time \<open>t\<close>, from the last update at \<open>u\<close>.\<close>

function banner_at :: "int \<Rightarrow> int \<Rightarrow> int \<Rightarrow> banner" where
  "banner_at expires_at u t =
     (case update_banner expires_at u of
        (b, None) \<Rightarrow> b
      | (b, Some nx) \<Rightarrow> if t < nx then b else banner_at expires_at nx t)"
  by pat_completeness auto
termination
  by (relation "measure (\<lambda>(e, u, t). nat (e - u))") (auto dest!: update_banner_next[OF sym])

declare banner_at.simps [simp del]

section \<open>The expiry flag\<close>

text \<open>\<^verbatim>\<open>useIsExpired\<close> mounted at time \<open>u\<close>: expired at once, or when the timer fires.\<close>

definition isExpired_at :: "int \<Rightarrow> int \<Rightarrow> int \<Rightarrow> bool" where
  "isExpired_at expiry u t =
     (let msUntilExpired = expiry - u in
      if msUntilExpired \<le> 0 then True else u + timer_delay msUntilExpired \<le> t)"

section \<open>Properties\<close>





end
