(* ===== verification/Session_Ui.thy ===== *)
theory Session_Ui
  imports Wallet_Data Provider
begin

text \<open>
  The components that show the provider's state (\<^verbatim>\<open>packages/sessions-sdk-react/src/components\<close>): the
  wallets offered (\<^verbatim>\<open>session-provider.tsx\<close>), the sign-in dialog (\<^verbatim>\<open>sign-in-modal.tsx\<close>), the renewal
  dialog (\<^verbatim>\<open>renew-session-modal.tsx\<close>), the button (\<^verbatim>\<open>session-button.tsx\<close>) and the screens of the
  wallet panel (\<^verbatim>\<open>session-panel.tsx\<close>, \<^verbatim>\<open>token-list.tsx\<close>). Their markup is left out; what remains is which page is
  shown, which actions it offers and how they change the state.
\<close>

section \<open>The wallets offered\<close>

datatype ready_state = Installed | NotDetected | Loadable | Unsupported

record solana_wallet =
  sw_name :: string
  sw_readyState :: ready_state

text \<open>The filter keeps the first wallet named MetaMask; \<^verbatim>\<open>seenMetaMask\<close> is threaded through the list.\<close>

fun filter_seen :: "bool \<Rightarrow> solana_wallet list \<Rightarrow> solana_wallet list" where
  "filter_seen seenMetaMask [] = []"
| "filter_seen seenMetaMask (w # ws) =
     (if sw_name w = ''MetaMask'' then (if seenMetaMask then filter_seen True ws else w # filter_seen True ws)
      else w # filter_seen seenMetaMask ws)"

definition filterUnwantedWallets :: "solana_wallet list \<Rightarrow> solana_wallet list" where
  "filterUnwantedWallets ws = filter_seen False ws"

definition SolanaMobileWalletAdapterWalletName :: string where
  "SolanaMobileWalletAdapterWalletName = ''Mobile Wallet Adapter''"

text \<open>The two tests of the user agent are parameters.\<close>

definition isMobile :: "(string \<Rightarrow> bool) \<Rightarrow> (string \<Rightarrow> bool) \<Rightarrow> string \<Rightarrow> solana_wallet list \<Rightarrow> bool" where
  "isMobile android webview userAgent ws =
     (if list_ex (\<lambda>w. sw_name w \<noteq> SolanaMobileWalletAdapterWalletName \<and> sw_readyState w = Installed) ws then False
      else android userAgent \<and> \<not> webview userAgent)"

definition mobileWalletAdapter :: "solana_wallet \<Rightarrow> bool \<Rightarrow> solana_wallet list \<Rightarrow> solana_wallet option" where
  "mobileWalletAdapter fresh mobile ws =
     (if mobile then Some (case List.find (\<lambda>w. sw_name w = SolanaMobileWalletAdapterWalletName) ws of Some w \<Rightarrow> w | None \<Rightarrow> fresh)
      else None)"

definition walletsWithMobileAdapter :: "solana_wallet \<Rightarrow> bool \<Rightarrow> solana_wallet list \<Rightarrow> solana_wallet list" where
  "walletsWithMobileAdapter fresh mobile ws = (case mobileWalletAdapter fresh mobile ws of None \<Rightarrow> ws | Some m \<Rightarrow> m # ws)"

text \<open>The list the provider and the dialog get.\<close>

definition offered_wallets ::
  "solana_wallet \<Rightarrow> (string \<Rightarrow> bool) \<Rightarrow> (string \<Rightarrow> bool) \<Rightarrow> string \<Rightarrow> solana_wallet list \<Rightarrow> solana_wallet list" where
  "offered_wallets fresh android webview userAgent ws =
     (let fs = filterUnwantedWallets ws in walletsWithMobileAdapter fresh (isMobile android webview userAgent fs) fs)"

text \<open>\<^verbatim>\<open>groupBy\<close> fills an object, one list for each key, from left to right.\<close>

definition push_group :: "('a \<Rightarrow> string) \<Rightarrow> 'a \<Rightarrow> (string \<rightharpoonup> 'a list) \<Rightarrow> (string \<rightharpoonup> 'a list)" where
  "push_group match item result =
     (case result (match item) of Some xs \<Rightarrow> result(match item \<mapsto> xs @ [item]) | None \<Rightarrow> result(match item \<mapsto> [item]))"

definition groupBy :: "'a list \<Rightarrow> ('a \<Rightarrow> string) \<Rightarrow> (string \<rightharpoonup> 'a list)" where
  "groupBy items match = fold (push_group match) items Map.empty"

definition isLoadableSolflareWallet :: "solana_wallet \<Rightarrow> bool" where
  "isLoadableSolflareWallet w \<longleftrightarrow> sw_name w = ''Solflare'' \<and> sw_readyState w = Loadable"

definition wallet_group :: "solana_wallet \<Rightarrow> string" where
  "wallet_group w =
     (if (sw_readyState w = Installed \<or> sw_readyState w = Loadable) \<and> \<not> isLoadableSolflareWallet w
      then ''installedWallets'' else ''otherWallets'')"

text \<open>The wallets that can be selected, and those that are only linked to.\<close>

definition installedWallets :: "solana_wallet list \<Rightarrow> solana_wallet list" where
  "installedWallets ws = (case groupBy ws wallet_group ''installedWallets'' of Some xs \<Rightarrow> xs | None \<Rightarrow> [])"

definition otherWallets :: "solana_wallet list \<Rightarrow> solana_wallet list" where
  "otherWallets ws = (case groupBy ws wallet_group ''otherWallets'' of Some xs \<Rightarrow> xs | None \<Rightarrow> [])"

lemma groupBy_filter: "groupBy items match k = (if filter (\<lambda>x. match x = k) items = [] then None else Some (filter (\<lambda>x. match x = k) items))"
proof (induction items rule: rev_induct)
  case (snoc x xs)
  then show ?case by (auto simp: groupBy_def push_group_def split: option.splits)
qed (simp add: groupBy_def)

lemma installed_filter: "installedWallets ws = filter (\<lambda>w. wallet_group w = ''installedWallets'') ws"
  and other_filter: "otherWallets ws = filter (\<lambda>w. wallet_group w = ''otherWallets'') ws"
  by (simp_all add: installedWallets_def otherWallets_def groupBy_filter)

lemma filter_seen_others: "filter (\<lambda>w. sw_name w \<noteq> ''MetaMask'') (filter_seen b ws) = filter (\<lambda>w. sw_name w \<noteq> ''MetaMask'') ws"
  by (induction b ws rule: filter_seen.induct) auto

lemma filter_seen_metamask:
  "filter (\<lambda>w. sw_name w = ''MetaMask'') (filter_seen b ws) = (if b then [] else take 1 (filter (\<lambda>w. sw_name w = ''MetaMask'') ws))"
  by (induction b ws rule: filter_seen.induct) auto

section \<open>The dialogs\<close>

definition signin_isOpen :: "SessionState \<Rightarrow> bool" where
  "signin_isOpen s = (state_type s \<in> {T_SelectingWallet, T_WalletConnecting, T_RequestingLimits, T_SettingLimits})"

definition isRequestingExtendedExpiry :: "SessionState \<Rightarrow> bool" where
  "isRequestingExtendedExpiry s = (case s of RequestingExtendedExpiry _ \<Rightarrow> True
     | UpdatingSession _ prev \<Rightarrow> prev = T_RequestingExtendedExpiry | _ \<Rightarrow> False)"

definition isRequestingIncreasedLimits :: "SessionState \<Rightarrow> bool" where
  "isRequestingIncreasedLimits s = (case s of RequestingIncreasedLimits _ \<Rightarrow> True
     | UpdatingSession _ prev \<Rightarrow> prev = T_RequestingIncreasedLimits | _ \<Rightarrow> False)"

definition renew_isOpen :: "SessionState \<Rightarrow> bool" where
  "renew_isOpen s = (isRequestingExtendedExpiry s \<or> isRequestingIncreasedLimits s)"

definition renew_heading :: "SessionState \<Rightarrow> string" where
  "renew_heading s = (if isRequestingExtendedExpiry s then ''Your session is expired'' else ''This trade exceeds your set limits'')"

text \<open>Closing either dialog cancels when the state can be cancelled.\<close>

definition close_dialog :: "provider \<Rightarrow> provider" where
  "close_dialog st = (if isCancelable (pv_state st) then (case cancel st of Some st' \<Rightarrow> st' | None \<Rightarrow> st) else st)"

datatype signin_page = DisclaimerPage | WalletsPage bool | LimitsPage

text \<open>The page inside the dialog; the flag says whether a wallet can be pressed.\<close>

definition SignInModalContents :: "bool \<Rightarrow> pubkey list \<Rightarrow> SessionState \<Rightarrow> signin_page" where
  "SignInModalContents didAcceptDisclaimer whitelistedTokens s =
     (if state_type s \<in> {T_SelectingWallet, T_WalletConnecting} \<or> state_type s = T_SettingLimits \<and> whitelistedTokens = []
      then (if didAcceptDisclaimer then WalletsPage (state_type s = T_SelectingWallet) else DisclaimerPage)
      else LimitsPage)"

definition signin_dialog :: "bool \<Rightarrow> pubkey list \<Rightarrow> SessionState \<Rightarrow> signin_page option" where
  "signin_dialog didAcceptDisclaimer whitelistedTokens s =
     (if signin_isOpen s then Some (SignInModalContents didAcceptDisclaimer whitelistedTokens s) else None)"

text \<open>Pressing a wallet of the dialog.\<close>

definition press_wallet :: "provider_config \<Rightarrow> bool \<Rightarrow> pubkey list \<Rightarrow> solana_wallet list \<Rightarrow> string \<Rightarrow> provider \<Rightarrow> provider option" where
  "press_wallet cfg accepted whitelisted ws name st =
     (if signin_dialog accepted whitelisted (pv_state st) = Some (WalletsPage True) \<and> name \<in> sw_name ` set (installedWallets ws)
      then handle cfg st (UserSelectWallet name) else None)"

section \<open>The button\<close>

text \<open>What \<^verbatim>\<open>onStartSessionInit\<close> does: not given, returned at once (the flag is false only for
  \<^verbatim>\<open>false\<close>), or a promise that settles later.\<close>

datatype init_callback = NoCallback | Returned bool | Promised

datatype press_effect = OpenPanel | Establish "limits option" | AwaitInit "limits option" | NoEffect

definition handlePress :: "init_callback \<Rightarrow> limits option \<Rightarrow> SessionState \<Rightarrow> press_effect" where
  "handlePress cb lims s =
     (if isEstablished s then OpenPanel
      else if s = NotEstablished then
        (case cb of NoCallback \<Rightarrow> Establish lims | Promised \<Rightarrow> AwaitInit lims
         | Returned go \<Rightarrow> if go then Establish lims else NoEffect)
      else NoEffect)"

record button =
  bt_panelOpen :: bool
  bt_prev :: SessionState
  bt_widgetShown :: bool

text \<open>The effect after a render with a new state: the panel opens by itself when a session appears that was not
  restored, once for each browser.\<close>

definition state_effect :: "SessionState \<Rightarrow> button \<Rightarrow> button" where
  "state_effect s b =
     (if state_type s \<noteq> state_type (bt_prev b)
      then (if isEstablished s \<and> \<not> isEstablished (bt_prev b) \<and> state_type (bt_prev b) \<noteq> T_CheckingStoredSession \<and> \<not> bt_widgetShown b
            then b\<lparr>bt_panelOpen := True, bt_widgetShown := True, bt_prev := s\<rparr> else b\<lparr>bt_prev := s\<rparr>)
      else b)"

definition bridge_effect :: "bool \<Rightarrow> button \<Rightarrow> button" where
  "bridge_effect showBridgeIn b = (if showBridgeIn then b\<lparr>bt_panelOpen := True\<rparr> else b)"

text \<open>The popover is visible while it is open and a session is established; the button is disabled while the wallet is loading.\<close>

definition panel_visible :: "SessionState \<Rightarrow> button \<Rightarrow> bool" where
  "panel_visible s b \<longleftrightarrow> bt_panelOpen b \<and> isEstablished s"

definition button_press :: "init_callback \<Rightarrow> limits option \<Rightarrow> SessionState \<Rightarrow> button \<Rightarrow> press_effect \<times> button" where
  "button_press cb lims s b =
     (if isWalletLoading s then (NoEffect, b)
      else let e = handlePress cb lims s in (e, if e = OpenPanel then b\<lparr>bt_panelOpen := True\<rparr> else b))"

section \<open>The screens of the wallet panel\<close>

datatype TokenScreen = Wallet | SelectTokenToSend | Send Token bool | Receive | Get | Withdraw | Deposit

text \<open>The flag of \<open>Send\<close> says that the token was chosen on the selection screen. The mint of wrapped FOGO has an unwrap button instead of a
  send button in the list of the wallet screen.\<close>

datatype screen_event =
  PressBack | PressSend | PressSendForToken Token | PressToken Token | PressReceive | PressGet | PressTransferIn
  | PressWithdraw | PressDeposit | Completed | ShowBridgeIn

definition list_offers_send :: "pubkey \<Rightarrow> Token \<Rightarrow> bool" where
  "list_offers_send nativeMint t \<longleftrightarrow> tk_mint t \<noteq> Some nativeMint"

definition has_tokens :: "TokenAccountData data_state \<Rightarrow> bool" where
  "has_tokens d = (case d of Loaded d \<Rightarrow> tad_tokensInWallet d \<noteq> [] | _ \<Rightarrow> False)"

definition listed :: "TokenAccountData data_state \<Rightarrow> Token \<Rightarrow> bool" where
  "listed d t = (case d of Loaded d \<Rightarrow> t \<in> set (tad_tokensInWallet d) | _ \<Rightarrow> False)"

definition wallet_page_step :: "Network \<Rightarrow> pubkey \<Rightarrow> TokenAccountData data_state \<Rightarrow> screen_event \<Rightarrow> TokenScreen option" where
  "wallet_page_step n nativeMint d ev =
     (case ev of
        PressSend \<Rightarrow> if has_tokens d then Some SelectTokenToSend else None
      | PressSendForToken t \<Rightarrow> if listed d t \<and> list_offers_send nativeMint t then Some (Send t False) else None
      | PressReceive \<Rightarrow> Some Receive
      | PressGet \<Rightarrow> if n = Mainnet then None else Some Get
      | PressTransferIn \<Rightarrow> if n = Mainnet \<or> (case d of Loaded _ \<Rightarrow> \<not> has_tokens d | _ \<Rightarrow> False) then Some Deposit else None
      | PressWithdraw \<Rightarrow> if has_tokens d then Some Withdraw else None
      | _ \<Rightarrow> None)"

definition Tokens_step :: "Network \<Rightarrow> pubkey \<Rightarrow> TokenAccountData data_state \<Rightarrow> screen_event \<Rightarrow> TokenScreen \<Rightarrow> TokenScreen option" where
  "Tokens_step n nativeMint d ev s =
     (if ev = ShowBridgeIn then Some Deposit
      else case s of
        Wallet \<Rightarrow> wallet_page_step n nativeMint d ev
      | SelectTokenToSend \<Rightarrow>
          (case ev of PressBack \<Rightarrow> Some Wallet
           | PressToken t \<Rightarrow> if listed d t then Some (Send t True) else None
           | PressTransferIn \<Rightarrow> (case d of Loaded _ \<Rightarrow> if has_tokens d then None else Some Deposit | _ \<Rightarrow> None)
           | _ \<Rightarrow> None)
      | Send t fromSelect \<Rightarrow>
          (case ev of PressBack \<Rightarrow> Some (if fromSelect then SelectTokenToSend else Wallet) | Completed \<Rightarrow> Some Wallet | _ \<Rightarrow> None)
      | Receive \<Rightarrow> (case ev of PressBack \<Rightarrow> Some Wallet | _ \<Rightarrow> None)
      | Get \<Rightarrow> (case ev of PressBack \<Rightarrow> Some Wallet | PressDeposit \<Rightarrow> Some Deposit | _ \<Rightarrow> None)
      | Withdraw \<Rightarrow> (case ev of PressBack \<Rightarrow> Some Wallet | Completed \<Rightarrow> Some Wallet | _ \<Rightarrow> None)
      | Deposit \<Rightarrow> (case ev of PressBack \<Rightarrow> Some (if n = Mainnet then Wallet else Get) | Completed \<Rightarrow> Some Wallet | _ \<Rightarrow> None))"

text \<open>The screens the panel can reach; the token data may be anything at each step.\<close>

inductive screen_reach :: "Network \<Rightarrow> pubkey \<Rightarrow> TokenScreen \<Rightarrow> bool" for n nativeMint where
  opened: "screen_reach n nativeMint Wallet"
| moved: "screen_reach n nativeMint s \<Longrightarrow> Tokens_step n nativeMint d ev s = Some s' \<Longrightarrow> screen_reach n nativeMint s'"

inductive_cases screen_reachE: "screen_reach n nativeMint s"

text \<open>Logging out from the panel.\<close>

definition handleLogOut :: "provider_config \<Rightarrow> provider \<Rightarrow> button \<Rightarrow> (provider \<times> button) option" where
  "handleLogOut cfg st b =
     (if isEstablished (pv_state st) then map_option (\<lambda>st'. (st', b\<lparr>bt_panelOpen := False\<rparr>)) (handle cfg st UserEndSession) else None)"


section \<open>Properties\<close>

lemma groups_partition: "mset (installedWallets ws) + mset (otherWallets ws) = mset ws"
proof -
  have "wallet_group w = ''otherWallets'' \<longleftrightarrow> wallet_group w \<noteq> ''installedWallets''" for w by (simp add: wallet_group_def)
  then have "otherWallets ws = filter (\<lambda>w. wallet_group w \<noteq> ''installedWallets'') ws" by (simp add: other_filter)
  then show ?thesis by (simp add: installed_filter)
qed

text \<open>The list keeps every wallet in order and at most one MetaMask. On a mobile browser whose list already has
  the mobile adapter, that adapter is offered twice.\<close>

theorem offered_wallets_list:
  "filter (\<lambda>w. sw_name w \<noteq> ''MetaMask'') (filterUnwantedWallets ws) = filter (\<lambda>w. sw_name w \<noteq> ''MetaMask'') ws \<and>
   length (filter (\<lambda>w. sw_name w = ''MetaMask'') (filterUnwantedWallets ws)) \<le> 1 \<and>
   (\<exists>fresh m. walletsWithMobileAdapter fresh True [m] = [m, m])"
proof -
  have "walletsWithMobileAdapter fresh True [\<lparr>sw_name = SolanaMobileWalletAdapterWalletName, sw_readyState = Loadable\<rparr>] =
      replicate 2 \<lparr>sw_name = SolanaMobileWalletAdapterWalletName, sw_readyState = Loadable\<rparr>" for fresh
    by (simp add: walletsWithMobileAdapter_def mobileWalletAdapter_def numeral_2_eq_2)
  then have "\<exists>fresh m. walletsWithMobileAdapter fresh True [m] = [m, m]" by (auto simp: numeral_2_eq_2)
  then show ?thesis
    using filter_seen_others[of False ws] filter_seen_metamask[of False ws] by (simp add: filterUnwantedWallets_def)
qed

lemma signin_open_cancelable: "signin_isOpen s \<Longrightarrow> isCancelable s"
  by (cases s) (simp_all add: signin_isOpen_def state_type_def isCancelable_def)

lemma press_wallet_parts:
  assumes "press_wallet cfg accepted whitelisted ws name st = Some st'"
  shows "accepted" "\<exists>lims. pv_state st = SelectingWallet lims \<and> st' = connectWallet name lims st"
    "\<exists>w \<in> set (installedWallets ws). sw_name w = name"
proof -
  from assms have d: "signin_dialog accepted whitelisted (pv_state st) = Some (WalletsPage True)"
    and n: "name \<in> sw_name ` set (installedWallets ws)" and h: "handle cfg st (UserSelectWallet name) = Some st'"
    by (auto simp: press_wallet_def split: if_splits)
  from d show "accepted" by (auto simp: signin_dialog_def SignInModalContents_def split: if_splits)
  from h show "\<exists>lims. pv_state st = SelectingWallet lims \<and> st' = connectWallet name lims st"
    by (auto simp: handle_def split: SessionState.splits if_splits)
  from n show "\<exists>w \<in> set (installedWallets ws). sw_name w = name" by auto
qed

text \<open>C25: a wallet is only connected from the wallet page, after the disclaimer was accepted, and it is
  one that can be used: it reports itself as installed or loadable and is not the placeholder of
  Solflare. Every wallet appears in exactly one of the two groups of the page. The
  attempt shows up as connecting, and the dialog can be closed.\<close>

theorem wallet_selection_guarded:
  assumes "press_wallet cfg accepted whitelisted ws name st = Some st'"
  shows "accepted \<and> mset (installedWallets ws) + mset (otherWallets ws) = mset ws \<and>
    (\<exists>w \<in> set ws. sw_name w = name \<and> sw_readyState w \<noteq> NotDetected \<and> sw_readyState w \<noteq> Unsupported \<and> \<not> isLoadableSolflareWallet w) \<and>
    pv_state st' = WalletConnecting (next_id st) \<and> isCancelable (pv_state st') \<and>
    pv_state (close_dialog st') = NotEstablished \<and> next_id st \<in> aborted (close_dialog st')"
proof -
  from press_wallet_parts[OF assms] obtain lims w where a: "accepted" and st: "st' = connectWallet name lims st"
    and w: "w \<in> set (installedWallets ws)" "sw_name w = name" by blast
  have conn: "pv_state st' = WalletConnecting (next_id st)" by (simp add: st connectWallet_def Let_def setState_def spawn_def)
  from w have "w \<in> set ws \<and> sw_readyState w \<noteq> NotDetected \<and> sw_readyState w \<noteq> Unsupported \<and> \<not> isLoadableSolflareWallet w"
    by (auto simp: installed_filter wallet_group_def split: if_splits)
  with a w conn groups_partition[of ws] show ?thesis
    by (auto simp: close_dialog_def isCancelable_def cancel_def setState_def)
qed

definition demo_provider :: "SessionState \<Rightarrow> provider" where
  "demo_provider s = setState s (initial None Map.empty Map.empty {})"

definition demo_provider_config :: provider_config where
  "demo_provider_config = \<lparr>no_tokens = False, enable_unlimited = False, wallet_names = [''Phantom'']\<rparr>"

theorem wallet_selection_guarded_witness:
  "\<exists>st'. press_wallet demo_provider_config True [] [\<lparr>sw_name = ''Phantom'', sw_readyState = Installed\<rparr>] ''Phantom''
      (demo_provider (SelectingWallet None)) = Some st' \<and> pv_state (close_dialog st') = NotEstablished"
proof -
  have "\<exists>st'. press_wallet demo_provider_config True [] [\<lparr>sw_name = ''Phantom'', sw_readyState = Installed\<rparr>] ''Phantom''
      (demo_provider (SelectingWallet None)) = Some st'"
    by (simp add: press_wallet_def signin_dialog_def signin_isOpen_def SignInModalContents_def state_type_def demo_provider_def setState_def
        installed_filter wallet_group_def isLoadableSolflareWallet_def handle_def demo_provider_config_def)
  with wallet_selection_guarded show ?thesis by blast
qed

text \<open>No dialog traps the user. The two dialogs are never open together; closing an open sign-in
  dialog always cancels, and the renewal dialog can be closed, back to the session it belongs to, except
  while its update is being sent.\<close>

theorem dialogs_closable:
  assumes "signin_isOpen (pv_state st) \<or> renew_isOpen (pv_state st)"
  shows "\<not> (signin_isOpen (pv_state st) \<and> renew_isOpen (pv_state st)) \<and>
    (if signin_isOpen (pv_state st) then cancel st = Some (close_dialog st)
     else case established_of (pv_state st) of None \<Rightarrow> False
       | Some e \<Rightarrow> pv_state (close_dialog st) = Established e \<or> (\<exists>p. pv_state st = UpdatingSession e p))"
  using assms
  by (cases "pv_state st")
     (auto simp: signin_isOpen_def renew_isOpen_def isRequestingExtendedExpiry_def isRequestingIncreasedLimits_def state_type_def
       close_dialog_def isCancelable_def cancel_def established_of_def setState_def)

theorem dialogs_closable_witness:
  "pv_state (close_dialog (demo_provider (RequestingExtendedExpiry \<lparr>e_key = 0, e_pk = PublicKey [1], e_wallet = ''w''\<rparr>))) =
     Established \<lparr>e_key = 0, e_pk = PublicKey [1], e_wallet = ''w''\<rparr>"
  using dialogs_closable[of "demo_provider (RequestingExtendedExpiry \<lparr>e_key = 0, e_pk = PublicKey [1], e_wallet = ''w''\<rparr>)"]
  by (simp add: renew_isOpen_def isRequestingExtendedExpiry_def signin_isOpen_def demo_provider_def setState_def state_type_def established_of_def)

fun go_back :: "nat \<Rightarrow> Network \<Rightarrow> pubkey \<Rightarrow> TokenAccountData data_state \<Rightarrow> TokenScreen \<Rightarrow> TokenScreen" where
  "go_back 0 n nativeMint d s = s"
| "go_back (Suc k) n nativeMint d s = (case Tokens_step n nativeMint d PressBack s of Some s' \<Rightarrow> go_back k n nativeMint d s' | None \<Rightarrow> s)"

lemma screen_step_get:
  assumes "Tokens_step Mainnet nativeMint d ev s = Some s'" and "s \<noteq> Get"
  shows "s' \<noteq> Get"
  using assms by (cases s; cases ev) (auto simp: Tokens_step_def wallet_page_step_def split: if_splits data_state.splits)

lemma no_faucet_on_mainnet: "screen_reach Mainnet nativeMint s \<Longrightarrow> s \<noteq> Get"
  by (induction rule: screen_reach.induct) (use screen_step_get in auto)

lemma back_home: "go_back 2 n nativeMint d s = Wallet"
  by (cases s) (simp_all add: numeral_2_eq_2 Tokens_step_def wallet_page_step_def)

lemma send_screen_token:
  assumes "Tokens_step n nativeMint d ev s = Some (Send t b)"
  shows "listed d t" "b \<or> tk_mint t \<noteq> Some nativeMint"
  using assms
  by (cases s; cases ev; auto simp: Tokens_step_def wallet_page_step_def list_offers_send_def split: if_splits data_state.splits)+

text \<open>C36: every screen leads back to the wallet: pressing Back at most twice is enough from any screen that can be
  reached, whatever the balances are. The screen with the faucet is never reached on Mainnet, and
  the send form only opens for a token of the list, never from the wallet screen for wrapped FOGO.\<close>

theorem screens_lead_home:
  assumes "screen_reach n nativeMint s"
  shows "go_back 2 n nativeMint d s = Wallet \<and> (if n = Mainnet then s \<noteq> Get else True) \<and>
    (case Tokens_step n nativeMint d ev s of Some (Send t b) \<Rightarrow> listed d t \<and> (b \<or> tk_mint t \<noteq> Some nativeMint) | _ \<Rightarrow> True)"
  using back_home[of n nativeMint d s] no_faucet_on_mainnet[of nativeMint s] send_screen_token[of n nativeMint d ev s] assms
  by (auto split: option.splits TokenScreen.splits)

theorem screens_lead_home_witness:
  "screen_reach Testnet (PublicKey []) Get \<and> go_back 2 Testnet (PublicKey []) Loading Get = Wallet"
proof -
  have "Tokens_step Testnet (PublicKey []) Loading PressGet Wallet = Some Get" by (simp add: Tokens_step_def wallet_page_step_def)
  then have r: "screen_reach Testnet (PublicKey []) Get" by (rule screen_reach.moved[OF screen_reach.opened])
  with screens_lead_home[OF r, of Loading] show ?thesis by blast
qed

end
