(* ===== verification/Domain_Registry.thy ===== *)
theory Domain_Registry
  imports Session_Account "HOL-Library.Multiset"
begin

text \<open>
  The domain registry: the on-chain program that keeps the programs a domain trusts
  (\<^verbatim>\<open>programs/domain-registry/src\<close>) and the scripts that administer it
  (\<^verbatim>\<open>scripts/ts/src/domain-registry.ts\<close>, \<^verbatim>\<open>initialize-tollbooth.ts\<close>). The state is the
  configuration and the accounts with their owner, lamports and bytes; an instruction is a function from state to
  state or error, a transaction runs its instructions in order and takes effect as a whole.
  The properties connect the three programs that share these bytes: what the scripts register is
  what the registry holds and what the SDK then reads.
\<close>

section \<open>Accounts\<close>

text \<open>A \<^verbatim>\<open>DomainProgram\<close> is the pair of keys that sessions carry, \<open>raw_program\<close>; the runtime,
  \<^verbatim>\<open>bytemuck\<close> and the rent are parameters. \<open>cast_slice\<close> is \<open>None\<close> where the cast panics.\<close>

datatype account_owner = System_owned | Registry_owned

record chain_account =
  ac_owner :: account_owner
  ac_lamports :: nat
  ac_data :: bytes

type_synonym accounts = "pubkey \<Rightarrow> chain_account"

record registry_chain =
  rc_config :: "pubkey option"
  rc_config_lamports :: nat
  rc_accounts :: accounts

record program_lib =
  cast_slice :: "bytes \<Rightarrow> raw_program list option"
  realloc :: "bytes \<Rightarrow> nat \<Rightarrow> bytes option"
  minimum_balance :: "nat \<Rightarrow> nat"

datatype program_error =
    InvalidDomainRecordPda
  | ProgramAlreadyAdded
  | ProgramNotFound
  | AccountDataTooSmall
  | ConstraintFailed string
  | SystemError string
  | RuntimePanic

type_synonym 'a presult = "program_error + 'a"

definition bind_presult :: "'a presult \<Rightarrow> ('a \<Rightarrow> 'b presult) \<Rightarrow> 'b presult" where
  "bind_presult r f = (case r of Inl e \<Rightarrow> Inl e | Inr x \<Rightarrow> f x)"

lemma bind_presult_simps [simp]: "bind_presult (Inr x) f = f x" "bind_presult (Inl e) f = Inl e"
  by (simp_all add: bind_presult_def)

lemma bind_presult_Inr: "bind_presult r f = Inr y \<longleftrightarrow> (\<exists>x. r = Inr x \<and> f x = Inr y)"
  by (cases r) simp_all

definition move_lamports :: "pubkey \<Rightarrow> pubkey \<Rightarrow> nat \<Rightarrow> accounts \<Rightarrow> accounts" where
  "move_lamports src dst n a =
     (let b = a(src := (a src)\<lparr>ac_lamports := ac_lamports (a src) - n\<rparr>) in
      b(dst := (b dst)\<lparr>ac_lamports := ac_lamports (b dst) + n\<rparr>))"

text \<open>The system program: a transfer needs a source without a program and with enough lamports; an
  account can be allocated and assigned while it has neither data nor a program.\<close>

definition system_transfer :: "pubkey \<Rightarrow> pubkey \<Rightarrow> nat \<Rightarrow> accounts \<Rightarrow> accounts presult" where
  "system_transfer src dst n a =
     (if ac_owner (a src) \<noteq> System_owned then Inl (SystemError ''from must be a system account'')
      else if ac_lamports (a src) < n then Inl (SystemError ''insufficient lamports'')
      else Inr (move_lamports src dst n a))"

definition allocate_assign :: "pubkey \<Rightarrow> nat \<Rightarrow> accounts \<Rightarrow> accounts presult" where
  "allocate_assign k space a =
     (if ac_owner (a k) \<noteq> System_owned \<or> ac_data (a k) \<noteq> [] then Inl (SystemError ''already in use'')
      else Inr (a(k := (a k)\<lparr>ac_owner := Registry_owned, ac_data := replicate space 0\<rparr>)))"

definition create_pda :: "program_lib \<Rightarrow> pubkey \<Rightarrow> pubkey \<Rightarrow> nat \<Rightarrow> accounts \<Rightarrow> accounts presult" where
  "create_pda C funder fresh space a =
     (let current = ac_lamports (a fresh) in
      if current = 0
      then bind_presult (system_transfer funder fresh (minimum_balance C space) a) (allocate_assign fresh space)
      else let required = max (minimum_balance C space) 1 - current in
        bind_presult (if required > 0 then system_transfer funder fresh required a else Inr a)
          (allocate_assign fresh space))"

section \<open>The array in an account\<close>

definition program_bytes :: "raw_program \<Rightarrow> bytes" where
  "program_bytes p = toBytes (program_id p) @ toBytes (signer_pda p)"

text \<open>The size of the type, two keys of 32 bytes.\<close>

definition program_size :: nat where
  "program_size = 64"

definition adjust_rent_if_needed :: "program_lib \<Rightarrow> pubkey \<Rightarrow> pubkey \<Rightarrow> accounts \<Rightarrow> accounts presult" where
  "adjust_rent_if_needed C acc funder a =
     (let amount_required = (if ac_data (a acc) = [] then 0 else minimum_balance C (length (ac_data (a acc))));
          amount_to_transfer = amount_required - ac_lamports (a acc) in
      bind_presult (if amount_to_transfer > 0 then system_transfer funder acc amount_to_transfer a else Inr a) (\<lambda>b.
        let amount_to_withdraw = ac_lamports (b acc) - amount_required in
        Inr (if amount_to_withdraw > 0 then move_lamports acc funder amount_to_withdraw b else b)))"

definition resize :: "program_lib \<Rightarrow> pubkey \<Rightarrow> pubkey \<Rightarrow> nat \<Rightarrow> accounts \<Rightarrow> accounts presult" where
  "resize C acc funder n a =
     (case realloc C (ac_data (a acc)) n of
        None \<Rightarrow> Inl (SystemError ''realloc'')
      | Some d \<Rightarrow> adjust_rent_if_needed C acc funder (a(acc := (a acc)\<lparr>ac_data := d\<rparr>)))"

definition push :: "program_lib \<Rightarrow> pubkey \<Rightarrow> pubkey \<Rightarrow> raw_program \<Rightarrow> accounts \<Rightarrow> accounts presult" where
  "push C acc funder v a =
     bind_presult (resize C acc funder (length (ac_data (a acc)) + program_size) a) (\<lambda>b.
       let d = ac_data (b acc) in
       Inr (b(acc := (b acc)\<lparr>ac_data := take (length d - program_size) d @ program_bytes v\<rparr>)))"

definition swap_last :: "'a list \<Rightarrow> nat \<Rightarrow> 'a list" where
  "swap_last xs i = xs[i := last xs, length xs - 1 := xs ! i]"

definition swap_remove :: "program_lib \<Rightarrow> pubkey \<Rightarrow> pubkey \<Rightarrow> nat \<Rightarrow> accounts \<Rightarrow> accounts presult" where
  "swap_remove C acc funder i a =
     (case cast_slice C (ac_data (a acc)) of
        None \<Rightarrow> Inl RuntimePanic
      | Some elements \<Rightarrow>
          if i < length elements
          then let b = a(acc := (a acc)\<lparr>ac_data := concat (map program_bytes (swap_last elements i))\<rparr>) in
               resize C acc funder (length (ac_data (b acc)) - program_size) b
          else Inl AccountDataTooSmall)"

definition contains :: "program_lib \<Rightarrow> pubkey \<Rightarrow> raw_program \<Rightarrow> accounts \<Rightarrow> bool presult" where
  "contains C acc v a =
     (case cast_slice C (ac_data (a acc)) of None \<Rightarrow> Inl RuntimePanic | Some ps \<Rightarrow> Inr (v \<in> set ps))"

fun index_where :: "('a \<Rightarrow> bool) \<Rightarrow> 'a list \<Rightarrow> nat option" where
  "index_where P [] = None"
| "index_where P (x # xs) = (if P x then Some 0 else map_option Suc (index_where P xs))"

definition position :: "program_lib \<Rightarrow> pubkey \<Rightarrow> (raw_program \<Rightarrow> bool) \<Rightarrow> accounts \<Rightarrow> nat option presult" where
  "position C acc P a =
     (case cast_slice C (ac_data (a acc)) of None \<Rightarrow> Inl RuntimePanic | Some ps \<Rightarrow> Inr (index_where P ps))"

section \<open>The program\<close>

definition domain_record_pda :: "solana_lib \<Rightarrow> string \<Rightarrow> pubkey" where
  "domain_record_pda L domain =
     findProgramAddressSync L [utf8 ''domain-record'', sha256 L (utf8 domain)] (program_address L ''domain_registry'')"

definition program_signer_pda :: "solana_lib \<Rightarrow> pubkey \<Rightarrow> pubkey" where
  "program_signer_pda L p = findProgramAddressSync L [utf8 ''fogo_session_program_signer''] p"

text \<open>\<^verbatim>\<open>has_one = authority\<close> on the initialised configuration.\<close>

definition check_authority :: "registry_chain \<Rightarrow> pubkey \<Rightarrow> unit presult" where
  "check_authority s signer =
     (case rc_config s of
        None \<Rightarrow> Inl (ConstraintFailed ''AccountNotInitialized'')
      | Some authority \<Rightarrow> if authority = signer then Inr () else Inl (ConstraintFailed ''ConstraintHasOne''))"

definition initialize :: "program_lib \<Rightarrow> pubkey \<Rightarrow> registry_chain \<Rightarrow> registry_chain presult" where
  "initialize C signer s =
     (if rc_config s \<noteq> None then Inl (SystemError ''already in use'')
      else let n = minimum_balance C 40 - rc_config_lamports s; a = rc_accounts s in
        if ac_owner (a signer) \<noteq> System_owned \<or> ac_lamports (a signer) < n then Inl (SystemError ''insufficient lamports'')
        else Inr (s\<lparr>rc_config := Some signer, rc_config_lamports := rc_config_lamports s + n,
                    rc_accounts := a(signer := (a signer)\<lparr>ac_lamports := ac_lamports (a signer) - n\<rparr>)\<rparr>))"

definition update_authority :: "pubkey \<Rightarrow> pubkey \<Rightarrow> registry_chain \<Rightarrow> registry_chain presult" where
  "update_authority signer new_authority s =
     bind_presult (check_authority s signer) (\<lambda>_. Inr (s\<lparr>rc_config := Some new_authority\<rparr>))"

definition create_domain_record_if_needed :: "program_lib \<Rightarrow> pubkey \<Rightarrow> pubkey \<Rightarrow> accounts \<Rightarrow> accounts presult" where
  "create_domain_record_if_needed C authority domain_record a =
     (if ac_owner (a domain_record) = System_owned then create_pda C authority domain_record 0 a else Inr a)"

definition add_program ::
  "solana_lib \<Rightarrow> program_lib \<Rightarrow> pubkey \<Rightarrow> string \<Rightarrow> pubkey \<Rightarrow> pubkey \<Rightarrow> pubkey \<Rightarrow> registry_chain \<Rightarrow> registry_chain presult" where
  "add_program L C signer domain domain_record program signer' s =
     bind_presult (check_authority s signer) (\<lambda>_.
       if signer' \<noteq> program_signer_pda L program then Inl (ConstraintFailed ''ConstraintSeeds'')
       else if domain_record \<noteq> domain_record_pda L domain then Inl InvalidDomainRecordPda
       else bind_presult (create_domain_record_if_needed C signer domain_record (rc_accounts s)) (\<lambda>a.
         let domain_program = \<lparr>program_id = program, signer_pda = signer'\<rparr> in
         bind_presult (contains C domain_record domain_program a) (\<lambda>found.
           if found then Inl ProgramAlreadyAdded
           else bind_presult (push C domain_record signer domain_program a) (\<lambda>b. Inr (s\<lparr>rc_accounts := b\<rparr>)))))"

definition remove_program ::
  "solana_lib \<Rightarrow> program_lib \<Rightarrow> pubkey \<Rightarrow> string \<Rightarrow> pubkey \<Rightarrow> pubkey \<Rightarrow> registry_chain \<Rightarrow> registry_chain presult" where
  "remove_program L C signer domain domain_record program s =
     bind_presult (check_authority s signer) (\<lambda>_.
       if domain_record \<noteq> domain_record_pda L domain then Inl InvalidDomainRecordPda
       else bind_presult (position C domain_record (\<lambda>p. program_id p = program) (rc_accounts s)) (\<lambda>found.
         case found of
           None \<Rightarrow> Inl ProgramNotFound
         | Some i \<Rightarrow> bind_presult (swap_remove C domain_record signer i (rc_accounts s)) (\<lambda>a. Inr (s\<lparr>rc_accounts := a\<rparr>))))"

datatype registry_ix =
    Initialize
  | UpdateAuthority pubkey
  | AddProgram string pubkey pubkey pubkey
  | RemoveProgram string pubkey pubkey

fun process :: "solana_lib \<Rightarrow> program_lib \<Rightarrow> pubkey \<Rightarrow> registry_ix \<Rightarrow> registry_chain \<Rightarrow> registry_chain presult" where
  "process L C signer Initialize s = initialize C signer s"
| "process L C signer (UpdateAuthority k) s = update_authority signer k s"
| "process L C signer (AddProgram domain r p sp) s = add_program L C signer domain r p sp s"
| "process L C signer (RemoveProgram domain r p) s = remove_program L C signer domain r p s"

fun process_all :: "solana_lib \<Rightarrow> program_lib \<Rightarrow> pubkey \<Rightarrow> registry_ix list \<Rightarrow> registry_chain \<Rightarrow> registry_chain presult" where
  "process_all L C signer [] s = Inr s"
| "process_all L C signer (i # ixs) s = bind_presult (process L C signer i s) (process_all L C signer ixs)"

text \<open>At the end of a transaction the runtime drops the accounts that hold no lamports.\<close>

definition sweep :: "registry_chain \<Rightarrow> registry_chain" where
  "sweep s = s\<lparr>rc_accounts := \<lambda>k. if ac_lamports (rc_accounts s k) = 0
     then \<lparr>ac_owner = System_owned, ac_lamports = 0, ac_data = []\<rparr> else rc_accounts s k\<rparr>"

definition transact :: "solana_lib \<Rightarrow> program_lib \<Rightarrow> pubkey \<Rightarrow> registry_ix list \<Rightarrow> registry_chain \<Rightarrow> registry_chain presult" where
  "transact L C signer ixs s = bind_presult (process_all L C signer ixs s) (\<lambda>s'. Inr (sweep s'))"

text \<open>What a client reads of an account.\<close>

definition chain_world :: "world \<Rightarrow> registry_chain \<Rightarrow> world" where
  "chain_world W s = W\<lparr>getAccountInfo := \<lambda>k.
     Inr (if ac_lamports (rc_accounts s k) = 0 then None else Some (ac_data (rc_accounts s k)))\<rparr>"

section \<open>The scripts\<close>

text \<open>The Anchor client adds the accounts that the interface of the program derives: the wallet as authority
  and the signer account of the program.\<close>

definition addProgram :: "solana_lib \<Rightarrow> string \<Rightarrow> pubkey \<Rightarrow> pubkey \<Rightarrow> registry_ix" where
  "addProgram L domain domainRecord program = AddProgram domain domainRecord program (program_signer_pda L program)"

text \<open>\<^verbatim>\<open>.rpc()\<close>: the state afterwards and the error, if the transaction fails.\<close>

definition rpc :: "solana_lib \<Rightarrow> program_lib \<Rightarrow> pubkey \<Rightarrow> registry_ix list \<Rightarrow> registry_chain \<Rightarrow> registry_chain \<times> unit result" where
  "rpc L C wallet ixs s =
     (case transact L C wallet ixs s of Inl e \<Rightarrow> (s, Inl (ExternalError ''AnchorError'')) | Inr s' \<Rightarrow> (s', Inr ()))"

definition pre_instructions :: "registry_chain \<Rightarrow> registry_ix list" where
  "pre_instructions s = (case rc_config s of Some _ \<Rightarrow> [] | None \<Rightarrow> [Initialize])"

definition handleAdd ::
  "solana_lib \<Rightarrow> program_lib \<Rightarrow> pubkey \<Rightarrow> string \<Rightarrow> string \<Rightarrow> registry_chain \<Rightarrow> registry_chain \<times> unit result" where
  "handleAdd L C wallet domain program s =
     (case parsePublicKey L program of
        Inl e \<Rightarrow> (s, Inl e)
      | Inr p \<Rightarrow> rpc L C wallet (pre_instructions s @ [addProgram L domain (getDomainRecordAddress L domain) p]) s)"

definition handleRemove ::
  "solana_lib \<Rightarrow> program_lib \<Rightarrow> pubkey \<Rightarrow> string \<Rightarrow> string \<Rightarrow> registry_chain \<Rightarrow> registry_chain \<times> unit result" where
  "handleRemove L C wallet domain program s =
     (case parsePublicKey L program of
        Inl e \<Rightarrow> (s, Inl e)
      | Inr p \<Rightarrow> rpc L C wallet [RemoveProgram domain (getDomainRecordAddress L domain) p] s)"

definition handleUpdateAuthority ::
  "solana_lib \<Rightarrow> program_lib \<Rightarrow> pubkey \<Rightarrow> string \<Rightarrow> registry_chain \<Rightarrow> registry_chain \<times> unit result" where
  "handleUpdateAuthority L C wallet newAuthority s =
     (case parsePublicKey L newAuthority of Inl e \<Rightarrow> (s, Inl e) | Inr k \<Rightarrow> rpc L C wallet [UpdateAuthority k] s)"

function list_loop :: "solana_lib \<Rightarrow> bytes \<Rightarrow> nat \<Rightarrow> pubkey list result" where
  "list_loop L data i =
     (if i < length data
      then bind_result (publicKeyOfBytes L (subarray i (i + 32) data)) (\<lambda>p.
           bind_result (list_loop L data (i + 64)) (\<lambda>rest. Inr (p # rest)))
      else Inr [])"
  by pat_completeness auto
termination by (relation "measure (\<lambda>(L, data, i). length data - i)") auto

declare list_loop.simps [simp del]

definition in_quotes :: "string \<Rightarrow> string" where
  "in_quotes s = CHR 0x22 # s @ [CHR 0x22]"

definition handleList :: "solana_lib \<Rightarrow> world \<Rightarrow> string \<Rightarrow> string list result" where
  "handleList L W domain =
     bind_result (getAccountInfo W (getDomainRecordAddress L domain)) (\<lambda>data.
       case data of
         None \<Rightarrow> Inr [''No domain record found for domain '' @ in_quotes domain]
       | Some d \<Rightarrow> bind_result (list_loop L d 0) (\<lambda>programs.
           Inr ((''Programs in domain record for '' @ in_quotes domain @ '':'') # map (\<lambda>p. ''- '' @ toBase58 L p) programs)))"

section \<open>The tollbooth script\<close>

function registered_loop :: "solana_lib \<Rightarrow> pubkey \<Rightarrow> bytes \<Rightarrow> nat \<Rightarrow> bool result" where
  "registered_loop L program data i =
     (if i < length data
      then let entry = subarray i (i + 32) data in
           if length entry = 32
           then bind_result (publicKeyOfBytes L entry) (\<lambda>k. if k = program then Inr True else registered_loop L program data (i + 64))
           else registered_loop L program data (i + 64)
      else Inr False)"
  by pat_completeness auto
termination by (relation "measure (\<lambda>(L, p, data, i). length data - i)") auto

declare registered_loop.simps [simp del]

definition programAlreadyAdded :: "solana_lib \<Rightarrow> world \<Rightarrow> pubkey \<Rightarrow> pubkey \<Rightarrow> bool result" where
  "programAlreadyAdded L W program domainRecord =
     bind_result (getAccountInfo W domainRecord) (\<lambda>info.
       case info of None \<Rightarrow> Inr False | Some data \<Rightarrow> registered_loop L program data 0)"

definition script_getDomainTollRecipientAddress :: "solana_lib \<Rightarrow> string \<Rightarrow> pubkey" where
  "script_getDomainTollRecipientAddress L domain =
     findProgramAddressSync L [utf8 ''toll_recipient'', [0], sha256 L (utf8 domain)] (program_address L ''tollbooth'')"

definition USDC_MAINNET :: string where
  "USDC_MAINNET = ''uSd2czE61Evaf76RNbq4KPpXnkiL3irdzgLFUMe3NoG''"

definition USDC_TESTNET :: string where
  "USDC_TESTNET = ''ELNbJ1RtERV2fjtuZjbTscDekWhVzkQ1LjmiPsxp5uND''"

fun includes_text :: "string \<Rightarrow> string \<Rightarrow> bool" where
  "includes_text needle [] = (needle = [])"
| "includes_text needle (c # s) = (take (length needle) (c # s) = needle \<or> includes_text needle s)"

definition toLowerCase :: "string \<Rightarrow> string" where
  "toLowerCase s = map (\<lambda>c. let n = of_char c :: nat in
     if 65 \<le> n \<and> n \<le> 90 \<or> 192 \<le> n \<and> n \<le> 222 \<and> n \<noteq> 215 then char_of (n + 32) else c) s"

definition resolveDefaultMints :: "solana_lib \<Rightarrow> string \<Rightarrow> pubkey list result" where
  "resolveDefaultMints L url =
     (let usdcMint = (if includes_text ''mainnet'' (toLowerCase url) then USDC_MAINNET else USDC_TESTNET) in
      bind_result (parsePublicKey L usdcMint) (\<lambda>k. Inr [k, NATIVE_MINT L]))"

definition toll_account :: "solana_lib \<Rightarrow> pubkey \<Rightarrow> pubkey \<Rightarrow> pubkey \<Rightarrow> instruction result" where
  "toll_account L wallet recipient mint =
     bind_result (getAssociatedTokenAddressSync L mint recipient True) (\<lambda>a.
       Inr (createAssociatedTokenAccountIdempotentInstruction L wallet a recipient mint))"

text \<open>The second part of the script: the instructions of the transaction that creates the token
  accounts. Every key object is new, so the \<^verbatim>\<open>Set\<close> keeps them all.\<close>

definition toll_instructions :: "solana_lib \<Rightarrow> pubkey \<Rightarrow> string \<Rightarrow> string \<Rightarrow> string list option \<Rightarrow> instruction list result" where
  "toll_instructions L wallet url domain mints =
     bind_result (traverse (parsePublicKey L) (case mints of None \<Rightarrow> [] | Some ms \<Rightarrow> ms)) (\<lambda>given.
     bind_result (resolveDefaultMints L url) (\<lambda>defaults.
       traverse (toll_account L wallet (script_getDomainTollRecipientAddress L domain)) (given @ defaults)))"

definition initialize_tollbooth ::
  "solana_lib \<Rightarrow> program_lib \<Rightarrow> world \<Rightarrow> pubkey \<Rightarrow> string \<Rightarrow> string \<Rightarrow> string list option \<Rightarrow> registry_chain \<Rightarrow>
   registry_chain \<times> instruction list result" where
  "initialize_tollbooth L C W wallet url domain mints s =
     (let domainRecord = getDomainRecordAddress L domain; program = program_address L ''tollbooth'' in
      case programAlreadyAdded L (chain_world W s) program domainRecord of
        Inl e \<Rightarrow> (s, Inl e)
      | Inr added \<Rightarrow>
          let (s', sent) = (if added then (s, Inr ())
                            else rpc L C wallet (pre_instructions s @ [addProgram L domain domainRecord program]) s) in
          (s', bind_result sent (\<lambda>_. toll_instructions L wallet url domain mints)))"

section \<open>What the accounts hold\<close>

text \<open>The documented behaviour of the runtime and of \<^verbatim>\<open>bytemuck\<close>: derived addresses have 32 bytes, the cast reads
  back the layout of the type, reallocation keeps the common prefix, and the minimum balance is positive.\<close>

definition well_formed :: "solana_lib \<Rightarrow> raw_program \<Rightarrow> bool" where
  "well_formed L p \<longleftrightarrow> length (toBytes (program_id p)) = 32 \<and> signer_pda p = program_signer_pda L (program_id p)"

definition runtime_laws :: "solana_lib \<Rightarrow> program_lib \<Rightarrow> bool" where
  "runtime_laws L C \<longleftrightarrow>
     (\<forall>seeds p. length (toBytes (findProgramAddressSync L seeds p)) = 32) \<and>
     (\<forall>b. length b = 32 \<longrightarrow> publicKeyOfBytes L b = Inr (PublicKey b)) \<and>
     (\<forall>ps. (\<forall>p \<in> set ps. well_formed L p) \<longrightarrow> cast_slice C (concat (map program_bytes ps)) = Some ps) \<and>
     (\<forall>d n d'. realloc C d n = Some d' \<longrightarrow> length d' = n \<and> take (min n (length d)) d' = take (min n (length d)) d) \<and>
     (\<forall>n. 0 < minimum_balance C n)"

lemma runtime_laws_cast:
  "runtime_laws L C \<Longrightarrow> \<forall>p \<in> set ps. well_formed L p \<Longrightarrow> cast_slice C (concat (map program_bytes ps)) = Some ps"
  unfolding runtime_laws_def by blast

lemma runtime_laws_realloc:
  assumes "runtime_laws L C" and "realloc C d n = Some d'"
  shows "length d' = n" and "m \<le> n \<Longrightarrow> m \<le> length d \<Longrightarrow> take m d' = take m d"
proof -
  from assms have *: "length d' = n" "take (min n (length d)) d' = take (min n (length d)) d"
    unfolding runtime_laws_def by blast+
  show "length d' = n" by (rule *(1))
  assume "m \<le> n" "m \<le> length d"
  then have m: "min m (min n (length d)) = m" by linarith
  have "take m (take (min n (length d)) d') = take m (take (min n (length d)) d)" by (rule arg_cong[OF *(2)])
  then show "take m d' = take m d" by (simp only: take_take m)
qed

lemma runtime_laws_rent: "runtime_laws L C \<Longrightarrow> 0 < minimum_balance C n"
  unfolding runtime_laws_def by blast

lemma program_bytes_length: "runtime_laws L C \<Longrightarrow> well_formed L p \<Longrightarrow> length (program_bytes p) = program_size"
  unfolding runtime_laws_def well_formed_def program_bytes_def program_size_def program_signer_pda_def by simp

lemma programs_length:
  "runtime_laws L C \<Longrightarrow> \<forall>p \<in> set ps. well_formed L p \<Longrightarrow> length (concat (map program_bytes ps)) = length ps * program_size"
  by (induction ps) (auto simp: program_bytes_length)

text \<open>\<open>stores L acc ps\<close>: the account holds the programs \<open>ps\<close>, each once, with the signer its program derives.\<close>

definition stores :: "solana_lib \<Rightarrow> chain_account \<Rightarrow> raw_program list \<Rightarrow> bool" where
  "stores L acc ps \<longleftrightarrow> ac_data acc = concat (map program_bytes ps) \<and> distinct (map program_id ps) \<and>
     (\<forall>p \<in> set ps. well_formed L p) \<and> (ac_owner acc = System_owned \<longrightarrow> ps = []) \<and> (ps \<noteq> [] \<longrightarrow> 0 < ac_lamports acc)"

definition holds :: "solana_lib \<Rightarrow> accounts \<Rightarrow> (pubkey \<Rightarrow> raw_program list) \<Rightarrow> bool" where
  "holds L a P \<longleftrightarrow> (\<forall>k. stores L (a k) (P k))"

text \<open>A change of balances: owners and data stay, and only system accounts and \<open>X\<close> may lose lamports.\<close>

definition balances_moved :: "pubkey set \<Rightarrow> accounts \<Rightarrow> accounts \<Rightarrow> bool" where
  "balances_moved X a b \<longleftrightarrow> (\<forall>k. ac_owner (b k) = ac_owner (a k) \<and> ac_data (b k) = ac_data (a k) \<and>
     (ac_owner (a k) = Registry_owned \<longrightarrow> k \<notin> X \<longrightarrow> ac_lamports (a k) \<le> ac_lamports (b k)))"

lemma balances_moved_refl [intro]: "balances_moved X a a"
  by (simp add: balances_moved_def)

lemma balances_moved_trans: "balances_moved X a b \<Longrightarrow> balances_moved X b c \<Longrightarrow> balances_moved X a c"
  unfolding balances_moved_def by (metis order.trans)

lemma move_lamports_moved: "ac_owner (a src) = System_owned \<or> src \<in> X \<Longrightarrow> balances_moved X a (move_lamports src dst n a)"
  by (auto simp: balances_moved_def move_lamports_def Let_def)

lemma system_transfer_moved: "system_transfer src dst n a = Inr b \<Longrightarrow> balances_moved X a b"
  by (auto simp: system_transfer_def move_lamports_moved split: if_splits)

lemma system_transfer_credits:
  "system_transfer src dst n a = Inr b \<Longrightarrow> ac_owner (a dst) = Registry_owned \<Longrightarrow> ac_lamports (b dst) = ac_lamports (a dst) + n"
  by (auto simp: system_transfer_def move_lamports_def Let_def split: if_splits)

lemma holds_moved: "holds L a P \<Longrightarrow> balances_moved {} a b \<Longrightarrow> holds L b P"
  unfolding holds_def
proof (intro allI)
  fix k assume "\<forall>k. stores L (a k) (P k)" "balances_moved {} a b"
  then have "stores L (a k) (P k)" "ac_owner (b k) = ac_owner (a k)" "ac_data (b k) = ac_data (a k)"
    "ac_owner (a k) = Registry_owned \<longrightarrow> ac_lamports (a k) \<le> ac_lamports (b k)" by (auto simp: balances_moved_def)
  then show "stores L (b k) (P k)" by (cases "ac_owner (a k)") (auto simp: stores_def)
qed

lemma allocate_assign_holds: "holds L a P \<Longrightarrow> allocate_assign k 0 a = Inr b \<Longrightarrow> holds L b P \<and> ac_owner (b k) = Registry_owned"
  by (auto simp: allocate_assign_def holds_def stores_def split: if_splits)

lemma create_domain_record_holds:
  assumes "holds L a P" and "create_domain_record_if_needed C authority r a = Inr b"
  shows "holds L b P \<and> ac_owner (b r) = Registry_owned"
proof (cases "ac_owner (a r) = System_owned")
  case True
  then obtain c where "allocate_assign r 0 c = Inr b" "balances_moved {} a c"
    using assms(2) by (auto simp: create_domain_record_if_needed_def create_pda_def Let_def bind_presult_Inr split: if_splits
      dest: system_transfer_moved)
  with assms(1) show ?thesis using allocate_assign_holds holds_moved by blast
next
  case False
  with assms show ?thesis by (cases "ac_owner (a r)") (auto simp: create_domain_record_if_needed_def)
qed

lemma adjust_rent_moved:
  assumes "adjust_rent_if_needed C acc funder a = Inr b" and "ac_owner (a acc) = Registry_owned"
  shows "balances_moved {acc} a b" and "ac_data (a acc) \<noteq> [] \<Longrightarrow> minimum_balance C (length (ac_data (a acc))) \<le> ac_lamports (b acc)"
proof -
  define req where "req = (if ac_data (a acc) = [] then 0 else minimum_balance C (length (ac_data (a acc))))"
  from assms(1) obtain c where c: "(if req - ac_lamports (a acc) > 0 then system_transfer funder acc (req - ac_lamports (a acc)) a else Inr a) = Inr c"
    "b = (if ac_lamports (c acc) - req > 0 then move_lamports acc funder (ac_lamports (c acc) - req) c else c)"
    unfolding adjust_rent_if_needed_def Let_def req_def[symmetric] bind_presult_Inr by blast
  have moved: "balances_moved {acc} a c \<and> req \<le> ac_lamports (c acc)"
  proof (cases "req - ac_lamports (a acc) > 0")
    case True
    with c(1) have "system_transfer funder acc (req - ac_lamports (a acc)) a = Inr c" by simp
    from system_transfer_moved[OF this, of "{acc}"] system_transfer_credits[OF this assms(2)] True show ?thesis by auto
  next
    case False
    with c(1) show ?thesis by auto
  qed
  then have c': "balances_moved {acc} a c" "req \<le> ac_lamports (c acc)" by blast+
  note c = c'(1) c'(2) c(2)
  have "balances_moved {acc} c b" using c(3) by (auto intro: move_lamports_moved)
  with c(1) show "balances_moved {acc} a b" by (rule balances_moved_trans)
  show "ac_data (a acc) \<noteq> [] \<Longrightarrow> minimum_balance C (length (ac_data (a acc))) \<le> ac_lamports (b acc)"
    using c(2,3) by (auto simp: req_def move_lamports_def Let_def)
qed

lemma resize_moved:
  assumes "runtime_laws L C" and "resize C acc funder n a = Inr b" and "ac_owner (a acc) = Registry_owned"
  obtains d where "realloc C (ac_data (a acc)) n = Some d" "balances_moved {acc} (a(acc := (a acc)\<lparr>ac_data := d\<rparr>)) b"
    "d \<noteq> [] \<longrightarrow> 0 < ac_lamports (b acc)"
proof -
  from assms(2) obtain d where d: "realloc C (ac_data (a acc)) n = Some d"
    "adjust_rent_if_needed C acc funder (a(acc := (a acc)\<lparr>ac_data := d\<rparr>)) = Inr b" by (auto simp: resize_def split: option.splits)
  from adjust_rent_moved[OF d(2)] assms(3) have "balances_moved {acc} (a(acc := (a acc)\<lparr>ac_data := d\<rparr>)) b"
    "d \<noteq> [] \<Longrightarrow> minimum_balance C (length d) \<le> ac_lamports (b acc)" by simp_all
  with runtime_laws_rent[OF assms(1), of "length d"] show thesis by (intro that[OF d(1)]) auto
qed

text \<open>The two changes of the array, as changes of what the accounts hold.\<close>

lemma holds_change:
  assumes "holds L a P" and "balances_moved {r} (a(r := x)) b" and "ac_owner x = ac_owner (a r)"
    and "stores L (c r) qs" and "\<And>k. k \<noteq> r \<Longrightarrow> c k = b k"
  shows "holds L c (P(r := qs))"
  unfolding holds_def
proof
  fix k
  show "stores L (c k) ((P(r := qs)) k)"
  proof (cases "k = r")
    case False
    with assms(1,2,5) have "stores L (a k) (P k)" "ac_owner (c k) = ac_owner (a k)" "ac_data (c k) = ac_data (a k)"
      "ac_owner (a k) = Registry_owned \<longrightarrow> ac_lamports (a k) \<le> ac_lamports (c k)"
      by (auto simp: holds_def balances_moved_def split: if_splits)
    with False show ?thesis by (cases "ac_owner (a k)") (auto simp: stores_def)
  qed (use assms(4) in simp)
qed

lemma push_holds:
  assumes laws: "runtime_laws L C" and holds: "holds L a P" and owner: "ac_owner (a r) = Registry_owned"
    and new: "program_id v \<notin> program_id ` set (P r)" "well_formed L v" and ok: "push C r funder v a = Inr c"
  shows "holds L c (P(r := P r @ [v]))"
proof -
  let ?old = "ac_data (a r)"
  from ok obtain b where b: "resize C r funder (length ?old + program_size) a = Inr b"
    "c = b(r := (b r)\<lparr>ac_data := take (length (ac_data (b r)) - program_size) (ac_data (b r)) @ program_bytes v\<rparr>)"
    by (auto simp: push_def Let_def bind_presult_Inr)
  obtain d where d: "realloc C ?old (length ?old + program_size) = Some d"
    "balances_moved {r} (a(r := (a r)\<lparr>ac_data := d\<rparr>)) b" "d \<noteq> [] \<longrightarrow> 0 < ac_lamports (b r)"
    by (rule resize_moved[OF laws b(1) owner])
  have len: "length d = length ?old + program_size" and pre: "take (length ?old) d = ?old"
    using runtime_laws_realloc[OF laws d(1)] by auto
  have bd: "ac_data (b r) = d" "ac_owner (b r) = Registry_owned"
    using d(2) owner by (auto simp: balances_moved_def dest: spec[where x = r])
  have "d \<noteq> []" using len by (auto simp: program_size_def)
  with d(3) have st: "stores L (c r) (P r @ [v])"
    using holds new len pre bd by (auto simp: b(2) stores_def holds_def dest: spec[where x = r])
  show ?thesis
    by (rule holds_change[where r = r and b = b and x = "(a r)\<lparr>ac_data := d\<rparr>"]) (use holds d(2) st in \<open>simp_all add: b(2)\<close>)
qed

lemma index_where_Some: "index_where P xs = Some i \<Longrightarrow> i < length xs \<and> P (xs ! i)"
  by (induction xs arbitrary: i) (auto split: if_splits)

lemma index_where_None: "index_where P xs = None \<longleftrightarrow> (\<forall>x \<in> set xs. \<not> P x)"
  by (induction xs) auto

text \<open>Removing by a swap keeps the other elements, in another order.\<close>

definition swap_out :: "'a list \<Rightarrow> nat \<Rightarrow> 'a list" where
  "swap_out xs i = butlast (swap_last xs i)"

lemma swap_last_split:
  "i < length xs \<Longrightarrow> swap_last xs i = swap_out xs i @ [xs ! i]"
proof -
  assume i: "i < length xs"
  then have ne: "swap_last xs i \<noteq> []" and l: "length (swap_last xs i) = length xs" by (auto simp: swap_last_def)
  have "last (swap_last xs i) = xs ! i" using i ne by (simp add: last_conv_nth l) (simp add: swap_last_def)
  with append_butlast_last_id[OF ne] show ?thesis by (simp add: swap_out_def)
qed

lemma swap_last_mset: "i < length xs \<Longrightarrow> mset (swap_last xs i) = mset xs"
  unfolding swap_last_def by (subst last_conv_nth) (auto intro!: mset_swap)

lemma swap_out_set:
  assumes "i < length xs" and "distinct (map f xs)"
  shows "set (swap_out xs i) = set xs - {xs ! i}" and "distinct (map f (swap_out xs i))"
    and "f (xs ! i) \<notin> f ` set (swap_out xs i)"
proof -
  have m: "mset (swap_out xs i @ [xs ! i]) = mset xs" using assms(1) by (metis swap_last_mset swap_last_split)
  then have s: "set (swap_out xs i) \<union> {xs ! i} = set xs" by (metis set_mset_mset set_append list.set(1,2) Un_insert_right sup_bot_right insert_is_Un Un_commute)
  have "distinct (map f (swap_out xs i @ [xs ! i]))"
    by (metis assms(2) m mset_map mset_eq_imp_distinct_iff)
  then have d: "distinct (map f (swap_out xs i))" "f (xs ! i) \<notin> f ` set (swap_out xs i)" by auto
  from d show "distinct (map f (swap_out xs i))" "f (xs ! i) \<notin> f ` set (swap_out xs i)" by blast+
  from s d(2) show "set (swap_out xs i) = set xs - {xs ! i}" by blast
qed

lemma swap_remove_holds:
  assumes laws: "runtime_laws L C" and holds: "holds L a P" and i: "i < length (P r)"
    and ok: "swap_remove C r funder i a = Inr c"
  shows "holds L c (P(r := swap_out (P r) i))"
proof -
  have st: "stores L (a r) (P r)" using holds by (simp add: holds_def)
  then have wf: "\<forall>p \<in> set (P r). well_formed L p" and di: "distinct (map program_id (P r))"
    and data: "ac_data (a r) = concat (map program_bytes (P r))" and owner: "ac_owner (a r) = Registry_owned"
    using i by (cases "ac_owner (a r)"; auto simp: stores_def)+
  note out = swap_out_set[OF i di]
  let ?s = "concat (map program_bytes (swap_last (P r) i))" and ?o = "concat (map program_bytes (swap_out (P r) i))"
  let ?a = "a(r := (a r)\<lparr>ac_data := ?s\<rparr>)"
  have split: "?s = ?o @ program_bytes (P r ! i)" by (simp add: swap_last_split[OF i])
  have wfo: "\<forall>p \<in> set (swap_out (P r) i). well_formed L p" using wf out(1) by blast
  have len: "length ?s - program_size = length ?o"
    using split program_bytes_length[OF laws] wf i by simp
  have res: "resize C r funder (length ?o) ?a = Inr c"
    using ok i by (simp add: swap_remove_def data runtime_laws_cast[OF laws wf] Let_def len)
  obtain d where d: "realloc C ?s (length ?o) = Some d" "balances_moved {r} (a(r := (a r)\<lparr>ac_data := d\<rparr>)) c"
    "d \<noteq> [] \<longrightarrow> 0 < ac_lamports (c r)"
    by (rule resize_moved[OF laws res]) (simp_all add: owner)
  have "length d = length ?o" "take (length ?o) d = take (length ?o) ?s"
    using runtime_laws_realloc(1)[OF laws d(1)] runtime_laws_realloc(2)[OF laws d(1), of "length ?o"] by (simp_all add: split)
  then have deq: "d = ?o" by (simp add: split)
  have cd: "ac_data (c r) = ?o" "ac_owner (c r) = Registry_owned"
    using d(2) owner by (auto simp: balances_moved_def deq dest: spec[where x = r])
  have "?o \<noteq> []" if "swap_out (P r) i \<noteq> []"
    using arg_cong[where f = length and x = ?o and y = "[]"] programs_length[OF laws wfo] that by (auto simp: program_size_def simp del: concat_eq_Nil_conv)
  with d(3) have st': "stores L (c r) (swap_out (P r) i)"
    using out(2) wfo by (auto simp: stores_def cd deq)
  show ?thesis
    by (rule holds_change[where r = r and b = c and x = "(a r)\<lparr>ac_data := d\<rparr>"]) (use holds d(2) st' in simp_all)
qed

section \<open>Refinement\<close>

text \<open>The specification of a registry: for every record the list of programs, with the authority.\<close>

lemma check_authority_Inr: "check_authority s signer = Inr u \<longleftrightarrow> rc_config s = Some signer"
  by (auto simp: check_authority_def split: option.splits)

lemma add_program_refines:
  assumes laws: "runtime_laws L C" and holds: "holds L (rc_accounts s) P" and key: "length (toBytes p) = 32"
    and ok: "add_program L C signer domain r p sp s = Inr s'"
  shows "rc_config s = Some signer \<and> rc_config s' = Some signer \<and> r = domain_record_pda L domain \<and> p \<notin> program_id ` set (P r) \<and>
    holds L (rc_accounts s') (P(r := P r @ [\<lparr>program_id = p, signer_pda = program_signer_pda L p\<rparr>]))"
proof -
  let ?v = "\<lparr>program_id = p, signer_pda = program_signer_pda L p\<rparr>"
  from ok obtain a b where *: "rc_config s = Some signer" "sp = program_signer_pda L p" "r = domain_record_pda L domain"
    "create_domain_record_if_needed C signer r (rc_accounts s) = Inr a" "contains C r ?v a = Inr False"
    "push C r signer ?v a = Inr b" "s' = s\<lparr>rc_accounts := b\<rparr>"
    by (auto simp: add_program_def bind_presult_Inr check_authority_Inr Let_def split: if_splits)
  from create_domain_record_holds[OF holds *(4)] have a: "holds L a P" "ac_owner (a r) = Registry_owned" by blast+
  then have st: "ac_data (a r) = concat (map program_bytes (P r))" and wf: "\<forall>q \<in> set (P r). well_formed L q"
    by (auto simp: holds_def stores_def)
  with *(5) have "?v \<notin> set (P r)" by (auto simp: contains_def runtime_laws_cast[OF laws wf])
  have new: "p \<notin> program_id ` set (P r)"
  proof
    assume "p \<in> program_id ` set (P r)"
    then obtain q where q: "q \<in> set (P r)" "program_id q = p" by blast
    with wf have "q = ?v" by (cases q) (auto simp: well_formed_def)
    with q(1) \<open>?v \<notin> set (P r)\<close> show False by blast
  qed
  have "well_formed L ?v" using key by (simp add: well_formed_def)
  with push_holds[OF laws a _ _ *(6)] new * show ?thesis by simp
qed

lemma remove_program_refines:
  assumes laws: "runtime_laws L C" and holds: "holds L (rc_accounts s) P"
    and ok: "remove_program L C signer domain r p s = Inr s'"
  shows "rc_config s = Some signer \<and> rc_config s' = Some signer \<and> r = domain_record_pda L domain \<and>
    (\<exists>qs. holds L (rc_accounts s') (P(r := qs)) \<and> p \<in> program_id ` set (P r) \<and> set qs = {q \<in> set (P r). program_id q \<noteq> p})"
proof -
  from ok obtain i a where *: "rc_config s = Some signer" "r = domain_record_pda L domain"
    "position C r (\<lambda>q. program_id q = p) (rc_accounts s) = Inr (Some i)" "swap_remove C r signer i (rc_accounts s) = Inr a"
    "s' = s\<lparr>rc_accounts := a\<rparr>"
    by (auto simp: remove_program_def bind_presult_Inr check_authority_Inr split: if_splits option.splits)
  have st: "ac_data (rc_accounts s r) = concat (map program_bytes (P r))" and wf: "\<forall>q \<in> set (P r). well_formed L q"
    and di: "distinct (map program_id (P r))" using holds by (auto simp: holds_def stores_def)
  from *(3) have i: "i < length (P r)" "program_id (P r ! i) = p"
    by (auto simp: position_def st runtime_laws_cast[OF laws wf] dest: index_where_Some)
  note out = swap_out_set[OF i(1) di]
  have "set (swap_out (P r) i) = {q \<in> set (P r). program_id q \<noteq> p}"
  proof (intro set_eqI iffI)
    fix q assume "q \<in> set (swap_out (P r) i)"
    with out(1,3) i(2) show "q \<in> {q \<in> set (P r). program_id q \<noteq> p}" by (auto intro: rev_image_eqI)
  next
    fix q assume "q \<in> {q \<in> set (P r). program_id q \<noteq> p}"
    with out(1) i(2) show "q \<in> set (swap_out (P r) i)" by auto
  qed
  with swap_remove_holds[OF laws holds i(1) *(4)] * i nth_mem[OF i(1)] show ?thesis by auto
qed

lemma sweep_holds: "holds L (rc_accounts s) P \<Longrightarrow> holds L (rc_accounts (sweep s)) P"
proof (unfold holds_def, intro allI)
  fix k assume "\<forall>k. stores L (rc_accounts s k) (P k)"
  then have "stores L (rc_accounts s k) (P k)" by blast
  then show "stores L (rc_accounts (sweep s) k) (P k)" by (auto simp: sweep_def stores_def)
qed

lemma sweep_config [simp]: "rc_config (sweep s) = rc_config s"
  by (simp add: sweep_def)

section \<open>Reachable states and what clients read\<close>

definition ix_ok :: "registry_ix \<Rightarrow> bool" where
  "ix_ok i = (case i of AddProgram _ _ p _ \<Rightarrow> length (toBytes p) = 32 | _ \<Rightarrow> True)"

text \<open>From a fresh chain: transactions of any signer, deposits to any account and payments from
  system accounts.\<close>

inductive registry_reachable :: "solana_lib \<Rightarrow> program_lib \<Rightarrow> registry_chain \<Rightarrow> bool" for L C where
  fresh: "\<forall>k. ac_owner (rc_accounts s k) = System_owned \<and> ac_data (rc_accounts s k) = [] \<Longrightarrow> rc_config s = None \<Longrightarrow>
    registry_reachable L C s"
| transacted: "registry_reachable L C s \<Longrightarrow> list_all ix_ok ixs \<Longrightarrow> transact L C signer ixs s = Inr s' \<Longrightarrow> registry_reachable L C s'"
| paid: "registry_reachable L C s \<Longrightarrow> balances_moved {} (rc_accounts s) a \<Longrightarrow> registry_reachable L C (s\<lparr>rc_accounts := a\<rparr>)"

lemma initialize_holds: "holds L (rc_accounts s) P \<Longrightarrow> initialize C signer s = Inr s' \<Longrightarrow> holds L (rc_accounts s') P"
  by (auto simp: initialize_def Let_def holds_def stores_def split: if_splits)

lemma update_authority_holds: "holds L (rc_accounts s) P \<Longrightarrow> update_authority signer k s = Inr s' \<Longrightarrow> holds L (rc_accounts s') P"
  by (auto simp: update_authority_def bind_presult_Inr)

lemma process_holds:
  assumes "runtime_laws L C" and "ix_ok i" and "holds L (rc_accounts s) P" and "process L C signer i s = Inr s'"
  shows "\<exists>P'. holds L (rc_accounts s') P'"
proof (cases i)
  case Initialize
  with assms initialize_holds show ?thesis by fastforce
next
  case UpdateAuthority
  with assms update_authority_holds show ?thesis by fastforce
next
  case (AddProgram d r p sp)
  with assms(2,4) add_program_refines[OF assms(1,3), of p signer d r sp s'] show ?thesis by (auto simp: ix_ok_def)
next
  case (RemoveProgram d r p)
  with assms(4) remove_program_refines[OF assms(1,3), of signer d r p s'] show ?thesis by auto
qed

lemma process_all_holds:
  assumes "runtime_laws L C" and "list_all ix_ok ixs" and "holds L (rc_accounts s) P" and "process_all L C signer ixs s = Inr s'"
  shows "\<exists>P'. holds L (rc_accounts s') P'"
  using assms(2-4)
proof (induction ixs arbitrary: s P)
  case (Cons i ixs)
  then obtain t where t: "process L C signer i s = Inr t" "process_all L C signer ixs t = Inr s'" by (auto simp: bind_presult_Inr)
  with process_holds[OF assms(1)] Cons.prems obtain P' where "holds L (rc_accounts t) P'" by fastforce
  with Cons.IH t(2) Cons.prems(1) show ?case by simp
qed auto

lemma reachable_holds:
  assumes "runtime_laws L C"
  shows "registry_reachable L C s \<Longrightarrow> \<exists>P. holds L (rc_accounts s) P"
proof (induction rule: registry_reachable.induct)
  case (fresh s)
  then have "holds L (rc_accounts s) (\<lambda>_. [])" by (simp add: holds_def stores_def)
  then show ?case by blast
next
  case (transacted s ixs signer s')
  then obtain t where "process_all L C signer ixs s = Inr t" "s' = sweep t" by (auto simp: transact_def bind_presult_Inr)
  with transacted process_all_holds[OF assms] sweep_holds show ?case by blast
next
  case (paid s a)
  then show ?case using holds_moved by fastforce
qed

definition authorized :: "raw_program \<Rightarrow> authorized_program" where
  "authorized p = \<lparr>ap_programId = program_id p, ap_signerPda = signer_pda p\<rparr>"

lemma authorized_id [simp]: "ap_programId (authorized p) = program_id p"
  by (simp add: authorized_def)

lemma record_address: "getDomainRecordAddress L domain = domain_record_pda L domain"
  by (simp add: getDomainRecordAddress_def domain_record_pda_def)

lemma registry_bytes_authorized: "registry_bytes (map authorized ps) = concat (map program_bytes ps)"
  by (induction ps) (auto simp: registry_bytes_def authorized_def program_bytes_def)

text \<open>The SDK reads what the registry's account holds.\<close>

lemma holds_read:
  assumes laws: "runtime_laws L C" and holds: "holds L (rc_accounts s) P"
  shows "getDomainRegistryAuthorizedPrograms L (chain_world W s) domain = Inr (map authorized (P (domain_record_pda L domain)))"
proof -
  let ?r = "domain_record_pda L domain"
  have st: "stores L (rc_accounts s ?r) (P ?r)" using holds by (simp add: holds_def)
  then have "list_all wf_program (map authorized (P ?r))"
    using laws by (auto simp: stores_def list_all_iff wf_program_def authorized_def well_formed_def runtime_laws_def program_signer_pda_def)
  moreover have "publicKeyOfBytes L b = Inr (PublicKey b)" if "length b = 32" for b using laws that by (simp add: runtime_laws_def)
  ultimately have "registry_loop L (concat (map program_bytes (P ?r))) 0 = Inr (map authorized (P ?r))"
    using registry_loop_append[of L "map authorized (P ?r)" "[]"] by (simp add: registry_bytes_authorized)
  with st show ?thesis
    by (auto simp: getDomainRegistryAuthorizedPrograms_def chain_world_def record_address stores_def)
qed

lemma holds_distinct: "holds L a P \<Longrightarrow> distinct (map ap_programId (map authorized (P k)))"
  by (auto simp: holds_def stores_def o_def distinct_map dest: spec[where x = k])

lemma transact_single: "transact L C signer [i] s = Inr s' \<Longrightarrow> \<exists>t. process L C signer i s = Inr t \<and> s' = sweep t"
  by (auto simp: transact_def bind_presult_Inr)

text \<open>The list script reads the same keys as the SDK.\<close>

lemma list_loop_registry: "registry_loop L data i = Inr ps \<Longrightarrow> list_loop L data i = Inr (map ap_programId ps)"
proof (induction L data i arbitrary: ps rule: registry_loop.induct)
  case (1 L data i)
  show ?case
  proof (cases "i < length data")
    case True
    with "1.prems" obtain p sp rest where *: "publicKeyOfBytes L (subarray i (i + 32) data) = Inr p"
      "registry_loop L data (i + 64) = Inr rest" "ps = \<lparr>ap_programId = p, ap_signerPda = sp\<rparr> # rest"
      by (subst (asm) registry_loop.simps) (auto simp: bind_result_eq_Inr)
    have "list_loop L data (i + 64) = Inr (map ap_programId rest)"
      by (rule "1.IH"[OF True *(2)])
    with True * show ?thesis by (subst list_loop.simps) simp
  next
    case False
    with "1.prems" show ?thesis by (simp add: registry_loop.simps[of L data i] list_loop.simps[of L data i])
  qed
qed

lemma read_after_add:
  assumes laws: "runtime_laws L C" and holds: "holds L (rc_accounts s) P" and key: "length (toBytes p) = 32"
    and ok: "transact L C signer [AddProgram domain r p sp] s = Inr s'"
  shows "rc_config s = Some signer \<and> p \<notin> program_id ` set (P (domain_record_pda L domain)) \<and>
    holds L (rc_accounts s') (P(domain_record_pda L domain := P (domain_record_pda L domain) @ [\<lparr>program_id = p, signer_pda = program_signer_pda L p\<rparr>]))"
proof -
  from transact_single[OF ok] obtain t where t: "add_program L C signer domain r p sp s = Inr t" "s' = sweep t" by auto
  from add_program_refines[OF laws holds key t(1)] have "rc_config s = Some signer" "r = domain_record_pda L domain" "p \<notin> program_id ` set (P r)"
    "holds L (rc_accounts t) (P(r := P r @ [\<lparr>program_id = p, signer_pda = program_signer_pda L p\<rparr>]))" by blast+
  with sweep_holds[OF this(4)] t(2) show ?thesis by simp
qed

lemma read_after_remove:
  assumes laws: "runtime_laws L C" and holds: "holds L (rc_accounts s) P"
    and ok: "transact L C signer [RemoveProgram domain r p] s = Inr s'"
  obtains qs where "rc_config s = Some signer" "holds L (rc_accounts s') (P(domain_record_pda L domain := qs))"
    "p \<in> program_id ` set (P (domain_record_pda L domain))" "set qs = {q \<in> set (P (domain_record_pda L domain)). program_id q \<noteq> p}"
proof -
  from transact_single[OF ok] obtain t where t: "remove_program L C signer domain r p s = Inr t" "s' = sweep t" by auto
  from remove_program_refines[OF laws holds t(1)] obtain qs where *: "rc_config s = Some signer" "r = domain_record_pda L domain"
    "holds L (rc_accounts t) (P(r := qs))" "p \<in> program_id ` set (P r)" "set qs = {q \<in> set (P r). program_id q \<noteq> p}" by blast
  show thesis by (rule that[of qs]) (use * sweep_holds[OF *(3)] t(2) in simp_all)
qed

text \<open>What \<^verbatim>\<open>getDomainRegistryAuthorizedPrograms\<close> returns on this chain.\<close>

definition sdk_reads :: "solana_lib \<Rightarrow> world \<Rightarrow> registry_chain \<Rightarrow> string \<Rightarrow> authorized_program list result" where
  "sdk_reads L W s domain = getDomainRegistryAuthorizedPrograms L (chain_world W s) domain"

section \<open>Properties\<close>

text \<open>C6: the registry is the set its administrator maintains, as the SDK sees it. In every reachable
  state the SDK reads a domain's record without error, each program once. An addition that
  the chain accepts was made by the authority, for a program that was missing, and appends exactly this program, with the
  signer it derives; a removal that it accepts was made by the authority and takes away exactly the
  programs with this key; neither changes what is read for a domain with another record.\<close>

theorem registry_as_specified:
  assumes "runtime_laws L C" and "registry_reachable L C s"
  shows "\<exists>ps. sdk_reads L W s domain = Inr ps \<and> distinct (map ap_programId ps) \<and>
    (\<forall>signer r p sp s'. length (toBytes p) = 32 \<longrightarrow> transact L C signer [AddProgram domain r p sp] s = Inr s' \<longrightarrow>
       rc_config s = Some signer \<and> p \<notin> ap_programId ` set ps \<and>
       sdk_reads L W s' domain = Inr (ps @ [\<lparr>ap_programId = p, ap_signerPda = program_signer_pda L p\<rparr>]) \<and>
       (\<forall>d. getDomainRecordAddress L d \<noteq> getDomainRecordAddress L domain \<longrightarrow> sdk_reads L W s' d = sdk_reads L W s d)) \<and>
    (\<forall>signer r p s'. transact L C signer [RemoveProgram domain r p] s = Inr s' \<longrightarrow>
       rc_config s = Some signer \<and> p \<in> ap_programId ` set ps \<and>
       (\<exists>qs. sdk_reads L W s' domain = Inr qs \<and> distinct (map ap_programId qs) \<and> set qs = {q \<in> set ps. ap_programId q \<noteq> p}) \<and>
       (\<forall>d. getDomainRecordAddress L d \<noteq> getDomainRecordAddress L domain \<longrightarrow> sdk_reads L W s' d = sdk_reads L W s d))"
proof -
  obtain P where P: "holds L (rc_accounts s) P" using reachable_holds[OF assms(1,2)] by blast
  let ?r = "domain_record_pda L domain" and ?ps = "map authorized (P (domain_record_pda L domain))"
  have reads: "sdk_reads L W t d = Inr (map authorized (Q (domain_record_pda L d)))" if "holds L (rc_accounts t) Q" for t d Q
    unfolding sdk_reads_def by (rule holds_read[OF assms(1) that])
  have ids: "ap_programId ` set ?ps = program_id ` set (P ?r)" by (simp add: image_image)
  have add: "rc_config s = Some signer \<and> p \<notin> ap_programId ` set ?ps \<and>
      sdk_reads L W s' domain = Inr (?ps @ [\<lparr>ap_programId = p, ap_signerPda = program_signer_pda L p\<rparr>]) \<and>
      (\<forall>d. getDomainRecordAddress L d \<noteq> getDomainRecordAddress L domain \<longrightarrow> sdk_reads L W s' d = sdk_reads L W s d)"
    if "length (toBytes p) = 32" "transact L C signer [AddProgram domain r p sp] s = Inr s'" for signer r p sp s'
    using read_after_add[OF assms(1) P that] by (auto simp: ids reads[OF P] reads record_address authorized_def)
  have remove: "rc_config s = Some signer \<and> p \<in> ap_programId ` set ?ps \<and>
      (\<exists>qs. sdk_reads L W s' domain = Inr qs \<and> distinct (map ap_programId qs) \<and> set qs = {q \<in> set ?ps. ap_programId q \<noteq> p}) \<and>
      (\<forall>d. getDomainRecordAddress L d \<noteq> getDomainRecordAddress L domain \<longrightarrow> sdk_reads L W s' d = sdk_reads L W s d)"
    if ok: "transact L C signer [RemoveProgram domain r p] s = Inr s'" for signer r p s'
  proof -
    obtain qs where qs: "rc_config s = Some signer" "holds L (rc_accounts s') (P(?r := qs))" "p \<in> program_id ` set (P ?r)"
      "set qs = {q \<in> set (P ?r). program_id q \<noteq> p}" by (rule read_after_remove[OF assms(1) P ok])
    have "set (map authorized qs) = {q \<in> set ?ps. ap_programId q \<noteq> p}" by (auto simp: qs(4))
    with qs holds_distinct[OF qs(2), of ?r] show ?thesis
      by (auto simp: ids reads[OF P] reads[OF qs(2)] record_address simp del: map_map set_map)
  qed
  have "\<forall>signer r p sp s'. length (toBytes p) = 32 \<longrightarrow> transact L C signer [AddProgram domain r p sp] s = Inr s' \<longrightarrow>
       rc_config s = Some signer \<and> p \<notin> ap_programId ` set ?ps \<and>
       sdk_reads L W s' domain = Inr (?ps @ [\<lparr>ap_programId = p, ap_signerPda = program_signer_pda L p\<rparr>]) \<and>
       (\<forall>d. getDomainRecordAddress L d \<noteq> getDomainRecordAddress L domain \<longrightarrow> sdk_reads L W s' d = sdk_reads L W s d)"
    by (intro allI impI) (rule add)
  moreover have "\<forall>signer r p s'. transact L C signer [RemoveProgram domain r p] s = Inr s' \<longrightarrow>
       rc_config s = Some signer \<and> p \<in> ap_programId ` set ?ps \<and>
       (\<exists>qs. sdk_reads L W s' domain = Inr qs \<and> distinct (map ap_programId qs) \<and> set qs = {q \<in> set ?ps. ap_programId q \<noteq> p}) \<and>
       (\<forall>d. getDomainRecordAddress L d \<noteq> getDomainRecordAddress L domain \<longrightarrow> sdk_reads L W s' d = sdk_reads L W s d)"
    by (intro allI impI) (rule remove)
  ultimately show ?thesis by (intro exI[of _ ?ps] conjI reads[OF P] holds_distinct[OF P])
qed

lemma registered_loop_programs:
  assumes laws: "runtime_laws L C" and "\<forall>p \<in> set ps. well_formed L p"
  shows "registered_loop L program (pre @ concat (map program_bytes ps)) (length pre) = Inr (program \<in> program_id ` set ps)"
  using assms(2)
proof (induction ps arbitrary: pre)
  case Nil
  then show ?case by (simp add: registered_loop.simps)
next
  case (Cons p ps)
  let ?k = "toBytes (program_id p)" and ?s = "toBytes (signer_pda p)" and ?rest = "concat (map program_bytes ps)"
  have len: "length ?k = 32" "length ?s = 32"
    using Cons.prems program_bytes_length[OF laws, of p] by (auto simp: well_formed_def program_bytes_def program_size_def)
  have cat: "concat (map program_bytes (p # ps)) = ?k @ ?s @ ?rest" by (simp add: program_bytes_def)
  have rest: "registered_loop L program (pre @ ?k @ ?s @ ?rest) (length pre + 64) = Inr (program \<in> program_id ` set ps)"
    using Cons.IH[of "pre @ ?k @ ?s"] Cons.prems len by simp
  have entry: "subarray (length pre) (length pre + 32) (pre @ ?k @ ?s @ ?rest) = ?k" by (simp add: subarray_def len)
  have key: "publicKeyOfBytes L ?k = Inr (program_id p)" using laws len by (simp add: runtime_laws_def)
  show ?case unfolding cat
    by (subst registered_loop.simps) (use rest key in \<open>auto simp: entry len Let_def\<close>)
qed

lemma already_added_read:
  assumes laws: "runtime_laws L C" and holds: "holds L (rc_accounts s) P"
  shows "programAlreadyAdded L (chain_world W s) program (getDomainRecordAddress L domain) =
    Inr (program \<in> program_id ` set (P (domain_record_pda L domain)))"
proof -
  let ?r = "domain_record_pda L domain"
  have "stores L (rc_accounts s ?r) (P ?r)" using holds by (simp add: holds_def)
  then show ?thesis using registered_loop_programs[OF laws, of "P ?r" program "[]"]
    by (auto simp: programAlreadyAdded_def chain_world_def record_address stores_def)
qed

lemma process_all_append:
  "process_all L C signer (xs @ ys) s = bind_presult (process_all L C signer xs s) (process_all L C signer ys)"
  by (induction xs arbitrary: s) (auto simp: bind_presult_def split: sum.splits)

lemma pre_instructions_holds:
  assumes "holds L (rc_accounts s) P" and "process_all L C signer (pre_instructions s) s = Inr t"
  shows "holds L (rc_accounts t) P"
proof (cases "rc_config s")
  case None
  with assms initialize_holds[OF assms(1)] show ?thesis by (auto simp: pre_instructions_def bind_presult_Inr)
qed (use assms in \<open>auto simp: pre_instructions_def\<close>)

text \<open>What the transaction of both scripts does: the configuration when it is missing, then the program.\<close>

lemma add_script_holds:
  assumes laws: "runtime_laws L C" and holds: "holds L (rc_accounts s) P" and key: "length (toBytes p) = 32"
    and ok: "transact L C signer (pre_instructions s @ [addProgram L domain (getDomainRecordAddress L domain) p]) s = Inr s'"
  shows "p \<notin> program_id ` set (P (domain_record_pda L domain)) \<and>
    holds L (rc_accounts s') (P(domain_record_pda L domain := P (domain_record_pda L domain) @ [\<lparr>program_id = p, signer_pda = program_signer_pda L p\<rparr>]))"
proof -
  from ok obtain t u where t: "process_all L C signer (pre_instructions s) s = Inr t"
    "add_program L C signer domain (domain_record_pda L domain) p (program_signer_pda L p) t = Inr u" "s' = sweep u"
    by (auto simp: transact_def process_all_append bind_presult_Inr addProgram_def record_address)
  from add_program_refines[OF laws pre_instructions_holds[OF holds t(1)] key t(2)] sweep_holds[of L u] t(3) show ?thesis by simp
qed

text \<open>C32: the tollbooth script leaves the domain with its programs and the tollbooth, whichever state it finds,
  and can be repeated: a second run sends no registration, so nothing can be rejected, and
  creates the token accounts of the same mints, the given ones and the two default ones.\<close>

theorem tollbooth_script_repeatable:
  assumes "runtime_laws L C" and "registry_reachable L C s" and "length (toBytes (program_address L ''tollbooth'')) = 32"
    and "initialize_tollbooth L C W wallet url domain mints s = (s', Inr ixs)"
  shows "(\<exists>ps qs. sdk_reads L W s domain = Inr ps \<and> sdk_reads L W s' domain = Inr qs \<and> distinct (map ap_programId qs) \<and>
      set qs = insert \<lparr>ap_programId = program_address L ''tollbooth'', ap_signerPda = program_signer_pda L (program_address L ''tollbooth'')\<rparr> (set ps)) \<and>
    initialize_tollbooth L C W wallet url domain mints s' = (s', Inr ixs) \<and>
    length ixs = length (case mints of None \<Rightarrow> [] | Some ms \<Rightarrow> ms) + 2"
proof -
  let ?tb = "program_address L ''tollbooth''" and ?r = "domain_record_pda L domain"
  let ?p = "\<lparr>program_id = ?tb, signer_pda = program_signer_pda L ?tb\<rparr>"
  obtain P where P: "holds L (rc_accounts s) P" using reachable_holds[OF assms(1,2)] by blast
  have reads: "sdk_reads L W t d = Inr (map authorized (Q (domain_record_pda L d)))" if "holds L (rc_accounts t) Q" for t d Q
    unfolding sdk_reads_def by (rule holds_read[OF assms(1) that])
  have wf: "\<forall>q \<in> set (P ?r). well_formed L q" using P by (auto simp: holds_def stores_def)
  have "\<exists>Q. holds L (rc_accounts s') Q \<and> set (Q ?r) = insert ?p (set (P ?r)) \<and> toll_instructions L wallet url domain mints = Inr ixs"
  proof (cases "?tb \<in> program_id ` set (P ?r)")
    case True
    then obtain q where "q \<in> set (P ?r)" "program_id q = ?tb" by auto
    with wf have "?p \<in> set (P ?r)" by (cases q) (auto simp: well_formed_def)
    with True P assms(4) already_added_read[OF assms(1) P, of W ?tb domain] show ?thesis
      by (auto simp: initialize_tollbooth_def Let_def insert_absorb)
  next
    case False
    with assms(4) already_added_read[OF assms(1) P, of W ?tb domain]
    have "transact L C wallet (pre_instructions s @ [addProgram L domain (getDomainRecordAddress L domain) ?tb]) s = Inr s'"
      "toll_instructions L wallet url domain mints = Inr ixs"
      by (auto simp: initialize_tollbooth_def Let_def rpc_def bind_result_eq_Inr split: sum.splits)
    with add_script_holds[OF assms(1) P assms(3)] show ?thesis by fastforce
  qed
  then obtain Q where Q: "holds L (rc_accounts s') Q" "set (Q ?r) = insert ?p (set (P ?r))"
    "toll_instructions L wallet url domain mints = Inr ixs" by blast
  have sets: "set (map authorized (Q ?r)) = insert (authorized ?p) (set (map authorized (P ?r)))" using Q(2) by simp
  have first: "\<exists>ps qs. sdk_reads L W s domain = Inr ps \<and> sdk_reads L W s' domain = Inr qs \<and> distinct (map ap_programId qs) \<and>
      set qs = insert \<lparr>ap_programId = ?tb, ap_signerPda = program_signer_pda L ?tb\<rparr> (set ps)"
    using reads[OF P] reads[OF Q(1)] holds_distinct[OF Q(1), of ?r] sets
    by (intro exI[of _ "map authorized (P ?r)"] exI[of _ "map authorized (Q ?r)"]) (simp add: authorized_def del: map_map)
  have again: "initialize_tollbooth L C W wallet url domain mints s' = (s', Inr ixs)"
    using already_added_read[OF assms(1) Q(1), of W ?tb domain] Q(2,3) by (simp add: initialize_tollbooth_def Let_def)
  have "length ixs = length (case mints of None \<Rightarrow> [] | Some ms \<Rightarrow> ms) + 2"
    using Q(3) by (auto simp: toll_instructions_def resolveDefaultMints_def bind_result_eq_Inr Let_def traverse_Inr_iff
      dest!: list_all2_lengthD split: if_splits)
  with first again show ?thesis by blast
qed

text \<open>The script that lists a domain's programs and the SDK read the same keys. Whatever account the
  connection returns, when the SDK reads a list of programs then the script prints a
  line for each of them, in the same order, and says that there is no record exactly when there is no account.\<close>

theorem list_script_agrees:
  assumes "getAccountInfo W (getDomainRecordAddress L domain) = Inr info" and "getDomainRegistryAuthorizedPrograms L W domain = Inr ps"
  shows "handleList L W domain = Inr (if info = None then [''No domain record found for domain '' @ in_quotes domain]
    else (''Programs in domain record for '' @ in_quotes domain @ '':'') # map (\<lambda>p. ''- '' @ toBase58 L (ap_programId p)) ps)"
proof (cases info)
  case (Some d)
  with assms have "registry_loop L d 0 = Inr ps" by (simp add: getDomainRegistryAuthorizedPrograms_def)
  from list_loop_registry[OF this] Some assms(1) show ?thesis by (simp add: handleList_def)
qed (use assms in \<open>simp add: handleList_def\<close>)

section \<open>A concrete runtime\<close>

fun demo_cast :: "bytes \<Rightarrow> raw_program list" where
  "demo_cast [] = []"
| "demo_cast (b # bs) = \<lparr>program_id = PublicKey (take 32 (b # bs)), signer_pda = PublicKey (take 32 (drop 32 (b # bs)))\<rparr> #
     demo_cast (drop 63 bs)"

definition demo_runtime :: program_lib where
  "demo_runtime = \<lparr>cast_slice = \<lambda>d. Some (demo_cast d), realloc = \<lambda>d n. Some (take n d @ replicate (n - length d) 0),
     minimum_balance = \<lambda>n. n + 1\<rparr>"

text \<open>Derived addresses are cut to 32 bytes.\<close>

definition registry_lib :: solana_lib where
  "registry_lib = demo_lib\<lparr>findProgramAddressSync := \<lambda>seeds p. PublicKey (take 32 (rev (concat seeds) @ toBytes p @ replicate 32 0)),
     program_address := \<lambda>n. PublicKey (take 32 (utf8 n @ replicate 32 0))\<rparr>"

lemma demo_cast_bytes:
  assumes "length (toBytes (program_id p)) = 32" and "length (toBytes (signer_pda p)) = 32"
  shows "demo_cast (program_bytes p @ bs) = p # demo_cast bs"
proof -
  obtain b k where k: "toBytes (program_id p) = b # k" using assms(1) by (cases "toBytes (program_id p)") auto
  then have "length k = 31" using assms(1) by simp
  with assms k show ?thesis by (cases p, cases "program_id p", cases "signer_pda p") (simp add: program_bytes_def)
qed

lemma demo_runtime_laws: "runtime_laws registry_lib demo_runtime"
proof -
  have "demo_cast (concat (map program_bytes ps)) = ps" if "\<forall>p \<in> set ps. well_formed registry_lib p" for ps
    using that
  proof (induction ps)
    case (Cons p ps)
    then show ?case using demo_cast_bytes[of p "concat (map program_bytes ps)"]
      by (simp add: well_formed_def program_signer_pda_def registry_lib_def)
  qed simp
  then show ?thesis unfolding runtime_laws_def
    by (auto simp: demo_runtime_def registry_lib_def demo_lib_def min_def)
qed

definition demo_fresh :: registry_chain where
  "demo_fresh = \<lparr>rc_config = None, rc_config_lamports = 0,
     rc_accounts = \<lambda>k. \<lparr>ac_owner = System_owned, ac_lamports = 1000, ac_data = []\<rparr>\<rparr>"

lemma demo_fresh_reachable: "registry_reachable L C demo_fresh"
  by (rule registry_reachable.fresh) (simp_all add: demo_fresh_def)

abbreviation demo_program :: pubkey where
  "demo_program \<equiv> PublicKey (replicate 32 7)"

definition demo_initialized :: registry_chain where
  "demo_initialized = \<lparr>rc_config = Some (PublicKey [1]), rc_config_lamports = 41,
     rc_accounts = (rc_accounts demo_fresh)(PublicKey [1] := \<lparr>ac_owner = System_owned, ac_lamports = 959, ac_data = []\<rparr>)\<rparr>"

lemma demo_initialize:
  "process_all registry_lib demo_runtime (PublicKey [1]) [Initialize] demo_fresh = Inr demo_initialized"
  by (simp add: initialize_def demo_fresh_def demo_initialized_def demo_runtime_def Let_def)

lemma demo_initialized_reachable: "registry_reachable registry_lib demo_runtime demo_initialized"
proof (rule registry_reachable.transacted[OF demo_fresh_reachable, where ixs = "[Initialize]"])
  have "sweep demo_initialized = demo_initialized"
    by (simp add: sweep_def demo_initialized_def demo_fresh_def fun_eq_iff)
  with demo_initialize show "transact registry_lib demo_runtime (PublicKey [1]) [Initialize] demo_fresh = Inr demo_initialized"
    by (simp add: transact_def)
qed (simp add: ix_ok_def)

lemma demo_add:
  "\<exists>s. process registry_lib demo_runtime (PublicKey [1])
     (addProgram registry_lib ''app'' (getDomainRecordAddress registry_lib ''app'') program) demo_initialized = Inr s"
proof -
  have "domain_record_pda registry_lib ''app'' \<noteq> PublicKey [1]"
    by (rule notI, drule arg_cong[where f = "length \<circ> toBytes"]) (simp add: domain_record_pda_def registry_lib_def)
  then show ?thesis
    by (simp add: addProgram_def demo_initialized_def demo_fresh_def demo_runtime_def
      add_program_def check_authority_def record_address create_domain_record_if_needed_def create_pda_def Let_def
      allocate_assign_def contains_def push_def resize_def adjust_rent_if_needed_def system_transfer_def move_lamports_def
      program_size_def bind_presult_def)
qed

lemma demo_read_initialized: "sdk_reads registry_lib W demo_initialized ''app'' = Inr []"
  by (simp add: sdk_reads_def getDomainRegistryAuthorizedPrograms_def chain_world_def demo_initialized_def demo_fresh_def
    registry_loop.simps)

theorem registry_as_specified_witness:
  "\<exists>s. transact registry_lib demo_runtime (PublicKey [1])
       [addProgram registry_lib ''app'' (getDomainRecordAddress registry_lib ''app'') demo_program] demo_initialized = Inr s \<and>
     sdk_reads registry_lib (demo_world (PublicKey [1])) s ''app'' =
       Inr [\<lparr>ap_programId = demo_program, ap_signerPda = program_signer_pda registry_lib demo_program\<rparr>]"
proof -
  obtain s where s: "transact registry_lib demo_runtime (PublicKey [1])
       [addProgram registry_lib ''app'' (getDomainRecordAddress registry_lib ''app'') demo_program] demo_initialized = Inr s"
    using demo_add[of demo_program] by (auto simp: transact_def)
  from registry_as_specified[OF demo_runtime_laws demo_initialized_reachable, of "demo_world (PublicKey [1])" "''app''"]
  have "sdk_reads registry_lib (demo_world (PublicKey [1])) s ''app'' =
      Inr [\<lparr>ap_programId = demo_program, ap_signerPda = program_signer_pda registry_lib demo_program\<rparr>]"
    using s unfolding demo_read_initialized addProgram_def by (elim exE conjE) force
  with s show ?thesis by blast
qed

theorem tollbooth_script_repeatable_witness:
  "\<exists>s ixs. initialize_tollbooth registry_lib demo_runtime (demo_world (PublicKey [1])) (PublicKey [1]) ''http://mainnet'' ''app'' None demo_initialized
       = (s, Inr ixs) \<and>
     initialize_tollbooth registry_lib demo_runtime (demo_world (PublicKey [1])) (PublicKey [1]) ''http://mainnet'' ''app'' None s = (s, Inr ixs)"
proof -
  let ?run = "initialize_tollbooth registry_lib demo_runtime (demo_world (PublicKey [1])) (PublicKey [1]) ''http://mainnet'' ''app'' None"
  let ?tb = "program_address registry_lib ''tollbooth''"
  obtain s where s: "transact registry_lib demo_runtime (PublicKey [1])
       [addProgram registry_lib ''app'' (getDomainRecordAddress registry_lib ''app'') ?tb] demo_initialized = Inr s"
    using demo_add[of ?tb] by (auto simp: transact_def)
  have "programAlreadyAdded registry_lib (chain_world (demo_world (PublicKey [1])) demo_initialized) ?tb (getDomainRecordAddress registry_lib ''app'') = Inr False"
    by (simp add: programAlreadyAdded_def chain_world_def demo_initialized_def demo_fresh_def registered_loop.simps)
  moreover have "\<exists>ixs. toll_instructions registry_lib (PublicKey [1]) ''http://mainnet'' ''app'' None = Inr ixs"
    by (simp add: toll_instructions_def resolveDefaultMints_def Let_def toll_account_def registry_lib_def demo_lib_def)
  ultimately obtain ixs where run: "?run demo_initialized = (s, Inr ixs)"
    using s by (auto simp: initialize_tollbooth_def Let_def rpc_def pre_instructions_def demo_initialized_def)
  have "length (toBytes ?tb) = 32" by (simp add: registry_lib_def)
  from tollbooth_script_repeatable[OF demo_runtime_laws demo_initialized_reachable this run] run show ?thesis by blast
qed

theorem list_script_agrees_witness:
  "handleList demo_lib ((demo_world (PublicKey [1]))\<lparr>getAccountInfo := \<lambda>k. Inr (Some (replicate 32 4 @ replicate 32 5))\<rparr>) ''app''
   = Inr [''Programs in domain record for '' @ in_quotes ''app'' @ '':'', ''- '' @ toBase58 demo_lib (PublicKey (replicate 32 4))]"
proof -
  have wf: "list_all wf_program [\<lparr>ap_programId = PublicKey (replicate 32 4), ap_signerPda = PublicKey (replicate 32 5)\<rparr>]"
    by (simp add: wf_program_def)
  have "registry_loop demo_lib (replicate 32 4 @ replicate 32 5) 0 =
      Inr [\<lparr>ap_programId = PublicKey (replicate 32 4), ap_signerPda = PublicKey (replicate 32 5)\<rparr>]"
    using registry_loop_append[OF _ wf, of demo_lib "[]"] by (simp add: demo_lib_def registry_bytes_def)
  then show ?thesis
    by (subst list_script_agrees[where info = "Some (replicate 32 4 @ replicate 32 5)"
        and ps = "[\<lparr>ap_programId = PublicKey (replicate 32 4), ap_signerPda = PublicKey (replicate 32 5)\<rparr>]"])
      (simp_all add: getDomainRegistryAuthorizedPrograms_def)
qed

end
