(* ===== verification/Admin_Client.thy ===== *)
theory Admin_Client
  imports Tx_Validator Amounts
begin

text \<open>
  The browser side of the admin application (\<^verbatim>\<open>apps/paymaster-admin/src\<close>): how the user's data
  travels from the endpoint to \<^verbatim>\<open>client/paymaster.ts\<close>, the hook \<^verbatim>\<open>useAsync\<close> of the component library
  behind every button, the panel that tests a transaction (\<^verbatim>\<open>variation-tester.tsx\<close>) on the variation that the card
  shows, and the clients of the delete and settings actions. Dates are sent as text: their printer is a
  parameter, and the properties name the law that the reader of dates inverts it.
\<close>

section \<open>The user's data as JSON\<close>

text \<open>\<^verbatim>\<open>JSON.stringify\<close> of the values that the schemas return, with their keys in the order of the
  schemas; a missing fee is left out. \<open>toISO\<close> is \<^verbatim>\<open>toISOString\<close>.\<close>

definition fee_field :: "js_number option \<Rightarrow> (string \<times> json) list" where
  "fee_field f = (case f of None \<Rightarrow> [] | Some x \<Rightarrow> [(''paymaster_fee_lamports'', JNum x)])"

definition variation_fields :: "(int \<Rightarrow> string) \<Rightarrow> (string \<times> json) list \<Rightarrow> Variation \<Rightarrow> (string \<times> json) list" where
  "variation_fields toISO updated v = (case v of
     VariationV0 m ps \<Rightarrow>
       [(''created_at'', JStr (toISO (vm_created_at m))), (''id'', JStr (vm_id m)), (''name'', JStr (vm_name m)),
        (''transaction_variation'', JArr (map JStr ps))] @ updated @ [(''version'', JStr ''v0'')]
   | VariationV1 m g f is \<Rightarrow>
       [(''created_at'', JStr (toISO (vm_created_at m))), (''id'', JStr (vm_id m)), (''max_gas_spend'', JNum g), (''name'', JStr (vm_name m))] @
       fee_field f @ [(''transaction_variation'', variations_json is)] @ updated @ [(''version'', JStr ''v1'')])"

definition variation_json :: "(int \<Rightarrow> string) \<Rightarrow> Variation \<Rightarrow> json" where
  "variation_json toISO v = JObj (variation_fields toISO [(''updated_at'', JStr (toISO (vm_updated_at (variation_meta v))))] v)"

definition network_name :: "NetworkEnvironment \<Rightarrow> string" where
  "network_name n = (case n of EnvMainnet \<Rightarrow> ''mainnet'' | EnvTestnet \<Rightarrow> ''testnet'' | EnvLocalnet \<Rightarrow> ''localnet'')"

definition config_json :: "(int \<Rightarrow> string) \<Rightarrow> DomainConfig \<Rightarrow> json" where
  "config_json toISO c = JObj
     [(''created_at'', JStr (toISO (dcf_created_at c))), (''domain'', JStr (dcf_domain c)),
      (''enable_preflight_simulation'', JBool (dcf_enable_preflight_simulation c)),
      (''enable_session_management'', JBool (dcf_enable_session_management c)), (''id'', JStr (dcf_id c)),
      (''network_environment'', JStr (network_name (dcf_network_environment c))), (''updated_at'', JStr (toISO (dcf_updated_at c))),
      (''variations'', JArr (map (variation_json toISO) (dcf_variations c)))]"

definition app_json :: "(int \<Rightarrow> string) \<Rightarrow> App \<Rightarrow> json" where
  "app_json toISO a = JObj
     [(''created_at'', JStr (toISO (app_created_at a))), (''domain_configs'', JArr (map (config_json toISO) (app_domain_configs a))),
      (''id'', JStr (app_id a)), (''name'', JStr (app_name a)), (''updated_at'', JStr (toISO (app_updated_at a)))]"

definition user_json :: "(int \<Rightarrow> string) \<Rightarrow> User \<Rightarrow> json" where
  "user_json toISO u = JObj
     [(''apps'', JArr (map (app_json toISO) (usr_apps u))), (''created_at'', JStr (toISO (usr_created_at u))), (''id'', JStr (usr_id u)),
      (''updated_at'', JStr (toISO (usr_updated_at u))), (''username'', JStr (usr_username u)),
      (''wallet_address'', JStr (usr_wallet_address u))]"

text \<open>The documented behaviour of dates: a date is at most 8.64e15 milliseconds from the epoch, and
  reading what was printed gives the same date.\<close>

definition date_laws :: "zod_lib \<Rightarrow> (int \<Rightarrow> string) \<Rightarrow> bool" where
  "date_laws Z toISO \<longleftrightarrow> (\<forall>t. \<bar>t\<bar> \<le> 8640000000000000 \<longrightarrow> zd_date Z (toISO t) = Some t) \<and>
     (\<forall>s t. zd_date Z s = Some t \<longrightarrow> \<bar>t\<bar> \<le> 8640000000000000)"

lemma TimeStr_reread:
  assumes "date_laws Z toISO" and "TimeStr Z j = Some t"
  shows "TimeStr Z (JStr (toISO t)) = Some t"
proof -
  have "\<bar>t\<bar> \<le> 8640000000000000"
  proof (cases j)
    case (JNum x)
    with assms(2) obtain q where x: "x = Num q" by (cases x) (auto simp: TimeStr_def date_of_number_def)
    with assms(2) JNum have q: "\<bar>q\<bar> \<le> 8640000000000000" "t = (if q < 0 then \<lceil>q\<rceil> else \<lfloor>q\<rfloor>)"
      by (auto simp: TimeStr_def date_of_number_def Let_def split: if_splits)
    from q(1) have "q \<le> 8640000000000000" "- 8640000000000000 \<le> q" by linarith+
    then have "\<bar>\<lceil>q\<rceil>\<bar> \<le> 8640000000000000" "\<bar>\<lfloor>q\<rfloor>\<bar> \<le> 8640000000000000" by linarith+
    with q(2) show ?thesis by metis
  qed (use assms in \<open>auto simp: TimeStr_def date_laws_def\<close>)
  with assms(1) show ?thesis by (simp add: TimeStr_def date_laws_def)
qed

lemma parse_arr_reread:
  assumes "parse_arr p j = Some vs" and "\<And>j v. p j = Some v \<Longrightarrow> p (enc v) = Some v"
  shows "parse_arr p (JArr (map enc vs)) = Some vs"
proof -
  have "those (map p js) = Some vs \<Longrightarrow> those (map (p \<circ> enc) vs) = Some vs" for js
    by (induction js arbitrary: vs) (auto simp: assms(2) split: option.splits)
  with assms(1) show ?thesis by (auto simp: parse_arr_def split: json.splits)
qed

lemma parse_str_reread: "parse_str P j = Some s \<Longrightarrow> parse_str P (JStr s) = Some s"
  by (auto simp: parse_str_def split: json.splits if_splits)

lemma parse_bool_reread: "parse_bool (JBool b) = Some b"
  by (simp add: parse_bool_def)

lemma network_reread: "NetworkEnvironmentSchema (JStr (network_name n)) = Some n"
  by (cases n) (simp_all add: NetworkEnvironmentSchema_def network_name_def)

lemma u64_reread: "u64 j = Some x \<Longrightarrow> u64 (JNum x) = Some x"
  by (auto simp: u64_def parse_int_def split: json.splits if_splits)

lemmas reread_leaf = TimeStr_reread parse_str_reread[where P = "\<lambda>_. True", folded any_string_def]

lemma UUID_reread: "UUID Z j = Some s \<Longrightarrow> UUID Z (JStr s) = Some s"
  by (simp add: UUID_def parse_str_reread)

lemma any_string_reread: "any_string (JStr s) = Some s"
  by (simp add: any_string_def parse_str_def)

lemma meta_reread:
  assumes "date_laws Z toISO" and "variation_meta_schema Z j = Some m"
    and "field ''created_at'' k = Some (JStr (toISO (vm_created_at m)))" "field ''id'' k = Some (JStr (vm_id m))"
      "field ''name'' k = Some (JStr (vm_name m))" "field ''updated_at'' k = Some (JStr (toISO (vm_updated_at m)))"
  shows "variation_meta_schema Z k = Some m"
  using assms(2-) by (auto simp: variation_meta_schema_def bind_eq_Some_conv required_Some any_string_reread
    intro: TimeStr_reread[OF assms(1)] UUID_reread)

lemma variation_reread:
  assumes laws: "date_laws Z toISO" and parsed: "VariationSchema Z j = Some v"
  shows "VariationSchema Z (variation_json toISO v) = Some v"
proof -
  from parsed consider "VariationV0Schema Z j = Some v" | "VariationV1Schema Z j = Some v"
    by (auto simp: VariationSchema_def split: option.splits json.splits if_splits)
  then show ?thesis
  proof cases
    case 1
    then obtain m ps x where v: "v = VariationV0 m ps" and m: "variation_meta_schema Z j = Some m"
      and ps: "parse_arr (parse_str Base58Pubkey) x = Some ps"
      by (auto simp: VariationV0Schema_def bind_eq_Some_conv required_Some)
    have "parse_arr (parse_str Base58Pubkey) (JArr (map JStr ps)) = Some ps"
      by (rule parse_arr_reread[OF ps]) (rule parse_str_reread)
    moreover have "variation_meta_schema Z (variation_json toISO v) = Some m"
      by (rule meta_reread[OF laws m]) (simp_all add: v variation_json_def variation_fields_def field_def)
    moreover have "field ''version'' (variation_json toISO v) = Some (JStr ''v0'')"
      "field ''transaction_variation'' (variation_json toISO v) = Some (JArr (map JStr ps))"
      by (simp_all add: v variation_json_def variation_fields_def field_def)
    ultimately show ?thesis by (simp add: VariationSchema_def VariationV0Schema_def required_def) (simp add: v)
  next
    case 2
    then obtain m g f "is" x y where v: "v = VariationV1 m g f is" and m: "variation_meta_schema Z j = Some m"
      and g: "u64 x = Some g" and f: "nullish_u64 j = Some f" and ixs: "TransactionVariations y = Some is"
      by (auto simp: VariationV1Schema_def bind_eq_Some_conv required_Some)
    have f': "nullish_u64 (variation_json toISO v) = Some f"
    proof (cases f)
      case (Some a)
      with f obtain k where "u64 k = Some a" by (auto simp: nullish_u64_def split: option.splits json.splits)
      then show ?thesis
        by (simp add: nullish_u64_def v variation_json_def variation_fields_def field_def fee_field_def Some u64_reread)
    qed (simp add: nullish_u64_def v variation_json_def variation_fields_def field_def fee_field_def)
    have m': "variation_meta_schema Z (variation_json toISO v) = Some m"
      by (rule meta_reread[OF laws m]) (simp_all add: v variation_json_def variation_fields_def field_def fee_field_def split: option.splits)
    have fields: "field ''version'' (variation_json toISO v) = Some (JStr ''v1'')"
      "field ''max_gas_spend'' (variation_json toISO v) = Some (JNum g)"
      "field ''transaction_variation'' (variation_json toISO v) = Some (variations_json is)"
      by (simp_all add: v variation_json_def variation_fields_def field_def fee_field_def split: option.splits)
    show ?thesis
      by (simp add: VariationSchema_def VariationV1Schema_def required_def fields f' m' u64_reread[OF g] variations.reparse[OF ixs])
        (simp add: v)
  qed
qed

lemma config_reread:
  assumes "date_laws Z toISO" and "DomainConfigWithVariationsSchema Z j = Some c"
  shows "DomainConfigWithVariationsSchema Z (config_json toISO c) = Some c"
  using assms(2)
  by (auto simp: DomainConfigWithVariationsSchema_def bind_eq_Some_conv required_Some field_def config_json_def any_string_reread
    parse_bool_reread network_reread intro!: TimeStr_reread[OF assms(1)] UUID_reread parse_arr_reread variation_reread[OF assms(1)])

lemma app_reread:
  assumes "date_laws Z toISO" and "AppWithDomainConfigsSchema Z j = Some a"
  shows "AppWithDomainConfigsSchema Z (app_json toISO a) = Some a"
  using assms(2)
  by (auto simp: AppWithDomainConfigsSchema_def bind_eq_Some_conv required_Some field_def app_json_def any_string_reread
    intro!: TimeStr_reread[OF assms(1)] UUID_reread parse_arr_reread config_reread[OF assms(1)])

lemma user_reread:
  assumes "date_laws Z toISO" and "UserSchema Z j = Some u"
  shows "UserSchema Z (user_json toISO u) = Some u"
  using assms(2)
  by (auto simp: UserSchema_def bind_eq_Some_conv required_Some field_def user_json_def any_string_reread
    intro!: TimeStr_reread[OF assms(1)] UUID_reread parse_arr_reread app_reread[OF assms(1)])

section \<open>Fetching the data\<close>

text \<open>An answer as the browser sees it: the body is there when it is JSON. The reason phrase depends on the server.\<close>

record reply =
  rp_status :: nat
  rp_statusText :: string
  rp_json :: "json option"

definition reply_of :: "(int \<Rightarrow> string) \<Rightarrow> (nat \<Rightarrow> string) \<Rightarrow> response \<Rightarrow> reply" where
  "reply_of toISO phrase r = (case r of
     JsonError n m \<Rightarrow> \<lparr>rp_status = n, rp_statusText = phrase n, rp_json = Some (JStr m)\<rparr>
   | TextError n m \<Rightarrow> \<lparr>rp_status = n, rp_statusText = phrase n, rp_json = None\<rparr>
   | JsonData u \<Rightarrow> \<lparr>rp_status = 200, rp_statusText = phrase 200, rp_json = Some (user_json toISO u)\<rparr>
   | Thrown _ \<Rightarrow> \<lparr>rp_status = 500, rp_statusText = phrase 500, rp_json = None\<rparr>)"

text \<open>The value of a header, without the white space around it.\<close>

definition header_value :: "string \<Rightarrow> string" where
  "header_value s = (let ws = (\<lambda>c. c \<in> {CHR 0x09, CHR 0x0A, CHR 0x0D, CHR '' ''}) in rev (dropWhile ws (rev (dropWhile ws s))))"

datatype fetched = Success User | NotFound

definition fetchUserData :: "zod_lib \<Rightarrow> (headers \<Rightarrow> reply result) \<Rightarrow> string \<Rightarrow> fetched result" where
  "fetchUserData Z fetch' sessionToken =
     bind_result (fetch' [''authorization'' \<mapsto> header_value (''Bearer '' @ sessionToken)]) (\<lambda>response.
       if rp_status response = 404 then Inr NotFound
       else if 200 \<le> rp_status response \<and> rp_status response < 300
       then (case rp_json response of
          None \<Rightarrow> Inl SyntaxError
        | Some j \<Rightarrow> (case UserSchema Z j of None \<Rightarrow> Inl (ExternalError ''ZodError'') | Some u \<Rightarrow> Inr (Success u)))
       else Inl (Error (''Failed to fetch user data: '' @ nat_to_string (rp_status response) @ '' '' @ rp_statusText response)))"

text \<open>\<^verbatim>\<open>useUserData\<close>: an expired session is ended, and the request goes on. The first component tells
  whether \<^verbatim>\<open>endSession\<close> was called.\<close>

definition getUserData :: "zod_lib \<Rightarrow> (headers \<Rightarrow> reply result) \<Rightarrow> int \<Rightarrow> int \<Rightarrow> string result \<Rightarrow> bool \<times> fetched result" where
  "getUserData Z fetch' now expires token = (expires < now, bind_result token (fetchUserData Z fetch'))"

lemma header_bearer:
  assumes "token \<noteq> []" and "last token \<notin> {CHR 0x09, CHR 0x0A, CHR 0x0D, CHR '' ''}"
  shows "header_value (''Bearer '' @ token) = ''Bearer '' @ token"
proof -
  obtain r c where t: "token = r @ [c]" using assms(1) by (cases token rule: rev_cases) auto
  from assms(2) show ?thesis unfolding t by (simp add: header_value_def Let_def)
qed

lemma fetched_parsed:
  assumes "fetchUserPaymasterData Z P db w = Inr (Some u)"
  obtains j where "UserSchema Z j = Some u"
  using assms that by (auto simp: fetchUserPaymasterData_def split: list.splits option.splits)


definition demo_dates :: zod_lib where
  "demo_dates = \<lparr>zd_uuid = (\<lambda>s. s \<noteq> []),
     zd_date = (\<lambda>s. case BigInt s of Inl _ \<Rightarrow> None | Inr t \<Rightarrow> if \<bar>t\<bar> \<le> 8640000000000000 then Some t else None)\<rparr>"

lemma BigInt_int_to_string [simp]: "BigInt (int_to_string t) = Inr t"
  using nat_to_string_dec by (simp add: int_to_string_def BigInt_dec BigInt_negative)

definition demo_admin_dates :: admin_env where
  "demo_admin_dates = demo_admin\<lparr>ae_zod := demo_dates, ae_pg := \<lparr>pg_time = int_to_string, pg_now = 5\<rparr>\<rparr>"

lemma demo_date_laws: "date_laws demo_dates int_to_string"
  by (auto simp: date_laws_def demo_dates_def split: sum.splits if_splits)

lemma demo_user_read: "\<exists>u. fetchUserPaymasterData demo_dates \<lparr>pg_time = int_to_string, pg_now = 5\<rparr> demo_db demo_owner = Inr (Some u)"
proof -
  let ?P = "\<lparr>pg_time = int_to_string, pg_now = 5\<rparr>"
  have "UserSchema demo_dates (user_row_json ?P demo_db (hd (db_users demo_db))) \<noteq> None"
    unfolding user_readable_iff
    by (simp add: demo_db_def user_readable_def app_readable_def config_readable_def configs_of_def variations_of_def
        time_ok_def demo_dates_def NetworkEnvironmentSchema_def)
  then show ?thesis
    using fetch_user[OF demo_db_ok, of "hd (db_users demo_db)" demo_dates ?P] by (auto simp: demo_db_def split: option.splits)
qed


end
