(* ===== verification/Variation_Tester.thy ===== *)
theory Variation_Tester
  imports Admin_Client
begin

text \<open>
  Testing from the card: the variation that the card hands over (\<^verbatim>\<open>variationForTest\<close> of
  \<^verbatim>\<open>variations-list-item.tsx\<close>), the hook \<^verbatim>\<open>useAsync\<close> (\<^verbatim>\<open>component-library/src/useAsync\<close>) and the panel
  (\<^verbatim>\<open>variation-tester.tsx\<close>), both of \<^verbatim>\<open>apps/paymaster-admin/src/components/Variation\<close>. The panel's state and the
  events it reacts to, in any order, form a transition system; the answers it received are logged, so that a
  property can say which request a verdict belongs to.
\<close>

section \<open>One asynchronous call at a time\<close>

datatype 'a async = Base | Running | Complete 'a | ErrorState js_error

definition AlreadyInProgressError :: js_error where
  "AlreadyInProgressError = Error ''Can't run async hook when already in progress''"

definition async_execute :: "'a async \<Rightarrow> 'a async result" where
  "async_execute st = (if st = Running then Inl AlreadyInProgressError else Inr Running)"

text \<open>The end of the call: the new state and the callbacks in order. \<open>ok\<close> is what \<^verbatim>\<open>onSuccess\<close> does; the
  \<^verbatim>\<open>catch\<close> also covers an error of its own.\<close>

datatype 'a callback = OnSuccess 'a | OnError js_error

definition async_settle :: "('a \<Rightarrow> unit result) \<Rightarrow> 'a result \<Rightarrow> 'a async \<times> 'a callback list" where
  "async_settle ok r = (case r of
     Inl e \<Rightarrow> (ErrorState e, [OnError e])
   | Inr x \<Rightarrow> (case ok x of Inr _ \<Rightarrow> (Complete x, [OnSuccess x]) | Inl e \<Rightarrow> (ErrorState e, [OnSuccess x, OnError e])))"

section \<open>The variation on the card\<close>

text \<open>The schema takes a \<^verbatim>\<open>Date\<close> as it is; here it is its number.\<close>

definition meta_of_card :: "Variation option \<Rightarrow> int \<Rightarrow> string \<Rightarrow> form_state \<Rightarrow> (string \<times> json) list" where
  "meta_of_card variation now uuid st =
     [(''created_at'', JNum (js_int (case variation of None \<Rightarrow> now | Some v \<Rightarrow> vm_created_at (variation_meta v)))),
      (''id'', JStr (case variation of None \<Rightarrow> uuid | Some v \<Rightarrow> vm_id (variation_meta v))),
      (''name'', JStr (fs_name st)), (''updated_at'', JNum (js_int now))]"

definition variationForTest ::
  "text_lib \<Rightarrow> zod_lib \<Rightarrow> (json \<Rightarrow> zod_issue list) \<Rightarrow> Variation option \<Rightarrow> int \<Rightarrow> string \<Rightarrow> form_state \<Rightarrow> Variation option" where
  "variationForTest T Z I variation now uuid st =
     (let base = meta_of_card variation now uuid st in
      case variation of
        Some (VariationV0 _ _) \<Rightarrow>
          if fs_code st = [] then None
          else (case JSON_parse T (fs_code st) of
             Inl _ \<Rightarrow> None
           | Inr j \<Rightarrow> (case parse_arr (parse_str Base58Pubkey) j of
               None \<Rightarrow> None
             | Some ps \<Rightarrow> VariationSchema Z (JObj (base @ [(''transaction_variation'', JArr (map JStr ps)), (''version'', JStr ''v0'')]))))
      | _ \<Rightarrow>
          (case (case fs_editorMode st of
             FormMode \<Rightarrow> TransactionVariations (variations_json (fs_instructions st))
           | CodeMode \<Rightarrow> if fs_code st = [] then None else fst (validateCode T I (fs_code st) st)) of
             None \<Rightarrow> None
           | Some is \<Rightarrow>
               let gas = (if fs_maxGasSpend st = [] then js_int 0 else js_Number (fs_maxGasSpend st)) in
               (case gas of
                  Num _ \<Rightarrow> VariationSchema Z (JObj (base @ [(''max_gas_spend'', JNum gas),
                    (''paymaster_fee_lamports'', JNum (js_Number (fs_paymasterFeeLamports st))),
                    (''transaction_variation'', variations_json is), (''version'', JStr ''v1'')]))
                | _ \<Rightarrow> None)))"

lemma variationForTest_parsed:
  assumes "variationForTest T Z I variation now uuid st = Some v"
  obtains j where "VariationSchema Z j = Some v"
  using assms that
  by (auto simp: variationForTest_def Let_def split: option.splits Variation.splits if_splits sum.splits js_number.splits)

section \<open>The panel\<close>

text \<open>\<^verbatim>\<open>variationsEqual\<close> compares the JSON without the time of the last change.\<close>

definition rest_json :: "(int \<Rightarrow> string) \<Rightarrow> Variation \<Rightarrow> json" where
  "rest_json toISO v = JObj (variation_fields toISO [] v)"

definition variationsEqual :: "text_lib \<Rightarrow> (int \<Rightarrow> string) \<Rightarrow> Variation \<Rightarrow> Variation \<Rightarrow> bool" where
  "variationsEqual T toISO v w \<longleftrightarrow> JSON_stringify T (rest_json toISO v) = JSON_stringify T (rest_json toISO w)"

record tester_env =
  te_tx :: tx_lib
  te_text :: text_lib
  te_toISO :: "int \<Rightarrow> string"
  te_domain :: string
  te_network :: string

type_synonym test_result = "json result"

record tester =
  tt_input :: string
  tt_validatedInput :: string
  tt_validatedVariation :: "Variation option"
  tt_state :: "json async"
  tt_variation :: "Variation option"
  tt_sent :: "json option"
  tt_log :: "(json \<times> json) list"

definition initial_tester :: "Variation option \<Rightarrow> tester" where
  "initial_tester v = \<lparr>tt_input = [], tt_validatedInput = [], tt_validatedVariation = None, tt_state = Base, tt_variation = v,
     tt_sent = None, tt_log = []\<rparr>"

fun input_value :: "TransactionInput \<Rightarrow> string" where
  "input_value (Serialized s) = s"
| "input_value (Hash s) = s"

definition request_body :: "tester_env \<Rightarrow> string \<Rightarrow> Variation \<Rightarrow> json" where
  "request_body E input v = JObj [(''domain'', JStr (te_domain E)), (''network'', JStr (te_network E)), (''transactionInput'', JStr input),
     (''variation'', variation_json (te_toISO E) v)]"

definition test_enabled :: "tester_env \<Rightarrow> tester \<Rightarrow> bool" where
  "test_enabled E s \<longleftrightarrow> tt_state s \<noteq> Running \<and> tt_variation s \<noteq> None \<and> parseTransactionInput (te_tx E) (tt_input s) \<in> range Inr"

definition execute :: "tester_env \<Rightarrow> tester \<Rightarrow> tester" where
  "execute E s = (case tt_variation s of
     None \<Rightarrow> s
   | Some v \<Rightarrow> s\<lparr>tt_validatedInput := tt_input s, tt_validatedVariation := Some v, tt_state := Running,
       tt_sent := Some (request_body E (case parseTransactionInput (te_tx E) (tt_input s) of Inr i \<Rightarrow> input_value i | Inl _ \<Rightarrow> js_trim (tt_input s)) v)\<rparr>)"

text \<open>What can happen: the user types or presses the button, the answer arrives, or the card hands over another
  variation.\<close>

datatype tester_event = Typed string | Pressed | Answered test_result | Handed "Variation option"

definition tester_step :: "tester_env \<Rightarrow> tester_event \<Rightarrow> tester \<Rightarrow> tester" where
  "tester_step E e s = (case e of
     Typed value \<Rightarrow> s\<lparr>tt_input := value\<rparr>
   | Pressed \<Rightarrow> if test_enabled E s then execute E s else s
   | Answered r \<Rightarrow>
       if tt_state s = Running
       then s\<lparr>tt_state := fst (async_settle (\<lambda>_. Inr ()) r),
              tt_log := (case (tt_sent s, r) of (Some q, Inr j) \<Rightarrow> (q, j) # tt_log s | _ \<Rightarrow> tt_log s)\<rparr>
       else s
   | Handed v \<Rightarrow> s\<lparr>tt_variation := v\<rparr>)"

definition showResult :: "tester_env \<Rightarrow> tester \<Rightarrow> bool" where
  "showResult E s \<longleftrightarrow> tt_input s = tt_validatedInput s \<and>
     (case (tt_variation s, tt_validatedVariation s) of
        (Some v, Some w) \<Rightarrow> variationsEqual (te_text E) (te_toISO E) v w | _ \<Rightarrow> False)"

text \<open>The verdict the panel shows.\<close>

definition shown_verdict :: "tester_env \<Rightarrow> tester \<Rightarrow> json option" where
  "shown_verdict E s = (case tt_state s of Complete j \<Rightarrow> if showResult E s then Some j else None | _ \<Rightarrow> None)"

section \<open>Invariant\<close>

text \<open>From a fresh panel, any sequence of events in which the card hands over what it computes.\<close>

definition from_card :: "tester_env \<Rightarrow> zod_lib \<Rightarrow> Variation option \<Rightarrow> bool" where
  "from_card E Z v \<longleftrightarrow> (\<exists>I variation now uuid st. v = variationForTest (te_text E) Z I variation now uuid st)"

inductive tester_reachable :: "tester_env \<Rightarrow> zod_lib \<Rightarrow> tester \<Rightarrow> bool" for E Z where
  opened: "from_card E Z v \<Longrightarrow> tester_reachable E Z (initial_tester v)"
| stepped: "tester_reachable E Z s \<Longrightarrow> (\<And>v. e = Handed v \<Longrightarrow> from_card E Z v) \<Longrightarrow> tester_reachable E Z (tester_step E e s)"

definition variation_ok :: "zod_lib \<Rightarrow> (int \<Rightarrow> string) \<Rightarrow> Variation \<Rightarrow> bool" where
  "variation_ok Z toISO v \<longleftrightarrow> VariationSchema Z (variation_json toISO v) = Some v"

lemma from_card_ok: "date_laws Z (te_toISO E) \<Longrightarrow> from_card E Z (Some v) \<Longrightarrow> variation_ok Z (te_toISO E) v"
  unfolding from_card_def variation_ok_def by (metis variationForTest_parsed variation_reread)

text \<open>A verdict belongs to the request that was sent for the input and the variation kept with it.\<close>

definition tester_inv :: "tester_env \<Rightarrow> zod_lib \<Rightarrow> tester \<Rightarrow> bool" where
  "tester_inv E Z s \<longleftrightarrow> (\<forall>v. tt_variation s = Some v \<longrightarrow> variation_ok Z (te_toISO E) v) \<and>
     (tt_state s = Running \<or> (\<exists>j. tt_state s = Complete j) \<longrightarrow>
        (\<exists>w i. tt_validatedVariation s = Some w \<and> variation_ok Z (te_toISO E) w \<and>
           parseTransactionInput (te_tx E) (tt_validatedInput s) = Inr i \<and> tt_sent s = Some (request_body E (input_value i) w))) \<and>
     (\<forall>j. tt_state s = Complete j \<longrightarrow> (\<exists>q. tt_sent s = Some q \<and> (q, j) \<in> set (tt_log s)))"

lemma execute_inv:
  assumes "tester_inv E Z s" and "test_enabled E s"
  shows "tester_inv E Z (execute E s)"
proof -
  from assms(2) obtain v i where "tt_variation s = Some v" "parseTransactionInput (te_tx E) (tt_input s) = Inr i"
    by (auto simp: test_enabled_def)
  with assms(1) show ?thesis by (simp add: tester_inv_def execute_def)
qed

lemma answered_inv:
  assumes "tester_inv E Z s"
  shows "tester_inv E Z (tester_step E (Answered r) s)"
proof (cases "tt_state s = Running")
  case True
  with assms show ?thesis
    by (cases r) (auto simp: tester_inv_def tester_step_def async_settle_def)
qed (use assms in \<open>simp add: tester_step_def\<close>)

lemma step_inv:
  assumes "date_laws Z (te_toISO E)" and "tester_inv E Z s" and "\<And>v. e = Handed v \<Longrightarrow> from_card E Z v"
  shows "tester_inv E Z (tester_step E e s)"
proof (cases e)
  case (Typed x)
  with assms(2) show ?thesis by (simp add: tester_step_def tester_inv_def)
next
  case Pressed
  with assms(2) execute_inv show ?thesis by (simp add: tester_step_def)
next
  case (Answered r)
  with assms(2) answered_inv show ?thesis by blast
next
  case (Handed v)
  with assms have "\<forall>w. v = Some w \<longrightarrow> variation_ok Z (te_toISO E) w" by (auto intro: from_card_ok)
  with Handed assms(2) show ?thesis by (simp add: tester_step_def tester_inv_def)
qed

lemma reachable_inv:
  assumes "date_laws Z (te_toISO E)" and "tester_reachable E Z s"
  shows "tester_inv E Z s"
  using assms(2)
proof induction
  case (opened v)
  with from_card_ok[OF assms(1)] show ?case by (cases v) (simp_all add: tester_inv_def initial_tester_def)
next
  case (stepped s e)
  with step_inv[OF assms(1)] show ?case by blast
qed

lemma complete_inv:
  assumes "tester_inv E Z s" and "tt_state s = Complete j"
  obtains w i where "tt_validatedVariation s = Some w" "variation_ok Z (te_toISO E) w"
    "parseTransactionInput (te_tx E) (tt_validatedInput s) = Inr i" "(request_body E (input_value i) w, j) \<in> set (tt_log s)"
  using assms that by (auto simp: tester_inv_def)

text \<open>Variations that compare as equal give the validator the same configuration.\<close>

lemma rest_json_config:
  assumes "rest_json toISO v = rest_json toISO w" and "variation_ok Z toISO v" "variation_ok Z toISO w"
  shows "convertToTomlFormat v = convertToTomlFormat w \<and> vm_name (variation_meta v) = vm_name (variation_meta w)"
proof (cases v)
  case v: (VariationV0 m ps)
  show ?thesis
  proof (cases w)
    case (VariationV0 n qs)
    with v assms(1) show ?thesis
      by (simp add: rest_json_def variation_fields_def convertToTomlFormat_def)
  next
    case (VariationV1 n g f "is")
    with v assms(1) show ?thesis by (simp add: rest_json_def variation_fields_def)
  qed
next
  case v: (VariationV1 m g f "is")
  show ?thesis
  proof (cases w)
    case (VariationV0 n qs)
    with v assms(1) show ?thesis by (simp add: rest_json_def variation_fields_def)
  next
    case w: (VariationV1 n g' f' js)
    have "TransactionVariations (variations_json is) = Some is"
      using assms(2) unfolding v variation_ok_def
      by (auto simp: VariationSchema_def VariationV1Schema_def bind_eq_Some_conv required_Some field_def variation_json_def
        variation_fields_def fee_field_def split: option.splits if_splits)
    moreover have "TransactionVariations (variations_json js) = Some js"
      using assms(3) unfolding w variation_ok_def
      by (auto simp: VariationSchema_def VariationV1Schema_def bind_eq_Some_conv required_Some field_def variation_json_def
        variation_fields_def fee_field_def split: option.splits if_splits)
    moreover have "variations_json is = variations_json js \<and> g = g' \<and> vm_name m = vm_name n"
      using assms(1) unfolding v w
      by (auto simp: rest_json_def variation_fields_def fee_field_def split: option.splits)
    ultimately have "is = js \<and> g = g' \<and> vm_name m = vm_name n" by (metis option.inject)
    then show ?thesis by (simp add: v w convertToTomlFormat_def)
  qed
qed

lemma request_parsed:
  assumes "variation_ok Z (te_toISO E) v"
  shows "RequestBodySchema Z (request_body E input v) =
    (if te_domain E \<noteq> [] \<and> NetworkEnvironmentSchema (JStr (te_network E)) \<noteq> None \<and> js_trim input \<noteq> []
     then Some \<lparr>vq_domain = te_domain E, vq_network = te_network E, vq_input = js_trim input, vq_variation = v\<rparr> else None)"
  using assms
  by (simp add: RequestBodySchema_def request_body_def required_def field_def parse_str_def any_string_def variation_ok_def)

lemma same_job:
  assumes "rest_json (te_toISO E) v = rest_json (te_toISO E) w" and "variation_ok Z (te_toISO E) v" "variation_ok Z (te_toISO E) w"
  shows "POST_start Z X T now (request_body E input v) = POST_start Z X T now (request_body E input w)"
  using rest_json_config[OF assms]
  by (simp add: POST_start_def request_parsed[OF assms(2)] request_parsed[OF assms(3)] generateConfigToml_def split: sum.splits)

section \<open>Properties\<close>

text \<open>C16: a verdict on the screen is a verdict on what is on the screen. In every reachable state of the panel,
  whatever was typed, edited on the card or answered in between, a verdict that is shown is the answer to a request
  for which the server writes the same configuration and runs the validator with the same arguments as for the input and the
  variation that are shown now.\<close>

theorem tester_verdict_current:
  assumes "date_laws Z (te_toISO E)"
    and "\<And>v. tt_variation s = Some v \<or> tt_validatedVariation s = Some v \<Longrightarrow>
      JSON_parse (te_text E) (JSON_stringify (te_text E) (rest_json (te_toISO E) v)) = Inr (rest_json (te_toISO E) v)"
    and "tester_reachable E Z s" and "shown_verdict E s = Some j"
  shows "\<exists>v i q. tt_variation s = Some v \<and> parseTransactionInput (te_tx E) (tt_input s) = Inr i \<and> (q, j) \<in> set (tt_log s) \<and>
    (\<forall>now. POST_start Z (te_tx E) (te_text E) now q = POST_start Z (te_tx E) (te_text E) now (request_body E (input_value i) v))"
proof -
  have inv: "tester_inv E Z s" by (rule reachable_inv[OF assms(1,3)])
  from assms(4) have st: "tt_state s = Complete j" and show_: "showResult E s"
    by (auto simp: shown_verdict_def split: async.splits if_splits)
  from inv st obtain w i where w: "tt_validatedVariation s = Some w" "variation_ok Z (te_toISO E) w"
    "parseTransactionInput (te_tx E) (tt_validatedInput s) = Inr i" "(request_body E (input_value i) w, j) \<in> set (tt_log s)"
    by (rule complete_inv)
  from show_ w(1) obtain v where v: "tt_variation s = Some v" "tt_input s = tt_validatedInput s"
    "variationsEqual (te_text E) (te_toISO E) v w" by (auto simp: showResult_def split: option.splits)
  from inv v(1) have ok: "variation_ok Z (te_toISO E) v" by (simp add: tester_inv_def)
  have parsed: "Inr (rest_json (te_toISO E) v) = JSON_parse (te_text E) (JSON_stringify (te_text E) (rest_json (te_toISO E) w))"
    using assms(2)[OF disjI1[OF v(1)]] unfolding v(3)[unfolded variationsEqual_def] by (rule sym)
  have "Inr (rest_json (te_toISO E) w) = (Inr (rest_json (te_toISO E) v) :: json result)"
    by (rule trans[OF assms(2)[OF disjI2[OF w(1)], symmetric] parsed[symmetric]])
  then have "rest_json (te_toISO E) w = rest_json (te_toISO E) v" by (rule sum.inject(2)[THEN iffD1])
  note same = same_job[OF this w(2) ok]
  have "parseTransactionInput (te_tx E) (tt_input s) = Inr i" using v(2) w(3) by simp
  with v(1) w(4) show ?thesis
    by (intro exI[of _ v] exI[of _ i] exI[of _ "request_body E (input_value i) w"] conjI allI same)
qed

definition demo_variation :: Variation where
  "demo_variation = VariationV1 \<lparr>vm_created_at = 0, vm_id = ''u'', vm_name = ''n'', vm_updated_at = 0\<rparr> (js_int 1) (Some (js_int 0)) []"

definition demo_tester_env :: tester_env where
  "demo_tester_env = \<lparr>te_tx = \<lparr>tx_normalize = Some, tx_bs58_decode = (\<lambda>_. Inl SyntaxError)\<rparr>,
     te_text = \<lparr>JSON_stringify = (\<lambda>_. ''v''), JSON_parse = (\<lambda>_. Inr (rest_json int_to_string demo_variation)),
       toml_stringify = (\<lambda>_. ''t''), toml_parse = (\<lambda>_. Inl SyntaxError)\<rparr>,
     te_toISO = int_to_string, te_domain = ''d'', te_network = ''testnet''\<rparr>"

definition demo_card :: form_state where
  "demo_card = \<lparr>fs_isExpanded = True, fs_isEditingJson = False, fs_editorMode = FormMode, fs_name = ''n'', fs_code = [], fs_instructions = [],
     fs_codeError = None, fs_maxGasSpend = ''1'', fs_paymasterFeeLamports = ''0''\<rparr>"

lemma demo_numbers: "js_Number ''1'' = js_int 1" "js_Number ''0'' = js_int 0"
  using js_Number_nat[of 1] js_Number_nat[of 0] by (simp_all add: nat_to_string.simps digit_char_def MAX_SAFE_INTEGER_def)

lemma demo_date_zero: "date_of_number (Num 0) = Some 0"
  by (simp add: date_of_number_def)

lemma demo_handed: "from_card demo_tester_env demo_dates (Some demo_variation)"
proof -
  have "variationForTest (te_text demo_tester_env) demo_dates (\<lambda>_. []) None 0 ''u'' demo_card = Some demo_variation"
    by (simp add: variationForTest_def demo_card_def meta_of_card_def variations.parse_enc demo_numbers)
      (simp add: js_int_def VariationSchema_def VariationV1Schema_def variation_meta_schema_def required_def field_def TimeStr_def
        demo_date_zero demo_numbers[unfolded js_int_def] UUID_def any_string_def parse_str_def demo_dates_def u64_def parse_int_def
        nullish_u64_def variations.parse_enc demo_variation_def int_between_def MAX_SAFE_INTEGER_def)
  then show ?thesis unfolding from_card_def by metis
qed

definition demo_tested :: tester where
  "demo_tested = foldl (\<lambda>s e. tester_step demo_tester_env e s) (initial_tester (Some demo_variation))
     [Typed ''x'', Pressed, Answered (Inr (JBool True))]"

lemma demo_tested_reachable: "tester_reachable demo_tester_env demo_dates demo_tested"
  unfolding demo_tested_def foldl.simps
  by (intro tester_reachable.stepped tester_reachable.opened demo_handed) simp_all

lemma demo_tested_state:
  "shown_verdict demo_tester_env demo_tested = Some (JBool True) \<and> tt_variation demo_tested = Some demo_variation \<and>
   tt_validatedVariation demo_tested = Some demo_variation"
proof -
  have "parseTransactionInput (te_tx demo_tester_env) ''x'' = Inr (Serialized ''x'')"
    by (simp add: parseTransactionInput_def js_trim_def is_ws_def normalizeVersionedTransactionBase64_def demo_tester_env_def)
  then show ?thesis
    by (simp add: demo_tested_def tester_step_def initial_tester_def test_enabled_def execute_def async_settle_def shown_verdict_def
      showResult_def variationsEqual_def image_iff)
qed

theorem tester_verdict_current_witness:
  "tester_reachable demo_tester_env demo_dates demo_tested \<and> shown_verdict demo_tester_env demo_tested = Some (JBool True) \<and>
   (\<exists>i q. (q, JBool True) \<in> set (tt_log demo_tested) \<and>
     (\<forall>now. POST_start demo_dates (te_tx demo_tester_env) (te_text demo_tester_env) now q =
       POST_start demo_dates (te_tx demo_tester_env) (te_text demo_tester_env) now (request_body demo_tester_env (input_value i) demo_variation)))"
proof -
  have laws: "date_laws demo_dates (te_toISO demo_tester_env)" by (simp add: demo_tester_env_def demo_date_laws)
  have json: "JSON_parse (te_text demo_tester_env) (JSON_stringify (te_text demo_tester_env) (rest_json (te_toISO demo_tester_env) v)) =
      Inr (rest_json (te_toISO demo_tester_env) v)"
    if "tt_variation demo_tested = Some v \<or> tt_validatedVariation demo_tested = Some v" for v
    using that demo_tested_state by (auto simp: demo_tester_env_def)
  have verdict: "shown_verdict demo_tester_env demo_tested = Some (JBool True)" using demo_tested_state by blast
  from tester_verdict_current[OF laws json demo_tested_reachable verdict] demo_tested_state demo_tested_reachable verdict
  show ?thesis by auto
qed

end
