(* ===== verification/Admin_Pages.thy ===== *)
theory Admin_Pages
  imports Variation_Tester Wallet_Data Provider
begin

text \<open>
  The pages of the admin application (\<^verbatim>\<open>apps/paymaster-admin/src/components\<close>: \<^verbatim>\<open>App\<close>, \<^verbatim>\<open>Domain\<close>, \<^verbatim>\<open>Variation\<close>,
  \<^verbatim>\<open>BreadcrumbNav\<close>) as functions of the session and of the fetched data, the links between them, and the
  buttons that call the server actions (\<^verbatim>\<open>delete-variation-button.tsx\<close>, \<^verbatim>\<open>DomainSettings\<close>). A page
  is the value that says what it shows; markup is left out.
\<close>

section \<open>Pages\<close>

datatype page_view =
    Blank
  | Skeleton
  | LoadError string
  | UserNotFound
  | AppNotFound
  | ConfigNotFound
  | AppsPage User
  | DomainsPage App
  | VariationsPage App DomainConfig

definition load_error :: "js_error \<Rightarrow> page_view" where
  "load_error e = LoadError (''Error loading user data: '' @ message_of e)"

text \<open>\<open>for_session\<close> is the part the three pages share: what they show while there is no session.\<close>

definition for_session :: "SessionState \<Rightarrow> page_view \<Rightarrow> page_view" where
  "for_session s view = (if isWalletLoading s then Skeleton else if isEstablished s then view else Blank)"

definition AppData :: "fetched data_state \<Rightarrow> page_view" where
  "AppData d = (case d of
     Wallet_Data.ErrorState e \<Rightarrow> load_error e
   | NotLoaded \<Rightarrow> Blank
   | Loading \<Rightarrow> Skeleton
   | Loaded NotFound \<Rightarrow> UserNotFound
   | Loaded (Success u) \<Rightarrow> AppsPage u)"

definition DomainData :: "string \<Rightarrow> fetched data_state \<Rightarrow> page_view" where
  "DomainData appId d = (case d of
     Loading \<Rightarrow> Skeleton
   | Wallet_Data.ErrorState e \<Rightarrow> load_error e
   | Loaded NotFound \<Rightarrow> UserNotFound
   | Loaded (Success u) \<Rightarrow> (case find (\<lambda>a. app_id a = appId) (usr_apps u) of None \<Rightarrow> AppNotFound | Some a \<Rightarrow> DomainsPage a)
   | NotLoaded \<Rightarrow> Blank)"

definition VariationData :: "string \<Rightarrow> string \<Rightarrow> fetched data_state \<Rightarrow> page_view" where
  "VariationData appId domainConfigId d = (case d of
     Loading \<Rightarrow> Skeleton
   | Wallet_Data.ErrorState e \<Rightarrow> load_error e
   | Loaded NotFound \<Rightarrow> UserNotFound
   | Loaded (Success u) \<Rightarrow>
       (case find (\<lambda>a. app_id a = appId) (usr_apps u) of
          None \<Rightarrow> AppNotFound
        | Some a \<Rightarrow> (case find (\<lambda>c. dcf_id c = domainConfigId) (app_domain_configs a) of
             None \<Rightarrow> ConfigNotFound | Some c \<Rightarrow> VariationsPage a c))
   | NotLoaded \<Rightarrow> Blank)"

datatype route = AppsRoute | AppRoute string | DomainRoute string string

definition Apps_page :: "SessionState \<Rightarrow> fetched data_state \<Rightarrow> page_view" where
  "Apps_page s d = for_session s (AppData d)"

definition Domain_page :: "string \<Rightarrow> SessionState \<Rightarrow> fetched data_state \<Rightarrow> page_view" where
  "Domain_page appId s d = for_session s (DomainData appId d)"

definition Variation_page :: "string \<Rightarrow> string \<Rightarrow> SessionState \<Rightarrow> fetched data_state \<Rightarrow> page_view" where
  "Variation_page appId domainConfigId s d = for_session s (VariationData appId domainConfigId d)"

definition page :: "SessionState \<Rightarrow> fetched data_state \<Rightarrow> route \<Rightarrow> page_view" where
  "page s d r = (case r of
     AppsRoute \<Rightarrow> Apps_page s d | AppRoute a \<Rightarrow> Domain_page a s d | DomainRoute a c \<Rightarrow> Variation_page a c s d)"

lemma page_unfold: "page s d r = for_session s (case r of
     AppsRoute \<Rightarrow> AppData d | AppRoute a \<Rightarrow> DomainData a d | DomainRoute a c \<Rightarrow> VariationData a c d)"
  by (cases r) (simp_all add: page_def Apps_page_def Domain_page_def Variation_page_def)

section \<open>Links\<close>

text \<open>The links of the cards, the close button and the bread crumbs.\<close>

definition app_href :: "string \<Rightarrow> string" where
  "app_href i = ''/apps/'' @ i"

definition domain_href :: "string \<Rightarrow> string \<Rightarrow> string" where
  "domain_href a c = ''/apps/'' @ a @ ''/domains/'' @ c"

datatype crumb = Crumb string "string option" | LoadingCrumb

definition AppDomains_crumbs :: "App option \<Rightarrow> crumb list" where
  "AppDomains_crumbs a = [Crumb ''Apps'' (Some ''/''), case a of None \<Rightarrow> LoadingCrumb | Some x \<Rightarrow> Crumb (app_name x) None]"

definition DomainVariation_crumbs :: "(App \<times> DomainConfig) option \<Rightarrow> crumb list" where
  "DomainVariation_crumbs p = [Crumb ''Apps'' (Some ''/''),
     case p of None \<Rightarrow> LoadingCrumb | Some (a, _) \<Rightarrow> Crumb (app_name a) (Some (app_href (app_id a))),
     case p of None \<Rightarrow> LoadingCrumb | Some (_, c) \<Rightarrow> Crumb (dcf_domain c) None]"

definition crumbs :: "page_view \<Rightarrow> crumb list" where
  "crumbs v = (case v of DomainsPage a \<Rightarrow> AppDomains_crumbs (Some a) | VariationsPage a c \<Rightarrow> DomainVariation_crumbs (Some (a, c)) | _ \<Rightarrow> [])"

text \<open>The arrow leads to the last crumb but one, when it has a link.\<close>

definition back_link :: "crumb list \<Rightarrow> string option" where
  "back_link items = (if length items < 2 then None
     else case items ! (length items - 2) of
       Crumb _ (Some h) \<Rightarrow> if h = [] then None else Some h | _ \<Rightarrow> None)"

text \<open>The links a page offers, without the bread crumbs.\<close>

definition links :: "page_view \<Rightarrow> string list" where
  "links v = (case v of
     AppsPage u \<Rightarrow> map (\<lambda>a. app_href (app_id a)) (usr_apps u)
   | DomainsPage a \<Rightarrow> ''/'' # map (\<lambda>c. domain_href (app_id a) (dcf_id c)) (app_domain_configs a)
   | _ \<Rightarrow> [])"

text \<open>The pages are the files \<^verbatim>\<open>app/page.ts\<close>, \<^verbatim>\<open>app/apps/[appId]/page.tsx\<close> and
  \<^verbatim>\<open>app/apps/[appId]/domains/[domainId]/page.tsx\<close>.\<close>

definition route_of :: "string \<Rightarrow> route option" where
  "route_of path = (let p = split_on (CHR ''/'') path in
     if p = [[], []] then Some AppsRoute
     else if length p = 3 \<and> p ! 0 = [] \<and> p ! 1 = ''apps'' then Some (AppRoute (p ! 2))
     else if length p = 5 \<and> p ! 0 = [] \<and> p ! 1 = ''apps'' \<and> p ! 3 = ''domains'' then Some (DomainRoute (p ! 2) (p ! 4))
     else None)"

section \<open>Buttons\<close>

definition useDeleteVariation :: "admin_env \<Rightarrow> string result \<Rightarrow> string \<Rightarrow> admin_db \<Rightarrow> bool result \<times> admin_db" where
  "useDeleteVariation E token variationId db =
     (case token of Inl e \<Rightarrow> (Inl e, db) | Inr sessionToken \<Rightarrow> deleteVariation_action E variationId sessionToken db)"

text \<open>The form reads its two switches, \<^verbatim>\<open>"on"\<close> when selected.\<close>

definition wrappedUpdateDomainSettings ::
  "admin_env \<Rightarrow> string result \<Rightarrow> DomainConfig \<Rightarrow> (string \<rightharpoonup> string) \<Rightarrow> admin_db \<Rightarrow> User option result \<times> admin_db" where
  "wrappedUpdateDomainSettings E token domainConfig formData db =
     (let enableSessionManagement = (formData ''enableSessionManagement'' = Some ''on'');
          enablePreflightSimulation = (formData ''enablePreflightSimulation'' = Some ''on'') in
      case token of
        Inl e \<Rightarrow> (Inl e, db)
      | Inr sessionToken \<Rightarrow>
          updateDomainSettings_action E (dcf_id domainConfig) enableSessionManagement enablePreflightSimulation sessionToken db)"

text \<open>The form as it is first shown.\<close>

definition switches :: "bool \<Rightarrow> bool \<Rightarrow> string \<rightharpoonup> string" where
  "switches s p = (\<lambda>k. if k = ''enableSessionManagement'' \<and> s \<or> k = ''enablePreflightSimulation'' \<and> p then Some ''on'' else None)"

section \<open>From the data back to the rows\<close>

lemma parse_arr_back: "parse_arr p (JArr js) = Some vs \<Longrightarrow> v \<in> set vs \<Longrightarrow> \<exists>j \<in> set js. p j = Some v"
  by (induction js arbitrary: vs) (auto simp: parse_arr_def split: option.splits)

lemma app_row:
  assumes "UserSchema Z (user_row_json P db u) = Some usr" and "A \<in> set (usr_apps usr)"
  obtains a where "a \<in> set (db_apps db)" "ar_user_id a = ur_id u" "ar_id a = app_id A"
    "AppWithDomainConfigsSchema Z (app_row_json P db a) = Some A"
proof -
  from assms(1) have "parse_arr (AppWithDomainConfigsSchema Z)
      (JArr (map (app_row_json P db) (filter (\<lambda>a. ar_user_id a = ur_id u) (db_apps db)))) = Some (usr_apps usr)"
    by (auto simp: UserSchema_def user_row_json_def row_fields bind_eq_Some_conv split: if_splits)
  from parse_arr_back[OF this assms(2)] obtain a where a: "a \<in> set (db_apps db)" "ar_user_id a = ur_id u"
    "AppWithDomainConfigsSchema Z (app_row_json P db a) = Some A" by auto
  moreover from a(3) have "ar_id a = app_id A"
    by (auto simp: AppWithDomainConfigsSchema_def app_row_json_def row_fields bind_eq_Some_conv split: if_splits)
  ultimately show ?thesis using that by blast
qed

lemma config_row:
  assumes "AppWithDomainConfigsSchema Z (app_row_json P db a) = Some A" and "C \<in> set (app_domain_configs A)"
  obtains c where "c \<in> set (db_configs db)" "dr_app_id c = ar_id a" "dr_id c = dcf_id C"
    "dcf_enable_session_management C = dr_enable_session_management c"
    "dcf_enable_preflight_simulation C = dr_enable_preflight_simulation c"
    "DomainConfigWithVariationsSchema Z (config_row_json P db c) = Some C"
proof -
  from assms(1) have "parse_arr (DomainConfigWithVariationsSchema Z) (JArr (map (config_row_json P db) (configs_of db (ar_id a)))) =
      Some (app_domain_configs A)"
    by (auto simp: AppWithDomainConfigsSchema_def app_row_json_def row_fields bind_eq_Some_conv split: if_splits)
  from parse_arr_back[OF this assms(2)] obtain c where c: "c \<in> set (configs_of db (ar_id a))"
    "DomainConfigWithVariationsSchema Z (config_row_json P db c) = Some C" by auto
  moreover from c(2) have "dr_id c = dcf_id C" "dcf_enable_session_management C = dr_enable_session_management c"
    "dcf_enable_preflight_simulation C = dr_enable_preflight_simulation c"
    by (auto simp: DomainConfigWithVariationsSchema_def config_row_json_def row_fields bind_eq_Some_conv split: if_splits)
  ultimately show ?thesis using that by (auto simp: configs_of_def)
qed

lemma variation_id: "VariationSchema Z (variation_row_json P v) = Some V \<Longrightarrow> vm_id (variation_meta V) = vr_id v"
  by (auto simp: VariationSchema_def VariationV0Schema_def VariationV1Schema_def variation_meta_schema_def variation_row_json_def
    row_fields bind_eq_Some_conv split: if_splits)

lemma variation_row:
  assumes "DomainConfigWithVariationsSchema Z (config_row_json P db c) = Some C" and "V \<in> set (dcf_variations C)"
  obtains v where "v \<in> set (db_variations db)" "vr_domain_config_id v = dr_id c" "vr_id v = vm_id (variation_meta V)"
proof -
  from assms(1) have "parse_arr (VariationSchema Z) (JArr (map (variation_row_json P)
        (sort_key (\<lambda>v. (vr_created_at v, vr_id v)) (variations_of db (dr_id c))))) = Some (dcf_variations C)"
    by (auto simp: DomainConfigWithVariationsSchema_def config_row_json_def row_fields bind_eq_Some_conv split: if_splits)
  from parse_arr_back[OF this assms(2)] obtain v where "v \<in> set (variations_of db (dr_id c))"
    "VariationSchema Z (variation_row_json P v) = Some V" by auto
  with variation_id[OF this(2)] show ?thesis using that by (auto simp: variations_of_def)
qed

lemma fetched_row:
  assumes "fetchUserPaymasterData Z P db w = Inr (Some usr)"
  obtains u where "u \<in> set (db_users db)" "ur_wallet_address u = w" "UserSchema Z (user_row_json P db u) = Some usr"
proof -
  from assms obtain u us where f: "filter (\<lambda>u. ur_wallet_address u = w) (db_users db) = u # us"
    "UserSchema Z (user_row_json P db u) = Some usr"
    by (auto simp: fetchUserPaymasterData_def split: list.splits option.splits)
  from f(1) have "u \<in> set (filter (\<lambda>u. ur_wallet_address u = w) (db_users db))" by simp
  with f(2) show ?thesis using that by auto
qed

text \<open>Every config of the fetched data is a row that the wallet owns.\<close>

lemma fetched_config:
  assumes "fetchUserPaymasterData Z P db w = Inr (Some usr)" and "A \<in> set (usr_apps usr)" "C \<in> set (app_domain_configs A)"
  obtains c where "c \<in> set (db_configs db)" "owns_config db w c" "dr_id c = dcf_id C"
    "dcf_enable_session_management C = dr_enable_session_management c"
    "dcf_enable_preflight_simulation C = dr_enable_preflight_simulation c"
    "DomainConfigWithVariationsSchema Z (config_row_json P db c) = Some C"
proof -
  obtain u where u: "u \<in> set (db_users db)" "ur_wallet_address u = w" "UserSchema Z (user_row_json P db u) = Some usr"
    by (rule fetched_row[OF assms(1)])
  obtain a where a: "a \<in> set (db_apps db)" "ar_user_id a = ur_id u" "AppWithDomainConfigsSchema Z (app_row_json P db a) = Some A"
    by (rule app_row[OF u(3) assms(2)])
  obtain c where c: "c \<in> set (db_configs db)" "dr_app_id c = ar_id a" "dr_id c = dcf_id C"
    "dcf_enable_session_management C = dr_enable_session_management c"
    "dcf_enable_preflight_simulation C = dr_enable_preflight_simulation c"
    "DomainConfigWithVariationsSchema Z (config_row_json P db c) = Some C" by (rule config_row[OF a(3) assms(3)])
  have "owns_config db w c" by (rule owns_configI[OF a(1)]) (use u a c in simp_all)
  with c show ?thesis using that by blast
qed

lemma config_shown:
  assumes "db_ok db" and "fetchUserPaymasterData Z P db w = Inr (Some usr)" and "c \<in> set (db_configs db)" "owns_config db w c"
  obtains A C where "A \<in> set (usr_apps usr)" "C \<in> set (app_domain_configs A)" "dcf_id C = dr_id c"
proof -
  obtain u where u: "u \<in> set (db_users db)" "ur_wallet_address u = w" "UserSchema Z (user_row_json P db u) = Some usr"
    by (rule fetched_row[OF assms(2)])
  from assms(4) obtain a u' where a: "a \<in> set (db_apps db)" "ar_id a = dr_app_id c" and u': "u' \<in> set (db_users db)"
    "ur_id u' = ar_user_id a" "ur_wallet_address u' = w" by (auto simp: owns_config_def list_ex_iff)
  have "u' = u" using assms(1) u u' by (auto simp: db_ok_def intro: distinct_map_eq)
  from u(3) have "parse_arr (AppWithDomainConfigsSchema Z)
      (JArr (map (app_row_json P db) (filter (\<lambda>a. ar_user_id a = ur_id u) (db_apps db)))) = Some (usr_apps usr)"
    by (auto simp: UserSchema_def user_row_json_def row_fields bind_eq_Some_conv split: if_splits)
  from parse_arr_mem[OF this, of "app_row_json P db a"] a u' \<open>u' = u\<close>
  obtain A where A: "A \<in> set (usr_apps usr)" "AppWithDomainConfigsSchema Z (app_row_json P db a) = Some A" by auto
  then have "parse_arr (DomainConfigWithVariationsSchema Z) (JArr (map (config_row_json P db) (configs_of db (ar_id a)))) =
      Some (app_domain_configs A)"
    by (auto simp: AppWithDomainConfigsSchema_def app_row_json_def row_fields bind_eq_Some_conv split: if_splits)
  from parse_arr_mem[OF this, of "config_row_json P db c"] assms(3) a
  obtain C where C: "C \<in> set (app_domain_configs A)" "DomainConfigWithVariationsSchema Z (config_row_json P db c) = Some C"
    by (auto simp: configs_of_def)
  then have "dcf_id C = dr_id c"
    by (auto simp: DomainConfigWithVariationsSchema_def config_row_json_def row_fields bind_eq_Some_conv split: if_splits)
  with A C that show ?thesis by blast
qed

lemma page_variations:
  assumes "page s (Loaded (Success usr)) r = VariationsPage A C"
  shows "r = DomainRoute (app_id A) (dcf_id C) \<and> A \<in> set (usr_apps usr) \<and> C \<in> set (app_domain_configs A)"
  using assms
  by (auto simp: page_unfold for_session_def AppData_def DomainData_def VariationData_def find_Some_iff
    split: route.splits if_splits option.splits)

section \<open>Properties\<close>



section \<open>Navigation\<close>

definition view_found :: "page_view \<Rightarrow> bool" where
  "view_found v = (case v of AppsPage _ \<Rightarrow> True | DomainsPage _ \<Rightarrow> True | VariationsPage _ _ \<Rightarrow> True | _ \<Rightarrow> False)"

lemma split_on_sep: "c \<notin> set s \<Longrightarrow> split_on c (s @ c # t) = s # split_on c t"
  by (simp add: split_on_append_sep split_on_no_sep)

lemma route_app: "CHR ''/'' \<notin> set i \<Longrightarrow> route_of (app_href i) = Some (AppRoute i)"
proof -
  assume i: "CHR ''/'' \<notin> set i"
  have "split_on (CHR ''/'') (app_href i) = [[], ''apps'', i]"
    unfolding app_href_def using split_on_sep[of "CHR ''/''" "[]" "''apps'' @ CHR ''/'' # i"] split_on_sep[of "CHR ''/''" "''apps''" i] i
    by (simp add: split_on_no_sep)
  then show ?thesis by (simp add: route_of_def)
qed

lemma route_domain: "CHR ''/'' \<notin> set a \<Longrightarrow> CHR ''/'' \<notin> set c \<Longrightarrow> route_of (domain_href a c) = Some (DomainRoute a c)"
proof -
  assume ac: "CHR ''/'' \<notin> set a" "CHR ''/'' \<notin> set c"
  have "split_on (CHR ''/'') (a @ CHR ''/'' # ''domains'' @ CHR ''/'' # c) = [a, ''domains'', c]"
    using split_on_sep[of "CHR ''/''" a "''domains'' @ CHR ''/'' # c"] split_on_sep[of "CHR ''/''" "''domains''" c] ac
    by (simp add: split_on_no_sep)
  then have "split_on (CHR ''/'') (domain_href a c) = [[], ''apps'', a, ''domains'', c]"
    unfolding domain_href_def
    using split_on_sep[of "CHR ''/''" "[]" "''apps'' @ CHR ''/'' # a @ CHR ''/'' # ''domains'' @ CHR ''/'' # c"]
      split_on_sep[of "CHR ''/''" "''apps''" "a @ CHR ''/'' # ''domains'' @ CHR ''/'' # c"] by simp
  then show ?thesis by (simp add: route_of_def)
qed

lemma route_home: "route_of ''/'' = Some AppsRoute"
  by (simp add: route_of_def)

lemma user_ids:
  assumes "UserSchema Z j = Some u" and "a \<in> set (usr_apps u)"
  shows "zd_uuid Z (app_id a) \<and> (\<forall>c \<in> set (app_domain_configs a). zd_uuid Z (dcf_id c))"
proof -
  have from_arr: "\<exists>j. p j = Some v" if "parse_arr p k = Some vs" "v \<in> set vs" for p k and vs :: "'b list" and v
    using that parse_arr_back[of p _ vs v] by (cases k) (auto simp: parse_arr_def)
  from assms(1) obtain x where "parse_arr (AppWithDomainConfigsSchema Z) x = Some (usr_apps u)"
    by (auto simp: UserSchema_def bind_eq_Some_conv required_Some)
  from from_arr[OF this assms(2)] obtain k where k: "AppWithDomainConfigsSchema Z k = Some a" by blast
  then have "zd_uuid Z (app_id a)"
    by (auto simp: AppWithDomainConfigsSchema_def bind_eq_Some_conv required_Some UUID_def dest: parse_str_wf)
  moreover have "zd_uuid Z (dcf_id c)" if c: "c \<in> set (app_domain_configs a)" for c
  proof -
    from k obtain x where "parse_arr (DomainConfigWithVariationsSchema Z) x = Some (app_domain_configs a)"
      by (auto simp: AppWithDomainConfigsSchema_def bind_eq_Some_conv required_Some)
    from from_arr[OF this c] obtain l where "DomainConfigWithVariationsSchema Z l = Some c" by blast
    then show ?thesis
      by (auto simp: DomainConfigWithVariationsSchema_def bind_eq_Some_conv required_Some UUID_def dest: parse_str_wf)
  qed
  ultimately show ?thesis by blast
qed

text \<open>C33: no link of the application leads astray. From any page shown for a user's data, every link (the cards, the close
  button and the arrow of the bread crumbs) is the address of a page that finds what it is asked for in the same data;
  the arrow of a domain leads to its app and that of an app to the list of apps.\<close>

theorem links_lead_somewhere:
  assumes "UserSchema Z j = Some u" and "\<And>i. zd_uuid Z i \<Longrightarrow> CHR ''/'' \<notin> set i"
    and "page s (Loaded (Success u)) r = v" and "view_found v"
  shows "(\<forall>h \<in> set (links v). \<exists>r'. route_of h = Some r' \<and> view_found (page s (Loaded (Success u)) r')) \<and>
    (case v of
       VariationsPage A C \<Rightarrow> \<exists>h B. back_link (crumbs v) = Some h \<and> route_of h = Some (AppRoute (app_id A)) \<and>
         page s (Loaded (Success u)) (AppRoute (app_id A)) = DomainsPage B
     | DomainsPage A \<Rightarrow> \<exists>h. back_link (crumbs v) = Some h \<and> route_of h = Some AppsRoute \<and>
         page s (Loaded (Success u)) AppsRoute = AppsPage u
     | _ \<Rightarrow> back_link (crumbs v) = None)"
proof -
  have est: "\<not> isWalletLoading s" "isEstablished s"
    using assms(3,4) by (auto simp: page_unfold for_session_def view_found_def split: if_splits)
  note ids = user_ids[OF assms(1)]
  have app: "\<exists>B. find (\<lambda>a. app_id a = app_id A) (usr_apps u) = Some B \<and> app_id B = app_id A" if "A \<in> set (usr_apps u)" for A
    using that by (cases "find (\<lambda>a. app_id a = app_id A) (usr_apps u)") (auto simp: find_None_iff find_Some_iff)
  have home: "page s (Loaded (Success u)) AppsRoute = AppsPage u" using est by (simp add: page_unfold for_session_def AppData_def)
  have to_app: "\<exists>B. page s (Loaded (Success u)) (AppRoute (app_id A)) = DomainsPage B" if "A \<in> set (usr_apps u)" for A
    using app[OF that] est by (auto simp: page_unfold for_session_def DomainData_def)
  have slash: "CHR ''/'' \<notin> set (app_id A)" if "A \<in> set (usr_apps u)" for A using ids[OF that] assms(2) by blast
  show ?thesis
  proof (cases v)
    case (AppsPage w)
    with assms(3) est have w: "w = u"
      by (auto simp: page_unfold for_session_def AppData_def DomainData_def VariationData_def split: route.splits option.splits)
    have "\<exists>r'. route_of (app_href (app_id A)) = Some r' \<and> view_found (page s (Loaded (Success u)) r')" if "A \<in> set (usr_apps u)" for A
      using route_app[OF slash[OF that]] to_app[OF that] by (auto simp: view_found_def)
    with AppsPage w show ?thesis by (auto simp: links_def crumbs_def back_link_def)
  next
    case (DomainsPage A)
    with assms(3) est obtain i where A: "find (\<lambda>a. app_id a = i) (usr_apps u) = Some A"
      by (auto simp: page_unfold for_session_def AppData_def DomainData_def VariationData_def split: route.splits option.splits)
    then have mem: "A \<in> set (usr_apps u)" "app_id A = i" by (auto simp: find_Some_iff)
    have "\<exists>r'. route_of (domain_href (app_id A) (dcf_id c)) = Some r' \<and> view_found (page s (Loaded (Success u)) r')"
      if c: "c \<in> set (app_domain_configs A)" for c
    proof -
      have "route_of (domain_href (app_id A) (dcf_id c)) = Some (DomainRoute (app_id A) (dcf_id c))"
        using route_domain[OF slash[OF mem(1)]] ids[OF mem(1)] c assms(2) by blast
      moreover have "find (\<lambda>x. dcf_id x = dcf_id c) (app_domain_configs A) \<noteq> None" using c by (auto simp: find_None_iff)
      ultimately show ?thesis using A mem(2) est by (auto simp: page_unfold for_session_def VariationData_def view_found_def)
    qed
    with DomainsPage home route_home show ?thesis
      by (auto simp: links_def crumbs_def back_link_def AppDomains_crumbs_def view_found_def)
  next
    case (VariationsPage A C)
    with page_variations[of s u r A C] assms(3) have mem: "A \<in> set (usr_apps u)" by simp
    have "app_href (app_id A) \<noteq> []" by (simp add: app_href_def)
    with VariationsPage route_app[OF slash[OF mem]] to_app[OF mem] show ?thesis
      by (auto simp: links_def crumbs_def back_link_def DomainVariation_crumbs_def)
  qed (use assms(4) in \<open>simp_all add: view_found_def\<close>)
qed

section \<open>Concrete pages\<close>

definition demo_settings :: "bool \<Rightarrow> bool \<Rightarrow> int \<Rightarrow> admin_db" where
  "demo_settings sm ps t = demo_db\<lparr>db_configs := [(hd (db_configs demo_db))\<lparr>dr_enable_session_management := sm,
     dr_enable_preflight_simulation := ps, dr_updated_at := t\<rparr>]\<rparr>"

definition demo_config :: "bool \<Rightarrow> bool \<Rightarrow> DomainConfig" where
  "demo_config sm ps = \<lparr>dcf_created_at = 0, dcf_domain = ''d'', dcf_enable_preflight_simulation = ps, dcf_enable_session_management = sm,
     dcf_id = ''c'', dcf_network_environment = EnvTestnet, dcf_updated_at = 0, dcf_variations = []\<rparr>"

definition demo_app :: "bool \<Rightarrow> bool \<Rightarrow> App" where
  "demo_app sm ps = \<lparr>app_created_at = 0, app_domain_configs = [demo_config sm ps], app_id = ''a'', app_name = ''app'', app_updated_at = 0\<rparr>"

definition demo_user :: "bool \<Rightarrow> bool \<Rightarrow> User" where
  "demo_user sm ps = \<lparr>usr_apps = [demo_app sm ps], usr_created_at = 0, usr_id = ''u'', usr_updated_at = 0, usr_username = ''n'',
     usr_wallet_address = demo_owner\<rparr>"

lemma demo_settings_db: "demo_db = demo_settings False False 1"
  by (simp add: demo_settings_def demo_db_def)

lemma demo_parsed: "UserSchema demo_zod (user_row_json P (demo_settings sm ps t) (hd (db_users demo_db))) = Some (demo_user sm ps)"
  by (simp add: UserSchema_def user_row_json_def app_row_json_def config_row_json_def AppWithDomainConfigsSchema_def
    DomainConfigWithVariationsSchema_def row_fields parse_arr_def configs_of_def variations_of_def demo_settings_def demo_db_def demo_zod_def
    NetworkEnvironmentSchema_def demo_user_def demo_app_def demo_config_def)

lemma demo_fetched: "fetchUserPaymasterData demo_zod P (demo_settings sm ps t) demo_owner = Inr (Some (demo_user sm ps))"
proof -
  have "filter (\<lambda>u. ur_wallet_address u = demo_owner) (db_users (demo_settings sm ps t)) = [hd (db_users demo_db)]"
    by (simp add: demo_settings_def demo_db_def)
  with demo_parsed show ?thesis by (simp add: fetchUserPaymasterData_def)
qed

lemma demo_page: "page (Established e) (Loaded (Success (demo_user sm ps))) (DomainRoute ''a'' ''c'') =
    VariationsPage (demo_app sm ps) (demo_config sm ps)"
  by (simp add: page_unfold for_session_def isWalletLoading_def isEstablished_def established_of_def state_type_def VariationData_def
    demo_user_def demo_app_def demo_config_def)

lemma demo_env_parts: "ae_zod demo_admin = demo_zod" "ae_pg demo_admin = \<lparr>pg_time = (\<lambda>_. ''t''), pg_now = 5\<rparr>"
  by (simp_all add: demo_admin_def)



theorem links_lead_somewhere_witness:
  "\<forall>e. \<exists>h B. back_link (crumbs (page (Established e) (Loaded (Success (demo_user True False))) (DomainRoute ''a'' ''c''))) = Some h \<and>
     route_of h = Some (AppRoute ''a'') \<and> page (Established e) (Loaded (Success (demo_user True False))) (AppRoute ''a'') = DomainsPage B"
proof
  fix e
  let ?Z = "\<lparr>zd_uuid = (\<lambda>i. CHR ''/'' \<notin> set i), zd_date = (\<lambda>s. Some 0)\<rparr>"
  have parsed: "UserSchema ?Z (user_row_json \<lparr>pg_time = (\<lambda>_. ''t''), pg_now = 5\<rparr> (demo_settings True False 5) (hd (db_users demo_db))) =
      Some (demo_user True False)"
    by (simp add: UserSchema_def user_row_json_def app_row_json_def config_row_json_def AppWithDomainConfigsSchema_def
      DomainConfigWithVariationsSchema_def row_fields parse_arr_def configs_of_def variations_of_def demo_settings_def demo_db_def
      NetworkEnvironmentSchema_def demo_user_def demo_app_def demo_config_def)
  have found: "view_found (VariationsPage (demo_app True False) (demo_config True False))" by (simp add: view_found_def)
  have "CHR ''/'' \<notin> set i" if "zd_uuid ?Z i" for i using that by simp
  from links_lead_somewhere[OF parsed this demo_page found]
  show "\<exists>h B. back_link (crumbs (page (Established e) (Loaded (Success (demo_user True False))) (DomainRoute ''a'' ''c''))) = Some h \<and>
     route_of h = Some (AppRoute ''a'') \<and> page (Established e) (Loaded (Success (demo_user True False))) (AppRoute ''a'') = DomainsPage B"
    unfolding demo_page by (simp add: demo_app_def)
qed

end
