(* ===== verification/Spec2Isabelle.thy ===== *)
theory Spec2Isabelle
  imports Amounts Instructions Intent_Message Wallet_Signing Connection Session_Account Establish Transfers
    Login_Token Session_Store Provider Admin_Actions Admin_Forms Admin_Editor Tx_Validator
    Ledger Wallet_Data Wallet_Forms Limits_Form Session_Expiry Session_Ui Domain_Registry Admin_Client
    Variation_Tester Admin_Pages
begin

text \<open>
  Fogo Sessions lets a user of a Fogo (SVM) application sign one readable message with the wallet
  and then act through a session key whose transactions a paymaster pays. This development models
  the TypeScript of the repository: the SDK (\<^verbatim>\<open>packages/sessions-sdk-ts\<close>), its
  browser storage (\<^verbatim>\<open>packages/sessions-sdk-web\<close>), its React provider and forms
  (\<^verbatim>\<open>packages/sessions-sdk-react\<close>) and the admin application of the paymaster
  (\<^verbatim>\<open>apps/paymaster-admin\<close>).

  Parts and theories.

  \<^item> Sessions_Prelude: the pieces of JavaScript the code relies on (results that are a thrown
    error or a value, BigInt and decimal literals, string splitting and padding, little-endian
    bytes); Js_Date and Js_Number: dates and the number type; Solana_Lib: the interface of the
    Solana packages (addresses, base58, derived addresses, signature checks) as a record of
    functions, a parameter of every definition that uses it.
  \<^item> Amounts (\<^verbatim>\<open>amount-to-string.ts\<close>, \<^verbatim>\<open>token-amount-input.tsx\<close>, the printer in
    \<^verbatim>\<open>sessions-sdk-ts/src/index.ts\<close>), Instructions (\<^verbatim>\<open>instructions.ts\<close>), Intent_Message
    (\<^verbatim>\<open>buildIntentInstruction\<close> and the Ed25519 instruction), Wallet_Signing
    (\<^verbatim>\<open>solana-wallet.ts\<close>): what a user signs and how it is carried.
  \<^item> Connection (\<^verbatim>\<open>connection.ts\<close>, \<^verbatim>\<open>context.ts\<close>): sponsored transactions, with the caches of the
    connection as state that every operation threads through.
  \<^item> Session_Account, Establish, Transfers, Login_Token: the operations of
    \<^verbatim>\<open>sessions-sdk-ts/src/index.ts\<close> on sessions, transfers, the bridge and log-in tokens.
  \<^item> Session_Store (\<^verbatim>\<open>sessions-sdk-web/src/index.ts\<close>) and Provider (\<^verbatim>\<open>session-provider.tsx\<close>,
    \<^verbatim>\<open>session-state.ts\<close>): the stored sessions, and the state machine of \<^verbatim>\<open>useSessionState\<close> with its
    pending promises as state, its callbacks and their settlement as events.
  \<^item> Admin_Schema (\<^verbatim>\<open>db-schema.ts\<close>), Admin_Store (\<^verbatim>\<open>server/paymaster.ts\<close>), Admin_Actions (the server
    actions, \<^verbatim>\<open>proxy.ts\<close> and the user-data endpoint), Admin_Forms (\<^verbatim>\<open>FormEditor/\<close>), Admin_Editor
    (\<^verbatim>\<open>variations-list-item.tsx\<close>), Tx_Validator (\<^verbatim>\<open>lib/transactions.ts\<close> and the validation endpoint).
  \<^item> Json_Schema: JSON values and the combinators of the schema library, which Admin_Schema and
    Wallet_Data use.
  \<^item> Ledger (\<^verbatim>\<open>scripts/ts/src/ledger.ts\<close>): requests to a hardware wallet, cut into packets.
  \<^item> Wallet_Data (the hooks for balances and metadata in \<^verbatim>\<open>sessions-sdk-react/src/hooks\<close>), Wallet_Forms
    (\<^verbatim>\<open>send-token-page.tsx\<close>, \<^verbatim>\<open>withdraw-page.tsx\<close>, \<^verbatim>\<open>deposit-page.tsx\<close>), Limits_Form (\<^verbatim>\<open>session-limits.tsx\<close>),
    Session_Expiry (\<^verbatim>\<open>session-limits-tab.tsx\<close>, \<^verbatim>\<open>session-button.tsx\<close>), Session_Ui (\<^verbatim>\<open>sign-in-modal.tsx\<close>,
    \<^verbatim>\<open>renew-session-modal.tsx\<close>, \<^verbatim>\<open>session-button.tsx\<close>, \<^verbatim>\<open>session-panel.tsx\<close>, \<^verbatim>\<open>wallet-page.tsx\<close>): what the
    panel reads, what its forms accept and send, and which screen follows which.
  \<^item> Domain_Registry: the on-chain registry in Rust (\<^verbatim>\<open>programs/domain-registry/src\<close>) on accounts with
    bytes and lamports, and the scripts \<^verbatim>\<open>domain-registry.ts\<close> and \<^verbatim>\<open>initialize-tollbooth.ts\<close>; its
    properties connect what the scripts register with what Session_Account reads.
  \<^item> Admin_Client (\<^verbatim>\<open>client/paymaster.ts\<close> and the JSON of the endpoint), Variation_Tester
    (\<^verbatim>\<open>variation-tester.tsx\<close>, \<^verbatim>\<open>useAsync\<close>), Admin_Pages (\<^verbatim>\<open>components/App\<close>, \<^verbatim>\<open>Domain\<close>, \<^verbatim>\<open>Variation\<close>,
    \<^verbatim>\<open>BreadcrumbNav\<close>, \<^verbatim>\<open>DomainSettings\<close>): the browser side of the admin application.
  \<^item> This theory composes the limits form with the SDK: what was typed is what the signed session may spend.

  How the code is read. A thrown error is the left case of a result, with the message the code
  gives or the opaque error of the package that raises. Mutable objects are records that are
  passed and returned. A promise that is awaited where it is made is a call; a promise that is not is an
  entry of the pending list, settled by a later event in any order. \<^verbatim>\<open>Promise.all\<close> gives the error
  of its first failing element in list order. A \<^verbatim>\<open>Map\<close> or an object whose order is visible is an
  association list. Amounts are unbounded integers as the code's bigints; payload bytes are 8-bit
  words, and lengths and offsets in the Ed25519 header are kept at 16 bits, where they wrap.

  What the lemmas show. Each theory proves its operations on every branch and, through its locales
  (codecs, stores, caches, schemas, guarded statements, invariants), the laws that its clients use;
  every locale is interpreted on the model's own definitions. The numbered properties state what a
  user relies on: that what is signed is what is executed, that sessions and tokens belong to the
  key they are shown for, that texts and data read back, that the admin application separates its
  customers, and the states in which the code as written does not do this.

  Bounds and fuel. No definition uses fuel. The loops over the bytes of the domain registry
  (\<open>registry_loop\<close>, \<open>list_loop\<close>, \<open>registered_loop\<close>) and over the packets of the hardware wallet (\<open>send_from\<close>) recurse on
  the bytes that are left, the updates of the expiry banner (\<open>banner_at\<close>) on the time that is left,
  each with its termination proof; all other recursion is structural. The delay of a browser timer is
  kept at 32 bits, where it wraps.

  Hypotheses. Packages that are not part of the repository are parameters: web3.js and kit (a
  property that needs one of their documented laws names it, for instance that encoding
  and decoding an address are inverse), the wallet's signature, the TOML and JSON
  printers and parsers, the UUID and date tests of the schema library, the paymaster's answers
  and the chain. Their witnesses instantiate them by concrete functions.

  Not modelled: the markup of the React components, styling and animation; notional amounts and
  names of addresses; the toasts of a deposit; the reading of a key file; the revalidation policy of the data
  cache; the change of network while a provider is mounted; the other on-chain programs and the services in
  Rust, the generated interface descriptions; the component library's wrappers of React components; the
  scripts that only send one instruction with values from a file; the demo and portfolio applications; the stories, tests and build configuration.
\<close>

section \<open>From the limits form to the signed session\<close>

text \<open>C3: What the user typed is what the session may spend. When the limits form is submitted and the SDK
  resolves the tokens of the session it asks for, the session is unlimited exactly when the app
  allows it and the user did not tick the box; otherwise its tokens, which are both the text that is signed and the accounts of the
  instruction, are the listed tokens with a positive typed amount, with that amount; and
  it expires after the chosen duration.\<close>

theorem session_spends_what_was_typed:
  assumes "field_names_ok (lc_lib c)" and "rows = shown_rows c s metadata accounts ticked"
    and "limits_onSubmit sm c s k ticked typed rows = Some (Inr x)" and "session_tokens E (fst (requested_session now x)) = Inr tokens"
  shows "snd (requested_session now x) = js_Date (now + selected_duration (Some k)) \<and>
    (case tokens of
       None \<Rightarrow> lc_enableUnlimited c \<and> \<not> ticked
     | Some ts \<Rightarrow> \<not> (lc_enableUnlimited c \<and> \<not> ticked) \<and>
        (\<forall>m a. (\<exists>t \<in> set ts. ti_mint t = m \<and> ti_amount t = a) \<longleftrightarrow>
          0 < a \<and> (\<exists>r \<in> set rows. lr_mint r = m \<and> stringToAmount (typed m) (lr_decimals r) = Inr a)))"
proof -
  obtain ls where x: "x = (selected_duration (Some k), ls)" and unlimited: "ls = None \<longleftrightarrow> lc_enableUnlimited c \<and> \<not> ticked"
    and entries: "\<And>es m a. ls = Some es \<Longrightarrow> (m, a) \<in> set es \<longleftrightarrow>
      (\<exists>r \<in> set rows. lr_mint r = m \<and> stringToAmount (typed m) (lr_decimals r) = Inr a)"
  proof -
    from limits_form_grants_shown[OF assms(1-3)] obtain ls where ls: "x = (selected_duration (Some k), ls)"
      "ls = None \<longleftrightarrow> lc_enableUnlimited c \<and> \<not> ticked"
      "\<forall>es. ls = Some es \<longrightarrow> (\<forall>m a. (m, a) \<in> set es \<longleftrightarrow>
        (\<exists>r \<in> set rows. lr_mint r = m \<and> stringToAmount (typed m) (lr_decimals r) = Inr a))" by (elim exE conjE) simp
    show thesis by (rule that[OF ls(1,2)]) (use ls(3) in blast)
  qed
  show ?thesis
  proof (cases ls)
    case None
    with session_tokens_cases[OF assms(4)] unlimited show ?thesis by (simp add: x requested_session_def)
  next
    case (Some es)
    with session_tokens_cases[OF assms(4)] obtain ts where ts: "tokens = Some ts"
      "map (\<lambda>t. (ti_mint t, ti_amount t)) ts = filter (\<lambda>(_, amount). amount > 0) es" by (auto simp: x requested_session_def)
    have "(\<exists>t \<in> set ts. ti_mint t = m \<and> ti_amount t = a) \<longleftrightarrow> (m, a) \<in> set es \<and> 0 < a" for m a
      using arg_cong[OF ts(2), of set] by (auto simp: image_iff set_eq_iff) metis+
    with entries[OF Some] ts(1) unlimited Some show ?thesis by (auto simp: x requested_session_def)
  qed
qed

theorem session_spends_what_was_typed_witness:
  "\<exists>x ts. limits_onSubmit [] demo_limits_context demo_established ''one-day'' True (\<lambda>_. ''7'')
     (shown_rows demo_limits_context demo_established demo_metadata (Loaded demo_limits_data) True) = Some (Inr x) \<and>
   session_tokens demo_env (fst (requested_session 0 x)) = Inr (Some ts) \<and> (\<exists>t \<in> set ts. ti_mint t = PublicKey [7] \<and> ti_amount t = 7)"
proof -
  let ?rows = "shown_rows demo_limits_context demo_established demo_metadata (Loaded demo_limits_data) True"
  have names: "field_names_ok (lc_lib demo_limits_context)" by (simp add: demo_limits_context_def demo_field_names)
  obtain ls where ls: "limits_onSubmit [] demo_limits_context demo_established ''one-day'' True (\<lambda>_. ''7'') ?rows =
      Some (Inr (ONE_DAY_IN_MS, Some ls))" using limits_form_grants_shown_witness by blast
  let ?x = "(ONE_DAY_IN_MS, Some ls)"
  have t: "traverse (token_info demo_env) es = Inr (map (\<lambda>l. projr (token_info demo_env l)) es)" for es
    by (rule traverse_total) (auto simp: token_info_def demo_env_def)
  have "\<exists>ts. session_tokens demo_env (fst (requested_session 0 ?x)) = Inr (Some ts)"
    by (simp add: requested_session_def session_tokens_def getTokenInfo_def Let_def t)
  then obtain ts where ts: "session_tokens demo_env (fst (requested_session 0 ?x)) = Inr (Some ts)" by blast
  have "(\<exists>t \<in> set ts. ti_mint t = PublicKey [7] \<and> ti_amount t = 7) \<longleftrightarrow>
      0 < (7::int) \<and> (\<exists>r \<in> set ?rows. lr_mint r = PublicKey [7] \<and> stringToAmount ''7'' (lr_decimals r) = Inr 7)"
    using session_spends_what_was_typed[OF names refl ls ts] by simp
  with ls ts show ?thesis by (auto simp: demo_rows seven)
qed

end
